(* ===== verification/Prelude.thy ===== *)
theory Prelude
  imports Complex_Main "HOL-Library.Sublist" "HOL-Library.Char_ord"
begin

text \<open>
  What every component shares: the names of the model's basic types, Python's string
  operations on code points below 256, rows of a table (the lists behind
  \<open>app/repositories/base.py\<close>), sums over rows, and two interfaces stated as locales:
  the repository contract (get and update by primary key) and transition systems with an
  invariant.
\<close>

named_theorems row_simps \<open>look-ups and updates of table rows\<close>
named_theorems sum_simps \<open>sums over the rows of a table\<close>

type_synonym uuid = nat
type_synonym instant = int          \<comment> \<open>microseconds since the epoch, UTC\<close>
type_synonym decimal = rat          \<comment> \<open>Python's \<open>Decimal\<close>, exact\<close>
type_synonym metadata = "(string \<times> string) list"

section \<open>Strings\<close>

text \<open>\<open>str.lower\<close> and \<open>str.strip\<close> on the code points that fit a \<open>char\<close> (Latin-1).\<close>

definition lower_char :: "char \<Rightarrow> char" where
  "lower_char c = (let n = of_char c :: nat in
     if (65 \<le> n \<and> n \<le> 90) \<or> (192 \<le> n \<and> n \<le> 222 \<and> n \<noteq> 215) then char_of (n + 32) else c)"

definition str_lower :: "string \<Rightarrow> string" where
  "str_lower s = map lower_char s"

definition is_space :: "char \<Rightarrow> bool" where
  "is_space c = (let n = of_char c :: nat in
     (9 \<le> n \<and> n \<le> 13) \<or> (28 \<le> n \<and> n \<le> 32) \<or> n = 133 \<or> n = 160)"

definition str_strip :: "string \<Rightarrow> string" where
  "str_strip s = rev (dropWhile is_space (rev (dropWhile is_space s)))"

lemma length_str_lower [simp]: "length (str_lower s) = length s"
  by (simp add: str_lower_def)

lemma str_lower_append [simp]: "str_lower (s @ t) = str_lower s @ str_lower t"
  by (simp add: str_lower_def)

lemma is_space_lower [simp]: "is_space (lower_char c) = is_space c"
  by (auto simp: is_space_def lower_char_def Let_def)

lemma lower_char_idem [simp]: "lower_char (lower_char c) = lower_char c"
proof -
  have b: "(of_char c :: nat) < 256" by simp
  show ?thesis
  proof (cases "(65 \<le> (of_char c :: nat) \<and> of_char c \<le> (90 :: nat)) \<or>
      (192 \<le> (of_char c :: nat) \<and> of_char c \<le> (222 :: nat) \<and> of_char c \<noteq> (215 :: nat))")
    case True
    then have "lower_char c = char_of (of_char c + 32 :: nat)" by (simp add: lower_char_def Let_def)
    moreover have "(of_char (char_of (of_char c + 32 :: nat) :: char) :: nat) = of_char c + 32"
      using True b by (auto simp: of_char_of)
    ultimately show ?thesis using True unfolding lower_char_def [of "lower_char c"] Let_def by auto
  next
    case False
    then have "lower_char c = c" unfolding lower_char_def Let_def by (rule if_not_P)
    then show ?thesis by simp
  qed
qed

lemma str_lower_idem [simp]: "str_lower (str_lower s) = str_lower s"
  by (simp add: str_lower_def)

lemma dropWhile_lower: "dropWhile is_space (str_lower s) = str_lower (dropWhile is_space s)"
  by (induction s) (auto simp: str_lower_def)

lemma rev_lower: "rev (str_lower s) = str_lower (rev s)"
  by (simp add: str_lower_def rev_map)

lemma strip_lower: "str_strip (str_lower s) = str_lower (str_strip s)"
  by (simp add: str_strip_def dropWhile_lower rev_lower)

lemma dropWhile_idem [simp]: "dropWhile P (dropWhile P xs) = dropWhile P xs"
  by (induction xs) auto

lemma dropWhile_rev_dropWhile:
  "dropWhile P (rev (dropWhile P (rev (dropWhile P xs)))) = rev (dropWhile P (rev (dropWhile P xs)))"
proof (cases "dropWhile P xs")
  case (Cons y ys)
  then have y: "\<not> P y" by (metis hd_dropWhile list.distinct(1) list.sel(1))
  then have "dropWhile P (rev (y # ys)) = dropWhile P (rev ys) @ [y]"
    by (induction "rev ys") (auto simp: dropWhile_append)
  with Cons y show ?thesis by simp
next
  case Nil
  then show ?thesis by (simp only: rev.simps dropWhile.simps)
qed

lemma str_strip_idem [simp]: "str_strip (str_strip s) = str_strip s"
  by (simp add: str_strip_def dropWhile_rev_dropWhile)

text \<open>\<open>needle in hay\<close> for strings.\<close>

fun str_contains :: "string \<Rightarrow> string \<Rightarrow> bool" where
  "str_contains needle [] = (needle = [])"
| "str_contains needle (c # hay) = (prefix needle (c # hay) \<or> str_contains needle hay)"

lemma str_contains_iff: "str_contains needle hay = sublist needle hay"
  by (induction hay) (auto simp: sublist_Cons_right)

text \<open>Decimal digits, for \<open>str(n)\<close> of a non-negative integer.\<close>

function nat_text :: "nat \<Rightarrow> string" where
  "nat_text n = (if n < 10 then [char_of (48 + n)]
                 else nat_text (n div 10) @ [char_of (48 + n mod 10)])"
  by pat_completeness auto
termination by (relation "measure id") auto

declare nat_text.simps [simp del]

definition int_text :: "int \<Rightarrow> string" where
  "int_text i = (if i < 0 then ''-'' @ nat_text (nat (- i)) else nat_text (nat i))"

text \<open>\<open>str.split\<close> at one character, and \<open>str.join\<close>.\<close>

fun split_on :: "char \<Rightarrow> string \<Rightarrow> string list" where
  "split_on d [] = [[]]"
| "split_on d (c # cs) =
     (if c = d then [] # split_on d cs
      else case split_on d cs of p # ps \<Rightarrow> (c # p) # ps | [] \<Rightarrow> [[c]])"

fun glue :: "string \<Rightarrow> string list \<Rightarrow> string" where
  "glue sep [] = []"
| "glue sep [x] = x"
| "glue sep (x # y # ys) = x @ sep @ glue sep (y # ys)"

lemma split_on_nonempty [simp]: "split_on d s \<noteq> []"
  by (induction s) (auto split: list.split)

lemma glue_Cons: "xs \<noteq> [] \<Longrightarrow> glue sep (x # xs) = x @ sep @ glue sep xs"
  by (cases xs) auto

lemma glue_append: "xs \<noteq> [] \<Longrightarrow> ys \<noteq> [] \<Longrightarrow> glue sep (xs @ ys) = glue sep xs @ sep @ glue sep ys"
  by (induction xs rule: induct_list012) (auto simp: glue_Cons)

lemma glue_extend: "glue sep ((c # p) # ps) = c # glue sep (p # ps)"
  by (cases ps) auto

lemma glue_split_on: "glue [d] (split_on d s) = s"
proof (induction s)
  case (Cons c s)
  obtain p ps where "split_on d s = p # ps" by (cases "split_on d s") auto
  with Cons show ?case by (auto simp: glue_Cons glue_extend)
qed simp

section \<open>Rows of a table\<close>

text \<open>\<open>row_by f k rows\<close> is \<open>SELECT ... WHERE f = k\<close> read with \<open>scalar_one_or_none\<close>;
  \<open>put_row\<close> writes back the row with the same key (\<open>BaseRepository.update\<close>).\<close>

definition row_by :: "('r \<Rightarrow> 'k) \<Rightarrow> 'k \<Rightarrow> 'r list \<Rightarrow> 'r option" where
  "row_by f k rows = find (\<lambda>r. f r = k) rows"

definition put_row :: "('r \<Rightarrow> 'k) \<Rightarrow> 'r \<Rightarrow> 'r list \<Rightarrow> 'r list" where
  "put_row f r rows = map (\<lambda>x. if f x = f r then r else x) rows"

lemma row_by_Nil [row_simps, simp]: "row_by f k [] = None"
  by (simp add: row_by_def)

lemma row_by_Cons [row_simps, simp]:
  "row_by f k (r # rs) = (if f r = k then Some r else row_by f k rs)"
  by (simp add: row_by_def)

lemma row_by_SomeD: "row_by f k rows = Some r \<Longrightarrow> r \<in> set rows \<and> f r = k"
  by (induction rows) (auto split: if_splits)

lemma row_by_None_iff: "row_by f k rows = None \<longleftrightarrow> k \<notin> f ` set rows"
  by (induction rows) auto

lemma row_by_append:
  "row_by f k (xs @ ys) = (case row_by f k xs of None \<Rightarrow> row_by f k ys | Some r \<Rightarrow> Some r)"
  by (induction xs) auto

lemma row_by_distinct:
  "distinct (map f rows) \<Longrightarrow> r \<in> set rows \<Longrightarrow> row_by f (f r) rows = Some r"
  by (induction rows) (auto simp: image_iff)

lemma put_row_Nil [row_simps, simp]: "put_row f r [] = []"
  by (simp add: put_row_def)

lemma put_row_Cons [row_simps, simp]:
  "put_row f r (x # xs) = (if f x = f r then r else x) # put_row f r xs"
  by (simp add: put_row_def)

lemma put_row_append [row_simps, simp]: "put_row f r (xs @ ys) = put_row f r xs @ put_row f r ys"
  by (simp add: put_row_def)

lemma map_key_put_row [row_simps, simp]: "map f (put_row f r rows) = map f rows"
  by (induction rows) auto

lemma length_put_row [row_simps, simp]: "length (put_row f r rows) = length rows"
  by (simp add: put_row_def)

lemma map_other_put_row:
  "(\<And>x. x \<in> set rows \<Longrightarrow> f x = f r \<Longrightarrow> g x = g r) \<Longrightarrow> map g (put_row f r rows) = map g rows"
  by (induction rows) auto

lemma put_row_absent [row_simps]: "f r \<notin> f ` set rows \<Longrightarrow> put_row f r rows = rows"
  by (induction rows) auto

lemma put_row_same: "distinct (map f rows) \<Longrightarrow> r \<in> set rows \<Longrightarrow> put_row f r rows = rows"
  by (induction rows) (auto simp: put_row_absent image_iff)

lemma put_row_twice [row_simps]: "f r' = f r \<Longrightarrow> put_row f r' (put_row f r rows) = put_row f r' rows"
  by (induction rows) auto

lemma set_put_row_subset: "set (put_row f r rows) \<subseteq> insert r (set rows)"
  by (induction rows) auto

lemma in_put_rowD: "x \<in> set (put_row f r rows) \<Longrightarrow> x = r \<or> (x \<in> set rows \<and> f x \<noteq> f r)"
  by (induction rows) (auto split: if_splits)

lemma row_by_put_row:
  "row_by f k (put_row f r rows) =
     (if k = f r then map_option (\<lambda>_. r) (row_by f k rows) else row_by f k rows)"
  by (induction rows) auto

text \<open>Two rows that differ in the key: the key read is the one kept.\<close>

lemma row_by_put_other:
  "(\<And>x. x \<in> set rows \<Longrightarrow> f x = f r \<Longrightarrow> g x = g r) \<Longrightarrow> g r \<noteq> k \<Longrightarrow>
     row_by g k (put_row f r rows) = row_by g k rows"
  by (induction rows) auto

text \<open>\<open>find\<close> on a sorted list is a minimum.\<close>

lemma find_sorted_le:
  "sorted (map k xs) \<Longrightarrow> find P xs = Some x \<Longrightarrow> y \<in> set xs \<Longrightarrow> P y \<Longrightarrow> k x \<le> k y"
  by (induction xs) (auto split: if_splits)

lemma find_SomeD: "find P xs = Some x \<Longrightarrow> x \<in> set xs \<and> P x"
  by (induction xs) (auto split: if_splits)

section \<open>Sums over rows\<close>

definition sum_where :: "('r \<Rightarrow> bool) \<Rightarrow> ('r \<Rightarrow> decimal) \<Rightarrow> 'r list \<Rightarrow> decimal" where
  "sum_where P f rows = sum_list (map f (filter P rows))"

lemma sum_where_Nil [sum_simps, simp]: "sum_where P f [] = 0"
  by (simp add: sum_where_def)

lemma sum_where_Cons [sum_simps, simp]:
  "sum_where P f (r # rs) = (if P r then f r else 0) + sum_where P f rs"
  by (simp add: sum_where_def)

lemma sum_where_append [sum_simps, simp]:
  "sum_where P f (xs @ ys) = sum_where P f xs + sum_where P f ys"
  by (induction xs) auto

lemma sum_where_nonneg:
  "(\<And>r. r \<in> set rows \<Longrightarrow> P r \<Longrightarrow> 0 \<le> f r) \<Longrightarrow> 0 \<le> sum_where P f rows"
  by (induction rows) (auto intro: add_nonneg_nonneg)

lemma sum_where_none: "(\<And>r. r \<in> set rows \<Longrightarrow> \<not> P r) \<Longrightarrow> sum_where P f rows = 0"
  by (induction rows) auto

lemma sum_where_cong:
  "(\<And>r. r \<in> set rows \<Longrightarrow> P r = Q r) \<Longrightarrow> sum_where P f rows = sum_where Q f rows"
  by (induction rows) auto

lemma sum_where_mono:
  "(\<And>r. r \<in> set rows \<Longrightarrow> P r \<Longrightarrow> Q r) \<Longrightarrow> (\<And>r. r \<in> set rows \<Longrightarrow> Q r \<Longrightarrow> 0 \<le> f r) \<Longrightarrow>
     sum_where P f rows \<le> sum_where Q f rows"
  by (induction rows) (auto intro: add_mono add_increasing)

lemma sum_where_member:
  "(\<And>x. x \<in> set rows \<Longrightarrow> P x \<Longrightarrow> 0 \<le> f x) \<Longrightarrow> r \<in> set rows \<Longrightarrow> P r \<Longrightarrow> f r \<le> sum_where P f rows"
proof (induction rows)
  case (Cons a rows)
  then have "0 \<le> sum_where P f rows" and "P a \<Longrightarrow> 0 \<le> f a"
    by (auto intro: sum_where_nonneg)
  with Cons show ?case by (cases "r = a") (auto intro: add_increasing)
qed simp

text \<open>Writing one row moves the sum by the difference of that row.\<close>

lemma sum_where_put_row:
  assumes "distinct (map k rows)" and "r \<in> set rows" and "k r' = k r"
  shows "sum_where P f (put_row k r' rows) =
           sum_where P f rows - (if P r then f r else 0) + (if P r' then f r' else 0)"
  using assms
proof (induction rows)
  case (Cons a rows)
  show ?case
  proof (cases "a = r")
    case True
    with Cons.prems have "put_row k r' rows = rows"
      by (intro put_row_absent) auto
    with True Cons.prems show ?thesis by simp
  next
    case False
    with Cons.prems have "r \<in> set rows" and "k a \<noteq> k r" by auto
    with Cons False show ?thesis by simp
  qed
qed simp

text \<open>A sum over the rows with one value of a unique column has one summand.\<close>

lemma sum_where_unique:
  "distinct (map f rows) \<Longrightarrow> row_by f k rows = Some r \<Longrightarrow> sum_where (\<lambda>x. f x = k) g rows = g r"
proof (induction rows)
  case (Cons a rows)
  show ?case
  proof (cases "f a = k")
    case True
    with Cons.prems have "sum_where (\<lambda>x. f x = k) g rows = 0"
      by (intro sum_where_none) (auto simp: image_iff)
    with True Cons.prems show ?thesis by simp
  qed (use Cons in simp)
qed simp

section \<open>The repository contract\<close>

text \<open>
  \<open>BaseRepository.get\<close> and \<open>BaseRepository.update\<close>: a row that is in the table and is
  written back is found under its key, and no other key is touched.
\<close>

locale repository =
  fixes get :: "'db \<Rightarrow> 'k \<Rightarrow> 'r option"
    and save :: "'r \<Rightarrow> 'db \<Rightarrow> 'db"
    and ident :: "'r \<Rightarrow> 'k"
  assumes get_ident: "get db k = Some r \<Longrightarrow> ident r = k"
    and get_save_same: "get db (ident r) = Some r0 \<Longrightarrow> get (save r db) (ident r) = Some r"
    and get_save_other: "k \<noteq> ident r \<Longrightarrow> get (save r db) k = get db k"
begin

lemma get_save:
  assumes "get db (ident r) = Some r0"
  shows "get (save r db) k = (if k = ident r then Some r else get db k)"
  using assms by (auto simp: get_save_same get_save_other)

lemma save_twice_get:
  assumes "get db (ident r) = Some r0" and "ident r' = ident r"
  shows "get (save r' (save r db)) (ident r) = Some r'"
  using get_save_same [of "save r db" r' r] get_save_same [OF assms(1)] assms(2) by simp

lemma save_other_get:
  assumes "get db k = Some x" and "k \<noteq> ident r"
  shows "get (save r db) k = Some x"
  using assms by (simp add: get_save_other)

end

section \<open>Transition systems with an invariant\<close>

inductive reached :: "('s \<Rightarrow> 's \<Rightarrow> bool) \<Rightarrow> ('s \<Rightarrow> bool) \<Rightarrow> 's \<Rightarrow> bool"
  for step :: "'s \<Rightarrow> 's \<Rightarrow> bool" and init :: "'s \<Rightarrow> bool" where
  reached_init: "init s \<Longrightarrow> reached step init s"
| reached_step: "reached step init s \<Longrightarrow> step s t \<Longrightarrow> reached step init t"

locale invariant_system =
  fixes step :: "'s \<Rightarrow> 's \<Rightarrow> bool" and init :: "'s \<Rightarrow> bool" and inv :: "'s \<Rightarrow> bool"
  assumes init_inv: "init s \<Longrightarrow> inv s"
    and step_inv: "inv s \<Longrightarrow> step s t \<Longrightarrow> inv t"
begin

lemma reached_inv: "reached step init s \<Longrightarrow> inv s"
  by (induction rule: reached.induct) (auto intro: init_inv step_inv)

end

end
