(* ===== verification/Decimal_Money.thy ===== *)
theory Decimal_Money
  imports Prelude
begin

text \<open>
  The two rounding functions called \<open>money\<close>: \<open>app/services/metered_billing.py\<close> quantises
  to four places away from zero (\<open>ROUND_UP\<close>), \<open>app/services/provider_funding.py\<close> to six
  places with the decimal context's default, half to even. Both satisfy one contract, the
  locale \<open>quantizer\<close>: the result is a multiple of the quantum, less than one quantum away,
  multiples are fixed points and order is kept.
\<close>

definition MONEY_QUANTUM :: decimal where
  "MONEY_QUANTUM = 1 / 10000"

text \<open>\<open>Decimal.quantize(quantum, rounding=ROUND_UP)\<close>: away from zero.\<close>

definition quantize_up :: "decimal \<Rightarrow> decimal \<Rightarrow> decimal" where
  "quantize_up u x = (if x < 0 then - (of_int \<lceil>(- x) / u\<rceil> * u) else of_int \<lceil>x / u\<rceil> * u)"

definition money :: "decimal \<Rightarrow> decimal" where
  "money value = quantize_up MONEY_QUANTUM value"

text \<open>\<open>Decimal.quantize(quantum)\<close> under the default context: half to even.\<close>

definition half_even :: "decimal \<Rightarrow> int" where
  "half_even x = (let n = \<lfloor>x\<rfloor>; d = x - of_int n in
     if d < 1/2 then n else if 1/2 < d then n + 1 else if even n then n else n + 1)"

definition FUNDING_QUANTUM :: decimal where
  "FUNDING_QUANTUM = 1 / 1000000"

definition funding_money :: "decimal option \<Rightarrow> decimal" where
  "funding_money value =
     (let x = (case value of None \<Rightarrow> 0 | Some v \<Rightarrow> v)
      in of_int (half_even (x / FUNDING_QUANTUM)) * FUNDING_QUANTUM)"

section \<open>The contract of a quantiser\<close>

locale quantizer =
  fixes q :: "decimal \<Rightarrow> decimal" and u :: decimal
  assumes u_pos: "0 < u"
    and q_multiple: "\<exists>k::int. q x = of_int k * u"
    and q_fixed: "q (of_int k * u) = of_int k * u"
    and q_mono: "x \<le> y \<Longrightarrow> q x \<le> q y"
    and q_near: "\<bar>q x - x\<bar> < u"
begin

lemma q_idem [simp]: "q (q x) = q x"
  using q_multiple [of x] q_fixed by auto

lemma q_zero [simp]: "q 0 = 0"
  using q_fixed [of 0] by simp

lemma q_nonneg: "0 \<le> x \<Longrightarrow> 0 \<le> q x"
  using q_mono [of 0 x] by simp

lemma q_nonpos: "x \<le> 0 \<Longrightarrow> q x \<le> 0"
  using q_mono [of x 0] by simp

lemma q_multiple_add: "q x = x \<Longrightarrow> q y = y \<Longrightarrow> q (x + y) = x + y"
proof -
  assume "q x = x" and "q y = y"
  then obtain i j :: int where ij: "x = of_int i * u" "y = of_int j * u"
    using q_multiple [of x] q_multiple [of y] by auto
  then have "x + y = of_int (i + j) * u" by (simp add: algebra_simps)
  then show ?thesis using q_fixed [of "i + j"] by simp
qed

lemma q_multiple_minus: "q x = x \<Longrightarrow> q y = y \<Longrightarrow> q (x - y) = x - y"
proof -
  assume "q x = x" and "q y = y"
  then obtain i j :: int where ij: "x = of_int i * u" "y = of_int j * u"
    using q_multiple [of x] q_multiple [of y] by auto
  then have "x - y = of_int (i - j) * u" by (simp add: algebra_simps)
  then show ?thesis using q_fixed [of "i - j"] by simp
qed

lemma q_sum_list: "(\<And>x. x \<in> set xs \<Longrightarrow> q x = x) \<Longrightarrow> q (sum_list xs) = sum_list xs"
  by (induction xs) (auto intro: q_multiple_add)

lemma q_le_fixed: "q y = y \<Longrightarrow> x \<le> y \<Longrightarrow> q x \<le> y"
  using q_mono [of x y] by simp

end

section \<open>Both functions meet it\<close>

lemma quantum_pos [simp]: "0 < MONEY_QUANTUM" "0 < FUNDING_QUANTUM"
  by (simp_all add: MONEY_QUANTUM_def FUNDING_QUANTUM_def)

lemma ceiling_near:
  fixes x :: decimal
  shows "x \<le> of_int \<lceil>x\<rceil>" and "of_int \<lceil>x\<rceil> < x + 1"
  by (simp, linarith)

lemma scaled_ceiling_near:
  assumes "0 < (u::decimal)"
  shows "x \<le> of_int \<lceil>x / u\<rceil> * u" and "of_int \<lceil>x / u\<rceil> * u < x + u"
proof -
  have "x = x / u * u" using assms by simp
  also have "\<dots> \<le> of_int \<lceil>x / u\<rceil> * u"
    using ceiling_near(1) [of "x / u"] assms by (intro mult_right_mono) auto
  finally show "x \<le> of_int \<lceil>x / u\<rceil> * u" .
  have "of_int \<lceil>x / u\<rceil> * u < (x / u + 1) * u"
    using ceiling_near(2) [of "x / u"] assms by (intro mult_strict_right_mono) auto
  then show "of_int \<lceil>x / u\<rceil> * u < x + u" using assms by (simp add: algebra_simps)
qed

lemma quantize_up_mono:
  assumes "0 < u" and "x \<le> y"
  shows "quantize_up u x \<le> quantize_up u y"
proof -
  have mono: "of_int \<lceil>a / u\<rceil> * u \<le> of_int \<lceil>b / u\<rceil> * u" if "a \<le> b" for a b
    using that assms(1) by (intro mult_right_mono) (auto intro!: ceiling_mono divide_right_mono)
  have pos: "0 \<le> of_int \<lceil>a / u\<rceil> * u" if "0 \<le> a" for a
    using mono [OF that] by simp
  show ?thesis
    using assms(2) mono [of x y] mono [of "- y" "- x"] pos [of "- x"] pos [of y]
    by (auto simp: quantize_up_def simp del: minus_divide_left)
qed

interpretation up: quantizer money MONEY_QUANTUM
proof
  fix x y :: decimal and k :: int
  show "0 < MONEY_QUANTUM" by simp
  show "\<exists>k::int. money x = of_int k * MONEY_QUANTUM"
    unfolding money_def quantize_up_def
    by (metis mult_minus_left of_int_minus)
  show "money (of_int k * MONEY_QUANTUM) = of_int k * MONEY_QUANTUM"
    unfolding money_def quantize_up_def
    by (simp add: MONEY_QUANTUM_def flip: of_int_minus)
  show "money x \<le> money y" if "x \<le> y"
    unfolding money_def using that by (simp add: quantize_up_mono)
  show "\<bar>money x - x\<bar> < MONEY_QUANTUM"
    using scaled_ceiling_near [of MONEY_QUANTUM x] scaled_ceiling_near [of MONEY_QUANTUM "- x"]
    unfolding money_def quantize_up_def
    by (auto simp: abs_if simp del: minus_divide_left)
qed

lemma money_ge: "0 \<le> x \<Longrightarrow> x \<le> money x"
  using scaled_ceiling_near(1) [of MONEY_QUANTUM x]
  by (simp add: money_def quantize_up_def)

lemma money_pos: "0 < x \<Longrightarrow> 0 < money x"
  using money_ge [of x] by linarith

lemma money_nonneg_iff: "0 \<le> money x \<longleftrightarrow> 0 \<le> x"
proof
  assume "0 \<le> money x"
  show "0 \<le> x"
  proof (rule ccontr)
    assume "\<not> 0 \<le> x"
    then have "money x \<le> x"
      using scaled_ceiling_near(1) [of MONEY_QUANTUM "- x"]
      by (simp add: money_def quantize_up_def del: minus_divide_left)
    with \<open>0 \<le> money x\<close> \<open>\<not> 0 \<le> x\<close> show False by simp
  qed
qed (rule up.q_nonneg)

lemma money_lt_quantum: "money x < x + MONEY_QUANTUM"
  using up.q_near [of x] by (simp add: abs_less_iff)

lemma half_even_near: "\<bar>of_int (half_even x) - x\<bar> \<le> 1/2"
proof -
  have "of_int \<lfloor>x\<rfloor> \<le> x" and "x < of_int \<lfloor>x\<rfloor> + 1" by linarith+
  then show ?thesis unfolding half_even_def Let_def by (auto simp: abs_le_iff)
qed

lemma half_even_bounds: "\<lfloor>x\<rfloor> \<le> half_even x" "half_even x \<le> \<lfloor>x\<rfloor> + 1"
  by (auto simp: half_even_def Let_def)

lemma half_even_mono: "x \<le> y \<Longrightarrow> half_even x \<le> half_even y"
proof -
  assume le: "x \<le> y"
  show ?thesis
  proof (cases "\<lfloor>x\<rfloor> = \<lfloor>y\<rfloor>")
    case True
    with le show ?thesis by (auto simp: half_even_def Let_def)
  next
    case False
    with le have "\<lfloor>x\<rfloor> + 1 \<le> \<lfloor>y\<rfloor>" using floor_mono [OF le] by linarith
    with half_even_bounds(2) [of x] half_even_bounds(1) [of y] show ?thesis by linarith
  qed
qed

lemma half_even_of_int [simp]: "half_even (of_int k) = k"
  by (simp add: half_even_def)

interpretation even_q: quantizer "\<lambda>x. funding_money (Some x)" FUNDING_QUANTUM
proof
  fix x y :: decimal and k :: int
  show "0 < FUNDING_QUANTUM" by simp
  show "\<exists>k::int. funding_money (Some x) = of_int k * FUNDING_QUANTUM"
    by (auto simp: funding_money_def)
  show "funding_money (Some (of_int k * FUNDING_QUANTUM)) = of_int k * FUNDING_QUANTUM"
    by (simp add: funding_money_def FUNDING_QUANTUM_def)
  show "funding_money (Some x) \<le> funding_money (Some y)" if "x \<le> y"
    using that half_even_mono [of "x / FUNDING_QUANTUM" "y / FUNDING_QUANTUM"]
    by (simp add: funding_money_def FUNDING_QUANTUM_def)
  have "\<bar>of_int (half_even (x / FUNDING_QUANTUM)) - x / FUNDING_QUANTUM\<bar> \<le> 1/2"
    by (rule half_even_near)
  then have "of_int (half_even (x * 1000000)) \<le> x * 1000000 + 1/2"
    and "x * 1000000 - 1/2 \<le> of_int (half_even (x * 1000000))"
    unfolding abs_le_iff by (simp_all add: FUNDING_QUANTUM_def)
  then show "\<bar>funding_money (Some x) - x\<bar> < FUNDING_QUANTUM"
    unfolding abs_less_iff by (simp add: funding_money_def FUNDING_QUANTUM_def field_simps)
qed

lemma funding_money_None [simp]: "funding_money None = 0"
  by (simp add: funding_money_def half_even_def)

lemma ceiling_numeral_frac [simp]:
  "\<lceil>numeral a / numeral b :: rat\<rceil> = - (- numeral a div numeral b)"
proof -
  have "\<lceil>of_int (numeral a) / of_int (numeral b) :: rat\<rceil> = - (- numeral a div numeral b)"
    by (rule ceiling_divide_eq_div)
  then show ?thesis by simp
qed

lemma floor_numeral_frac [simp]:
  "\<lfloor>numeral a / numeral b :: rat\<rfloor> = numeral a div numeral b"
proof -
  have "\<lfloor>of_int (numeral a) / of_int (numeral b) :: rat\<rfloor> = numeral a div numeral b"
    by (rule floor_divide_of_int_eq)
  then show ?thesis by simp
qed

end
