(* ===== verification/Billing_Data.thy ===== *)
theory Billing_Data
  imports Decimal_Money
begin

text \<open>
  The billing tables of \<open>app/models/billing.py\<close> and the queries of
  \<open>app/repositories/billing.py\<close>. A table is the list of its rows in insertion order; the
  five scope columns (user, organization, project, runtime, API key) that the ledger, the
  reservations and the usage log share are one record \<open>attribution\<close>. Primary keys come
  from \<open>next_id\<close>, the supply that stands for \<open>uuid4\<close>. \<open>updated_at\<close> is left out: no
  operation reads it.
\<close>

section \<open>Enumerations\<close>

datatype wallet_status = ACTIVE | SUSPENDED | CLOSED

definition wallet_status_text :: "wallet_status \<Rightarrow> string" where
  "wallet_status_text s =
     (case s of ACTIVE \<Rightarrow> ''active'' | SUSPENDED \<Rightarrow> ''suspended'' | CLOSED \<Rightarrow> ''closed'')"

datatype transaction_type =
  CREDIT | DEBIT | REFUND | TOPUP | RESERVATION | AI_INFERENCE | EMBEDDING | RERANKING | RAG
| STORAGE | COMPUTE | INTEGRATION | REVERSAL | ADJUSTMENT

text \<open>The literals of the two \<open>status\<close> columns of reservations and ledger rows.\<close>

datatype entry_status = Reserved | Settled | Released

datatype scope_type = User | Organization | Project | Runtime | Api_Key

datatype limit_period = Daily | Monthly | Lifetime

section \<open>Rows\<close>

record attribution =
  att_user :: uuid
  att_organization :: "uuid option"
  att_project :: "uuid option"
  att_runtime :: "uuid option"
  att_api_key :: "uuid option"

record wallet =
  wal_id :: uuid
  wal_user :: uuid
  balance :: decimal
  reserved_balance :: decimal
  total_spent :: decimal
  total_topups :: decimal
  wal_currency :: string
  wal_status :: wallet_status

record wallet_transaction =
  txn_id :: uuid
  txn_wallet :: uuid
  txn_type :: transaction_type
  txn_amount :: decimal
  balance_before :: decimal
  balance_after :: decimal
  txn_reason :: string
  txn_reference :: "string option"
  txn_metadata :: metadata
  txn_created_at :: instant

record pricing_rule =
  rule_id :: uuid
  rule_provider :: string
  rule_operation :: string
  rule_model :: "string option"
  rule_unit :: string
  price_per_unit :: decimal
  rule_currency :: string
  cached_price_per_unit :: "decimal option"
  markup :: decimal
  effective_from :: instant
  effective_until :: "instant option"
  rule_version :: int
  rule_active :: bool
  rule_created_at :: instant

record usage_log =
  log_id :: uuid
  log_scope :: attribution
  log_request :: "string option"
  log_provider :: string
  log_model :: string
  log_operation :: string
  log_input_tokens :: int
  log_output_tokens :: int
  log_cached_tokens :: int
  log_embedding_tokens :: int
  log_vector_searches :: int
  log_storage_bytes :: int
  log_requests :: int
  log_latency_ms :: "int option"
  log_cost :: decimal
  log_provider_cost :: decimal
  log_platform_markup :: decimal
  log_metadata :: metadata
  log_created_at :: instant

record budget =
  bud_user :: uuid
  monthly_limit :: "decimal option"
  current_spend :: decimal
  warning_80_sent :: bool
  warning_90_sent :: bool
  limit_reached :: bool
  auto_top_up_enabled :: bool
  auto_top_up_threshold :: "decimal option"
  auto_top_up_amount :: "decimal option"

record ledger_entry =
  led_id :: uuid
  led_type :: transaction_type
  led_scope :: attribution
  led_request :: "string option"
  led_key :: "string option"
  led_resource_type :: string
  led_resource_id :: "string option"
  led_amount :: decimal
  led_currency :: string
  led_provider_cost :: decimal
  led_platform_markup :: decimal
  led_status :: entry_status
  led_metadata :: metadata
  led_created_at :: instant

record reservation =
  res_id :: uuid
  res_wallet :: uuid
  res_scope :: attribution
  res_request :: string
  res_key :: string
  estimated_amount :: decimal
  settled_amount :: "decimal option"
  released_amount :: decimal
  res_currency :: string
  res_status :: entry_status
  res_resource_type :: string
  expires_at :: instant
  res_metadata :: metadata
  res_created_at :: instant

record spending_limit =
  lim_scope_type :: scope_type
  lim_scope_id :: uuid
  lim_period :: limit_period
  lim_amount :: decimal
  lim_active :: bool

datatype budget_event = Limit_Reached | Warning_90 | Warning_80

record billing_db =
  wallets :: "wallet list"
  wallet_transactions :: "wallet_transaction list"
  pricing_rules :: "pricing_rule list"
  usage_logs :: "usage_log list"
  budgets :: "budget list"
  ledger :: "ledger_entry list"
  reservations :: "reservation list"
  spending_limits :: "spending_limit list"
  next_id :: uuid
  outbox :: "(uuid \<times> budget_event \<times> decimal) list"  \<comment> \<open>budget notifications sent\<close>

section \<open>Errors\<close>

datatype billing_error =
  ValueError string
| InsufficientBalanceError decimal decimal
| InsufficientCredits decimal decimal
| SpendingLimitError scope_type limit_period decimal decimal
| IntegrityError
| NoResultFound
| MultipleResultsFound

text \<open>A service call returns the committed database and an error or a value: what was
  committed before an exception stays.\<close>

type_synonym 'a outcome = "billing_db \<times> (billing_error + 'a)"

section \<open>Columns read by scope\<close>

definition scope_column :: "scope_type \<Rightarrow> attribution \<Rightarrow> uuid option" where
  "scope_column s a = (case s of
      User \<Rightarrow> Some (att_user a)
    | Organization \<Rightarrow> att_organization a
    | Project \<Rightarrow> att_project a
    | Runtime \<Rightarrow> att_runtime a
    | Api_Key \<Rightarrow> att_api_key a)"

definition SPENDING_TRANSACTION_TYPES :: "transaction_type list" where
  "SPENDING_TRANSACTION_TYPES =
     [AI_INFERENCE, EMBEDDING, RERANKING, RAG, STORAGE, COMPUTE, INTEGRATION]"

section \<open>Queries\<close>

definition wallet_by_user :: "uuid \<Rightarrow> billing_db \<Rightarrow> wallet option" where
  "wallet_by_user u db = row_by wal_user u (wallets db)"

definition wallet_by_id :: "billing_db \<Rightarrow> uuid \<Rightarrow> wallet option" where
  "wallet_by_id db i = row_by wal_id i (wallets db)"

definition save_wallet :: "wallet \<Rightarrow> billing_db \<Rightarrow> billing_db" where
  "save_wallet w db = db\<lparr>wallets := put_row wal_id w (wallets db)\<rparr>"

definition reservation_by_id :: "billing_db \<Rightarrow> uuid \<Rightarrow> reservation option" where
  "reservation_by_id db i = row_by res_id i (reservations db)"

definition reservation_by_key :: "string \<Rightarrow> billing_db \<Rightarrow> reservation option" where
  "reservation_by_key k db = row_by res_key k (reservations db)"

definition save_reservation :: "reservation \<Rightarrow> billing_db \<Rightarrow> billing_db" where
  "save_reservation r db = db\<lparr>reservations := put_row res_id r (reservations db)\<rparr>"

definition budget_by_user :: "billing_db \<Rightarrow> uuid \<Rightarrow> budget option" where
  "budget_by_user db u = row_by bud_user u (budgets db)"

definition save_budget :: "budget \<Rightarrow> billing_db \<Rightarrow> billing_db" where
  "save_budget b db = db\<lparr>budgets := put_row bud_user b (budgets db)\<rparr>"

definition transaction_by_id :: "uuid \<Rightarrow> billing_db \<Rightarrow> wallet_transaction option" where
  "transaction_by_id i db = row_by txn_id i (wallet_transactions db)"

text \<open>\<open>get_by_reference\<close>: the column is not unique, so \<open>scalar_one_or_none\<close> can raise.\<close>

definition get_by_reference ::
  "string \<Rightarrow> billing_db \<Rightarrow> billing_error + wallet_transaction option" where
  "get_by_reference ref db =
     (case filter (\<lambda>t. txn_reference t = Some ref) (wallet_transactions db) of
        [] \<Rightarrow> Inr None
      | [t] \<Rightarrow> Inr (Some t)
      | _ \<Rightarrow> Inl MultipleResultsFound)"

text \<open>The unique index on \<open>billing_ledger.idempotency_key\<close>: \<open>None\<close> is the
  \<open>IntegrityError\<close> of the flush.\<close>

definition insert_ledger :: "ledger_entry \<Rightarrow> billing_db \<Rightarrow> billing_db option" where
  "insert_ledger e db =
     (if led_key e \<noteq> None \<and> led_key e \<in> led_key ` set (ledger db) then None
      else Some (db\<lparr>ledger := ledger db @ [e\<lparr>led_id := next_id db\<rparr>], next_id := Suc (next_id db)\<rparr>))"

definition insert_wallet :: "wallet \<Rightarrow> billing_db \<Rightarrow> billing_db \<times> wallet" where
  "insert_wallet w db =
     (let w' = w\<lparr>wal_id := next_id db\<rparr>
      in (db\<lparr>wallets := wallets db @ [w'], next_id := Suc (next_id db)\<rparr>, w'))"

definition insert_transaction :: "wallet_transaction \<Rightarrow> billing_db \<Rightarrow> billing_db \<times> wallet_transaction" where
  "insert_transaction t db =
     (let t' = t\<lparr>txn_id := next_id db\<rparr>
      in (db\<lparr>wallet_transactions := wallet_transactions db @ [t'], next_id := Suc (next_id db)\<rparr>, t'))"

definition empty_db :: billing_db where
  "empty_db = \<lparr>wallets = [], wallet_transactions = [], pricing_rules = [], usage_logs = [],
     budgets = [], ledger = [], reservations = [], spending_limits = [], next_id = 0, outbox = []\<rparr>"

definition new_wallet :: "uuid \<Rightarrow> string \<Rightarrow> wallet" where
  "new_wallet u cur = \<lparr>wal_id = 0, wal_user = u, balance = 0, reserved_balance = 0,
     total_spent = 0, total_topups = 0, wal_currency = cur, wal_status = ACTIVE\<rparr>"

section \<open>The tables meet the repository contract\<close>

interpretation wallet_repo: repository wallet_by_id save_wallet wal_id
  by unfold_locales
    (auto simp: wallet_by_id_def save_wallet_def row_by_put_row dest: row_by_SomeD)

interpretation reservation_repo: repository reservation_by_id save_reservation res_id
  by unfold_locales
    (auto simp: reservation_by_id_def save_reservation_def row_by_put_row dest: row_by_SomeD)

interpretation budget_repo: repository budget_by_user save_budget bud_user
  by unfold_locales
    (auto simp: budget_by_user_def save_budget_def row_by_put_row dest: row_by_SomeD)

lemmas db_defs = wallet_by_user_def wallet_by_id_def save_wallet_def reservation_by_id_def
  reservation_by_key_def save_reservation_def budget_by_user_def save_budget_def
  transaction_by_id_def insert_wallet_def insert_transaction_def

lemma save_own [simp]:
  "wallets (save_wallet w db) = put_row wal_id w (wallets db)"
  "reservations (save_reservation r db) = put_row res_id r (reservations db)"
  "budgets (save_budget b db) = put_row bud_user b (budgets db)"
  by (simp_all add: save_wallet_def save_reservation_def save_budget_def)

lemma save_frames [simp]:
  "reservations (save_wallet w db) = reservations db"
  "ledger (save_wallet w db) = ledger db"
  "wallet_transactions (save_wallet w db) = wallet_transactions db"
  "spending_limits (save_wallet w db) = spending_limits db"
  "budgets (save_wallet w db) = budgets db"
  "next_id (save_wallet w db) = next_id db"
  "wallets (save_reservation r db) = wallets db"
  "ledger (save_reservation r db) = ledger db"
  "wallet_transactions (save_reservation r db) = wallet_transactions db"
  "spending_limits (save_reservation r db) = spending_limits db"
  "budgets (save_reservation r db) = budgets db"
  "next_id (save_reservation r db) = next_id db"
  "wallets (save_budget b db) = wallets db"
  "reservations (save_budget b db) = reservations db"
  "ledger (save_budget b db) = ledger db"
  "wallet_transactions (save_budget b db) = wallet_transactions db"
  "spending_limits (save_budget b db) = spending_limits db"
  "next_id (save_budget b db) = next_id db"
  by (simp_all add: save_wallet_def save_reservation_def save_budget_def)

lemma insert_ledger_frames:
  assumes "insert_ledger e db = Some db'"
  shows "wallets db' = wallets db" "reservations db' = reservations db"
    "wallet_transactions db' = wallet_transactions db" "spending_limits db' = spending_limits db"
    "budgets db' = budgets db" "next_id db' = Suc (next_id db)"
    "ledger db' = ledger db @ [e\<lparr>led_id := next_id db\<rparr>]"
  using assms by (auto simp: insert_ledger_def split: if_splits)

lemma insert_ledger_None_iff:
  "insert_ledger e db = None \<longleftrightarrow> led_key e \<noteq> None \<and> led_key e \<in> led_key ` set (ledger db)"
  by (simp add: insert_ledger_def)

end
