(* ===== verification/Pricing.thy ===== *)
theory Pricing
  imports Billing_Data "HOL-Library.Product_Lexorder"
begin

text \<open>
  \<open>PricingService\<close> of \<open>app/services/metered_billing.py\<close> and the two calls of
  \<open>app/services/billing.py\<close> that use it: which rule prices an operation, the cost of one
  operation, and the quote over all components of a request.
\<close>

section \<open>Rule selection\<close>

definition rule_applies :: "string \<Rightarrow> string \<Rightarrow> string option \<Rightarrow> instant \<Rightarrow> pricing_rule \<Rightarrow> bool" where
  "rule_applies provider operation model tm r =
     ((rule_provider r = provider \<or> rule_provider r = ''*'') \<and> rule_operation r = operation \<and>
      rule_active r \<and> effective_from r \<le> tm \<and>
      (case effective_until r of None \<Rightarrow> True | Some t \<Rightarrow> tm < t) \<and>
      (model = None \<or> rule_model r = model \<or> rule_model r = None))"

text \<open>\<open>ORDER BY model IS NULL, version DESC, created_at DESC\<close>.\<close>

definition rule_order :: "pricing_rule \<Rightarrow> bool \<times> int \<times> int" where
  "rule_order r = (rule_model r = None, - rule_version r, - rule_created_at r)"

definition rules :: "billing_db \<Rightarrow> string \<Rightarrow> string \<Rightarrow> string option \<Rightarrow> instant \<Rightarrow> pricing_rule list" where
  "rules db provider operation model tm =
     sort_key rule_order (filter (rule_applies provider operation model tm) (pricing_rules db))"

definition select_rule :: "string option \<Rightarrow> pricing_rule list \<Rightarrow> pricing_rule option" where
  "select_rule model rs =
     (case find (\<lambda>r. rule_model r = model) rs of
        Some r \<Rightarrow> Some r
      | None \<Rightarrow> find (\<lambda>r. rule_model r = None) rs)"

definition price ::
  "billing_db \<Rightarrow> string \<Rightarrow> string option \<Rightarrow> string \<Rightarrow> decimal \<Rightarrow> instant \<Rightarrow>
   decimal \<times> decimal \<times> pricing_rule option" where
  "price db provider model operation quantity tm =
     (case select_rule model (rules db provider operation model tm) of
        None \<Rightarrow> (0, 0, None)
      | Some rule \<Rightarrow>
          if quantity \<le> 0 then (0, 0, None)
          else (let provider_cost = money (price_per_unit rule * quantity);
                    customer_cost = money (provider_cost * (1 + markup rule))
                in (customer_cost, provider_cost, Some rule)))"

section \<open>The quote of a request\<close>

record usage_quantities =
  q_input_tokens :: int
  q_output_tokens :: int
  q_cached_tokens :: int
  q_embedding_tokens :: int
  q_vector_searches :: int
  q_reranks :: int
  q_storage_bytes :: int
  q_requests :: int

record price_component =
  pc_quantity :: decimal
  customer_cost :: decimal
  pc_provider_cost :: decimal
  pc_markup :: decimal
  pricing_rule_id :: uuid
  pricing_version :: int

record quote =
  amount :: decimal
  provider_cost :: decimal
  quote_markup :: decimal
  components :: "(string \<times> price_component) list"

definition operations :: "usage_quantities \<Rightarrow> (string \<times> decimal) list" where
  "operations q =
     [(''input_tokens'', of_int (q_input_tokens q)),
      (''output_tokens'', of_int (q_output_tokens q)),
      (''cached_tokens'', of_int (q_cached_tokens q)),
      (''embeddings'', of_int (q_embedding_tokens q)),
      (''vector_search'', of_int (q_vector_searches q)),
      (''reranking'', of_int (q_reranks q)),
      (''storage'', of_int (q_storage_bytes q)),
      (''invoke'', of_int (q_requests q))]"

definition price_entry ::
  "billing_db \<Rightarrow> string \<Rightarrow> string option \<Rightarrow> instant \<Rightarrow> string \<times> decimal \<Rightarrow>
   (string \<times> price_component) option" where
  "price_entry db provider model tm oq =
     (let (operation, quantity) = oq; (customer, cost, rule) = price db provider model operation quantity tm
      in case rule of
           None \<Rightarrow> None
         | Some r \<Rightarrow> Some (operation,
             \<lparr>pc_quantity = quantity, customer_cost = customer, pc_provider_cost = cost,
              pc_markup = customer - cost, pricing_rule_id = rule_id r,
              pricing_version = rule_version r\<rparr>))"

text \<open>One pass of either loop of \<open>calculate\<close>: a non-positive quantity, and in the second
  loop an operation already priced, is skipped.\<close>

fun add_components ::
  "(string \<times> decimal \<Rightarrow> (string \<times> price_component) option) \<Rightarrow> bool \<Rightarrow> (string \<times> decimal) list \<Rightarrow>
   (string \<times> price_component) list \<Rightarrow> (string \<times> price_component) list" where
  "add_components pe skip_priced [] acc = acc"
| "add_components pe skip_priced ((operation, quantity) # oqs) acc =
     add_components pe skip_priced oqs
       (if quantity \<le> 0 \<or> (skip_priced \<and> operation \<in> fst ` set acc) then acc
        else case pe (operation, quantity) of None \<Rightarrow> acc | Some c \<Rightarrow> acc @ [c])"

definition calculate ::
  "billing_db \<Rightarrow> string \<Rightarrow> string option \<Rightarrow> usage_quantities \<Rightarrow> (string \<times> decimal) list \<Rightarrow> instant \<Rightarrow> quote" where
  "calculate db provider model q resource_components tm =
     (let pe = price_entry db provider model tm;
          comps = add_components pe True resource_components
                    (add_components pe False (operations q) []);
          customer_total = sum_list (map (\<lambda>c. customer_cost (snd c)) comps);
          provider_total = sum_list (map (\<lambda>c. pc_provider_cost (snd c)) comps)
      in \<lparr>amount = money customer_total, provider_cost = money provider_total,
          quote_markup = money (customer_total - provider_total), components = comps\<rparr>)"

definition UNIT_OPERATIONS :: "string list" where
  "UNIT_OPERATIONS = [''input_tokens'', ''output_tokens'', ''embeddings'', ''vector_search'', ''storage'']"

definition calculate_cost ::
  "billing_db \<Rightarrow> string \<Rightarrow> string \<Rightarrow> string \<Rightarrow> usage_quantities \<Rightarrow> (string \<times> decimal) list \<Rightarrow> instant \<Rightarrow> decimal" where
  "calculate_cost db provider model operation q resource_components tm =
     amount (calculate db provider (Some model)
       (q\<lparr>q_requests := (if operation \<notin> set UNIT_OPERATIONS then q_requests q else 0)\<rparr>)
       resource_components tm)"

definition estimate_request_cost ::
  "billing_db \<Rightarrow> string \<Rightarrow> string \<Rightarrow> usage_quantities \<Rightarrow> instant \<Rightarrow> decimal \<times> (string \<times> decimal) list" where
  "estimate_request_cost db provider model body tm =
     (let result = calculate db provider (Some model)
            (body\<lparr>q_cached_tokens := 0, q_reranks := 0\<rparr>) [] tm
      in (amount result, map (\<lambda>(k, v). (k, customer_cost v)) (components result)))"

section \<open>Rule selection is right\<close>

lemma select_rule_in: "select_rule model rs = Some r \<Longrightarrow> r \<in> set rs"
  by (auto simp: select_rule_def dest: find_SomeD split: option.splits)

lemma set_rules: "set (rules db p oper m tm) = {r \<in> set (pricing_rules db). rule_applies p oper m tm r}"
  by (auto simp: rules_def)

lemma select_rule_exact:
  "r' \<in> set rs \<Longrightarrow> rule_model r' = model \<Longrightarrow> select_rule model rs = Some r \<Longrightarrow> rule_model r = model"
  by (auto simp: select_rule_def find_None_iff dest: find_SomeD split: option.splits)

lemma select_rule_model: "select_rule model rs = Some r \<Longrightarrow> rule_model r = model \<or> rule_model r = None"
  by (auto simp: select_rule_def dest: find_SomeD split: option.splits)

lemma select_rule_least:
  assumes "sorted (map rule_order rs)" and "select_rule model rs = Some r"
    and "r' \<in> set rs" and "rule_model r' = rule_model r"
  shows "rule_order r \<le> rule_order r'"
proof (cases "find (\<lambda>r. rule_model r = model) rs")
  case None
  with assms(2) have f: "find (\<lambda>r. rule_model r = None) rs = Some r" by (simp add: select_rule_def)
  with assms(4) have "rule_model r' = None" by (auto dest: find_SomeD)
  with find_sorted_le [OF assms(1) f assms(3)] show ?thesis by simp
next
  case (Some x)
  with assms(2) have f: "find (\<lambda>r. rule_model r = model) rs = Some r" by (simp add: select_rule_def)
  with assms(4) have "rule_model r' = model" by (auto dest: find_SomeD)
  with find_sorted_le [OF assms(1) f assms(3)] show ?thesis by simp
qed

text \<open>
  The rule that prices an operation is an active rule of this provider (or of the
  wildcard provider) in force at that time; a rule for the very model wins over a rule for
  every model; and among the rules of the same specificity it has the highest version.
\<close>

theorem selected_rule_correct:
  assumes "select_rule model (rules db provider operation model tm) = Some r"
  shows "r \<in> set (pricing_rules db) \<and> rule_applies provider operation model tm r \<and>
    (\<forall>r'. r' \<in> set (pricing_rules db) \<and> rule_applies provider operation model tm r' \<longrightarrow>
       (rule_model r' = model \<longrightarrow> rule_model r = model) \<and>
       (rule_model r' = rule_model r \<longrightarrow> rule_version r' \<le> rule_version r))"
proof -
  let ?rs = "rules db provider operation model tm"
  have srt: "sorted (map rule_order ?rs)" by (simp add: rules_def)
  have inr: "r \<in> set ?rs" using assms by (rule select_rule_in)
  have ver: "rule_version r' \<le> rule_version r"
    if "r' \<in> set ?rs" and "rule_model r' = rule_model r" for r'
  proof -
    have "rule_order r \<le> rule_order r'" by (rule select_rule_least [OF srt assms that])
    with that(2) show ?thesis by (simp add: rule_order_def less_eq_prod_def) linarith
  qed
  have exact: "rule_model r = model" if "r' \<in> set ?rs" and "rule_model r' = model" for r'
    by (rule select_rule_exact [OF that assms])
  from inr ver exact show ?thesis unfolding set_rules by blast
qed

text \<open>A price list for the examples: a rule for every model and one for \<open>gpt-4o\<close>.\<close>

definition sample_rule :: "uuid \<Rightarrow> string option \<Rightarrow> decimal \<Rightarrow> pricing_rule" where
  "sample_rule i m p = \<lparr>rule_id = i, rule_provider = ''openai'', rule_operation = ''input_tokens'', rule_model = m,
     rule_unit = ''token'', price_per_unit = p, rule_currency = ''usd'', cached_price_per_unit = None, markup = 1/5,
     effective_from = 0, effective_until = None, rule_version = 1, rule_active = True, rule_created_at = 0\<rparr>"

definition sample_prices :: billing_db where
  "sample_prices = empty_db\<lparr>pricing_rules := [sample_rule 1 None (1/100000), sample_rule 2 (Some ''gpt-4o'') (1/400000)]\<rparr>"

theorem selected_rule_correct_witness:
  "(sample_rule 2 (Some ''gpt-4o'') (1/400000)) \<in> set (pricing_rules sample_prices) \<and>
   rule_applies ''openai'' ''input_tokens'' (Some ''gpt-4o'') 5 (sample_rule 2 (Some ''gpt-4o'') (1/400000))"
  using selected_rule_correct [of "Some ''gpt-4o''" sample_prices "''openai''" "''input_tokens''" 5 "sample_rule 2 (Some ''gpt-4o'') (1/400000)"]
  by (simp add: select_rule_def rules_def rule_applies_def rule_order_def sample_rule_def sample_prices_def)

section \<open>Bounds of a price\<close>

lemma price_Some:
  assumes "price db provider model operation quantity tm = (c, p, Some r)"
  shows "p = money (price_per_unit r * quantity) \<and> c = money (p * (1 + markup r)) \<and> 0 < quantity \<and>
    r \<in> set (pricing_rules db)"
proof -
  from assms have "select_rule model (rules db provider operation model tm) = Some r"
    by (auto simp: price_def Let_def split: option.splits if_splits)
  then have "r \<in> set (pricing_rules db)"
    by (auto dest!: select_rule_in simp: set_rules)
  with assms show ?thesis
    by (auto simp: price_def Let_def split: option.splits if_splits)
qed

lemma price_quantised: "money (fst (price db p m oper qty tm)) = fst (price db p m oper qty tm)"
  "money (fst (snd (price db p m oper qty tm))) = fst (snd (price db p m oper qty tm))"
  by (auto simp: price_def Let_def split: option.splits)

text \<open>
  For a rule with a non-negative unit price and markup, the provider is never
  under-accounted, the customer never pays less than the provider's cost, and the two
  roundings together overcharge by less than one quantum for each rounding: the customer's
  price stays below the exact price plus \<open>(2 + markup)\<close> quanta.
\<close>

theorem price_bounds:
  assumes "price db provider model operation quantity tm = (c, p, Some r)"
    and "0 \<le> price_per_unit r" and "0 \<le> markup r"
  shows "price_per_unit r * quantity \<le> p \<and> p \<le> c \<and>
    price_per_unit r * quantity * (1 + markup r) \<le> c \<and>
    c < price_per_unit r * quantity * (1 + markup r) + (2 + markup r) * MONEY_QUANTUM"
proof -
  let ?x = "price_per_unit r * quantity"
  have pc: "p = money ?x" "c = money (p * (1 + markup r))" "0 < quantity"
    using price_Some [OF assms(1)] by auto
  have x0: "0 \<le> ?x" using assms(2) pc(3) by simp
  have p1: "?x \<le> p" and p2: "p < ?x + MONEY_QUANTUM"
    using money_ge [OF x0] money_lt_quantum [of ?x] pc(1) by auto
  have c1: "p * (1 + markup r) \<le> c" and c2: "c < p * (1 + markup r) + MONEY_QUANTUM"
    using money_ge [of "p * (1 + markup r)"] money_lt_quantum [of "p * (1 + markup r)"] pc(2)
      x0 p1 assms(3) by auto
  have "p \<le> p * (1 + markup r)"
    using x0 p1 assms(3) by (simp add: mult_le_cancel_left1 algebra_simps)
  moreover have "?x * (1 + markup r) \<le> p * (1 + markup r)"
    using p1 assms(3) by (intro mult_right_mono) auto
  moreover have "p * (1 + markup r) < (?x + MONEY_QUANTUM) * (1 + markup r)"
    using p2 assms(3) by (intro mult_strict_right_mono) auto
  ultimately show ?thesis using p1 c1 c2 by (auto simp: algebra_simps)
qed

theorem price_bounds_witness:
  "case price sample_prices ''openai'' (Some ''gpt-4o'') ''input_tokens'' 3 5 of (c, p, _) \<Rightarrow>
     3/400000 \<le> p \<and> p \<le> c \<and> 9/1000000 \<le> c \<and> c < 9/1000000 + 11/5 * MONEY_QUANTUM"
proof -
  let ?r = "sample_rule 2 (Some ''gpt-4o'') (1/400000)"
  have p: "price sample_prices ''openai'' (Some ''gpt-4o'') ''input_tokens'' 3 5 =
      (money (money (3/400000) * (6/5)), money (3/400000), Some ?r)"
    by (simp add: price_def select_rule_def rules_def rule_applies_def rule_order_def sample_rule_def sample_prices_def Let_def)
  have "0 \<le> price_per_unit ?r" "0 \<le> markup ?r" "price_per_unit ?r = 1/400000" "markup ?r = 1/5"
    by (simp_all add: sample_rule_def)
  with price_bounds [OF p] p show ?thesis by simp
qed

section \<open>The quote adds up\<close>

lemma price_entry_Some:
  assumes "price_entry db provider model tm (operation, quantity) = Some c"
  shows "fst c = operation \<and> pc_quantity (snd c) = quantity \<and>
    money (customer_cost (snd c)) = customer_cost (snd c) \<and>
    money (pc_provider_cost (snd c)) = pc_provider_cost (snd c) \<and>
    pc_markup (snd c) = customer_cost (snd c) - pc_provider_cost (snd c) \<and>
    (\<exists>r \<in> set (pricing_rules db).
       price db provider model operation quantity tm = (customer_cost (snd c), pc_provider_cost (snd c), Some r))"
proof -
  obtain cu pr rl where e: "price db provider model operation quantity tm = (cu, pr, rl)"
    by (metis prod.collapse)
  with assms obtain r where "rl = Some r" by (auto simp: price_entry_def split: option.splits)
  with e assms price_quantised [of db provider model operation quantity tm] price_Some [of db provider model operation quantity tm cu pr r]
  show ?thesis by (auto simp: price_entry_def)
qed

lemma add_components_all:
  assumes "\<And>oper q c. pe (oper, q) = Some c \<Longrightarrow> R c"
  shows "(\<forall>c \<in> set acc. R c) \<Longrightarrow> \<forall>c \<in> set (add_components pe b oqs acc). R c"
proof (induction oqs arbitrary: acc)
  case (Cons oq oqs)
  obtain operation quantity where oq: "oq = (operation, quantity)" by (cases oq)
  let ?acc = "if quantity \<le> 0 \<or> (b \<and> operation \<in> fst ` set acc) then acc
    else case pe (operation, quantity) of None \<Rightarrow> acc | Some c \<Rightarrow> acc @ [c]"
  have "\<forall>c \<in> set ?acc. R c"
    using Cons.prems assms [of operation quantity] by (auto split: option.splits)
  then show ?case unfolding oq add_components.simps by (rule Cons.IH)
qed simp

lemma add_components_keeps: "set acc \<subseteq> set (add_components pe b oqs acc)"
proof (induction oqs arbitrary: acc)
  case (Cons oq oqs)
  obtain operation quantity where oq: "oq = (operation, quantity)" by (cases oq)
  let ?acc = "if quantity \<le> 0 \<or> (b \<and> operation \<in> fst ` set acc) then acc
    else case pe (operation, quantity) of None \<Rightarrow> acc | Some c \<Rightarrow> acc @ [c]"
  have "set acc \<subseteq> set ?acc" by (auto split: option.splits)
  with Cons.IH [of ?acc] oq show ?case by auto
qed simp

lemma add_components_distinct:
  assumes "\<And>oper q c. pe (oper, q) = Some c \<Longrightarrow> fst c = oper"
    and "distinct (map fst acc)"
    and "b \<or> (distinct (map fst oqs) \<and> fst ` set oqs \<inter> fst ` set acc = {})"
  shows "distinct (map fst (add_components pe b oqs acc))"
  using assms(2,3)
proof (induction oqs arbitrary: acc)
  case (Cons oq oqs)
  obtain operation quantity where oq: "oq = (operation, quantity)" by (cases oq)
  let ?acc = "if quantity \<le> 0 \<or> (b \<and> operation \<in> fst ` set acc) then acc
    else case pe (operation, quantity) of None \<Rightarrow> acc | Some c \<Rightarrow> acc @ [c]"
  consider (keep) "?acc = acc"
    | (app) c where "?acc = acc @ [c]" "fst c = operation" "\<not> (b \<and> operation \<in> fst ` set acc)"
  proof (cases "quantity \<le> 0 \<or> (b \<and> operation \<in> fst ` set acc) \<or> pe (operation, quantity) = None")
    case True
    then have "?acc = acc" by auto
    then show thesis by (rule that(1))
  next
    case False
    then obtain c where c: "pe (operation, quantity) = Some c" by auto
    with False have "?acc = acc @ [c]" by simp
    then show thesis using assms(1) [OF c] False by (intro that(2)) auto
  qed
  then have "distinct (map fst ?acc) \<and> (b \<or> (distinct (map fst oqs) \<and> fst ` set oqs \<inter> fst ` set ?acc = {}))"
  proof cases
    case keep
    from Cons.prems oq show ?thesis unfolding keep by auto
  next
    case (app c)
    from app(2,3) Cons.prems oq show ?thesis unfolding app(1) by auto
  qed
  then have "distinct (map fst ?acc)" and "b \<or> (distinct (map fst oqs) \<and> fst ` set oqs \<inter> fst ` set ?acc = {})"
    by blast+
  then show ?case unfolding oq add_components.simps by (rule Cons.IH)
qed simp

lemma calculate_component:
  assumes "c \<in> set (components (calculate db provider model q rc tm))"
  shows "\<exists>oper qty. price_entry db provider model tm (oper, qty) = Some c"
proof -
  let ?R = "\<lambda>c. \<exists>oper qty. price_entry db provider model tm (oper, qty) = Some c"
  have "\<forall>c \<in> set (components (calculate db provider model q rc tm)). ?R c"
    unfolding calculate_def Let_def quote.simps
    by (intro add_components_all) auto
  with assms show ?thesis by blast
qed

text \<open>
  A quote adds up: its totals are exactly the sums of its components' costs (the final
  rounding changes nothing), its markup is the difference of the totals, and no operation is
  charged twice, whatever resource components the caller passes in.
\<close>

theorem quote_adds_up:
  "amount (calculate db provider model q rc tm) =
      sum_list (map (\<lambda>c. customer_cost (snd c)) (components (calculate db provider model q rc tm))) \<and>
    provider_cost (calculate db provider model q rc tm) =
      sum_list (map (\<lambda>c. pc_provider_cost (snd c)) (components (calculate db provider model q rc tm))) \<and>
    quote_markup (calculate db provider model q rc tm) =
      amount (calculate db provider model q rc tm) - provider_cost (calculate db provider model q rc tm) \<and>
    distinct (map fst (components (calculate db provider model q rc tm)))"
proof -
  let ?c = "components (calculate db provider model q rc tm)"
  let ?cu = "sum_list (map (\<lambda>c. customer_cost (snd c)) ?c)"
  let ?pr = "sum_list (map (\<lambda>c. pc_provider_cost (snd c)) ?c)"
  have each: "money (customer_cost (snd c)) = customer_cost (snd c)"
    "money (pc_provider_cost (snd c)) = pc_provider_cost (snd c)" if "c \<in> set ?c" for c
    using calculate_component [OF that] price_entry_Some by blast+
  have cu: "money ?cu = ?cu" and pr: "money ?pr = ?pr"
    using each by (auto intro!: up.q_sum_list)
  have dist: "distinct (map fst ?c)"
    unfolding calculate_def Let_def quote.simps
    by (intro add_components_distinct) (auto dest: price_entry_Some simp: operations_def)
  have tot: "amount (calculate db provider model q rc tm) = money ?cu"
    "provider_cost (calculate db provider model q rc tm) = money ?pr"
    "quote_markup (calculate db provider model q rc tm) = money (?cu - ?pr)"
    by (simp_all add: calculate_def Let_def)
  show ?thesis using tot cu pr dist up.q_multiple_minus [OF cu pr] by simp
qed

lemma price_entry_no_loss:
  assumes "\<And>r. r \<in> set (pricing_rules db) \<Longrightarrow> 0 \<le> price_per_unit r \<and> 0 \<le> markup r"
    and "price_entry db provider model tm (oper, qty) = Some c"
  shows "0 \<le> pc_provider_cost (snd c) \<and> pc_provider_cost (snd c) \<le> customer_cost (snd c)"
proof -
  obtain r where r: "r \<in> set (pricing_rules db)"
    "price db provider model oper qty tm = (customer_cost (snd c), pc_provider_cost (snd c), Some r)"
    using price_entry_Some [OF assms(2)] by blast
  note pos = assms(1) [OF r(1)] and P = price_Some [OF r(2)]
  have "0 \<le> price_per_unit r * qty" using P pos by simp
  with price_bounds [OF r(2)] pos show ?thesis by linarith
qed

lemma calculate_no_loss:
  assumes "\<And>r. r \<in> set (pricing_rules db) \<Longrightarrow> 0 \<le> price_per_unit r \<and> 0 \<le> markup r"
  shows "0 \<le> provider_cost (calculate db provider model q rc tm) \<and>
    provider_cost (calculate db provider model q rc tm) \<le> amount (calculate db provider model q rc tm)"
proof -
  let ?c = "components (calculate db provider model q rc tm)"
  have each: "0 \<le> pc_provider_cost (snd c)" "pc_provider_cost (snd c) \<le> customer_cost (snd c)"
    if "c \<in> set ?c" for c
    using calculate_component [OF that] price_entry_no_loss [OF assms] by blast+
  have "0 \<le> sum_list (map (\<lambda>c. pc_provider_cost (snd c)) ?c)"
    using each by (intro sum_list_nonneg) auto
  moreover have "sum_list (map (\<lambda>c. pc_provider_cost (snd c)) ?c) \<le> sum_list (map (\<lambda>c. customer_cost (snd c)) ?c)"
    using each by (intro sum_list_mono) auto
  ultimately show ?thesis by (simp add: calculate_def Let_def up.q_nonneg up.q_mono)
qed

end
