(* ===== verification/Spending_Limits.thy ===== *)
theory Spending_Limits
  imports Billing_Data
begin

text \<open>
  \<open>SpendingLimitService\<close> of \<open>app/services/metered_billing.py\<close>: the start of an accounting
  period and the check that settled plus reserved spend of every scope stays within its
  active limits.
\<close>

section \<open>Periods\<close>

text \<open>
  \<open>datetime.replace(hour=0, minute=0, second=0, microsecond=0)\<close> is the start of the UTC day;
  \<open>replace(day=1, ...)\<close> subtracts the day of the month, which \<open>day_of_month\<close> computes from
  the days since the epoch in the proleptic Gregorian calendar, as \<open>datetime\<close> does.
\<close>

definition DAY :: int where
  "DAY = 86400000000"

definition day_of_year_from_march :: "int \<Rightarrow> int" where
  "day_of_year_from_march z =
     (let doe = (z + 719468) mod 146097;
          yoe = (doe - doe div 1460 + doe div 36524 - doe div 146096) div 365
      in doe - (365 * yoe + yoe div 4 - yoe div 100))"

definition day_of_month :: "int \<Rightarrow> int" where
  "day_of_month z =
     (let doy = day_of_year_from_march z; mp = (5 * doy + 2) div 153
      in doy - (153 * mp + 2) div 5 + 1)"

definition period_start :: "limit_period \<Rightarrow> instant \<Rightarrow> instant" where
  "period_start period now = (case period of
      Daily \<Rightarrow> now div DAY * DAY
    | Monthly \<Rightarrow> (now div DAY - (day_of_month (now div DAY) - 1)) * DAY
    | Lifetime \<Rightarrow> 0)"

section \<open>The check\<close>

definition spent_since :: "billing_db \<Rightarrow> scope_type \<Rightarrow> uuid \<Rightarrow> instant \<Rightarrow> decimal" where
  "spent_since db s i start =
     sum_where (\<lambda>e. led_status e = Settled \<and> led_type e \<in> set SPENDING_TRANSACTION_TYPES \<and>
        start \<le> led_created_at e \<and> scope_column s (led_scope e) = Some i) led_amount (ledger db)"

definition reserved_since ::
  "billing_db \<Rightarrow> scope_type \<Rightarrow> uuid \<Rightarrow> instant \<Rightarrow> uuid option \<Rightarrow> decimal" where
  "reserved_since db s i start exclude_reservation_id =
     sum_where (\<lambda>r. res_status r = Reserved \<and> start \<le> res_created_at r \<and>
        scope_column s (res_scope r) = Some i \<and>
        (case exclude_reservation_id of None \<Rightarrow> True | Some x \<Rightarrow> res_id r \<noteq> x))
       estimated_amount (reservations db)"

definition check_scopes :: "attribution \<Rightarrow> (scope_type \<times> uuid) list" where
  "check_scopes a = (User, att_user a) #
     concat (map (\<lambda>(s, v). case v of None \<Rightarrow> [] | Some i \<Rightarrow> [(s, i)])
       [(Organization, att_organization a), (Project, att_project a),
        (Runtime, att_runtime a), (Api_Key, att_api_key a)])"

definition limits_for :: "billing_db \<Rightarrow> scope_type \<Rightarrow> uuid \<Rightarrow> spending_limit list" where
  "limits_for db s i = filter (\<lambda>l. lim_scope_type l = s \<and> lim_scope_id l = i \<and> lim_active l) (spending_limits db)"

definition projected_spend ::
  "billing_db \<Rightarrow> decimal \<Rightarrow> instant \<Rightarrow> uuid option \<Rightarrow> spending_limit \<Rightarrow> decimal" where
  "projected_spend db amount now exclude l =
     (let start = period_start (lim_period l) now
      in spent_since db (lim_scope_type l) (lim_scope_id l) start +
         reserved_since db (lim_scope_type l) (lim_scope_id l) start exclude + amount)"

fun check_limits ::
  "billing_db \<Rightarrow> decimal \<Rightarrow> instant \<Rightarrow> uuid option \<Rightarrow> spending_limit list \<Rightarrow> billing_error option" where
  "check_limits db amount now exclude [] = None"
| "check_limits db amount now exclude (l # ls) =
     (let projected = projected_spend db amount now exclude l
      in if lim_amount l < projected
         then Some (SpendingLimitError (lim_scope_type l) (lim_period l) (money (lim_amount l)) (money projected))
         else check_limits db amount now exclude ls)"

definition check ::
  "billing_db \<Rightarrow> decimal \<Rightarrow> attribution \<Rightarrow> instant \<Rightarrow> uuid option \<Rightarrow> billing_error option" where
  "check db amount a now exclude =
     check_limits db amount now exclude
       (concat (map (\<lambda>(s, i). limits_for db s i) (check_scopes a)))"

section \<open>What a passed check says\<close>

lemma check_limits_None:
  "check_limits db amt now x ls = None \<longleftrightarrow> (\<forall>l \<in> set ls. projected_spend db amt now x l \<le> lim_amount l)"
  by (induction ls) (auto simp: Let_def)

lemma check_scopes_iff: "(s, i) \<in> set (check_scopes a) \<longleftrightarrow> scope_column s a = Some i"
  by (cases s) (auto simp: check_scopes_def scope_column_def split: option.splits)

text \<open>The limits that apply to a charge: active, on one of its scopes.\<close>

definition limit_applies :: "attribution \<Rightarrow> spending_limit \<Rightarrow> bool" where
  "limit_applies a l = (lim_active l \<and> scope_column (lim_scope_type l) a = Some (lim_scope_id l))"

lemma check_None_iff:
  "check db amt a now x = None \<longleftrightarrow>
     (\<forall>l \<in> set (spending_limits db). limit_applies a l \<longrightarrow> projected_spend db amt now x l \<le> lim_amount l)"
proof -
  have "set (concat (map (\<lambda>(s, i). limits_for db s i) (check_scopes a))) =
    {l \<in> set (spending_limits db). limit_applies a l}"
  proof (rule set_eqI)
    fix l
    show "l \<in> set (concat (map (\<lambda>(s, i). limits_for db s i) (check_scopes a))) \<longleftrightarrow>
      l \<in> {l \<in> set (spending_limits db). limit_applies a l}"
      using check_scopes_iff [of "lim_scope_type l" "lim_scope_id l" a]
      by (force simp: limits_for_def limit_applies_def)
  qed
  then show ?thesis by (auto simp: check_def check_limits_None)
qed

lemma check_error:
  "check db amt a now x = Some e \<Longrightarrow> \<exists>s p m n. e = SpendingLimitError s p m n"
proof -
  have "check_limits db amt now x ls = Some e \<Longrightarrow> \<exists>s p m n. e = SpendingLimitError s p m n" for ls
    by (induction ls) (auto simp: Let_def split: if_splits)
  then show "check db amt a now x = Some e \<Longrightarrow> \<exists>s p m n. e = SpendingLimitError s p m n"
    by (simp add: check_def)
qed

section \<open>Periods start in the past\<close>

lemma day_of_month_pos: "1 \<le> day_of_month z"
proof -
  define doy where "doy = day_of_year_from_march z"
  define m where "m = (5 * doy + 2) div 153"
  have "153 * m \<le> 5 * doy + 2"
    using minus_mod_eq_mult_div [of "5 * doy + 2" 153] pos_mod_sign [of 153 "5 * doy + 2"]
    unfolding m_def by linarith
  then have "(153 * m + 2) div 5 \<le> (5 * doy + 4) div 5" by (intro zdiv_mono1) auto
  then have "(153 * ((5 * doy + 2) div 153) + 2) div 5 \<le> doy" by (simp add: m_def)
  then show ?thesis by (simp add: day_of_month_def Let_def flip: doy_def)
qed

text \<open>
  The daily and monthly periods start at a midnight that is not after the instant asked
  about, a month starts no later than its days, and the day's start is less than one day back.
\<close>

theorem period_start_in_past:
  "period_start Daily now \<le> now \<and> now < period_start Daily now + DAY \<and>
   period_start Monthly now \<le> period_start Daily now \<and>
   DAY dvd period_start Daily now \<and> DAY dvd period_start Monthly now"
proof -
  have m: "0 \<le> now mod DAY" "now mod DAY < DAY" by (simp_all add: DAY_def)
  have e: "now div DAY * DAY + now mod DAY = now" by simp
  have "now div DAY * DAY \<le> now" and "now < now div DAY * DAY + DAY"
    using m e by linarith+
  moreover have "(now div DAY - (day_of_month (now div DAY) - 1)) * DAY \<le> now div DAY * DAY"
    using day_of_month_pos [of "now div DAY"] by (intro mult_right_mono) (auto simp: DAY_def)
  ultimately show ?thesis
    by (simp add: period_start_def)
qed

lemma day_of_month_2026_03_01: "day_of_month 20513 = 1"
  by (simp add: day_of_month_def day_of_year_from_march_def)

end
