(* ===== verification/Metered_Billing.thy ===== *)
theory Metered_Billing
  imports Spending_Limits
begin

text \<open>
  \<open>MeteredBillingService\<close> of \<open>app/services/metered_billing.py\<close>: reserve, settle, release,
  expiry and reconciliation. Each call is one database transaction: its row locks
  (\<open>with_for_update\<close>) serialise it against the others, so a call is a function on the
  database that returns what it committed. An exception leaves the database as it was.
\<close>

section \<open>Ledger rows\<close>

definition ledger_row ::
  "transaction_type \<Rightarrow> attribution \<Rightarrow> string option \<Rightarrow> string option \<Rightarrow> string \<Rightarrow> string option \<Rightarrow>
   decimal \<Rightarrow> string \<Rightarrow> decimal \<Rightarrow> decimal \<Rightarrow> entry_status \<Rightarrow> metadata \<Rightarrow> instant \<Rightarrow> ledger_entry" where
  "ledger_row ty a request key rtype rid amt cur pc pm st md now =
     \<lparr>led_id = 0, led_type = ty, led_scope = a, led_request = request, led_key = key,
      led_resource_type = rtype, led_resource_id = rid, led_amount = amt, led_currency = cur,
      led_provider_cost = pc, led_platform_markup = pm, led_status = st, led_metadata = md,
      led_created_at = now\<rparr>"

text \<open>\<open>str(uuid)\<close>\<close>

definition uuid_text :: "uuid \<Rightarrow> string" where
  "uuid_text i = nat_text i"

section \<open>Reserve\<close>

definition wallet_for_update :: "uuid \<Rightarrow> billing_db \<Rightarrow> billing_db \<times> wallet" where
  "wallet_for_update u db =
     (case wallet_by_user u db of
        Some w \<Rightarrow> (db, w)
      | None \<Rightarrow> insert_wallet (new_wallet u ''usd'') db)"

definition new_reservation ::
  "wallet \<Rightarrow> attribution \<Rightarrow> string \<Rightarrow> string \<Rightarrow> decimal \<Rightarrow> string \<Rightarrow> metadata \<Rightarrow> int \<Rightarrow> instant \<Rightarrow> uuid \<Rightarrow> reservation" where
  "new_reservation w a request_id key amt rtype md ttl now i =
     \<lparr>res_id = i, res_wallet = wal_id w, res_scope = a, res_request = request_id, res_key = key,
      estimated_amount = amt, settled_amount = None, released_amount = 0,
      res_currency = wal_currency w, res_status = Reserved, res_resource_type = rtype,
      expires_at = now + max 1 ttl * 1000000, res_metadata = md, res_created_at = now\<rparr>"

definition reserve ::
  "attribution \<Rightarrow> decimal \<Rightarrow> string \<Rightarrow> string \<Rightarrow> string \<Rightarrow> metadata \<Rightarrow> int \<Rightarrow> instant \<Rightarrow> billing_db \<Rightarrow> reservation outcome" where
  "reserve a amount0 request_id key rtype md ttl now db =
     (let amt = money amount0 in
      if amt \<le> 0 then (db, Inl (ValueError ''Reservation amount must be positive''))
      else case reservation_by_key key db of
        Some existing \<Rightarrow> (db, Inr existing)
      | None \<Rightarrow>
       (case check db amt a now None of
          Some e \<Rightarrow> (db, Inl e)
        | None \<Rightarrow>
          (let (db1, w) = wallet_for_update (att_user a) db in
           if wal_status w \<noteq> ACTIVE
             then (db, Inl (ValueError (''Wallet is '' @ wallet_status_text (wal_status w))))
           else if balance w < amt
             then (db, Inl (InsufficientBalanceError (money amt) (money (balance w))))
           else
            (let w' = w\<lparr>balance := balance w - amt, reserved_balance := reserved_balance w + amt\<rparr>;
                 r = new_reservation w a request_id key amt rtype md ttl now (next_id db1);
                 db2 = (save_wallet w' db1)\<lparr>reservations := reservations db1 @ [r], next_id := Suc (next_id db1)\<rparr>
             in case insert_ledger (ledger_row RESERVATION a (Some request_id) (Some (key @ '':reservation''))
                       rtype (Some (uuid_text (res_id r))) amt (wal_currency w) 0 0 Reserved md now) db2 of
                  None \<Rightarrow> (db, Inl IntegrityError)
                | Some db3 \<Rightarrow> (db3, Inr r)))))"

section \<open>Settle\<close>

text \<open>The actual cost exceeds the estimate: the difference is checked against the limits
  and reserved first.\<close>

definition reserve_additional ::
  "reservation \<Rightarrow> wallet \<Rightarrow> decimal \<Rightarrow> instant \<Rightarrow> billing_db \<Rightarrow> billing_error + (reservation \<times> wallet)" where
  "reserve_additional r w actual now db =
     (if estimated_amount r < actual then
        (let additional = actual - estimated_amount r in
         case check db additional (res_scope r) now (Some (res_id r)) of
           Some e \<Rightarrow> Inl e
         | None \<Rightarrow>
            if balance w < additional
            then Inl (InsufficientBalanceError (money actual) (money (balance w + estimated_amount r)))
            else Inr (r\<lparr>estimated_amount := estimated_amount r + additional\<rparr>,
                      w\<lparr>balance := balance w - additional,
                        reserved_balance := reserved_balance w + additional\<rparr>))
      else Inr (r, w))"

definition settle_budget :: "uuid \<Rightarrow> decimal \<Rightarrow> billing_db \<Rightarrow> billing_db" where
  "settle_budget u actual db =
     (case budget_by_user db u of
        None \<Rightarrow> db
      | Some b \<Rightarrow>
         (let spend = current_spend b + actual;
              hit = (case monthly_limit b of None \<Rightarrow> False | Some l \<Rightarrow> l \<le> spend)
          in save_budget (b\<lparr>current_spend := spend, limit_reached := (hit \<or> limit_reached b)\<rparr>) db))"

definition release_row :: "reservation \<Rightarrow> decimal \<Rightarrow> string \<Rightarrow> metadata \<Rightarrow> instant \<Rightarrow> ledger_entry" where
  "release_row r amt cur md now =
     ledger_row REVERSAL (res_scope r) (Some (res_request r)) (Some (res_key r @ '':release''))
       ''reservation'' (Some (uuid_text (res_id r))) amt cur 0 0 Released
       (md @ [(''reservation_id'', uuid_text (res_id r))]) now"

definition settle ::
  "uuid \<Rightarrow> decimal \<Rightarrow> decimal \<Rightarrow> metadata \<Rightarrow> transaction_type \<Rightarrow> instant \<Rightarrow> billing_db \<Rightarrow> reservation outcome" where
  "settle rid actual_amount pcost md ty now db =
     (case reservation_by_id db rid of
        None \<Rightarrow> (db, Inl NoResultFound)
      | Some r0 \<Rightarrow>
        if res_status r0 \<noteq> Reserved then (db, Inr r0)
        else (let actual = money actual_amount in
        if actual < 0 then (db, Inl (ValueError ''Actual amount cannot be negative''))
        else case wallet_by_id db (res_wallet r0) of
          None \<Rightarrow> (db, Inl NoResultFound)
        | Some w0 \<Rightarrow>
         (case reserve_additional r0 w0 actual now db of
            Inl e \<Rightarrow> (db, Inl e)
          | Inr (r1, w1) \<Rightarrow>
           (let freed = estimated_amount r1 - actual;
                w2 = w1\<lparr>reserved_balance := reserved_balance w1 - estimated_amount r1,
                        balance := balance w1 + freed,
                        total_spent := total_spent w1 + actual\<rparr>;
                r2 = r1\<lparr>settled_amount := Some actual, released_amount := freed, res_status := Settled\<rparr>;
                db1 = save_reservation r2 (settle_budget (att_user (res_scope r0)) actual (save_wallet w2 db))
            in case insert_ledger (ledger_row ty (res_scope r2) (Some (res_request r2))
                       (Some (res_key r2 @ '':settled'')) (res_resource_type r2) (Some (uuid_text (res_id r2)))
                       actual (wal_currency w2) (money pcost) (money (actual - pcost)) Settled md now) db1 of
                 None \<Rightarrow> (db, Inl IntegrityError)
               | Some db2 \<Rightarrow>
                  if 0 < freed then
                    (case insert_ledger (release_row r2 freed (wal_currency w2) [] now) db2 of
                       None \<Rightarrow> (db, Inl IntegrityError)
                     | Some db3 \<Rightarrow> (db3, Inr r2))
                  else (db2, Inr r2)))))"

section \<open>Release and expiry\<close>

definition release :: "uuid \<Rightarrow> string \<Rightarrow> instant \<Rightarrow> billing_db \<Rightarrow> reservation outcome" where
  "release rid reason now db =
     (case reservation_by_id db rid of
        None \<Rightarrow> (db, Inl NoResultFound)
      | Some r \<Rightarrow>
        if res_status r \<noteq> Reserved then (db, Inr r)
        else case wallet_by_id db (res_wallet r) of
          None \<Rightarrow> (db, Inl NoResultFound)
        | Some w \<Rightarrow>
          (let w' = w\<lparr>reserved_balance := reserved_balance w - estimated_amount r,
                      balance := balance w + estimated_amount r\<rparr>;
               r' = r\<lparr>released_amount := estimated_amount r, res_status := Released\<rparr>
           in case insert_ledger (release_row r' (estimated_amount r) (wal_currency w) [(''reason'', reason)] now)
                     (save_reservation r' (save_wallet w' db)) of
                None \<Rightarrow> (db, Inl IntegrityError)
              | Some db' \<Rightarrow> (db', Inr r')))"

definition expired_ids :: "nat \<Rightarrow> instant \<Rightarrow> billing_db \<Rightarrow> uuid list" where
  "expired_ids max_rows now db =
     take max_rows (map res_id (sort_key expires_at
       (filter (\<lambda>r. res_status r = Reserved \<and> expires_at r \<le> now) (reservations db))))"

fun release_each :: "uuid list \<Rightarrow> nat \<Rightarrow> instant \<Rightarrow> billing_db \<Rightarrow> nat outcome" where
  "release_each [] n now db = (db, Inr n)"
| "release_each (i # is) n now db =
     (case release i ''reservation_expired'' now db of
        (db', Inl e) \<Rightarrow> (db', Inl e)
      | (db', Inr _) \<Rightarrow> release_each is (Suc n) now db')"

definition expire_reservations :: "nat \<Rightarrow> instant \<Rightarrow> billing_db \<Rightarrow> nat outcome" where
  "expire_reservations max_rows now db = release_each (expired_ids max_rows now db) 0 now db"

section \<open>One billable operation\<close>

text \<open>\<open>BillingService.bill_operation\<close>: reserve, then settle.\<close>

definition bill_operation ::
  "attribution \<Rightarrow> decimal \<Rightarrow> decimal \<Rightarrow> string \<Rightarrow> string \<Rightarrow> decimal \<Rightarrow> string \<Rightarrow> transaction_type \<Rightarrow> metadata \<Rightarrow> instant \<Rightarrow> billing_db \<Rightarrow> reservation outcome" where
  "bill_operation a estimated_cost actual_cost request_id key pcost rtype ty md now db =
     (case reserve a estimated_cost request_id key rtype md 900 now db of
        (db1, Inl e) \<Rightarrow> (db1, Inl e)
      | (db1, Inr r) \<Rightarrow> settle (res_id r) actual_cost pcost md ty now db1)"

section \<open>Reconciliation\<close>

datatype mismatch = Reserved_Mismatch | Spent_Mismatch | Negative_Balance | Expired_Reservations

record reconciliation =
  rec_ok :: bool
  rec_wallet :: "uuid option"
  mismatches :: "mismatch list"
  rec_balances :: "(decimal \<times> decimal \<times> decimal) option"  \<comment> \<open>available, reserved, spent\<close>
  rec_expired :: nat

definition settled_spend :: "uuid \<Rightarrow> billing_db \<Rightarrow> decimal" where
  "settled_spend u db =
     sum_where (\<lambda>e. att_user (led_scope e) = u \<and> led_status e = Settled \<and>
        led_type e \<in> set SPENDING_TRANSACTION_TYPES) led_amount (ledger db)"

definition open_reserved :: "uuid \<Rightarrow> billing_db \<Rightarrow> decimal" where
  "open_reserved w db =
     sum_where (\<lambda>r. res_wallet r = w \<and> res_status r = Reserved) estimated_amount (reservations db)"

definition expired_count :: "uuid \<Rightarrow> instant \<Rightarrow> billing_db \<Rightarrow> nat" where
  "expired_count w now db = length (filter (\<lambda>r. res_wallet r = w \<and> res_status r = Reserved \<and> expires_at r \<le> now) (reservations db))"

definition wallet_mismatches :: "uuid \<Rightarrow> instant \<Rightarrow> wallet \<Rightarrow> billing_db \<Rightarrow> mismatch list" where
  "wallet_mismatches u now w db =
     (if money (reserved_balance w) \<noteq> money (open_reserved (wal_id w) db) then [Reserved_Mismatch] else []) @
     (if money (total_spent w) < money (settled_spend u db) then [Spent_Mismatch] else []) @
     (if balance w < 0 \<or> reserved_balance w < 0 then [Negative_Balance] else []) @
     (if expired_count (wal_id w) now db \<noteq> 0 then [Expired_Reservations] else [])"

definition reconcile_wallet :: "uuid \<Rightarrow> instant \<Rightarrow> billing_db \<Rightarrow> reconciliation" where
  "reconcile_wallet u now db =
     (case wallet_by_user u db of
        None \<Rightarrow> \<lparr>rec_ok = True, rec_wallet = None, mismatches = [], rec_balances = None, rec_expired = 0\<rparr>
      | Some w \<Rightarrow>
        (let ms = wallet_mismatches u now w db in
         \<lparr>rec_ok = (ms = []), rec_wallet = Some (wal_id w), mismatches = ms,
          rec_balances = Some (balance w, reserved_balance w, total_spent w),
          rec_expired = expired_count (wal_id w) now db\<rparr>))"

end
