(* ===== verification/Wallet_Service.thy ===== *)
theory Wallet_Service
  imports Metered_Billing
begin

text \<open>
  \<open>BillingService\<close> of \<open>app/services/billing.py\<close>: the wallet of a user, credits, debits and
  refunds, and the monthly budget with its warnings. Every \<open>commit\<close> of the code is where the
  model lets a state survive a later exception: \<open>get_wallet\<close> commits a new wallet, and
  \<open>NotificationService.create\<close> commits whatever the running transaction has done so far.
\<close>

section \<open>Wallets\<close>

text \<open>Both branches that catch \<open>IntegrityError\<close> (another request inserted the wallet
  first) return the row found, which is the first branch of the next call.\<close>

definition get_wallet :: "uuid \<Rightarrow> billing_db \<Rightarrow> billing_db \<times> wallet" where
  "get_wallet u db =
     (case wallet_by_user u db of
        Some w \<Rightarrow> (db, w)
      | None \<Rightarrow> insert_wallet (new_wallet u ''usd'') db)"

definition create_wallet :: "uuid \<Rightarrow> string \<Rightarrow> billing_db \<Rightarrow> billing_db \<times> wallet" where
  "create_wallet u currency db =
     (case wallet_by_user u db of
        Some w \<Rightarrow> (db, w)
      | None \<Rightarrow> insert_wallet (new_wallet u currency) db)"

text \<open>Python's truth value of an optional string.\<close>

definition truthy :: "string option \<Rightarrow> bool" where
  "truthy s = (s \<noteq> None \<and> s \<noteq> Some [])"

definition key_of :: "string \<Rightarrow> string option \<Rightarrow> wallet_transaction \<Rightarrow> string option" where
  "key_of pre ref t =
     Some (pre @ (case ref of Some (c # cs) \<Rightarrow> c # cs | _ \<Rightarrow> uuid_text (txn_id t)))"

text \<open>The replay check and the two guards that \<open>add_credit\<close> and \<open>deduct_credit\<close> share:
  \<open>Inr None\<close> lets the call go on.\<close>

definition replay_guard ::
  "wallet \<Rightarrow> string option \<Rightarrow> billing_db \<Rightarrow> billing_error + wallet_transaction option" where
  "replay_guard w ref db =
     (case (if truthy ref then get_by_reference (the ref) db else Inr None) of
        Inl e \<Rightarrow> Inl e
      | Inr (Some t) \<Rightarrow> Inr (Some t)
      | Inr None \<Rightarrow>
          if wal_status w \<noteq> ACTIVE then Inl (ValueError (''Wallet is '' @ wallet_status_text (wal_status w)))
          else if wallet_by_id db (wal_id w) = None then Inl (ValueError ''Wallet not found'')
          else Inr None)"

text \<open>The metadata is handed to the constructor as \<open>metadata\<close>, which on a declarative model is the
  attribute of the base class and not the mapped \<open>metadata_\<close> (\<open>_ledger\<close> renames it for that reason),
  so the column keeps its default, the empty object.\<close>

definition new_transaction ::
  "wallet \<Rightarrow> transaction_type \<Rightarrow> decimal \<Rightarrow> decimal \<Rightarrow> string \<Rightarrow> string option \<Rightarrow> metadata \<Rightarrow> instant \<Rightarrow> wallet_transaction" where
  "new_transaction w ty amt after reason ref md now =
     \<lparr>txn_id = 0, txn_wallet = wal_id w, txn_type = ty, txn_amount = amt,
      balance_before = balance w, balance_after = after, txn_reason = reason,
      txn_reference = ref, txn_metadata = [], txn_created_at = now\<rparr>"

definition user_scope :: "uuid \<Rightarrow> attribution" where
  "user_scope u = \<lparr>att_user = u, att_organization = None, att_project = None,
     att_runtime = None, att_api_key = None\<rparr>"

section \<open>Budgets\<close>

definition notify :: "uuid \<Rightarrow> budget_event \<Rightarrow> decimal \<Rightarrow> billing_db \<Rightarrow> billing_db" where
  "notify u ev l db = db\<lparr>outbox := outbox db @ [(u, ev, l)]\<rparr>"

definition check_budget :: "uuid \<Rightarrow> decimal \<Rightarrow> billing_db \<Rightarrow> billing_db \<times> bool" where
  "check_budget u estimated_cost db =
     (case budget_by_user db u of
        None \<Rightarrow> (db, True)
      | Some b \<Rightarrow>
        (case monthly_limit b of
           None \<Rightarrow> (db, True)
         | Some l \<Rightarrow>
           (let projected = current_spend b + estimated_cost in
            if l \<le> projected then
              ((if \<not> limit_reached b then notify u Limit_Reached l (save_budget (b\<lparr>limit_reached := True\<rparr>) db) else db), False)
            else
             (let w90 = (l * (9/10) \<le> projected \<and> \<not> warning_90_sent b);
                  b1 = (if w90 then b\<lparr>warning_90_sent := True\<rparr> else b);
                  db1 = (if w90 then notify u Warning_90 l (save_budget b1 db) else db);
                  w80 = (l * (8/10) \<le> projected \<and> \<not> warning_80_sent b1);
                  b2 = b1\<lparr>warning_80_sent := True\<rparr>
              in ((if w80 then notify u Warning_80 l (save_budget b2 db1) else db1), True)))))"

text \<open>\<open>_update_budget_spend\<close>; the flag says whether a notification was sent, and with it
  the running transaction committed.\<close>

definition update_budget_spend :: "uuid \<Rightarrow> decimal \<Rightarrow> billing_db \<Rightarrow> billing_db \<times> bool" where
  "update_budget_spend u amt db =
     (case budget_by_user db u of
        None \<Rightarrow> (db, False)
      | Some b \<Rightarrow>
        (case monthly_limit b of
           None \<Rightarrow> (db, False)
         | Some l \<Rightarrow>
           (let new_spend = current_spend b + amt; b1 = b\<lparr>current_spend := new_spend\<rparr>;
                db1 = save_budget b1 db in
            if l \<le> new_spend \<and> \<not> limit_reached b then
              (notify u Limit_Reached l (save_budget (b1\<lparr>limit_reached := True\<rparr>) db1), True)
            else if l * (9/10) \<le> new_spend \<and> \<not> warning_90_sent b then
              (notify u Warning_90 l (save_budget (b1\<lparr>warning_90_sent := True\<rparr>) db1), True)
            else if l * (8/10) \<le> new_spend \<and> \<not> warning_80_sent b then
              (notify u Warning_80 l (save_budget (b1\<lparr>warning_80_sent := True\<rparr>) db1), True)
            else (db1, False))))"

text \<open>\<open>if budget and budget.limit_reached and balance_after > 0\<close> of credits and refunds.\<close>

definition reopen_budget :: "uuid \<Rightarrow> decimal \<Rightarrow> (budget \<Rightarrow> decimal) \<Rightarrow> billing_db \<Rightarrow> billing_db" where
  "reopen_budget u after spend db =
     (case budget_by_user db u of
        None \<Rightarrow> db
      | Some b \<Rightarrow>
          if limit_reached b \<and> 0 < after
          then save_budget (b\<lparr>limit_reached := False, current_spend := spend b\<rparr>) db else db)"

definition check_auto_top_up :: "uuid \<Rightarrow> billing_db \<Rightarrow> billing_db \<times> bool" where
  "check_auto_top_up u db =
     (case budget_by_user db u of
        None \<Rightarrow> (db, False)
      | Some b \<Rightarrow>
        (case (auto_top_up_threshold b, auto_top_up_amount b) of
           (Some threshold, Some top_up) \<Rightarrow>
             if \<not> auto_top_up_enabled b \<or> threshold = 0 \<or> top_up = 0 then (db, False)
             else (let (db1, w) = get_wallet u db in (db1, balance w < threshold))
         | _ \<Rightarrow> (db, False)))"

section \<open>Credits, debits and refunds\<close>

definition add_credit ::
  "uuid \<Rightarrow> decimal \<Rightarrow> string \<Rightarrow> string option \<Rightarrow> metadata \<Rightarrow> instant \<Rightarrow> billing_db \<Rightarrow> wallet_transaction outcome" where
  "add_credit u amt reason ref md now db =
     (if amt \<le> 0 then (db, Inl (ValueError ''Credit amount must be positive''))
      else (let (db0, w) = get_wallet u db in
       case replay_guard w ref db0 of
         Inl e \<Rightarrow> (db0, Inl e)
       | Inr (Some t) \<Rightarrow> (db0, Inr t)
       | Inr None \<Rightarrow>
         (let after = balance w + amt;
              (db1, t) = insert_transaction (new_transaction w CREDIT amt after reason ref md now) db0;
              db2 = save_wallet (w\<lparr>balance := after, total_topups := total_topups w + amt\<rparr>) db1;
              db3 = reopen_budget u after (\<lambda>_. 0) db2
          in case insert_ledger (ledger_row TOPUP (user_scope u) None (key_of ''topup:'' ref t)
                    ''wallet_topup'' ref amt (wal_currency w) 0 0 Settled md now) db3 of
               None \<Rightarrow> (db0, Inl IntegrityError)
             | Some db4 \<Rightarrow> (db4, Inr t))))"

definition deduct_credit ::
  "uuid \<Rightarrow> decimal \<Rightarrow> string \<Rightarrow> string option \<Rightarrow> metadata \<Rightarrow> instant \<Rightarrow> billing_db \<Rightarrow> wallet_transaction outcome" where
  "deduct_credit u amt reason ref md now db =
     (if amt \<le> 0 then (db, Inl (ValueError ''Deduction amount must be positive''))
      else (let (db0, w) = get_wallet u db in
       case replay_guard w ref db0 of
         Inl e \<Rightarrow> (db0, Inl e)
       | Inr (Some t) \<Rightarrow> (db0, Inr t)
       | Inr None \<Rightarrow>
         if balance w < amt then (db0, Inl (InsufficientCredits amt (balance w)))
         else
         (let after = balance w - amt;
              (db1, t) = insert_transaction (new_transaction w DEBIT amt after reason ref md now) db0;
              db2 = save_wallet (w\<lparr>balance := after, total_spent := total_spent w + amt\<rparr>) db1;
              (db3, committed) = update_budget_spend u amt db2
          in case insert_ledger (ledger_row AI_INFERENCE (user_scope u) ref (key_of ''debit:'' ref t)
                    ''metered_operation'' ref amt (wal_currency w) 0 0 Settled md now) db3 of
               None \<Rightarrow> ((if committed then db3 else db0), Inl IntegrityError)
             | Some db4 \<Rightarrow> (db4, Inr t))))"

definition already_refunded :: "uuid \<Rightarrow> billing_db \<Rightarrow> bool" where
  "already_refunded i db =
     list_ex (\<lambda>e. led_type e = REVERSAL \<and> led_resource_id e = Some (uuid_text i) \<and> led_status e = Settled) (ledger db)"

definition refund_transaction ::
  "uuid \<Rightarrow> uuid \<Rightarrow> string \<Rightarrow> instant \<Rightarrow> billing_db \<Rightarrow> wallet_transaction outcome" where
  "refund_transaction u transaction_id reason now db =
     (case transaction_by_id transaction_id db of
        None \<Rightarrow> (db, Inl (ValueError ''Transaction not found''))
      | Some original \<Rightarrow>
        if txn_type original \<noteq> DEBIT then (db, Inl (ValueError ''Only debit transactions can be refunded''))
        else if already_refunded (txn_id original) db
        then (db, Inl (ValueError ''Transaction has already been refunded''))
        else case wallet_by_user u db of
          None \<Rightarrow> (db, Inl (ValueError ''Wallet mismatch''))
        | Some w \<Rightarrow>
          if wal_id w \<noteq> txn_wallet original then (db, Inl (ValueError ''Wallet mismatch''))
          else
          (let amt = txn_amount original; after = balance w + amt; oid = uuid_text (txn_id original);
               md = [(''original_transaction_id'', oid)];
               (db1, t) = insert_transaction (new_transaction w REFUND amt after reason (Some oid) md now) db;
               db2 = save_wallet (w\<lparr>balance := after, total_spent := max 0 (total_spent w - amt)\<rparr>) db1;
               db3 = reopen_budget u after (\<lambda>b. max 0 (current_spend b - amt)) db2
           in case insert_ledger (ledger_row REVERSAL (user_scope u) None (Some (''refund:'' @ oid))
                     ''refund'' (Some oid) amt (wal_currency w) 0 0 Settled (md @ [(''reason'', reason)]) now) db3 of
                None \<Rightarrow> (db, Inl IntegrityError)
              | Some db4 \<Rightarrow> (db4, Inr t)))"

section \<open>Budget settings\<close>

record budget_create =
  bc_monthly_limit :: decimal
  bc_enabled :: bool
  bc_threshold :: "decimal option"
  bc_amount :: "decimal option"

record budget_update =
  bu_monthly_limit :: "decimal option"
  bu_enabled :: "bool option"
  bu_threshold :: "decimal option"
  bu_amount :: "decimal option"

definition create_or_update_budget :: "uuid \<Rightarrow> budget_create \<Rightarrow> billing_db \<Rightarrow> billing_db \<times> budget" where
  "create_or_update_budget u body db =
     (case budget_by_user db u of
        Some b \<Rightarrow>
          (let b' = b\<lparr>monthly_limit := Some (bc_monthly_limit body), auto_top_up_enabled := bc_enabled body,
                      auto_top_up_threshold := bc_threshold body, auto_top_up_amount := bc_amount body\<rparr>
           in (save_budget b' db, b'))
      | None \<Rightarrow>
          (let b = \<lparr>bud_user = u, monthly_limit = Some (bc_monthly_limit body), current_spend = 0,
                    warning_80_sent = False, warning_90_sent = False, limit_reached = False,
                    auto_top_up_enabled = bc_enabled body, auto_top_up_threshold = bc_threshold body,
                    auto_top_up_amount = bc_amount body\<rparr>
           in (db\<lparr>budgets := budgets db @ [b]\<rparr>, b)))"

text \<open>\<open>body.model_dump(exclude_none=True)\<close>: fields left at \<open>None\<close> are not written.\<close>

definition update_budget :: "uuid \<Rightarrow> budget_update \<Rightarrow> billing_db \<Rightarrow> billing_db \<times> budget option" where
  "update_budget u body db =
     (case budget_by_user db u of
        None \<Rightarrow> (db, None)
      | Some b \<Rightarrow>
          (let keep = (\<lambda>new old. case new of None \<Rightarrow> old | Some x \<Rightarrow> Some x);
               b' = b\<lparr>monthly_limit := keep (bu_monthly_limit body) (monthly_limit b),
                      auto_top_up_enabled := (case bu_enabled body of None \<Rightarrow> auto_top_up_enabled b | Some x \<Rightarrow> x),
                      auto_top_up_threshold := keep (bu_threshold body) (auto_top_up_threshold b),
                      auto_top_up_amount := keep (bu_amount body) (auto_top_up_amount b)\<rparr>
           in (save_budget b' db, Some b')))"

text \<open>\<open>app/tasks/billing.py\<close>, \<open>reset_monthly_budgets\<close>.\<close>

definition reset_monthly_budgets :: "billing_db \<Rightarrow> billing_db" where
  "reset_monthly_budgets db =
     db\<lparr>budgets := map (\<lambda>b. if monthly_limit b \<noteq> None
          then b\<lparr>current_spend := 0, warning_80_sent := False, warning_90_sent := False, limit_reached := False\<rparr>
          else b) (budgets db)\<rparr>"

end
