(* ===== verification/Metered_Laws.thy ===== *)
theory Metered_Laws
  imports Metered_Billing
begin

text \<open>
  What a call of the metered service does, one lemma per branch: a failed call changes
  nothing, a repeated call returns the stored row, and a successful reserve, settle or
  release changes exactly one wallet, one reservation and appends to the ledger.
\<close>

named_theorems metered_effects \<open>what successful calls of the metered service change\<close>

lemmas outcome_splits = option.splits sum.splits prod.splits if_splits

section \<open>Failed calls change nothing\<close>

lemma reserve_error: "reserve a x rq k rt md ttl now db = (db', Inl e) \<Longrightarrow> db' = db"
  unfolding reserve_def Let_def by (simp split: outcome_splits)

lemma settle_error: "settle i x pc md ty now db = (db', Inl e) \<Longrightarrow> db' = db"
  unfolding settle_def Let_def by (simp split: outcome_splits)

lemma release_error: "release i why now db = (db', Inl e) \<Longrightarrow> db' = db"
  unfolding release_def Let_def by (simp split: outcome_splits)

section \<open>Reserve\<close>

lemma wallet_for_update_cases:
  assumes "wallet_for_update u db = (db1, w)"
  obtains "wallet_by_user u db = Some w" "db1 = db"
  | "wallet_by_user u db = None" "w = (new_wallet u ''usd'')\<lparr>wal_id := next_id db\<rparr>"
    "db1 = db\<lparr>wallets := wallets db @ [w], next_id := Suc (next_id db)\<rparr>"
  using assms by (auto simp: wallet_for_update_def insert_wallet_def Let_def split: option.splits)

lemma reserve_replay:
  assumes "0 < money x" and "reservation_by_key k db = Some r"
  shows "reserve a x rq k rt md ttl now db = (db, Inr r)"
  using assms by (simp add: reserve_def)

lemma reserve_new:
  assumes "reserve a x rq k rt md ttl now db = (db', Inr r)" and "reservation_by_key k db = None"
  obtains db1 w where "0 < money x" "check db (money x) a now None = None"
    "wallet_for_update (att_user a) db = (db1, w)" "wal_status w = ACTIVE" "money x \<le> balance w"
    "r = new_reservation w a rq k (money x) rt md ttl now (next_id db1)"
    "wallets db' = put_row wal_id (w\<lparr>balance := balance w - money x,
       reserved_balance := reserved_balance w + money x\<rparr>) (wallets db1)"
    "reservations db' = reservations db1 @ [r]"
    "wallet_transactions db' = wallet_transactions db1" "spending_limits db' = spending_limits db1"
    "next_id db' = Suc (Suc (next_id db1))"
    "ledger db' = ledger db1 @ [(ledger_row RESERVATION a (Some rq) (Some (k @ '':reservation''))
       rt (Some (uuid_text (res_id r))) (money x) (wal_currency w) 0 0 Reserved md now)\<lparr>led_id := Suc (next_id db1)\<rparr>]"
proof -
  obtain db1 w where w: "wallet_for_update (att_user a) db = (db1, w)" by fastforce
  show ?thesis
    by (rule that [of db1 w])
      (use assms w in \<open>auto simp: reserve_def Let_def split: outcome_splits dest: insert_ledger_frames\<close>)
qed

section \<open>Settle\<close>

lemma settle_closed:
  assumes "reservation_by_id db i = Some r" and "res_status r \<noteq> Reserved"
  shows "settle i x pc md ty now db = (db, Inr r)"
  using assms by (simp add: settle_def)

lemma reserve_additional_cases:
  assumes "reserve_additional r w actual now db = Inr (r1, w1)"
  shows "r1 = r\<lparr>estimated_amount := max (estimated_amount r) actual\<rparr> \<and>
    w1 = w\<lparr>balance := balance w - max 0 (actual - estimated_amount r),
           reserved_balance := reserved_balance w + max 0 (actual - estimated_amount r)\<rparr> \<and>
    max 0 (actual - estimated_amount r) \<le> max 0 (balance w) \<and>
    (estimated_amount r < actual \<longrightarrow> check db (actual - estimated_amount r) (res_scope r) now (Some (res_id r)) = None \<and>
       actual - estimated_amount r \<le> balance w)"
  using assms unfolding reserve_additional_def Let_def
  by (cases "estimated_amount r < actual") (auto split: option.splits if_splits)

lemma settle_budget_frames [simp]:
  "wallets (settle_budget u x db) = wallets db" "reservations (settle_budget u x db) = reservations db"
  "ledger (settle_budget u x db) = ledger db" "next_id (settle_budget u x db) = next_id db"
  "wallet_transactions (settle_budget u x db) = wallet_transactions db"
  "spending_limits (settle_budget u x db) = spending_limits db"
  by (auto simp: settle_budget_def Let_def split: option.splits)

text \<open>The row and the wallet a successful settle leaves.\<close>

definition settled_row :: "reservation \<Rightarrow> decimal \<Rightarrow> reservation" where
  "settled_row r actual = r\<lparr>estimated_amount := max (estimated_amount r) actual, settled_amount := Some actual,
     released_amount := max (estimated_amount r) actual - actual, res_status := Settled\<rparr>"

definition settled_wallet :: "reservation \<Rightarrow> decimal \<Rightarrow> wallet \<Rightarrow> wallet" where
  "settled_wallet r actual w = w\<lparr>balance := balance w + estimated_amount r - actual,
     reserved_balance := reserved_balance w - estimated_amount r, total_spent := total_spent w + actual\<rparr>"

definition settled_entry :: "reservation \<Rightarrow> wallet \<Rightarrow> decimal \<Rightarrow> decimal \<Rightarrow> transaction_type \<Rightarrow> metadata \<Rightarrow> instant \<Rightarrow> ledger_entry" where
  "settled_entry r w actual pc ty md now =
     ledger_row ty (res_scope r) (Some (res_request r)) (Some (res_key r @ '':settled''))
       (res_resource_type r) (Some (uuid_text (res_id r))) actual (wal_currency w)
       (money pc) (money (actual - pc)) Settled md now"

lemma settle_open:
  assumes "settle i x pc md ty now db = (db', Inr r')"
    and "reservation_by_id db i = Some r" and "res_status r = Reserved"
  obtains w rest where "wallet_by_id db (res_wallet r) = Some w" "0 \<le> money x"
    "max 0 (money x - estimated_amount r) \<le> max 0 (balance w)"
    "estimated_amount r < money x \<Longrightarrow>
       check db (money x - estimated_amount r) (res_scope r) now (Some (res_id r)) = None"
    "r' = settled_row r (money x)"
    "wallets db' = put_row wal_id (settled_wallet r (money x) w) (wallets db)"
    "reservations db' = put_row res_id r' (reservations db)"
    "wallet_transactions db' = wallet_transactions db" "spending_limits db' = spending_limits db"
    "next_id db \<le> next_id db'"
    "ledger db' = ledger db @ (settled_entry r w (money x) pc ty md now)\<lparr>led_id := next_id db\<rparr> # rest"
    "\<forall>e \<in> set rest. led_status e = Released"
proof -
  let ?a = "money x"
  obtain w where w: "wallet_by_id db (res_wallet r) = Some w" and a0: "0 \<le> ?a"
    using assms by (auto simp: settle_def Let_def not_less split: outcome_splits)
  obtain r1 w1 where rw: "reserve_additional r w ?a now db = Inr (r1, w1)"
    using assms w by (auto simp: settle_def Let_def split: outcome_splits)
  note add = reserve_additional_cases [OF rw]
  define freed where "freed = estimated_amount r1 - ?a"
  define w2 where "w2 = w1\<lparr>reserved_balance := reserved_balance w1 - estimated_amount r1,
    balance := balance w1 + freed, total_spent := total_spent w1 + ?a\<rparr>"
  define r2 where "r2 = r1\<lparr>settled_amount := Some ?a, released_amount := freed, res_status := Settled\<rparr>"
  define db1 where "db1 = save_reservation r2 (settle_budget (att_user (res_scope r)) ?a (save_wallet w2 db))"
  have r2: "r2 = settled_row r ?a" and w2: "w2 = settled_wallet r ?a w"
    using add by (auto simp: r2_def w2_def settled_row_def settled_wallet_def freed_def max_def)
  obtain db2 where db2: "insert_ledger (settled_entry r w ?a pc ty md now) db1 = Some db2"
    and fin: "r' = r2" "db' = db2 \<or> (\<exists>cur. insert_ledger (release_row r2 freed cur [] now) db2 = Some db')"
    using assms w a0 rw add
    by (auto simp: settle_def Let_def not_less r2_def w2_def db1_def freed_def settled_entry_def
        split: outcome_splits)
  note F2 = insert_ledger_frames [OF db2]
  have D1: "wallets db1 = put_row wal_id w2 (wallets db)" "reservations db1 = put_row res_id r2 (reservations db)"
    "ledger db1 = ledger db" "next_id db1 = next_id db"
    "wallet_transactions db1 = wallet_transactions db" "spending_limits db1 = spending_limits db"
    by (simp_all add: db1_def)
  consider "db' = db2" | cur where "insert_ledger (release_row r2 freed cur [] now) db2 = Some db'"
    using fin(2) by blast
  then show ?thesis
  proof cases
    case 1
    then show ?thesis
      by (intro that [of w "[]"]) (use w a0 add fin(1) r2 w2 D1 F2 in auto)
  next
    case (2 cur)
    note F3 = insert_ledger_frames [OF 2]
    show ?thesis
      by (rule that [of w "[(release_row r2 freed cur [] now)\<lparr>led_id := next_id db2\<rparr>]"])
        (use w a0 add fin(1) r2 w2 D1 F2 F3 in \<open>auto simp: release_row_def ledger_row_def\<close>)
  qed
qed

section \<open>Release\<close>

lemma release_closed:
  assumes "reservation_by_id db i = Some r" and "res_status r \<noteq> Reserved"
  shows "release i why now db = (db, Inr r)"
  using assms by (simp add: release_def)

definition released_row :: "reservation \<Rightarrow> reservation" where
  "released_row r = r\<lparr>released_amount := estimated_amount r, res_status := Released\<rparr>"

definition released_wallet :: "reservation \<Rightarrow> wallet \<Rightarrow> wallet" where
  "released_wallet r w = w\<lparr>reserved_balance := reserved_balance w - estimated_amount r,
     balance := balance w + estimated_amount r\<rparr>"

lemma release_open:
  assumes "release i why now db = (db', Inr r')"
    and "reservation_by_id db i = Some r" and "res_status r = Reserved"
  obtains w e where "wallet_by_id db (res_wallet r) = Some w" "r' = released_row r"
    "wallets db' = put_row wal_id (released_wallet r w) (wallets db)"
    "reservations db' = put_row res_id r' (reservations db)"
    "wallet_transactions db' = wallet_transactions db" "spending_limits db' = spending_limits db"
    "next_id db' = Suc (next_id db)" "ledger db' = ledger db @ [e]" "led_status e = Released"
proof -
  obtain w where w: "wallet_by_id db (res_wallet r) = Some w"
    using assms by (auto simp: release_def Let_def split: outcome_splits)
  define r2 where "r2 = released_row r"
  define db1 where "db1 = save_reservation r2 (save_wallet (released_wallet r w) db)"
  define e0 where "e0 = release_row r2 (estimated_amount r) (wal_currency w) [(''reason'', why)] now"
  have "insert_ledger e0 db1 = Some db' \<and> r' = r2"
    using assms w unfolding release_def e0_def db1_def r2_def released_row_def released_wallet_def Let_def
    by (simp split: outcome_splits)
  then have e0: "insert_ledger e0 db1 = Some db'" "led_status e0 = Released" "r' = r2"
    by (simp_all add: e0_def release_row_def ledger_row_def)
  note F = insert_ledger_frames [OF e0(1)]
  have D1: "wallets db1 = put_row wal_id (released_wallet r w) (wallets db)"
    "reservations db1 = put_row res_id r2 (reservations db)"
    "ledger db1 = ledger db" "next_id db1 = next_id db"
    "wallet_transactions db1 = wallet_transactions db" "spending_limits db1 = spending_limits db"
    by (simp_all add: db1_def)
  show ?thesis
    by (rule that [of w "e0\<lparr>led_id := next_id db1\<rparr>"]) (use w e0 D1 F r2_def in auto)
qed

end
