(* ===== verification/Wallet_Laws.thy ===== *)
theory Wallet_Laws
  imports Wallet_Service Metered_Laws
begin

text \<open>
  What credits, debits and refunds of \<open>BillingService\<close> change. The three successful calls
  have one shape, \<open>posting\<close>: one wallet row is rewritten, one transaction with a fresh id is
  appended and the ledger only grows.
\<close>

definition posting :: "billing_db \<Rightarrow> wallet \<Rightarrow> wallet_transaction \<Rightarrow> billing_db \<Rightarrow> bool" where
  "posting db w' t db' =
     (wallets db' = put_row wal_id w' (wallets db) \<and>
      wallet_transactions db' = wallet_transactions db @ [t] \<and> txn_id t = next_id db \<and>
      txn_wallet t = wal_id w' \<and> reservations db' = reservations db \<and>
      spending_limits db' = spending_limits db \<and>
      next_id db < next_id db' \<and> (\<exists>es. ledger db' = ledger db @ es) \<and>
      (\<forall>v. settled_spend v db' \<le> settled_spend v db +
         (if v = wal_user w' \<and> txn_type t = DEBIT then txn_amount t else 0)))"

lemma settled_spend_append:
  "ledger db' = ledger db @ [e] \<Longrightarrow> settled_spend v db' = settled_spend v db +
     (if att_user (led_scope e) = v \<and> led_status e = Settled \<and> led_type e \<in> set SPENDING_TRANSACTION_TYPES
      then led_amount e else 0)"
  by (simp add: settled_spend_def)

lemma get_wallet_owner: "get_wallet u db = (db0, w) \<Longrightarrow> wal_user w = u"
  by (auto simp: get_wallet_def insert_wallet_def new_wallet_def wallet_by_user_def Let_def
      dest: row_by_SomeD split: option.splits)

lemma get_wallet_cases:
  assumes "get_wallet u db = (db0, w)"
  obtains "wallet_by_user u db = Some w" "db0 = db"
  | "wallet_by_user u db = None" "w = (new_wallet u ''usd'')\<lparr>wal_id := next_id db\<rparr>"
    "db0 = db\<lparr>wallets := wallets db @ [w], next_id := Suc (next_id db)\<rparr>"
  using assms by (auto simp: get_wallet_def insert_wallet_def Let_def split: option.splits)

lemma get_wallet_user: "get_wallet u db = (db0, w) \<Longrightarrow> wallet_by_user u db0 = Some w"
proof (erule get_wallet_cases)
  assume "wallet_by_user u db = None" "w = (new_wallet u ''usd'')\<lparr>wal_id := next_id db\<rparr>"
    "db0 = db\<lparr>wallets := wallets db @ [w], next_id := Suc (next_id db)\<rparr>"
  then show "wallet_by_user u db0 = Some w"
    by (simp add: wallet_by_user_def row_by_append new_wallet_def)
qed simp

lemma budget_helper_frames [simp]:
  "wallets (reopen_budget u a f db) = wallets db" "reservations (reopen_budget u a f db) = reservations db"
  "ledger (reopen_budget u a f db) = ledger db" "next_id (reopen_budget u a f db) = next_id db"
  "wallet_transactions (reopen_budget u a f db) = wallet_transactions db"
  "spending_limits (reopen_budget u a f db) = spending_limits db"
  "wallets (notify u ev l db) = wallets db" "reservations (notify u ev l db) = reservations db"
  "ledger (notify u ev l db) = ledger db" "next_id (notify u ev l db) = next_id db"
  "wallet_transactions (notify u ev l db) = wallet_transactions db"
  "spending_limits (notify u ev l db) = spending_limits db" "budgets (notify u ev l db) = budgets db"
  by (auto simp: reopen_budget_def notify_def split: option.splits)

lemma update_budget_spend_frames:
  assumes "update_budget_spend u x db = (db', c)"
  shows "wallets db' = wallets db" "reservations db' = reservations db" "ledger db' = ledger db"
    "next_id db' = next_id db" "wallet_transactions db' = wallet_transactions db"
    "spending_limits db' = spending_limits db"
  using assms by (auto simp: update_budget_spend_def Let_def split: option.splits if_splits)

lemma check_budget_frames [simp]:
  "wallets (fst (check_budget u x db)) = wallets db"
  "reservations (fst (check_budget u x db)) = reservations db"
  "ledger (fst (check_budget u x db)) = ledger db"
  "next_id (fst (check_budget u x db)) = next_id db"
  "wallet_transactions (fst (check_budget u x db)) = wallet_transactions db"
  by (simp_all add: check_budget_def Let_def split: option.split)

section \<open>The guards\<close>

lemma replay_guard_go:
  "replay_guard w ref db = Inr None \<Longrightarrow> wal_status w = ACTIVE \<and> wallet_by_id db (wal_id w) \<noteq> None \<and>
     (truthy ref \<longrightarrow> get_by_reference (the ref) db = Inr None)"
  by (auto simp: replay_guard_def split: sum.splits option.splits if_splits)

section \<open>Credit\<close>

lemma add_credit_cases:
  assumes "add_credit u amt reason ref md now db = (db', res)"
  obtains "db' = db" "amt \<le> 0"
  | w where "get_wallet u db = (db', w)" "0 < amt"
  | db0 w t where "get_wallet u db = (db0, w)" "0 < amt" "replay_guard w ref db0 = Inr None"
    "posting db0 (w\<lparr>balance := balance w + amt, total_topups := total_topups w + amt\<rparr>) t db'"
    "t = (new_transaction w CREDIT amt (balance w + amt) reason ref md now)\<lparr>txn_id := next_id db0\<rparr>"
    "res = Inr t"
proof (cases "amt \<le> 0")
  case True
  with assms show ?thesis by (intro that(1)) (auto simp: add_credit_def)
next
  case False
  obtain db0 w where g: "get_wallet u db = (db0, w)" by fastforce
  show ?thesis
  proof (cases "replay_guard w ref db0 = Inr None \<and> db' \<noteq> db0")
    case True
    define t where "t = (new_transaction w CREDIT amt (balance w + amt) reason ref md now)\<lparr>txn_id := next_id db0\<rparr>"
    define db3 where "db3 = reopen_budget u (balance w + amt) (\<lambda>_. 0)
      (save_wallet (w\<lparr>balance := balance w + amt, total_topups := total_topups w + amt\<rparr>)
        (db0\<lparr>wallet_transactions := wallet_transactions db0 @ [t], next_id := Suc (next_id db0)\<rparr>))"
    define e where "e = ledger_row TOPUP (user_scope u) None (key_of ''topup:'' ref t)
                    ''wallet_topup'' ref amt (wal_currency w) 0 0 Settled md now"
    have ins: "insert_ledger e db3 = Some db'" "res = Inr t"
      using assms g True False
      by (auto simp: add_credit_def insert_transaction_def Let_def db3_def t_def e_def split: option.splits)
    note F = insert_ledger_frames [OF ins(1)]
    have "settled_spend v db' = settled_spend v db0" for v
      using settled_spend_append [OF F(7)]
      by (simp add: e_def ledger_row_def SPENDING_TRANSACTION_TYPES_def) (simp add: settled_spend_def db3_def)
    then show ?thesis
      by (intro that(3) [OF g]) (use False True F ins(2) t_def in \<open>auto simp: posting_def db3_def new_transaction_def\<close>)
  next
    case otherwise: False
    have "db' = db0"
      using assms g False otherwise
      by (auto simp: add_credit_def split: sum.splits option.splits)
    with g False show ?thesis by (intro that(2)) auto
  qed
qed

section \<open>Debit\<close>

lemma deduct_credit_cases:
  assumes "deduct_credit u amt reason ref md now db = (db', res)"
  obtains "db' = db" "amt \<le> 0"
  | w where "get_wallet u db = (db', w)" "0 < amt"
  | db0 w t where "get_wallet u db = (db0, w)" "0 < amt" "amt \<le> balance w" "replay_guard w ref db0 = Inr None"
    "posting db0 (w\<lparr>balance := balance w - amt, total_spent := total_spent w + amt\<rparr>) t db'"
    "t = (new_transaction w DEBIT amt (balance w - amt) reason ref md now)\<lparr>txn_id := next_id db0\<rparr>"
    "res = Inr t \<or> res = Inl IntegrityError"
proof (cases "amt \<le> 0")
  case True
  with assms show ?thesis by (intro that(1)) (auto simp: deduct_credit_def)
next
  case False
  obtain db0 w where g: "get_wallet u db = (db0, w)" by fastforce
  show ?thesis
  proof (cases "replay_guard w ref db0 = Inr None \<and> amt \<le> balance w \<and> db' \<noteq> db0")
    case True
    define t where "t = (new_transaction w DEBIT amt (balance w - amt) reason ref md now)\<lparr>txn_id := next_id db0\<rparr>"
    define db2 where "db2 = save_wallet (w\<lparr>balance := balance w - amt, total_spent := total_spent w + amt\<rparr>)
        (db0\<lparr>wallet_transactions := wallet_transactions db0 @ [t], next_id := Suc (next_id db0)\<rparr>)"
    obtain db3 c where b: "update_budget_spend u amt db2 = (db3, c)" by fastforce
    define e where "e = ledger_row AI_INFERENCE (user_scope u) ref (key_of ''debit:'' ref t)
                    ''metered_operation'' ref amt (wal_currency w) 0 0 Settled md now"
    have fin: "(insert_ledger e db3 = Some db' \<and> res = Inr t) \<or> (db' = db3 \<and> res = Inl IntegrityError)"
      using assms g True False b
      by (auto simp: deduct_credit_def insert_transaction_def Let_def db2_def t_def e_def split: option.splits if_splits)
    note B = update_budget_spend_frames [OF b]
    have "posting db0 (w\<lparr>balance := balance w - amt, total_spent := total_spent w + amt\<rparr>) t db'"
    proof -
      have spend: "\<forall>v. settled_spend v db' \<le> settled_spend v db0 + (if v = u then amt else 0)"
      proof (intro allI)
        fix v
        show "settled_spend v db' \<le> settled_spend v db0 + (if v = u then amt else 0)"
        proof (cases "db' = db3")
          case True
          then show ?thesis using B(3) False by (simp add: settled_spend_def db2_def)
        next
          case other: False
          with fin have ins: "insert_ledger e db3 = Some db'" by simp
          show ?thesis
            using settled_spend_append [OF insert_ledger_frames(7) [OF ins]] B(3) False
            by (simp add: e_def ledger_row_def user_scope_def) (simp add: settled_spend_def db2_def)
        qed
      qed
      have "wallets db' = put_row wal_id (w\<lparr>balance := balance w - amt, total_spent := total_spent w + amt\<rparr>) (wallets db0) \<and>
        wallet_transactions db' = wallet_transactions db0 @ [t] \<and> reservations db' = reservations db0 \<and>
        spending_limits db' = spending_limits db0 \<and> next_id db0 < next_id db' \<and> (\<exists>es. ledger db' = ledger db0 @ es)"
        using fin B by (auto simp: db2_def dest: insert_ledger_frames)
      then show ?thesis
        using spend get_wallet_owner [OF g] by (simp add: posting_def t_def new_transaction_def split del: if_split cong: if_cong)
    qed
    with g False True fin show ?thesis by (intro that(3)) (auto simp: t_def)
  next
    case otherwise: False
    have "db' = db0"
      using assms g False otherwise
      by (auto simp: deduct_credit_def not_le split: sum.splits option.splits if_splits)
    with g False show ?thesis by (intro that(2)) auto
  qed
qed

section \<open>Refund\<close>

lemma refund_cases:
  assumes "refund_transaction u tid reason now db = (db', res)"
  obtains "db' = db" "\<exists>e. res = Inl e"
  | orig w t where "transaction_by_id tid db = Some orig" "txn_type orig = DEBIT"
    "\<not> already_refunded (txn_id orig) db" "wallet_by_user u db = Some w" "wal_id w = txn_wallet orig"
    "posting db (w\<lparr>balance := balance w + txn_amount orig,
        total_spent := max 0 (total_spent w - txn_amount orig)\<rparr>) t db'"
    "txn_type t = REFUND" "res = Inr t" "already_refunded (txn_id orig) db'"
proof (cases "db' = db \<and> (\<exists>e. res = Inl e)")
  case True
  then show ?thesis by (intro that(1)) auto
next
  case False
  obtain orig w where ow: "transaction_by_id tid db = Some orig" "txn_type orig = DEBIT"
    "\<not> already_refunded (txn_id orig) db" "wallet_by_user u db = Some w" "wal_id w = txn_wallet orig"
    using assms False by (auto simp: refund_transaction_def split: option.splits if_splits)
  define t where "t = (new_transaction w REFUND (txn_amount orig) (balance w + txn_amount orig) reason
    (Some (uuid_text (txn_id orig))) [(''original_transaction_id'', uuid_text (txn_id orig))] now)\<lparr>txn_id := next_id db\<rparr>"
  define db3 where "db3 = reopen_budget u (balance w + txn_amount orig) (\<lambda>b. max 0 (current_spend b - txn_amount orig))
    (save_wallet (w\<lparr>balance := balance w + txn_amount orig, total_spent := max 0 (total_spent w - txn_amount orig)\<rparr>)
      (db\<lparr>wallet_transactions := wallet_transactions db @ [t], next_id := Suc (next_id db)\<rparr>))"
  define e where "e = ledger_row REVERSAL (user_scope u) None (Some (''refund:'' @ uuid_text (txn_id orig)))
    ''refund'' (Some (uuid_text (txn_id orig))) (txn_amount orig) (wal_currency w) 0 0 Settled
    ([(''original_transaction_id'', uuid_text (txn_id orig))] @ [(''reason'', reason)]) now"
  have fin: "insert_ledger e db3 = Some db'" "res = Inr t"
    using assms False ow
    by (auto simp: refund_transaction_def insert_transaction_def Let_def db3_def t_def e_def split: option.splits)
  note F = insert_ledger_frames [OF fin(1)]
  have "already_refunded (txn_id orig) db'"
    using F by (simp add: already_refunded_def e_def ledger_row_def)
  moreover have "posting db (w\<lparr>balance := balance w + txn_amount orig,
        total_spent := max 0 (total_spent w - txn_amount orig)\<rparr>) t db'"
  proof -
    have "settled_spend v db' = settled_spend v db" for v
      using settled_spend_append [OF F(7)]
      by (simp add: e_def ledger_row_def SPENDING_TRANSACTION_TYPES_def) (simp add: settled_spend_def db3_def)
    then show ?thesis using F by (simp add: posting_def db3_def t_def new_transaction_def)
  qed
  ultimately show ?thesis
    by (intro that(2) [OF ow]) (auto simp: t_def new_transaction_def fin)
qed

end
