(* ===== verification/Billing_Books.thy ===== *)
theory Billing_Books
  imports Wallet_Laws
begin

text \<open>
  The accounting invariant of the billing database and the transition system whose steps are
  the calls of both services. \<open>books\<close> says that keys are unique and fresh, that a wallet's
  reserved balance is the sum of its open reservations, that available plus reserved plus
  spent is what was topped up, that nothing is negative, and that what may still be refunded
  has been spent.
\<close>

section \<open>The invariant\<close>

definition refundable :: "uuid \<Rightarrow> billing_db \<Rightarrow> decimal" where
  "refundable i db =
     sum_where (\<lambda>t. txn_type t = DEBIT \<and> txn_wallet t = i \<and> \<not> already_refunded (txn_id t) db)
       txn_amount (wallet_transactions db)"

definition wallet_ok :: "billing_db \<Rightarrow> wallet \<Rightarrow> bool" where
  "wallet_ok db w =
     (0 \<le> balance w \<and> reserved_balance w = open_reserved (wal_id w) db \<and>
      balance w + reserved_balance w + total_spent w = total_topups w \<and>
      refundable (wal_id w) db \<le> total_spent w)"

definition rows_ok :: "billing_db \<Rightarrow> bool" where
  "rows_ok db =
     (distinct (map wal_id (wallets db)) \<and> distinct (map wal_user (wallets db)) \<and>
      distinct (map res_id (reservations db)) \<and> distinct (map txn_id (wallet_transactions db)) \<and>
      (\<forall>w \<in> set (wallets db). wal_id w < next_id db) \<and>
      (\<forall>r \<in> set (reservations db). res_id r < next_id db \<and> res_wallet r < next_id db \<and> 0 < estimated_amount r) \<and>
      (\<forall>t \<in> set (wallet_transactions db). txn_id t < next_id db \<and> txn_wallet t < next_id db \<and>
         (txn_type t = DEBIT \<longrightarrow> 0 < txn_amount t)))"

definition books :: "billing_db \<Rightarrow> bool" where
  "books db = (rows_ok db \<and> (\<forall>w \<in> set (wallets db). wallet_ok db w))"

lemma books_rows: "books db \<Longrightarrow> rows_ok db"
  by (simp add: books_def)

lemma books_wallet: "books db \<Longrightarrow> w \<in> set (wallets db) \<Longrightarrow> wallet_ok db w"
  by (simp add: books_def)

lemma refundable_nonneg: "rows_ok db \<Longrightarrow> 0 \<le> refundable i db"
  unfolding refundable_def by (intro sum_where_nonneg) (auto simp: rows_ok_def intro: less_imp_le)

lemma open_reserved_nonneg: "rows_ok db \<Longrightarrow> 0 \<le> open_reserved i db"
  unfolding open_reserved_def by (intro sum_where_nonneg) (auto simp: rows_ok_def intro: less_imp_le)

lemma books_nonneg:
  assumes "books db" and "w \<in> set (wallets db)"
  shows "0 \<le> balance w \<and> 0 \<le> reserved_balance w \<and> 0 \<le> total_spent w"
  using books_wallet [OF assms] refundable_nonneg [of db "wal_id w"] open_reserved_nonneg [of db "wal_id w"]
    books_rows [OF assms(1)]
  by (auto simp: wallet_ok_def)

text \<open>More ledger rows can only mark more transactions refunded.\<close>

lemma already_refunded_append: "ledger db' = ledger db @ es \<Longrightarrow> already_refunded i db \<Longrightarrow> already_refunded i db'"
  by (auto simp: already_refunded_def)

lemma refundable_mono:
  assumes "rows_ok db" and "wallet_transactions db' = wallet_transactions db" and "ledger db' = ledger db @ es"
  shows "refundable i db' \<le> refundable i db"
  unfolding refundable_def assms(2)
  by (intro sum_where_mono)
    (use assms(1) already_refunded_append [OF assms(3)] in \<open>auto simp: rows_ok_def intro: less_imp_le\<close>)

section \<open>Frames\<close>

text \<open>Steps that touch neither wallets, reservations nor transactions.\<close>

lemma books_frame:
  assumes "books db" and "wallets db' = wallets db" and "reservations db' = reservations db"
    and "wallet_transactions db' = wallet_transactions db" and "ledger db' = ledger db @ es"
    and "next_id db \<le> next_id db'"
  shows "books db'"
proof -
  have "rows_ok db'" using books_rows [OF assms(1)] assms by (fastforce simp: rows_ok_def)
  moreover have "wallet_ok db' w" if "w \<in> set (wallets db)" for w
    using books_wallet [OF assms(1) that] refundable_mono [OF books_rows [OF assms(1)] assms(4,5), of "wal_id w"] assms(3)
    by (auto simp: wallet_ok_def open_reserved_def)
  ultimately show ?thesis using assms(2) by (simp add: books_def)
qed

lemma wallet_by_userD: "wallet_by_user u db = Some w \<Longrightarrow> w \<in> set (wallets db) \<and> wal_user w = u"
  by (auto simp: wallet_by_user_def dest: row_by_SomeD)

lemma wallet_by_idD: "wallet_by_id db i = Some w \<Longrightarrow> w \<in> set (wallets db) \<and> wal_id w = i"
  by (auto simp: wallet_by_id_def dest: row_by_SomeD)

lemma reservation_by_idD: "reservation_by_id db i = Some r \<Longrightarrow> r \<in> set (reservations db) \<and> res_id r = i"
  by (auto simp: reservation_by_id_def dest: row_by_SomeD)

lemma transaction_by_idD: "transaction_by_id i db = Some t \<Longrightarrow> t \<in> set (wallet_transactions db) \<and> txn_id t = i"
  by (auto simp: transaction_by_id_def dest: row_by_SomeD)

text \<open>A new, empty wallet.\<close>

lemma books_insert_wallet:
  assumes "books db" and "wallet_by_user u db = None"
    and "db' = db\<lparr>wallets := wallets db @ [(new_wallet u cur)\<lparr>wal_id := next_id db\<rparr>], next_id := Suc (next_id db)\<rparr>"
  shows "books db'"
proof -
  let ?w = "(new_wallet u cur)\<lparr>wal_id := next_id db\<rparr>"
  note R = books_rows [OF assms(1)]
  have fresh: "open_reserved (next_id db) db = 0" "refundable (next_id db) db = 0"
    using R unfolding open_reserved_def refundable_def rows_ok_def
    by (auto intro!: sum_where_none)
  have "u \<notin> wal_user ` set (wallets db)"
    using assms(2) by (simp add: wallet_by_user_def row_by_None_iff)
  then have "rows_ok db'" using R unfolding rows_ok_def assms(3)
    by (fastforce simp: new_wallet_def less_Suc_eq)
  moreover have "wallet_ok db' w" if "wallet_ok db w" for w
    using that by (simp add: wallet_ok_def open_reserved_def refundable_def already_refunded_def assms(3))
  moreover have "wallet_ok db' ?w"
    using fresh by (simp add: wallet_ok_def open_reserved_def refundable_def already_refunded_def assms(3) new_wallet_def)
  ultimately show ?thesis using books_wallet [OF assms(1)]
    unfolding books_def by (auto simp: assms(3))
qed

text \<open>One wallet and the rows that belong to it change.\<close>

lemma books_update:
  assumes "books db" and "w \<in> set (wallets db)"
    and "wallets db' = put_row wal_id w' (wallets db)" and "wal_id w' = wal_id w" and "wal_user w' = wal_user w"
    and "rows_ok db'" and "wallet_ok db' w'"
    and "\<And>i. i \<noteq> wal_id w \<Longrightarrow> open_reserved i db' = open_reserved i db \<and> refundable i db' \<le> refundable i db"
  shows "books db'"
proof -
  have "wallet_ok db' v" if "v \<in> set (wallets db')" for v
  proof (cases "v = w'")
    case True
    with assms(7) show ?thesis by simp
  next
    case False
    with that assms(3,4) have "v \<in> set (wallets db)" "wal_id v \<noteq> wal_id w"
      by (auto dest: in_put_rowD)
    with books_wallet [OF assms(1)] assms(8) [of "wal_id v"] show ?thesis
      by (fastforce simp: wallet_ok_def)
  qed
  with assms(6) show ?thesis by (simp add: books_def)
qed

lemma distinct_users_put:
  "distinct (map wal_id ws) \<Longrightarrow> w \<in> set ws \<Longrightarrow> wal_id w' = wal_id w \<Longrightarrow> wal_user w' = wal_user w \<Longrightarrow>
     map wal_user (put_row wal_id w' ws) = map wal_user ws"
  by (intro map_other_put_row) (metis row_by_distinct option.inject)

section \<open>Postings\<close>

lemma posting_rows:
  assumes "rows_ok db" and "posting db w' t db'" and "w \<in> set (wallets db)"
    and "wal_id w' = wal_id w" and "wal_user w' = wal_user w" and "txn_type t = DEBIT \<longrightarrow> 0 < txn_amount t"
  shows "rows_ok db'"
proof -
  have P: "wallets db' = put_row wal_id w' (wallets db)" "reservations db' = reservations db"
    "wallet_transactions db' = wallet_transactions db @ [t]" "txn_id t = next_id db"
    "txn_wallet t = wal_id w" "next_id db < next_id db'"
    using assms(2,4) by (auto simp: posting_def)
  have U: "map wal_user (put_row wal_id w' (wallets db)) = map wal_user (wallets db)"
    using assms(1,3-5) by (intro distinct_users_put) (auto simp: rows_ok_def)
  have W: "wal_id v < next_id db" if "v \<in> set (put_row wal_id w' (wallets db))" for v
    using that in_put_rowD [OF that] assms(1,3,4) by (auto simp: rows_ok_def)
  show ?thesis
    using assms(1,3,6) W P(4-6) unfolding rows_ok_def P(1-3) U
    by (fastforce simp: less_imp_le)
qed

lemma posting_refundable:
  assumes "rows_ok db" and "posting db w' t db'"
  shows "refundable i db' \<le> refundable i db + (if txn_type t = DEBIT \<and> txn_wallet t = i then max 0 (txn_amount t) else 0)"
proof -
  obtain es where P: "wallet_transactions db' = wallet_transactions db @ [t]" "ledger db' = ledger db @ es"
    using assms(2) by (auto simp: posting_def)
  have "sum_where (\<lambda>t. txn_type t = DEBIT \<and> txn_wallet t = i \<and> \<not> already_refunded (txn_id t) db')
       txn_amount (wallet_transactions db) \<le> refundable i db"
    unfolding refundable_def
    by (intro sum_where_mono)
      (use assms(1) already_refunded_append [OF P(2)] in \<open>auto simp: rows_ok_def intro: less_imp_le\<close>)
  then show ?thesis by (auto simp: refundable_def P(1))
qed

lemma books_posting:
  assumes "books db" and "posting db w' t db'" and "w \<in> set (wallets db)"
    and "wal_id w' = wal_id w" and "wal_user w' = wal_user w" and "txn_type t = DEBIT \<longrightarrow> 0 < txn_amount t"
    and "0 \<le> balance w'" and "reserved_balance w' = reserved_balance w"
    and "balance w' + reserved_balance w' + total_spent w' = total_topups w'"
    and "refundable (wal_id w) db' \<le> total_spent w'"
  shows "books db'"
proof (rule books_update [OF assms(1,3) _ assms(4,5)])
  note R = books_rows [OF assms(1)]
  have P: "wallets db' = put_row wal_id w' (wallets db)" "reservations db' = reservations db" "txn_wallet t = wal_id w"
    using assms(2,4) by (auto simp: posting_def)
  show "wallets db' = put_row wal_id w' (wallets db)" by (rule P)
  show "rows_ok db'" by (rule posting_rows [OF R assms(2-6)])
  show "wallet_ok db' w'"
    using books_wallet [OF assms(1,3)] assms(4,7-10) P(2) by (auto simp: wallet_ok_def open_reserved_def)
  show "open_reserved i db' = open_reserved i db \<and> refundable i db' \<le> refundable i db" if "i \<noteq> wal_id w" for i
    using that posting_refundable [OF R assms(2), of i] P(2,3) by (auto simp: open_reserved_def)
qed

lemma books_get_wallet: "books db \<Longrightarrow> get_wallet u db = (db', w) \<Longrightarrow> books db' \<and> w \<in> set (wallets db')"
  by (erule get_wallet_cases) (auto intro: books_insert_wallet dest: wallet_by_userD)

lemma books_add_credit:
  assumes "books db" and "add_credit u amt reason ref md now db = (db', res)"
  shows "books db'"
  using assms(2)
proof (cases rule: add_credit_cases)
  case (3 db0 w t)
  note B = books_get_wallet [OF assms(1) 3(1)]
  let ?w = "w\<lparr>balance := balance w + amt, total_topups := total_topups w + amt\<rparr>"
  have W: "wallet_ok db0 w" using B by (auto intro: books_wallet)
  have "refundable (wal_id w) db' \<le> refundable (wal_id w) db0"
    using posting_refundable [OF books_rows 3(4), of "wal_id w"] B 3(5) by (simp add: new_transaction_def)
  with B W 3(2,5) show ?thesis
    by (intro books_posting [OF _ 3(4)]) (auto simp: wallet_ok_def new_transaction_def)
qed (use assms books_get_wallet in auto)

lemma books_deduct_credit:
  assumes "books db" and "deduct_credit u amt reason ref md now db = (db', res)"
  shows "books db'"
  using assms(2)
proof (cases rule: deduct_credit_cases)
  case (3 db0 w t)
  note B = books_get_wallet [OF assms(1) 3(1)]
  have W: "wallet_ok db0 w" using B by (auto intro: books_wallet)
  have "refundable (wal_id w) db' \<le> refundable (wal_id w) db0 + amt"
    using posting_refundable [OF books_rows 3(5), of "wal_id w"] B 3(2,6) by (simp add: new_transaction_def)
  with B W 3(2,3,6) show ?thesis
    by (intro books_posting [OF _ 3(5)]) (auto simp: wallet_ok_def new_transaction_def)
qed (use assms books_get_wallet in auto)

text \<open>A refunded debit leaves the refundable sum.\<close>

lemma sum_where_drop:
  assumes "distinct (map k rows)" and "r \<in> set rows" and "P r"
  shows "sum_where (\<lambda>x. P x \<and> k x \<noteq> k r) f rows = sum_where P f rows - f r"
  using assms
proof (induction rows)
  case (Cons a rows)
  show ?case
  proof (cases "a = r")
    case True
    with Cons.prems have "sum_where (\<lambda>x. P x \<and> k x \<noteq> k r) f rows = sum_where P f rows"
      by (intro sum_where_cong) (auto simp: image_iff)
    with True Cons.prems show ?thesis by simp
  next
    case False
    with Cons.prems have "k a \<noteq> k r" and "r \<in> set rows" by (auto simp: image_iff)
    with Cons False show ?thesis by simp
  qed
qed simp

lemma refund_refundable:
  assumes "rows_ok db" and "posting db w' t db'" and "txn_type t = REFUND"
    and "orig \<in> set (wallet_transactions db)" and "txn_type orig = DEBIT"
    and "\<not> already_refunded (txn_id orig) db" and "already_refunded (txn_id orig) db'"
  shows "refundable (txn_wallet orig) db' \<le> refundable (txn_wallet orig) db - txn_amount orig"
proof -
  obtain es where P: "wallet_transactions db' = wallet_transactions db @ [t]" "ledger db' = ledger db @ es"
    using assms(2) by (auto simp: posting_def)
  let ?P = "\<lambda>t. txn_type t = DEBIT \<and> txn_wallet t = txn_wallet orig \<and> \<not> already_refunded (txn_id t) db"
  have "refundable (txn_wallet orig) db' =
    sum_where (\<lambda>t. txn_type t = DEBIT \<and> txn_wallet t = txn_wallet orig \<and> \<not> already_refunded (txn_id t) db')
      txn_amount (wallet_transactions db)"
    using assms(3) by (simp add: refundable_def P(1))
  also have "\<dots> \<le> sum_where (\<lambda>x. ?P x \<and> txn_id x \<noteq> txn_id orig) txn_amount (wallet_transactions db)"
    by (intro sum_where_mono)
      (use assms(1,7) already_refunded_append [OF P(2)] in \<open>auto simp: rows_ok_def intro: less_imp_le\<close>)
  also have "\<dots> = refundable (txn_wallet orig) db - txn_amount orig"
    unfolding refundable_def using assms(1,4-6) by (intro sum_where_drop) (auto simp: rows_ok_def)
  finally show ?thesis .
qed

lemma books_refund:
  assumes "books db" and "refund_transaction u tid reason now db = (db', res)"
  shows "books db'"
  using assms(2)
proof (cases rule: refund_cases)
  case (2 orig w t)
  note R = books_rows [OF assms(1)]
  have w: "w \<in> set (wallets db)" using 2(4) by (auto dest: wallet_by_userD)
  have o: "orig \<in> set (wallet_transactions db)" using 2(1) by (auto dest: transaction_by_idD)
  have W: "wallet_ok db w" by (rule books_wallet [OF assms(1) w])
  have pos: "0 < txn_amount orig" using R o 2(2) by (auto simp: rows_ok_def)
  have le: "refundable (wal_id w) db' \<le> refundable (wal_id w) db - txn_amount orig"
    using refund_refundable [OF R 2(6,7) o 2(2,3,9)] 2(5) by simp
  have "txn_amount orig \<le> total_spent w" and "refundable (wal_id w) db' \<le> total_spent w - txn_amount orig"
    using le W refundable_nonneg [OF posting_rows [OF R 2(6) w], of "wal_id w"] 2(7)
    by (auto simp: wallet_ok_def)
  with W w pos 2(7) show ?thesis
    by (intro books_posting [OF assms(1) 2(6) w]) (auto simp: wallet_ok_def max_def)
qed (use assms in auto)

section \<open>Reservations\<close>

lemma open_reserved_put:
  assumes "rows_ok db" and "r \<in> set (reservations db)" and "res_id r' = res_id r"
    and "res_wallet r' = res_wallet r" and "res_status r = Reserved" and "res_status r' \<noteq> Reserved"
    and "reservations db' = put_row res_id r' (reservations db)"
  shows "open_reserved i db' = open_reserved i db - (if res_wallet r = i then estimated_amount r else 0)"
  using assms unfolding open_reserved_def rows_ok_def
  by (auto simp: sum_where_put_row)

text \<open>A reservation is closed and its wallet rewritten: settle and release.\<close>

lemma close_rows:
  assumes "rows_ok db" and "w \<in> set (wallets db)" and "wal_id w' = wal_id w" and "wal_user w' = wal_user w"
    and "r \<in> set (reservations db)" and "res_id r' = res_id r" and "res_wallet r' = res_wallet r"
    and "0 < estimated_amount r'"
    and "wallets db' = put_row wal_id w' (wallets db)" and "reservations db' = put_row res_id r' (reservations db)"
    and "wallet_transactions db' = wallet_transactions db" and "next_id db \<le> next_id db'"
  shows "rows_ok db'"
proof -
  have U: "map wal_user (put_row wal_id w' (wallets db)) = map wal_user (wallets db)"
    using assms(1-4) by (intro distinct_users_put) (auto simp: rows_ok_def)
  have W: "wal_id v < next_id db" if "v \<in> set (put_row wal_id w' (wallets db))" for v
    using in_put_rowD [OF that] assms(1-3) by (auto simp: rows_ok_def)
  have V: "res_id v < next_id db \<and> res_wallet v < next_id db \<and> 0 < estimated_amount v"
    if "v \<in> set (put_row res_id r' (reservations db))" for v
    using in_put_rowD [OF that] assms(1,5-8) by (auto simp: rows_ok_def)
  show ?thesis
    using assms(1) W V assms(12) unfolding rows_ok_def assms(9-11) U
    by (fastforce dest: less_le_trans)
qed

lemma books_close:
  assumes "books db" and "w \<in> set (wallets db)" and "wal_id w' = wal_id w" and "wal_user w' = wal_user w"
    and "r \<in> set (reservations db)" and "res_id r' = res_id r" and "res_wallet r' = res_wallet r"
    and "0 < estimated_amount r'" and "res_status r = Reserved" and "res_status r' \<noteq> Reserved"
    and "res_wallet r = wal_id w"
    and "wallets db' = put_row wal_id w' (wallets db)" and "reservations db' = put_row res_id r' (reservations db)"
    and "wallet_transactions db' = wallet_transactions db" and "next_id db \<le> next_id db'"
    and "ledger db' = ledger db @ es"
    and "0 \<le> balance w'" and "reserved_balance w' = reserved_balance w - estimated_amount r"
    and "balance w' + reserved_balance w' + total_spent w' = total_topups w'" and "total_spent w \<le> total_spent w'"
  shows "books db'"
proof (rule books_update [OF assms(1,2,12,3,4)])
  note R = books_rows [OF assms(1)]
  note O = open_reserved_put [OF R assms(5,6,7,9,10,13)] and M = refundable_mono [OF R assms(14,16)]
  show "rows_ok db'" by (rule close_rows [OF R assms(2-8,12-15)])
  show "wallet_ok db' w'"
    using books_wallet [OF assms(1,2)] O [of "wal_id w"] M [of "wal_id w"] assms(3,11,17-20)
    by (auto simp: wallet_ok_def)
  show "open_reserved i db' = open_reserved i db \<and> refundable i db' \<le> refundable i db" if "i \<noteq> wal_id w" for i
    using that O [of i] M [of i] assms(11) by simp
qed

lemma books_settle:
  assumes "books db" and "settle i x pc md ty now db = (db', res)"
  shows "books db'"
proof (cases "\<exists>r r'. reservation_by_id db i = Some r \<and> res_status r = Reserved \<and> res = Inr r'")
  case True
  then obtain r r' where r: "reservation_by_id db i = Some r" "res_status r = Reserved" "res = Inr r'" by blast
  note rD = reservation_by_idD [OF r(1)]
  note R = books_rows [OF assms(1)]
  have pos: "0 < estimated_amount r" using R rD by (auto simp: rows_ok_def)
  from assms(2) r(3) have s: "settle i x pc md ty now db = (db', Inr r')" by simp
  from s r(1,2) show ?thesis
  proof (rule settle_open)
    fix w rest
    assume *: "wallet_by_id db (res_wallet r) = Some w" "0 \<le> money x"
      "max 0 (money x - estimated_amount r) \<le> max 0 (balance w)" "r' = settled_row r (money x)"
      "wallets db' = put_row wal_id (settled_wallet r (money x) w) (wallets db)"
      "reservations db' = put_row res_id r' (reservations db)" "wallet_transactions db' = wallet_transactions db"
      "next_id db \<le> next_id db'"
      "ledger db' = ledger db @ (settled_entry r w (money x) pc ty md now)\<lparr>led_id := next_id db\<rparr> # rest"
    note w = wallet_by_idD [OF *(1)]
    have W: "wallet_ok db w" using w by (auto intro: books_wallet [OF assms(1)])
    have n: "0 \<le> balance w" "0 \<le> balance w + estimated_amount r - money x"
      using W *(3) pos by (auto simp: wallet_ok_def max_def split: if_splits)
    show "books db'"
      by (rule books_close [OF assms(1), of w "settled_wallet r (money x) w" r r'])
        (use w rD r(2) pos n W * in \<open>auto simp: settled_wallet_def settled_row_def wallet_ok_def max_def\<close>)
  qed
next
  case False
  have "db' = db"
  proof (cases res)
    case (Inl e)
    with assms(2) show ?thesis by (auto dest: settle_error)
  next
    case (Inr r')
    with False assms(2) show ?thesis
      by (cases "reservation_by_id db i") (auto simp: settle_def)
  qed
  with assms(1) show ?thesis by simp
qed

lemma books_release:
  assumes "books db" and "release i why now db = (db', res)"
  shows "books db'"
proof (cases "\<exists>r r'. reservation_by_id db i = Some r \<and> res_status r = Reserved \<and> res = Inr r'")
  case True
  then obtain r r' where r: "reservation_by_id db i = Some r" "res_status r = Reserved" "res = Inr r'" by blast
  note rD = reservation_by_idD [OF r(1)]
  have pos: "0 < estimated_amount r" using books_rows [OF assms(1)] rD by (auto simp: rows_ok_def)
  from assms(2) r(3) have s: "release i why now db = (db', Inr r')" by simp
  from s r(1,2) show ?thesis
  proof (rule release_open)
    fix w e
    assume *: "wallet_by_id db (res_wallet r) = Some w" "r' = released_row r"
      "wallets db' = put_row wal_id (released_wallet r w) (wallets db)"
      "reservations db' = put_row res_id r' (reservations db)" "wallet_transactions db' = wallet_transactions db"
      "next_id db' = Suc (next_id db)" "ledger db' = ledger db @ [e]"
    note w = wallet_by_idD [OF *(1)]
    have W: "wallet_ok db w" using w by (auto intro: books_wallet [OF assms(1)])
    show "books db'"
      by (rule books_close [OF assms(1), of w "released_wallet r w" r r'])
        (use w rD r(2) pos W * in \<open>auto simp: released_wallet_def released_row_def wallet_ok_def\<close>)
  qed
next
  case False
  have "db' = db"
  proof (cases res)
    case (Inl e)
    with assms(2) show ?thesis by (auto dest: release_error)
  next
    case (Inr r')
    with False assms(2) show ?thesis
      by (cases "reservation_by_id db i") (auto simp: release_def)
  qed
  with assms(1) show ?thesis by simp
qed

lemma books_release_each: "books db \<Longrightarrow> books (fst (release_each is n now db))"
proof (induction "is" arbitrary: n db)
  case (Cons i "is")
  obtain db1 res where r: "release i ''reservation_expired'' now db = (db1, res)" by fastforce
  have "books db1" by (rule books_release [OF Cons.prems r])
  with r Cons.IH show ?case by (cases res) auto
qed simp

text \<open>A successful reserve: the wallet pays into the new reservation.\<close>

lemma books_reserve_core:
  assumes "books db" and "w \<in> set (wallets db)" and "0 < amt" and "amt \<le> balance w"
    and "r = new_reservation w a rq k amt rt md ttl now (next_id db)"
    and "wallets db' = put_row wal_id (w\<lparr>balance := balance w - amt, reserved_balance := reserved_balance w + amt\<rparr>) (wallets db)"
    and "reservations db' = reservations db @ [r]" and "wallet_transactions db' = wallet_transactions db"
    and "next_id db < next_id db'" and "ledger db' = ledger db @ es"
  shows "books db'"
proof (rule books_update [OF assms(1,2,6)])
  note R = books_rows [OF assms(1)]
  let ?w = "w\<lparr>balance := balance w - amt, reserved_balance := reserved_balance w + amt\<rparr>"
  have U: "map wal_user (put_row wal_id ?w (wallets db)) = map wal_user (wallets db)"
    using R assms(2) by (intro distinct_users_put [of _ w]) (auto simp: rows_ok_def)
  have W: "wal_id v < next_id db" if "v \<in> set (put_row wal_id ?w (wallets db))" for v
    using in_put_rowD [OF that] R assms(2) by (auto simp: rows_ok_def)
  have O: "open_reserved i db' = open_reserved i db + (if wal_id w = i then amt else 0)" for i
    by (simp add: open_reserved_def assms(5,7) new_reservation_def)
  have M: "refundable i db' \<le> refundable i db" for i by (rule refundable_mono [OF R assms(8,10)])
  show "rows_ok db'"
    using R W assms(2,3,9) unfolding rows_ok_def assms(6-8) U
    by (fastforce simp: assms(5) new_reservation_def)
  show "wallet_ok db' ?w"
    using books_wallet [OF assms(1,2)] O [of "wal_id w"] M [of "wal_id w"] assms(4)
    by (auto simp: wallet_ok_def)
  show "open_reserved i db' = open_reserved i db \<and> refundable i db' \<le> refundable i db" if "i \<noteq> wal_id w" for i
    using that O [of i] M [of i] by simp
qed simp_all

lemma books_reserve:
  assumes "books db" and "reserve a x rq k rt md ttl now db = (db', res)"
  shows "books db'"
proof (cases "reservation_by_key k db = None \<and> (\<exists>r. res = Inr r)")
  case True
  then obtain r where k: "reservation_by_key k db = None" and s: "reserve a x rq k rt md ttl now db = (db', Inr r)"
    using assms(2) by auto
  from s k show ?thesis
  proof (rule reserve_new)
    fix db1 w
    assume *: "0 < money x" "wallet_for_update (att_user a) db = (db1, w)" "money x \<le> balance w"
      "r = new_reservation w a rq k (money x) rt md ttl now (next_id db1)"
      "wallets db' = put_row wal_id (w\<lparr>balance := balance w - money x,
         reserved_balance := reserved_balance w + money x\<rparr>) (wallets db1)"
      "reservations db' = reservations db1 @ [r]" "wallet_transactions db' = wallet_transactions db1"
      "next_id db' = Suc (Suc (next_id db1))"
      "ledger db' = ledger db1 @ [(ledger_row RESERVATION a (Some rq) (Some (k @ '':reservation''))
         rt (Some (uuid_text (res_id r))) (money x) (wal_currency w) 0 0 Reserved md now)\<lparr>led_id := Suc (next_id db1)\<rparr>]"
    have "get_wallet (att_user a) db = (db1, w)" using *(2) by (simp add: get_wallet_def wallet_for_update_def)
    then have "books db1" "w \<in> set (wallets db1)" using books_get_wallet [OF assms(1)] by auto
    then show "books db'" by (rule books_reserve_core) (use * in auto)
  qed
next
  case False
  have "db' = db"
  proof (cases res)
    case (Inl e)
    with assms(2) show ?thesis by (auto dest: reserve_error)
  next
    case (Inr r)
    with False obtain r0 where "reservation_by_key k db = Some r0" by auto
    with assms(2) show ?thesis by (auto simp: reserve_def Let_def split: if_splits)
  qed
  with assms(1) show ?thesis by simp
qed

end
