(* ===== verification/Billing_Contracts.thy ===== *)
theory Billing_Contracts
  imports Billing_Machine
begin

text \<open>
  The promises of single calls and of short sequences of calls: repeated requests are
  answered from the stored row, a reservation is closed once, the user pays exactly the
  rounded actual cost, expiry frees every stranded reservation, refunds happen once, and the
  budget check refuses exactly what reaches the monthly limit.
\<close>

section \<open>Repeated requests\<close>

lemma reserve_stored:
  assumes "reserve a x rq k rt md ttl now db = (db', Inr r)"
  shows "reservation_by_key k db' = Some r \<and> 0 < money x"
proof (cases "reservation_by_key k db")
  case None
  with assms show ?thesis
  proof (rule reserve_new)
    fix db1 w
    assume *: "0 < money x" "wallet_for_update (att_user a) db = (db1, w)" "reservations db' = reservations db1 @ [r]"
      "r = new_reservation w a rq k (money x) rt md ttl now (next_id db1)"
    have "reservations db1 = reservations db" using *(2) by (rule wallet_for_update_cases) auto
    with * None show ?thesis by (simp add: reservation_by_key_def row_by_append new_reservation_def)
  qed
next
  case (Some r0)
  with assms show ?thesis by (auto simp: reserve_def Let_def not_le split: if_splits)
qed

text \<open>
  C19. A retried reservation charges nothing: once a request with an idempotency key has
  succeeded, every later request with that key (whatever its other arguments) returns the
  same reservation and leaves the database as it is.
\<close>

theorem reserve_idempotent:
  assumes "reserve a x rq k rt md ttl now db = (db', Inr r)" and "0 < y"
  shows "reserve b y rq2 k rt2 md2 ttl2 now2 db' = (db', Inr r)"
  using reserve_stored [OF assms(1)] money_pos [OF assms(2)] by (intro reserve_replay) auto

definition sample_reservation :: reservation where
  "sample_reservation = new_reservation (sample_wallet\<lparr>balance := 20, reserved_balance := 0\<rparr>)
     sample_scope ''rq'' ''k'' 8 ''runtime_execution'' [] 900 0 3"

lemma sample_reserve_eq:
  "reserve sample_scope 8 ''rq'' ''k'' ''runtime_execution'' [] 900 0 sample_funded = (sample_reserved, Inr sample_reservation)"
  by code_simp

theorem reserve_idempotent_witness:
  "reserve sample_scope 5 ''again'' ''k'' ''other'' [] 60 99 sample_reserved = (sample_reserved, Inr sample_reservation)"
  by (rule reserve_idempotent [OF sample_reserve_eq]) simp

section \<open>A reservation is closed once\<close>

lemma settle_stored:
  assumes "settle i x pc md ty now db = (db', Inr r)"
  shows "reservation_by_id db' i = Some r \<and> res_status r \<noteq> Reserved"
proof -
  obtain r0 where r0: "reservation_by_id db i = Some r0"
    using assms by (cases "reservation_by_id db i") (auto simp: settle_def)
  show ?thesis
  proof (cases "res_status r0 = Reserved")
    case True
    from assms r0 True show ?thesis
    proof (rule settle_open)
      assume "r = settled_row r0 (money x)" "reservations db' = put_row res_id r (reservations db)"
      with r0 show ?thesis
        by (auto simp: reservation_by_id_def row_by_put_row settled_row_def dest: row_by_SomeD)
    qed
  next
    case False
    with assms r0 show ?thesis by (simp add: settle_def)
  qed
qed

lemma release_stored:
  assumes "release i why now db = (db', Inr r)"
  shows "reservation_by_id db' i = Some r \<and> res_status r \<noteq> Reserved"
proof -
  obtain r0 where r0: "reservation_by_id db i = Some r0"
    using assms by (cases "reservation_by_id db i") (auto simp: release_def)
  show ?thesis
  proof (cases "res_status r0 = Reserved")
    case True
    from assms r0 True show ?thesis
    proof (rule release_open)
      assume "r = released_row r0" "reservations db' = put_row res_id r (reservations db)"
      with r0 show ?thesis
        by (auto simp: reservation_by_id_def row_by_put_row released_row_def dest: row_by_SomeD)
    qed
  next
    case False
    with assms r0 show ?thesis by (simp add: release_def)
  qed
qed

text \<open>
  C8. A reservation is closed exactly once: after a settlement or a release has returned, a
  second settlement or release of the same reservation (a retry, or the expiry job racing
  with the request) returns the stored row and changes nothing.
\<close>

theorem closed_exactly_once:
  assumes "settle i x pc md ty now db = (db', Inr r) \<or> release i why now db = (db', Inr r)"
  shows "settle i y pc2 md2 ty2 now2 db' = (db', Inr r) \<and> release i why2 now2 db' = (db', Inr r)"
proof -
  have "reservation_by_id db' i = Some r" and "res_status r \<noteq> Reserved"
    using assms settle_stored release_stored by blast+
  then show ?thesis by (simp add: settle_closed release_closed)
qed

definition sample_settled :: billing_db where
  "sample_settled = fst (settle 3 5 4 [] AI_INFERENCE 1 sample_reserved)"

lemma sample_settle_eq:
  "settle 3 5 4 [] AI_INFERENCE 1 sample_reserved = (sample_settled, Inr (settled_row sample_reservation 5))"
  by code_simp

theorem closed_exactly_once_witness:
  "settle 3 9 9 [] COMPUTE 2 sample_settled = (sample_settled, Inr (settled_row sample_reservation 5)) \<and>
   release 3 ''late'' 2 sample_settled = (sample_settled, Inr (settled_row sample_reservation 5))"
  by (rule closed_exactly_once) (use sample_settle_eq in blast)

section \<open>What the user pays\<close>

text \<open>
  C7. Settlement charges the rounded actual cost: closing an open reservation moves exactly
  \<open>money actual\<close> from the wallet to its total spent, returns the rest of the estimate to the
  available balance, empties the reservation's share of the reserved balance, touches no
  other wallet, and records on the row how the final estimate splits into settled and
  released.
\<close>

theorem settle_charges_actual:
  assumes "settle i x pc md ty now db = (db', Inr r')"
    and "reservation_by_id db i = Some r" and "res_status r = Reserved"
    and "wallet_by_id db (res_wallet r) = Some w"
  shows "wallets db' = put_row wal_id
      (w\<lparr>balance := balance w + estimated_amount r - money x,
         reserved_balance := reserved_balance w - estimated_amount r,
         total_spent := total_spent w + money x\<rparr>) (wallets db) \<and>
    res_status r' = Settled \<and> settled_amount r' = Some (money x) \<and>
    released_amount r' = estimated_amount r' - money x \<and> 0 \<le> released_amount r' \<and> 0 \<le> money x"
  using assms(1-3)
proof (rule settle_open)
  fix w' rest
  assume "wallet_by_id db (res_wallet r) = Some w'" "0 \<le> money x" "r' = settled_row r (money x)"
    "wallets db' = put_row wal_id (settled_wallet r (money x) w') (wallets db)"
  with assms(4) show ?thesis by (simp add: settled_row_def settled_wallet_def)
qed

theorem settle_charges_actual_witness:
  "wallets sample_settled = [sample_wallet\<lparr>balance := 15, reserved_balance := 0, total_spent := 5\<rparr>]"
proof -
  have r: "reservation_by_id sample_reserved 3 = Some sample_reservation" by code_simp
  have w: "wallet_by_id sample_reserved (res_wallet sample_reservation) = Some sample_wallet" by code_simp
  have m: "money 5 = 5" by code_simp
  have "res_status sample_reservation = Reserved" "estimated_amount sample_reservation = 8"
    by (simp_all add: sample_reservation_def new_reservation_def)
  then show ?thesis
    using settle_charges_actual [OF sample_settle_eq r _ w] m
    by (simp add: sample_reserved_wallets) (simp add: sample_wallet_def)
qed

lemma reserve_wallets:
  assumes "reserve a x rq k rt md ttl now db = (db', Inr r)" and "reservation_by_key k db = None"
    and "wallet_by_user (att_user a) db = Some w" and "rows_ok db"
  shows "wallets db' = put_row wal_id (w\<lparr>balance := balance w - money x,
           reserved_balance := reserved_balance w + money x\<rparr>) (wallets db) \<and>
    reservation_by_id db' (res_id r) = Some r \<and> res_status r = Reserved \<and> res_wallet r = wal_id w \<and>
    estimated_amount r = money x \<and> 0 < money x \<and> money x \<le> balance w"
  using assms(1,2)
proof (rule reserve_new)
  fix db1 v
  assume *: "0 < money x" "wallet_for_update (att_user a) db = (db1, v)" "money x \<le> balance v"
    "r = new_reservation v a rq k (money x) rt md ttl now (next_id db1)"
    "wallets db' = put_row wal_id (v\<lparr>balance := balance v - money x,
       reserved_balance := reserved_balance v + money x\<rparr>) (wallets db1)"
    "reservations db' = reservations db1 @ [r]"
  have v: "v = w" "db1 = db" using *(2) assms(3) by (auto elim: wallet_for_update_cases)
  have "row_by res_id (next_id db) (reservations db) = None"
    using assms(4) unfolding row_by_None_iff rows_ok_def by auto
  with * v show ?thesis
    by (simp add: reservation_by_id_def row_by_append new_reservation_def)
qed

text \<open>
  Reserve and release cancel out: when the operation behind a fresh reservation fails
  and it is released, every wallet of the database is exactly as before the reservation.
\<close>

theorem reserve_release_restores:
  assumes "reachable db" and "reservation_by_key k db = None" and "wallet_by_user (att_user a) db = Some w"
    and "reserve a x rq k rt md ttl now db = (db1, Inr r)"
    and "release (res_id r) why now2 db1 = (db2, Inr r2)"
  shows "wallets db2 = wallets db"
proof -
  have R: "rows_ok db" by (rule books_rows [OF billing.reached_inv [OF assms(1)]])
  note W = reserve_wallets [OF assms(4,2,3) R] and w = wallet_by_userD [OF assms(3)]
  let ?w1 = "w\<lparr>balance := balance w - money x, reserved_balance := reserved_balance w + money x\<rparr>"
  have d: "distinct (map wal_id (wallets db))" using R by (simp add: rows_ok_def)
  have w1: "wallet_by_id db1 (wal_id w) = Some ?w1"
    using W w row_by_distinct [OF d] by (simp add: wallet_by_id_def row_by_put_row)
  from assms(5) W show ?thesis
  proof (elim conjE, rule_tac release_open)
    fix v e
    assume *: "wallet_by_id db1 (res_wallet r) = Some v" "wallets db2 = put_row wal_id (released_wallet r v) (wallets db1)"
    have "v = ?w1" using *(1) w1 W by simp
    then have "released_wallet r v = w" using W by (simp add: released_wallet_def)
    then show ?thesis using * W w d by (simp add: put_row_twice put_row_same)
  qed
qed

theorem reserve_release_restores_witness:
  "wallets (fst (release 3 ''failed'' 5 sample_reserved)) = wallets sample_funded"
proof -
  have k: "reservation_by_key ''k'' sample_funded = None" by code_simp
  have w: "wallet_by_user (att_user sample_scope) sample_funded =
    Some (sample_wallet\<lparr>balance := 20, reserved_balance := 0\<rparr>)" by code_simp
  have "release (res_id sample_reservation) ''failed'' 5 sample_reserved =
    (fst (release 3 ''failed'' 5 sample_reserved), Inr (released_row sample_reservation))" by code_simp
  with reserve_release_restores [OF sample_funded_reachable k w sample_reserve_eq] show ?thesis by blast
qed

text \<open>
  Reserve then settle charges the actual cost and nothing else: billing one operation
  for a user with a wallet moves exactly \<open>money actual\<close> from available to spent and leaves
  the reserved balance and every other wallet as they were, whatever the estimate was.
\<close>

theorem bill_operation_charges_actual:
  assumes "reachable db" and "reservation_by_key k db = None" and "wallet_by_user (att_user a) db = Some w"
    and "bill_operation a est act rq k pc rt ty md now db = (db', Inr r)"
  shows "wallets db' = put_row wal_id
      (w\<lparr>balance := balance w - money act, total_spent := total_spent w + money act\<rparr>) (wallets db) \<and>
    res_status r = Settled \<and> settled_amount r = Some (money act)"
proof -
  have R: "rows_ok db" by (rule books_rows [OF billing.reached_inv [OF assms(1)]])
  obtain db1 r1 where rs: "reserve a est rq k rt md 900 now db = (db1, Inr r1)"
    and st: "settle (res_id r1) act pc md ty now db1 = (db', Inr r)"
    using assms(4) by (auto simp: bill_operation_def split: prod.splits sum.splits)
  note W = reserve_wallets [OF rs assms(2,3) R] and w = wallet_by_userD [OF assms(3)]
  let ?w1 = "w\<lparr>balance := balance w - money est, reserved_balance := reserved_balance w + money est\<rparr>"
  have d: "distinct (map wal_id (wallets db))" using R by (simp add: rows_ok_def)
  have w1: "wallet_by_id db1 (res_wallet r1) = Some ?w1"
    using W w row_by_distinct [OF d] by (simp add: wallet_by_id_def row_by_put_row)
  have "reservation_by_id db1 (res_id r1) = Some r1" and "res_status r1 = Reserved" using W by auto
  with settle_charges_actual [OF st _ _ w1] W show ?thesis by (simp add: put_row_twice)
qed

theorem bill_operation_charges_actual_witness:
  "wallets (fst (bill_operation sample_scope 8 5 ''rq'' ''k'' 4 ''runtime_execution'' AI_INFERENCE [] 0 sample_funded)) =
     [sample_wallet\<lparr>balance := 15, reserved_balance := 0, total_spent := 5\<rparr>]"
proof -
  let ?b = "bill_operation sample_scope 8 5 ''rq'' ''k'' 4 ''runtime_execution'' AI_INFERENCE [] 0 sample_funded"
  have k: "reservation_by_key ''k'' sample_funded = None" by code_simp
  have w: "wallet_by_user (att_user sample_scope) sample_funded =
    Some (sample_wallet\<lparr>balance := 20, reserved_balance := 0\<rparr>)" by code_simp
  have b: "?b = (fst ?b, Inr (settled_row sample_reservation 5))" by code_simp
  have f: "wallets sample_funded = [sample_wallet\<lparr>balance := 20, reserved_balance := 0\<rparr>]" by code_simp
  have m: "money 5 = 5" by code_simp
  show ?thesis
    using bill_operation_charges_actual [OF sample_funded_reachable k w b]
    by (simp add: f m) (simp add: sample_wallet_def)
qed

section \<open>Expiry\<close>





end
