(* ===== verification/Limit_Contracts.thy ===== *)
theory Limit_Contracts
  imports Billing_Machine
begin

text \<open>
  What the spending limits guarantee: a new reservation keeps settled plus reserved spend of
  every scope within its limits; settling within the estimate cannot raise it; settling
  above the estimate can exceed a limit, by at most the estimate, because the check leaves
  the reservation's own estimate out.
\<close>

definition exposure :: "billing_db \<Rightarrow> scope_type \<Rightarrow> uuid \<Rightarrow> instant \<Rightarrow> decimal" where
  "exposure db s i start = spent_since db s i start + reserved_since db s i start None"

lemma projected_exposure:
  "projected_spend db amt now None l =
     exposure db (lim_scope_type l) (lim_scope_id l) (period_start (lim_period l) now) + amt"
  by (simp add: projected_spend_def exposure_def Let_def)

lemma period_start_le: "0 \<le> now \<Longrightarrow> period_start p now \<le> now"
  using period_start_in_past [of now] by (cases p) (auto simp: period_start_def)

lemma spent_append: "ledger db' = ledger db @ es \<Longrightarrow>
  spent_since db' s i start = spent_since db s i start +
    sum_where (\<lambda>e. led_status e = Settled \<and> led_type e \<in> set SPENDING_TRANSACTION_TYPES \<and>
        start \<le> led_created_at e \<and> scope_column s (led_scope e) = Some i) led_amount es"
  by (simp add: spent_since_def)

text \<open>
  C9. A new reservation respects every limit: after a reservation that was not a replay, for
  every active limit on one of its scopes, settled plus reserved spend in the limit's period
  (the new reservation included) is within the limit.
\<close>

theorem reserve_within_limits:
  assumes "reserve a x rq k rt md ttl now db = (db', Inr r)" and "reservation_by_key k db = None"
    and "l \<in> set (spending_limits db)" and "limit_applies a l" and "0 \<le> now"
  shows "exposure db' (lim_scope_type l) (lim_scope_id l) (period_start (lim_period l) now) \<le> lim_amount l"
  using assms(1,2)
proof (rule reserve_new)
  fix db1 w
  assume *: "check db (money x) a now None = None" "wallet_for_update (att_user a) db = (db1, w)"
    "r = new_reservation w a rq k (money x) rt md ttl now (next_id db1)"
    "reservations db' = reservations db1 @ [r]"
    "ledger db' = ledger db1 @ [(ledger_row RESERVATION a (Some rq) (Some (k @ '':reservation''))
       rt (Some (uuid_text (res_id r))) (money x) (wal_currency w) 0 0 Reserved md now)\<lparr>led_id := Suc (next_id db1)\<rparr>]"
  have same: "reservations db1 = reservations db" "ledger db1 = ledger db"
    using *(2) by (auto elim: wallet_for_update_cases)
  let ?s = "lim_scope_type l" and ?i = "lim_scope_id l" and ?t = "period_start (lim_period l) now"
  have "spent_since db' ?s ?i ?t = spent_since db ?s ?i ?t"
    using *(5) same by (simp add: spent_since_def ledger_row_def)
  moreover have "reserved_since db' ?s ?i ?t None = reserved_since db ?s ?i ?t None + money x"
    using *(3,4) same assms(4) period_start_le [OF assms(5)]
    by (simp add: reserved_since_def new_reservation_def limit_applies_def)
  moreover have "projected_spend db (money x) now None l \<le> lim_amount l"
    using *(1) assms(3,4) unfolding check_None_iff by blast
  ultimately show ?thesis by (simp add: projected_exposure) (simp add: exposure_def)
qed

definition sample_limit :: spending_limit where
  "sample_limit = \<lparr>lim_scope_type = User, lim_scope_id = 7, lim_period = Lifetime, lim_amount = 10, lim_active = True\<rparr>"

definition sample_limited :: billing_db where
  "sample_limited = sample_funded\<lparr>spending_limits := [sample_limit]\<rparr>"

definition sample_limited_reserved :: billing_db where
  "sample_limited_reserved = fst (reserve sample_scope 8 ''rq'' ''k'' ''runtime_execution'' [] 900 0 sample_limited)"

definition sample_limited_row :: reservation where
  "sample_limited_row = new_reservation (sample_wallet\<lparr>balance := 20, reserved_balance := 0\<rparr>)
     sample_scope ''rq'' ''k'' 8 ''runtime_execution'' [] 900 0 3"

lemma sample_limited_reserve:
  "reserve sample_scope 8 ''rq'' ''k'' ''runtime_execution'' [] 900 0 sample_limited =
     (sample_limited_reserved, Inr sample_limited_row)"
  by code_simp

theorem reserve_within_limits_witness:
  "exposure sample_limited_reserved User 7 0 \<le> 10"
proof -
  have k: "reservation_by_key ''k'' sample_limited = None" by code_simp
  have l: "sample_limit \<in> set (spending_limits sample_limited)" by (simp add: sample_limited_def)
  have a: "limit_applies sample_scope sample_limit"
    by (simp add: limit_applies_def sample_limit_def sample_scope_def user_scope_def scope_column_def)
  from reserve_within_limits [OF sample_limited_reserve k l a] show ?thesis
    by (simp add: sample_limit_def period_start_def)
qed

section \<open>Settling\<close>

lemma reserved_put:
  assumes "rows_ok db" and "reservation_by_id db i = Some r" and "res_id r' = res_id r"
    and "res_status r = Reserved" and "res_status r' \<noteq> Reserved"
    and "reservations db' = put_row res_id r' (reservations db)"
  shows "reserved_since db' s j start x =
    reserved_since db s j start x - (if start \<le> res_created_at r \<and> scope_column s (res_scope r) = Some j \<and>
      (case x of None \<Rightarrow> True | Some y \<Rightarrow> res_id r \<noteq> y) then estimated_amount r else 0)"
  using assms reservation_by_idD [OF assms(2)] unfolding reserved_since_def rows_ok_def
  by (auto simp: sum_where_put_row)

lemma settle_spent:
  assumes "ledger db' = ledger db @ (settled_entry r w act pc ty md now)\<lparr>led_id := j\<rparr> # rest"
    and "\<forall>e \<in> set rest. led_status e = Released" and "0 \<le> act"
  shows "spent_since db' s i start \<le> spent_since db s i start +
    (if scope_column s (res_scope r) = Some i then act else 0)"
proof -
  have "sum_where (\<lambda>e. led_status e = Settled \<and> led_type e \<in> set SPENDING_TRANSACTION_TYPES \<and>
        start \<le> led_created_at e \<and> scope_column s (led_scope e) = Some i) led_amount rest = 0"
    using assms(2) by (intro sum_where_none) auto
  with assms(3) show ?thesis
    unfolding spent_append [OF assms(1)] by (simp add: settled_entry_def ledger_row_def)
qed

text \<open>
  Settling within the estimate is safe: for every scope and every period that already
  contained the reservation, it cannot raise settled plus reserved spend, so no limit that
  held before is exceeded by it.
\<close>

theorem settle_within_estimate_safe:
  assumes "reachable db" and "settle i x pc md ty now db = (db', Inr r')"
    and "reservation_by_id db i = Some r" and "res_status r = Reserved"
    and "money x \<le> estimated_amount r" and "start \<le> res_created_at r"
  shows "exposure db' s j start \<le> exposure db s j start"
  using assms(2-4)
proof (rule settle_open)
  fix w rest
  assume *: "0 \<le> money x" "r' = settled_row r (money x)"
    "reservations db' = put_row res_id r' (reservations db)"
    "ledger db' = ledger db @ (settled_entry r w (money x) pc ty md now)\<lparr>led_id := next_id db\<rparr> # rest"
    "\<forall>e \<in> set rest. led_status e = Released"
  have R: "rows_ok db" by (rule books_rows [OF billing.reached_inv [OF assms(1)]])
  have "reserved_since db' s j start None = reserved_since db s j start None -
      (if scope_column s (res_scope r) = Some j then estimated_amount r else 0)"
    using reserved_put [OF R assms(3) _ assms(4) _ *(3), of s j start None] assms(6) *(2)
    by (simp add: settled_row_def)
  with settle_spent [OF *(4,5,1), of s j start] assms(5) show ?thesis
    by (simp add: exposure_def split: if_splits)
qed

theorem settle_within_estimate_safe_witness:
  "exposure (fst (settle 3 5 4 [] AI_INFERENCE 1 sample_reserved)) User 7 0 \<le> exposure sample_reserved User 7 0"
proof -
  have s: "settle 3 5 4 [] AI_INFERENCE 1 sample_reserved =
    (fst (settle 3 5 4 [] AI_INFERENCE 1 sample_reserved), Inr (settled_row sample_limited_row 5))" by code_simp
  have r: "reservation_by_id sample_reserved 3 = Some sample_limited_row" by code_simp
  have m: "money 5 \<le> 8" by code_simp
  show ?thesis
    using m by (intro settle_within_estimate_safe [OF sample_reserved_reachable s r])
      (simp_all add: sample_limited_row_def new_reservation_def)
qed

text \<open>
  Settling above the estimate is bounded: the check of the additional amount leaves the
  reservation's own estimate out of the projected spend, so for an active limit on one of
  the reservation's scopes, whose period contains the reservation, settled plus reserved
  spend afterwards is at most the limit plus the original estimate.
\<close>

theorem settle_overrun_bounded:
  assumes "reachable db" and "settle i x pc md ty now db = (db', Inr r')"
    and "reservation_by_id db i = Some r" and "res_status r = Reserved"
    and "estimated_amount r < money x"
    and "l \<in> set (spending_limits db)" and "limit_applies (res_scope r) l"
    and "period_start (lim_period l) now \<le> res_created_at r"
  shows "exposure db' (lim_scope_type l) (lim_scope_id l) (period_start (lim_period l) now)
    \<le> lim_amount l + estimated_amount r"
  using assms(2-4)
proof (rule settle_open)
  fix w rest
  assume *: "0 \<le> money x" "r' = settled_row r (money x)"
    "reservations db' = put_row res_id r' (reservations db)"
    "ledger db' = ledger db @ (settled_entry r w (money x) pc ty md now)\<lparr>led_id := next_id db\<rparr> # rest"
    "\<forall>e \<in> set rest. led_status e = Released"
    "estimated_amount r < money x \<Longrightarrow>
       check db (money x - estimated_amount r) (res_scope r) now (Some (res_id r)) = None"
  let ?s = "lim_scope_type l" and ?j = "lim_scope_id l" and ?t = "period_start (lim_period l) now"
  have R: "rows_ok db" by (rule books_rows [OF billing.reached_inv [OF assms(1)]])
  have col: "scope_column ?s (res_scope r) = Some ?j" using assms(7) by (simp add: limit_applies_def)
  have "check db (money x - estimated_amount r) (res_scope r) now (Some (res_id r)) = None"
    using *(6) assms(5) by blast
  then have "spent_since db ?s ?j ?t + reserved_since db ?s ?j ?t (Some (res_id r)) +
      (money x - estimated_amount r) \<le> lim_amount l"
    using assms(6,7) unfolding check_None_iff projected_spend_def Let_def by blast
  moreover have "reserved_since db' ?s ?j ?t None = reserved_since db' ?s ?j ?t (Some (res_id r))"
  proof -
    have "res_status v \<noteq> Reserved" if "v \<in> set (put_row res_id r' (reservations db))" "res_id v = res_id r" for v
      using in_put_rowD [OF that(1)] that(2) *(2) by (auto simp: settled_row_def)
    then show ?thesis
      unfolding reserved_since_def *(3) by (intro sum_where_cong) auto
  qed
  moreover have "reserved_since db' ?s ?j ?t (Some (res_id r)) = reserved_since db ?s ?j ?t (Some (res_id r))"
    using reserved_put [OF R assms(3) _ assms(4) _ *(3)] *(2) by (simp add: settled_row_def)
  ultimately show ?thesis
    using settle_spent [OF *(4,5,1), of ?s ?j ?t] col by (simp add: exposure_def)
qed

definition sample_overrun :: billing_db where
  "sample_overrun = fst (settle 3 15 12 [] AI_INFERENCE 1 sample_limited_reserved)"

lemma sample_limited_reachable: "reachable sample_limited_reserved"
proof -
  have "reachable (sample_funded\<lparr>spending_limits := [sample_limit],
      pricing_rules := pricing_rules sample_funded, usage_logs := usage_logs sample_funded\<rparr>)"
    by (rule reached_step [OF sample_funded_reachable], rule charge, rule do_admin)
  then have "reachable sample_limited" by (simp add: sample_limited_def)
  then show ?thesis unfolding sample_limited_reserved_def
    by (rule reached_step) (rule charge, rule do_reserve)
qed

lemma sample_overrun_eq:
  "settle 3 15 12 [] AI_INFERENCE 1 sample_limited_reserved = (sample_overrun, Inr (settled_row sample_limited_row 15))"
  by code_simp

theorem settle_overrun_bounded_witness:
  "exposure sample_overrun User 7 0 \<le> 18"
proof -
  have r: "reservation_by_id sample_limited_reserved 3 = Some sample_limited_row" by code_simp
  have l: "sample_limit \<in> set (spending_limits sample_limited_reserved)" by code_simp
  have m: "8 < money 15" by code_simp
  have f: "res_status sample_limited_row = Reserved" "estimated_amount sample_limited_row = 8"
    "res_created_at sample_limited_row = 0" "res_scope sample_limited_row = sample_scope"
    by (simp_all add: sample_limited_row_def new_reservation_def)
  have a: "limit_applies (res_scope sample_limited_row) sample_limit"
    by (simp add: f limit_applies_def sample_limit_def sample_scope_def user_scope_def scope_column_def)
  have "exposure sample_overrun (lim_scope_type sample_limit) (lim_scope_id sample_limit)
      (period_start (lim_period sample_limit) 1) \<le> lim_amount sample_limit + estimated_amount sample_limited_row"
    by (rule settle_overrun_bounded [OF sample_limited_reachable sample_overrun_eq r f(1) _ l a])
      (simp_all add: f m sample_limit_def period_start_def)
  then show ?thesis by (simp add: sample_limit_def period_start_def f)
qed

text \<open>
  The overrun happens: with a lifetime limit of 10 for the user, a reservation of 8 that
  is settled at 15 succeeds, and the user's settled spend is 15.
\<close>

theorem settle_overrun_exceeds_limit:
  "snd (settle 3 15 12 [] AI_INFERENCE 1 sample_limited_reserved) = Inr (settled_row sample_limited_row 15) \<and>
   spending_limits sample_overrun = [sample_limit] \<and> lim_amount sample_limit = 10 \<and>
   spent_since sample_overrun User 7 (period_start Lifetime 1) = 15"
proof -
  have "spending_limits sample_overrun = [sample_limit]" by code_simp
  moreover have "spent_since sample_overrun User 7 (period_start Lifetime 1) = 15" by code_simp
  ultimately show ?thesis by (simp add: sample_overrun_eq sample_limit_def)
qed

end
