(* ===== verification/Billing_Audit.thy ===== *)
theory Billing_Audit
  imports Billing_Machine
begin

text \<open>
  Credits, refunds, reconciliation and the budget check: a credit with a reference is booked
  once, a debit is refunded once, reconciliation is clean in every history without refunds
  and reports a false mismatch after one, and the budget check refuses exactly the requests
  that would reach the monthly limit.
\<close>

section \<open>A reference is booked once\<close>

lemma get_by_reference_single:
  "get_by_reference ref db = Inr (Some t) \<longleftrightarrow> filter (\<lambda>t. txn_reference t = Some ref) (wallet_transactions db) = [t]"
  by (auto simp: get_by_reference_def split: list.splits)

lemma get_by_reference_none:
  "get_by_reference ref db = Inr None \<longleftrightarrow> filter (\<lambda>t. txn_reference t = Some ref) (wallet_transactions db) = []"
  by (auto simp: get_by_reference_def split: list.splits)

lemma posting_users:
  assumes "posting db w' t db'" and "wal_user w' = wal_user w" and "wal_id w' = wal_id w"
    and "rows_ok db" and "wallet_by_user u db = Some w"
  shows "\<exists>v. wallet_by_user u db' = Some v"
proof -
  have w: "w \<in> set (wallets db)" "wal_user w = u" using assms(5) by (auto dest: wallet_by_userD)
  have "map wal_user (wallets db') = map wal_user (wallets db)"
    using assms w distinct_users_put [of "wallets db" w w'] by (simp add: posting_def rows_ok_def)
  then have "u \<in> wal_user ` set (wallets db')"
    using w by (metis image_eqI list.set_map)
  then show ?thesis by (metis row_by_None_iff wallet_by_user_def not_None_eq)
qed

lemma add_credit_stored:
  assumes "reachable db" and "add_credit u x why (Some (c # cs)) md now db = (db', Inr t)"
  shows "get_by_reference (c # cs) db' = Inr (Some t) \<and> (\<exists>w. wallet_by_user u db' = Some w) \<and> 0 < x"
  using assms(2)
proof (cases rule: add_credit_cases)
  case 1
  with assms(2) show ?thesis by (simp add: add_credit_def)
next
  case (2 w)
  have "replay_guard w (Some (c # cs)) db' = Inr (Some t) \<or> replay_guard w (Some (c # cs)) db' = Inr None"
    using assms(2) 2 by (auto simp: add_credit_def split: sum.splits option.splits)
  moreover have "replay_guard w (Some (c # cs)) db' \<noteq> Inr None"
  proof
    assume g: "replay_guard w (Some (c # cs)) db' = Inr None"
    from assms(2) 2 g have "length (ledger db') > length (ledger db')"
      by (auto simp: add_credit_def insert_transaction_def Let_def split: option.splits
          dest!: insert_ledger_frames(7) arg_cong [where f = length])
    then show False by simp
  qed
  ultimately have "get_by_reference (c # cs) db' = Inr (Some t)"
    by (auto simp: replay_guard_def truthy_def split: sum.splits option.splits if_splits)
  with 2 get_wallet_user [OF 2(1)] show ?thesis by blast
next
  case (3 db0 w t')
  have B: "books db0" using books_get_wallet [OF billing.reached_inv [OF assms(1)] 3(1)] by simp
  have "get_by_reference (c # cs) db0 = Inr None"
    using replay_guard_go [OF 3(3)] by (simp add: truthy_def)
  moreover have "wallet_transactions db' = wallet_transactions db0 @ [t']" using 3(4) by (simp add: posting_def)
  ultimately have "get_by_reference (c # cs) db' = Inr (Some t')"
    using 3(5) by (simp add: get_by_reference_none get_by_reference_single new_transaction_def)
  moreover have "\<exists>v. wallet_by_user u db' = Some v"
    by (rule posting_users [OF 3(4) _ _ books_rows [OF B] get_wallet_user [OF 3(1)]]) simp_all
  ultimately show ?thesis using 3(2,6) by simp
qed

text \<open>
  A top-up is booked once: after a credit with a (non-empty) payment reference has been
  accepted, delivering the same reference again returns the same transaction and changes
  nothing, so a payment provider may repeat its webhook.
\<close>

theorem credit_idempotent:
  assumes "reachable db" and "add_credit u x why (Some (c # cs)) md now db = (db', Inr t)" and "0 < y"
  shows "add_credit u y why2 (Some (c # cs)) md2 now2 db' = (db', Inr t)"
proof -
  obtain w where "wallet_by_user u db' = Some w" and "get_by_reference (c # cs) db' = Inr (Some t)"
    using add_credit_stored [OF assms(1,2)] by blast
  then show ?thesis using assms(3)
    by (simp add: add_credit_def get_wallet_def replay_guard_def truthy_def)
qed

theorem credit_idempotent_witness:
  "fst (add_credit 7 20 ''top up'' (Some ''t1'') [] 9 sample_funded) = sample_funded"
proof -
  have e: "reachable empty_db" by (rule reached_init) (simp add: fresh_db_def empty_db_def)
  have "add_credit 7 20 ''top up'' (Some ''t1'') [] 0 empty_db = (sample_funded, Inr
    ((new_transaction ((new_wallet 7 ''usd'')\<lparr>wal_id := 0\<rparr>) CREDIT 20 20 ''top up'' (Some ''t1'') [] 0)\<lparr>txn_id := 1\<rparr>))"
    by code_simp
  from credit_idempotent [OF e this, of 20 "''top up''" "[]" 9] show ?thesis by simp
qed

section \<open>Refunds\<close>

lemma transaction_append:
  "wallet_transactions db' = wallet_transactions db @ ts \<Longrightarrow> transaction_by_id i db = Some t \<Longrightarrow>
     transaction_by_id i db' = Some t"
  by (simp add: transaction_by_id_def row_by_append)

text \<open>
  A debit is refunded at most once: after a successful refund every further refund of
  the same transaction, by any user, is rejected and changes nothing.
\<close>

theorem refund_once:
  assumes "refund_transaction u tid why now db = (db', Inr t)"
  shows "refund_transaction v tid why2 now2 db' =
    (db', Inl (ValueError ''Transaction has already been refunded''))"
  using assms
proof (cases rule: refund_cases)
  case (2 orig w t)
  have "transaction_by_id tid db' = Some orig"
    using transaction_append [OF _ 2(1)] 2(6) by (simp add: posting_def)
  with 2 show ?thesis by (simp add: refund_transaction_def)
qed auto

definition sample_debited :: billing_db where
  "sample_debited = fst (deduct_credit 7 4 ''chat'' (Some ''d1'') [] 1 sample_funded)"

definition sample_refunded :: billing_db where
  "sample_refunded = fst (refund_transaction 7 3 ''sorry'' 2 sample_debited)"

definition sample_refund :: wallet_transaction where
  "sample_refund = (new_transaction (sample_wallet\<lparr>balance := 16, reserved_balance := 0, total_spent := 4\<rparr>)
     REFUND 4 20 ''sorry'' (Some ''3'') [(''original_transaction_id'', ''3'')] 2)\<lparr>txn_id := 5\<rparr>"

lemma sample_refund_eq:
  "refund_transaction 7 3 ''sorry'' 2 sample_debited = (sample_refunded, Inr sample_refund)"
  by code_simp

theorem refund_once_witness:
  "fst (refund_transaction 7 3 ''again'' 3 sample_refunded) = sample_refunded"
  by (simp add: refund_once [OF sample_refund_eq])

text \<open>
  A refund makes reconciliation report a false mismatch: \<open>refund_transaction\<close> lowers the
  wallet's total spent but books the reversal as a new ledger row, while reconciliation sums
  the settled charges without subtracting reversals. From a wallet whose spend agrees with
  its ledger, a successful refund of a debit always ends in a wallet that reconciliation
  calls inconsistent.
\<close>

theorem refund_false_mismatch:
  assumes "reachable db" and "refund_transaction u tid why now db = (db', Inr t)"
    and "wallet_by_user u db = Some w" and "settled_spend u db = total_spent w"
    and "money (total_spent w) = total_spent w" and "MONEY_QUANTUM \<le> txn_amount t"
  shows "Spent_Mismatch \<in> set (mismatches (reconcile_wallet u now2 db'))"
  using assms(2)
proof (cases rule: refund_cases)
  case (2 orig v t')
  note B = billing.reached_inv [OF assms(1)]
  have v: "v = w" using 2(4) assms(3) by simp
  let ?w = "w\<lparr>balance := balance w + txn_amount orig, total_spent := max 0 (total_spent w - txn_amount orig)\<rparr>"
  have amt: "txn_amount t = txn_amount orig \<and> settled_spend u db' = settled_spend u db"
    using assms(2) 2(1-5)
    by (auto simp: refund_transaction_def insert_transaction_def Let_def new_transaction_def settled_spend_def
        SPENDING_TRANSACTION_TYPES_def ledger_row_def split: option.splits dest!: insert_ledger_frames(7))
  have ids: "map wal_user (wallets db') = map wal_user (wallets db)" "wallets db' = put_row wal_id ?w (wallets db)"
    using 2(6) v distinct_users_put [of "wallets db" w ?w] books_rows [OF B] wallet_by_userD [OF assms(3)]
    by (auto simp: posting_def rows_ok_def)
  have "?w \<in> set (wallets db')" using ids(2) wallet_by_userD [OF assms(3)]
    by (auto simp: put_row_def image_iff intro!: bexI [of _ w])
  moreover have "distinct (map wal_user (wallets db'))" using ids(1) books_rows [OF B] by (simp add: rows_ok_def)
  ultimately have w': "wallet_by_user u db' = Some ?w"
    using row_by_distinct [of wal_user "wallets db'" ?w] wallet_by_userD [OF assms(3)] by (simp add: wallet_by_user_def)
  have pos: "MONEY_QUANTUM \<le> txn_amount orig" using assms(6) amt by simp
  have spent: "txn_amount orig \<le> total_spent w"
  proof -
    have o: "orig \<in> set (wallet_transactions db)" using 2(1) by (auto dest: transaction_by_idD)
    have "txn_amount orig \<le> refundable (wal_id w) db"
      unfolding refundable_def using o 2(2,3,5) v books_rows [OF B]
      by (intro sum_where_member) (auto simp: rows_ok_def intro: less_imp_le)
    then show ?thesis using books_wallet [OF B] wallet_by_userD [OF assms(3)] by (fastforce simp: wallet_ok_def)
  qed
  have "money (total_spent w - txn_amount orig) < total_spent w - txn_amount orig + MONEY_QUANTUM"
    by (rule money_lt_quantum)
  then have "money (total_spent ?w) < money (settled_spend u db')"
    using pos spent assms(4,5) amt by simp
  then show ?thesis using w' by (simp add: reconcile_wallet_def wallet_mismatches_def Let_def)
qed auto

lemma sample_debited_reachable: "reachable sample_debited"
  unfolding sample_debited_def by (rule reached_step [OF sample_funded_reachable]) (rule charge, rule do_deduct)

theorem refund_false_mismatch_witness:
  "Spent_Mismatch \<in> set (mismatches (reconcile_wallet 7 3 sample_refunded))"
proof -
  have w: "wallet_by_user 7 sample_debited = Some (sample_wallet\<lparr>balance := 16, reserved_balance := 0, total_spent := 4\<rparr>)"
    by code_simp
  have s: "settled_spend 7 sample_debited = 4" by code_simp
  have m: "money 4 = 4" by code_simp
  show ?thesis
    by (rule refund_false_mismatch [OF sample_debited_reachable sample_refund_eq w])
      (simp_all add: s m sample_refund_def new_transaction_def MONEY_QUANTUM_def)
qed

section \<open>The budget check\<close>

text \<open>
  The budget check refuses exactly what would reach the limit: a request is refused if
  and only if the user has a monthly limit and the spend so far plus the estimate reaches
  it; a refusal leaves the limit flag set, and no check changes the recorded spend or the
  limit.
\<close>

theorem check_budget_decides:
  assumes "budget_by_user db u = Some b"
  shows "(snd (check_budget u est db) \<longleftrightarrow>
      (case monthly_limit b of None \<Rightarrow> True | Some l \<Rightarrow> current_spend b + est < l)) \<and>
    (\<exists>b'. budget_by_user (fst (check_budget u est db)) u = Some b' \<and>
       current_spend b' = current_spend b \<and> monthly_limit b' = monthly_limit b \<and>
       limit_reached b' = (limit_reached b \<or> \<not> snd (check_budget u est db)))"
proof -
  have u: "bud_user b = u" using assms by (auto simp: budget_by_user_def dest: row_by_SomeD)
  have saved: "budget_by_user (notify u ev l (save_budget b' db0)) u = Some b'"
    if "budget_by_user db0 u = Some b0" "bud_user b' = u" for db0 b0 b' ev l
    using budget_repo.get_save_same [of db0 b' b0] that by (simp add: budget_by_user_def)
  show ?thesis
  proof (cases "monthly_limit b")
    case None
    with assms show ?thesis by (simp add: check_budget_def)
  next
    case (Some l)
    define b1 where "b1 = b\<lparr>warning_90_sent := True\<rparr>"
    define db1 where "db1 = notify u Warning_90 l (save_budget b1 db)"
    have d1: "budget_by_user db1 u = Some b1" unfolding db1_def by (rule saved [OF assms]) (simp add: b1_def u)
    note s0 = saved [OF assms] and s1 = saved [OF d1]
    consider (refuse) "l \<le> current_spend b + est" | (both) "current_spend b + est < l"
      "l * (9/10) \<le> current_spend b + est \<and> \<not> warning_90_sent b"
      | (only80) "current_spend b + est < l" "\<not> (l * (9/10) \<le> current_spend b + est \<and> \<not> warning_90_sent b)"
      by linarith
    then show ?thesis
    proof cases
      case refuse
      with assms Some s0 [of "b\<lparr>limit_reached := True\<rparr>"] u show ?thesis
        by (cases "limit_reached b") (simp_all add: check_budget_def Let_def)
    next
      case both
      with assms Some d1 s1 [of "b1\<lparr>warning_80_sent := True\<rparr>"] u show ?thesis
        by (simp add: check_budget_def Let_def flip: b1_def db1_def) (simp add: b1_def)
    next
      case only80
      then have w90: "(l * (9/10) \<le> current_spend b + est \<and> \<not> warning_90_sent b) = False" by blast
      show ?thesis
        using only80(1) assms Some s0 [of "b\<lparr>warning_80_sent := True\<rparr>"] u
        unfolding check_budget_def by (simp add: Let_def w90 del: times_divide_eq_right)
    qed
  qed
qed

definition sample_budget_db :: billing_db where
  "sample_budget_db = fst (create_or_update_budget 7 \<lparr>bc_monthly_limit = 10, bc_enabled = False,
     bc_threshold = None, bc_amount = None\<rparr> sample_funded)"

theorem check_budget_decides_witness:
  "snd (check_budget 7 9 sample_budget_db) \<and> \<not> snd (check_budget 7 10 sample_budget_db)"
proof -
  obtain b where b: "budget_by_user sample_budget_db 7 = Some b" "monthly_limit b = Some 10" "current_spend b = 0"
    by (rule that [of "\<lparr>bud_user = 7, monthly_limit = Some 10, current_spend = 0, warning_80_sent = False,
      warning_90_sent = False, limit_reached = False, auto_top_up_enabled = False,
      auto_top_up_threshold = None, auto_top_up_amount = None\<rparr>"]) (code_simp, simp_all)
  from check_budget_decides [OF b(1), of 9] check_budget_decides [OF b(1), of 10] b(2,3) show ?thesis by simp
qed

end
