(* ===== verification/Billing_History.thy ===== *)
theory Billing_History
  imports Billing_Machine
begin

text \<open>
  Histories without refunds. In these the settled spend a user's ledger shows never exceeds
  the spend recorded in the user's wallet, so reconciliation finds nothing but reservations
  that are due for expiry.
\<close>

section \<open>The invariant\<close>

definition spent_by :: "uuid \<Rightarrow> billing_db \<Rightarrow> decimal" where
  "spent_by v db = sum_where (\<lambda>w. wal_user w = v) total_spent (wallets db)"

definition owned :: "billing_db \<Rightarrow> bool" where
  "owned db = (\<forall>r \<in> set (reservations db). \<exists>w \<in> set (wallets db).
     wal_id w = res_wallet r \<and> wal_user w = att_user (res_scope r))"

definition spend_ok :: "billing_db \<Rightarrow> bool" where
  "spend_ok db = (books db \<and> owned db \<and> (\<forall>v. settled_spend v db \<le> spent_by v db))"

lemma spend_ok_books: "spend_ok db \<Longrightarrow> books db"
  by (simp add: spend_ok_def)

lemma spend_ok_frame:
  assumes "spend_ok db" and "books db'" and "wallets db' = wallets db" and "reservations db' = reservations db"
    and "ledger db' = ledger db"
  shows "spend_ok db'"
  using assms by (simp add: spend_ok_def owned_def spent_by_def settled_spend_def)

lemma spend_ok_insert_wallet:
  assumes "spend_ok db" and "books db'" and "wallets db' = wallets db @ [w]" and "0 \<le> total_spent w"
    and "reservations db' = reservations db" and "ledger db' = ledger db"
  shows "spend_ok db'"
  using assms by (auto simp: spend_ok_def owned_def spent_by_def settled_spend_def intro: add_increasing2)

text \<open>One wallet is rewritten: the ledger may grow by what was added to its spend.\<close>

lemma spend_ok_put:
  assumes H: "spend_ok db" and B: "books db'" and w: "w \<in> set (wallets db)"
    and w': "wal_id w' = wal_id w" "wal_user w' = wal_user w"
    and W: "wallets db' = put_row wal_id w' (wallets db)"
    and R: "\<And>r. r \<in> set (reservations db') \<Longrightarrow>
      (\<exists>r0 \<in> set (reservations db). res_wallet r0 = res_wallet r \<and> res_scope r0 = res_scope r) \<or>
      (res_wallet r = wal_id w \<and> att_user (res_scope r) = wal_user w)"
    and S: "\<And>v. settled_spend v db' \<le> settled_spend v db +
      (if v = wal_user w then total_spent w' - total_spent w else 0)"
  shows "spend_ok db'"
proof -
  have D: "distinct (map wal_id (wallets db))" using books_rows [OF spend_ok_books [OF H]] by (simp add: rows_ok_def)
  have keep: "\<exists>y \<in> set (wallets db'). wal_id y = wal_id x \<and> wal_user y = wal_user x" if "x \<in> set (wallets db)" for x
  proof (cases "wal_id x = wal_id w")
    case True
    then have "x = w" using D that w by (metis row_by_distinct option.inject)
    moreover have "w' \<in> set (wallets db')" using w w' unfolding W put_row_def by force
    ultimately show ?thesis using w' by auto
  next
    case False
    then have "x \<in> set (wallets db')" using that w' unfolding W put_row_def by force
    then show ?thesis by auto
  qed
  have "\<exists>y \<in> set (wallets db'). wal_id y = res_wallet r \<and> wal_user y = att_user (res_scope r)"
    if r: "r \<in> set (reservations db')" for r
    using R [OF r]
  proof
    assume "\<exists>r0 \<in> set (reservations db). res_wallet r0 = res_wallet r \<and> res_scope r0 = res_scope r"
    then obtain x where "x \<in> set (wallets db)" "wal_id x = res_wallet r" "wal_user x = att_user (res_scope r)"
      using H unfolding spend_ok_def owned_def by metis
    with keep [of x] show ?thesis by simp
  next
    assume "res_wallet r = wal_id w \<and> att_user (res_scope r) = wal_user w"
    with keep [OF w] show ?thesis by simp
  qed
  moreover have "settled_spend v db' \<le> spent_by v db'" for v
  proof -
    have "spent_by v db' = spent_by v db + (if v = wal_user w then total_spent w' - total_spent w else 0)"
      using sum_where_put_row [OF D w w'(1), of "\<lambda>w. wal_user w = v" total_spent] w'(2)
      by (simp add: spent_by_def W)
    moreover have "settled_spend v db \<le> spent_by v db" using H by (simp add: spend_ok_def)
    ultimately show ?thesis using S [of v] by linarith
  qed
  ultimately show ?thesis using B by (simp add: spend_ok_def owned_def)
qed

section \<open>Every charge keeps it\<close>

lemma spend_ok_get_wallet:
  assumes "spend_ok db" and "get_wallet u db = (db0, w)"
  shows "spend_ok db0 \<and> w \<in> set (wallets db0) \<and> wal_user w = u"
proof -
  note B = books_get_wallet [OF spend_ok_books [OF assms(1)] assms(2)]
  from assms(2) have "spend_ok db0"
    by (rule get_wallet_cases)
      (use assms(1) B in \<open>auto intro: spend_ok_insert_wallet [of db] simp: new_wallet_def\<close>)
  with B get_wallet_owner [OF assms(2)] show ?thesis by simp
qed

lemma spend_ok_posting:
  assumes "spend_ok db" and "posting db w' t db'" and "books db'" and "w \<in> set (wallets db)"
    and "wal_id w' = wal_id w" and "wal_user w' = wal_user w"
    and "total_spent w' - total_spent w = (if txn_type t = DEBIT then txn_amount t else 0)"
  shows "spend_ok db'"
proof (rule spend_ok_put [OF assms(1,3,4,5,6)])
  show "settled_spend v db' \<le> settled_spend v db + (if v = wal_user w then total_spent w' - total_spent w else 0)" for v
    using assms(2) unfolding assms(7) by (auto simp: posting_def assms(6) dest: spec [of _ v])
qed (use assms(2) in \<open>auto simp: posting_def\<close>)

lemma spend_ok_add_credit:
  assumes "spend_ok db" and "add_credit u x why ref md now db = (db', res)"
  shows "spend_ok db'"
  using assms(2)
proof (cases rule: add_credit_cases)
  case (3 db0 w t)
  note G = spend_ok_get_wallet [OF assms(1) 3(1)]
  show ?thesis
    by (rule spend_ok_posting [OF _ 3(4), of w])
      (use G 3(5) books_add_credit [OF spend_ok_books [OF assms(1)] assms(2)] in \<open>auto simp: new_transaction_def\<close>)
qed (use assms spend_ok_get_wallet in auto)

lemma spend_ok_deduct:
  assumes "spend_ok db" and "deduct_credit u x why ref md now db = (db', res)"
  shows "spend_ok db'"
  using assms(2)
proof (cases rule: deduct_credit_cases)
  case (3 db0 w t)
  note G = spend_ok_get_wallet [OF assms(1) 3(1)]
  show ?thesis
    by (rule spend_ok_posting [OF _ 3(5), of w])
      (use G 3(6) books_deduct_credit [OF spend_ok_books [OF assms(1)] assms(2)] in \<open>auto simp: new_transaction_def\<close>)
qed (use assms spend_ok_get_wallet in auto)

lemma closed_rows:
  assumes "reservations db' = put_row res_id r' (reservations db)" and "r \<in> set (reservations db)"
    and "res_wallet r' = res_wallet r" and "res_scope r' = res_scope r" and "v \<in> set (reservations db')"
  shows "\<exists>r0 \<in> set (reservations db). res_wallet r0 = res_wallet v \<and> res_scope r0 = res_scope v"
  using assms in_put_rowD [of v res_id r' "reservations db"] by auto

lemma owner_of_reservation:
  assumes "spend_ok db" and "reservation_by_id db i = Some r" and "wallet_by_id db (res_wallet r) = Some w"
  shows "wal_user w = att_user (res_scope r) \<and> w \<in> set (wallets db)"
proof -
  note w = wallet_by_idD [OF assms(3)] and r = reservation_by_idD [OF assms(2)]
  obtain x where x: "x \<in> set (wallets db)" "wal_id x = res_wallet r" "wal_user x = att_user (res_scope r)"
    using assms(1) r by (auto simp: spend_ok_def owned_def)
  have "distinct (map wal_id (wallets db))" using books_rows [OF spend_ok_books [OF assms(1)]] by (simp add: rows_ok_def)
  then have "x = w" using x w by (metis row_by_distinct option.inject)
  with x w show ?thesis by simp
qed

lemma settled_spend_released: "\<forall>e \<in> set es. led_status e = Released \<Longrightarrow>
   sum_where (\<lambda>e. att_user (led_scope e) = v \<and> led_status e = Settled \<and> led_type e \<in> S) led_amount es = 0"
  by (rule sum_where_none) auto

lemma spend_ok_settle:
  assumes "spend_ok db" and "settle i x pc md ty now db = (db', res)"
  shows "spend_ok db'"
proof (cases "\<exists>r r'. reservation_by_id db i = Some r \<and> res_status r = Reserved \<and> res = Inr r'")
  case True
  then obtain r r' where r: "reservation_by_id db i = Some r" "res_status r = Reserved" "res = Inr r'" by blast
  from assms(2) r(3) have s: "settle i x pc md ty now db = (db', Inr r')" by simp
  note B = books_settle [OF spend_ok_books [OF assms(1)] assms(2)]
  from s r(1,2) show ?thesis
  proof (rule settle_open)
    fix w rest
    assume *: "wallet_by_id db (res_wallet r) = Some w" "0 \<le> money x" "r' = settled_row r (money x)"
      "wallets db' = put_row wal_id (settled_wallet r (money x) w) (wallets db)"
      "reservations db' = put_row res_id r' (reservations db)"
      "ledger db' = ledger db @ (settled_entry r w (money x) pc ty md now)\<lparr>led_id := next_id db\<rparr> # rest"
      "\<forall>e \<in> set rest. led_status e = Released"
    note O = owner_of_reservation [OF assms(1) r(1) *(1)]
    show "spend_ok db'"
    proof (rule spend_ok_put [OF assms(1) B, of w "settled_wallet r (money x) w"])
      show "settled_spend v db' \<le> settled_spend v db +
        (if v = wal_user w then total_spent (settled_wallet r (money x) w) - total_spent w else 0)" for v
        using O *(2) settled_spend_released [OF *(7), of v "set SPENDING_TRANSACTION_TYPES"]
        by (auto simp: settled_spend_def *(6) settled_entry_def ledger_row_def settled_wallet_def)
      show "(\<exists>r0 \<in> set (reservations db). res_wallet r0 = res_wallet v \<and> res_scope r0 = res_scope v) \<or>
        (res_wallet v = wal_id w \<and> att_user (res_scope v) = wal_user w)" if "v \<in> set (reservations db')" for v
        using closed_rows [OF *(5) _ _ _ that, of r] reservation_by_idD [OF r(1)] by (simp add: *(3) settled_row_def)
    qed (use O * in \<open>auto simp: settled_wallet_def\<close>)
  qed
next
  case False
  have "db' = db"
  proof (cases res)
    case (Inl e)
    with assms(2) show ?thesis by (auto dest: settle_error)
  next
    case (Inr r')
    with False assms(2) show ?thesis
      by (cases "reservation_by_id db i") (auto simp: settle_def)
  qed
  with assms(1) show ?thesis by simp
qed

lemma spend_ok_release:
  assumes "spend_ok db" and "release i why now db = (db', res)"
  shows "spend_ok db'"
proof (cases "\<exists>r r'. reservation_by_id db i = Some r \<and> res_status r = Reserved \<and> res = Inr r'")
  case True
  then obtain r r' where r: "reservation_by_id db i = Some r" "res_status r = Reserved" "res = Inr r'" by blast
  from assms(2) r(3) have s: "release i why now db = (db', Inr r')" by simp
  note B = books_release [OF spend_ok_books [OF assms(1)] assms(2)]
  from s r(1,2) show ?thesis
  proof (rule release_open)
    fix w e
    assume *: "wallet_by_id db (res_wallet r) = Some w" "r' = released_row r"
      "wallets db' = put_row wal_id (released_wallet r w) (wallets db)"
      "reservations db' = put_row res_id r' (reservations db)"
      "ledger db' = ledger db @ [e]" "led_status e = Released"
    note O = owner_of_reservation [OF assms(1) r(1) *(1)]
    show "spend_ok db'"
    proof (rule spend_ok_put [OF assms(1) B, of w "released_wallet r w"])
      show "settled_spend v db' \<le> settled_spend v db +
        (if v = wal_user w then total_spent (released_wallet r w) - total_spent w else 0)" for v
        by (simp add: settled_spend_def *(5,6) released_wallet_def)
      show "(\<exists>r0 \<in> set (reservations db). res_wallet r0 = res_wallet v \<and> res_scope r0 = res_scope v) \<or>
        (res_wallet v = wal_id w \<and> att_user (res_scope v) = wal_user w)" if "v \<in> set (reservations db')" for v
        using closed_rows [OF *(4) _ _ _ that, of r] reservation_by_idD [OF r(1)] by (simp add: *(2) released_row_def)
    qed (use O * in \<open>auto simp: released_wallet_def\<close>)
  qed
next
  case False
  have "db' = db"
  proof (cases res)
    case (Inl e)
    with assms(2) show ?thesis by (auto dest: release_error)
  next
    case (Inr r')
    with False assms(2) show ?thesis
      by (cases "reservation_by_id db i") (auto simp: release_def)
  qed
  with assms(1) show ?thesis by simp
qed

lemma spend_ok_release_each: "spend_ok db \<Longrightarrow> spend_ok (fst (release_each is n now db))"
proof (induction "is" arbitrary: n db)
  case (Cons i "is")
  obtain db1 res where r: "release i ''reservation_expired'' now db = (db1, res)" by fastforce
  have "spend_ok db1" by (rule spend_ok_release [OF Cons.prems r])
  with r Cons.IH show ?case by (cases res) auto
qed simp

lemma spend_ok_reserve:
  assumes "spend_ok db" and "reserve a x rq k rt md ttl now db = (db', res)"
  shows "spend_ok db'"
proof (cases "reservation_by_key k db = None \<and> (\<exists>r. res = Inr r)")
  case True
  then obtain r where k: "reservation_by_key k db = None" and s: "reserve a x rq k rt md ttl now db = (db', Inr r)"
    using assms(2) by auto
  note B = books_reserve [OF spend_ok_books [OF assms(1)] assms(2)]
  from s k show ?thesis
  proof (rule reserve_new)
    fix db1 w
    assume *: "wallet_for_update (att_user a) db = (db1, w)"
      "r = new_reservation w a rq k (money x) rt md ttl now (next_id db1)"
      "wallets db' = put_row wal_id (w\<lparr>balance := balance w - money x,
         reserved_balance := reserved_balance w + money x\<rparr>) (wallets db1)"
      "reservations db' = reservations db1 @ [r]"
      "ledger db' = ledger db1 @ [(ledger_row RESERVATION a (Some rq) (Some (k @ '':reservation''))
         rt (Some (uuid_text (res_id r))) (money x) (wal_currency w) 0 0 Reserved md now)\<lparr>led_id := Suc (next_id db1)\<rparr>]"
    have "get_wallet (att_user a) db = (db1, w)" using *(1) by (simp add: get_wallet_def wallet_for_update_def)
    note G = spend_ok_get_wallet [OF assms(1) this]
    show "spend_ok db'"
      by (rule spend_ok_put [OF _ B _ _ _ *(3), of w])
        (use G *(2,4) in \<open>auto simp: settled_spend_def *(5) ledger_row_def new_reservation_def\<close>)
  qed
next
  case False
  have "db' = db"
  proof (cases res)
    case (Inl e)
    with assms(2) show ?thesis by (auto dest: reserve_error)
  next
    case (Inr r)
    with False obtain r0 where "reservation_by_key k db = Some r0" by auto
    with assms(2) show ?thesis by (auto simp: reserve_def Let_def split: if_splits)
  qed
  with assms(1) show ?thesis by simp
qed

lemma spend_ok_bill:
  assumes "spend_ok db" and "bill_operation a est act rq k pc rt ty md now db = (db', res)"
  shows "spend_ok db'"
proof -
  obtain db1 r1 where r: "reserve a est rq k rt md 900 now db = (db1, r1)" by fastforce
  have "spend_ok db1" by (rule spend_ok_reserve [OF assms(1) r])
  with assms(2) r show ?thesis
    by (cases r1) (auto simp: bill_operation_def intro: spend_ok_settle)
qed

lemma spend_ok_auto_top_up: "spend_ok db \<Longrightarrow> spend_ok (fst (check_auto_top_up u db))"
proof -
  assume H: "spend_ok db"
  obtain db1 w where g: "get_wallet u db = (db1, w)" by fastforce
  have "spend_ok db1" using spend_ok_get_wallet [OF H g] by simp
  then show ?thesis
    using H g unfolding check_auto_top_up_def by (simp split: option.split)
qed

lemma spend_ok_create:
  assumes "spend_ok db"
  shows "spend_ok (fst (create_wallet u cur db))"
proof (cases "wallet_by_user u db")
  case None
  show ?thesis
    by (rule spend_ok_insert_wallet [OF assms books_create [OF spend_ok_books [OF assms]], of _ _ "(new_wallet u cur)\<lparr>wal_id := next_id db\<rparr>"])
      (simp_all add: None create_wallet_def insert_wallet_def new_wallet_def Let_def)
next
  case (Some w)
  with assms show ?thesis by (simp add: create_wallet_def)
qed

lemma fst_spend: "(\<And>db' res. f = (db', res) \<Longrightarrow> spend_ok db') \<Longrightarrow> spend_ok (fst f)"
  by (cases f) simp

lemma charge_step_spend:
  assumes "charge_step db db'" and "spend_ok db"
  shows "spend_ok db'"
  using assms
proof (induction rule: charge_step.induct)
  case (do_expire db n now)
  then show ?case by (simp add: expire_reservations_def spend_ok_release_each)
next
  case (do_set_budget db u bc)
  note B = charge_step_books [OF charge_step.do_set_budget spend_ok_books [OF do_set_budget]]
  show ?case
    by (rule spend_ok_frame [OF do_set_budget B]) (auto simp: create_or_update_budget_def Let_def split: option.split)
next
  case (do_update_budget db u bu)
  note B = charge_step_books [OF charge_step.do_update_budget spend_ok_books [OF do_update_budget]]
  show ?case
    by (rule spend_ok_frame [OF do_update_budget B]) (auto simp: update_budget_def Let_def split: option.split)
next
  case (do_reset db)
  note B = charge_step_books [OF charge_step.do_reset spend_ok_books [OF do_reset]]
  show ?case by (rule spend_ok_frame [OF do_reset B]) (auto simp: reset_monthly_budgets_def)
next
  case (do_check_budget db u x)
  note B = charge_step_books [OF charge_step.do_check_budget spend_ok_books [OF do_check_budget]]
  show ?case by (rule spend_ok_frame [OF do_check_budget B]) auto
next
  case (do_admin db ls ps us)
  note B = charge_step_books [OF charge_step.do_admin spend_ok_books [OF do_admin]]
  show ?case by (rule spend_ok_frame [OF do_admin B]) auto
next
  case (do_usage db us)
  note B = charge_step_books [OF charge_step.do_usage spend_ok_books [OF do_usage]]
  show ?case by (rule spend_ok_frame [OF do_usage B]) auto
next
  case (do_reserve db a x rq k rt md ttl now)
  then show ?case by (intro fst_spend) (rule spend_ok_reserve)
next
  case (do_settle db i x pc md ty now)
  then show ?case by (intro fst_spend) (rule spend_ok_settle)
next
  case (do_release db i why now)
  then show ?case by (intro fst_spend) (rule spend_ok_release)
next
  case (do_bill db a est act rq k pc rt ty md now)
  then show ?case by (intro fst_spend) (rule spend_ok_bill)
next
  case (do_get_wallet db u)
  then show ?case by (intro fst_spend) (rule spend_ok_get_wallet [THEN conjunct1])
next
  case (do_create_wallet db u cur)
  then show ?case by (rule spend_ok_create)
next
  case (do_credit db u x why ref md now)
  then show ?case by (intro fst_spend) (rule spend_ok_add_credit)
next
  case (do_deduct db u x why ref md now)
  then show ?case by (intro fst_spend) (rule spend_ok_deduct)
next
  case (do_auto_top_up db u)
  then show ?case by (rule spend_ok_auto_top_up)
qed

definition new_books :: "billing_db \<Rightarrow> bool" where
  "new_books db = (fresh_db db \<and> ledger db = [])"

lemma spend_ok_new: "new_books db \<Longrightarrow> spend_ok db"
  by (auto simp: new_books_def spend_ok_def owned_def settled_spend_def spent_by_def fresh_db_def intro: books_fresh)

interpretation charging: invariant_system charge_step new_books spend_ok
  by unfold_locales (auto intro: spend_ok_new charge_step_spend)

lemma spent_by_user:
  assumes "books db" and "wallet_by_user u db = Some w"
  shows "spent_by u db = total_spent w"
  using books_rows [OF assms(1)] assms(2) sum_where_unique [of wal_user "wallets db" u w total_spent]
  by (simp add: spent_by_def rows_ok_def wallet_by_user_def)

section \<open>Reconciliation\<close>

text \<open>
  C28. Reconciliation has no false alarms without refunds: in every database reached by
  reservations, settlements, releases, expiry, credits, debits, budget and administrative
  calls (every call except refunds), reconciliation of any user reports nothing but
  reservations that are due for expiry, and reports ok exactly when there are none.
\<close>

theorem reconcile_sound:
  assumes "reached charge_step new_books db"
  shows "set (mismatches (reconcile_wallet u now db)) \<subseteq> {Expired_Reservations} \<and>
    rec_ok (reconcile_wallet u now db) = (rec_expired (reconcile_wallet u now db) = 0)"
proof (cases "wallet_by_user u db")
  case None
  then show ?thesis by (simp add: reconcile_wallet_def)
next
  case (Some w)
  note H = charging.reached_inv [OF assms]
  have w: "w \<in> set (wallets db)" using Some by (auto dest: wallet_by_userD)
  have "settled_spend u db \<le> total_spent w"
    using H spent_by_user [OF spend_ok_books [OF H] Some] by (metis spend_ok_def)
  then have "\<not> money (total_spent w) < money (settled_spend u db)"
    using up.q_mono by (simp add: not_less)
  then show ?thesis
    using books_wallet [OF spend_ok_books [OF H] w] books_nonneg [OF spend_ok_books [OF H] w] Some
    by (auto simp: reconcile_wallet_def wallet_mismatches_def wallet_ok_def Let_def)
qed

lemma sample_reserved_charging: "reached charge_step new_books sample_reserved"
proof -
  have "reached charge_step new_books sample_funded"
    unfolding sample_funded_def
    by (rule reached_step [of _ _ empty_db]) (rule reached_init, simp add: new_books_def fresh_db_def empty_db_def, rule do_credit)
  then show ?thesis
    unfolding sample_reserved_def by (rule reached_step) (rule do_reserve)
qed

theorem reconcile_sound_witness:
  "set (mismatches (reconcile_wallet 7 0 sample_reserved)) \<subseteq> {Expired_Reservations} \<and>
   rec_ok (reconcile_wallet 7 0 sample_reserved)"
proof -
  have "rec_expired (reconcile_wallet 7 0 sample_reserved) = 0" by code_simp
  with reconcile_sound [OF sample_reserved_charging, of 7 0] show ?thesis by simp
qed

end
