(* ===== verification/Provider_Funding.thy ===== *)
theory Provider_Funding
  imports Decimal_Money "HOL-Library.List_Lexorder"
begin

text \<open>
  \<open>ProviderFundingService\<close> of \<open>app/services/provider_funding.py\<close> over the tables of
  \<open>app/models/provider_funding.py\<close>: the funding policy and estimated balance of each model
  provider. A call that commits returns the new database, one that raises the old one.
  \<open>fresh\<close> is the text of the \<open>uuid4\<close> a call draws, an argument; \<open>now\<close> the clock. The
  rounding of the \<open>Numeric(18, 6)\<close> columns is not modelled: values are written quantised
  to six places, except an initial balance.
\<close>

section \<open>Tables\<close>

datatype funding_mode = MANUAL | PROVIDER_AUTO_RECHARGE | ZYNTRY_MANAGED

datatype funding_status = UNKNOWN | HEALTHY | LOW | AWAITING_RECHARGE | FUNDING_UNSUPPORTED | ERROR | DISABLED

record funding_account =
  fa_id :: uuid
  fa_provider :: string
  fa_label :: string
  fa_currency :: string
  fa_mode :: funding_mode
  monitor_enabled :: bool
  fa_auto :: bool
  current_balance :: "decimal option"
  estimated_balance :: decimal
  minimum_balance :: decimal
  target_balance :: decimal
  max_top_up :: decimal
  daily_top_up_limit :: decimal
  daily_top_up_total :: decimal
  payment_method_ref :: "string option"
  external_account_ref :: "string option"
  fa_status :: funding_status
  last_checked_at :: "instant option"
  last_error :: "string option"
  fa_metadata :: metadata

record funding_event =
  fe_account :: uuid
  fe_provider :: string
  fe_type :: string
  fe_status :: string
  fe_amount :: decimal
  fe_balance_after :: decimal
  fe_request :: "string option"
  fe_key :: string
  fe_external :: "string option"
  fe_error :: "string option"
  fe_metadata :: metadata

record funding_db =
  accounts :: "funding_account list"
  events :: "funding_event list"
  next_account :: uuid

datatype funding_error = Funding_ValueError string | Funding_IntegrityError | Funding_Validation | Funding_NotFound

type_synonym 'a funding_outcome = "funding_db \<times> (funding_error + 'a)"

section \<open>Text\<close>

definition mode_of_text :: "string \<Rightarrow> funding_mode option" where
  "mode_of_text s =
     (if s = ''manual'' then Some MANUAL
      else if s = ''provider_auto_recharge'' then Some PROVIDER_AUTO_RECHARGE
      else if s = ''zyntry_managed'' then Some ZYNTRY_MANAGED else None)"

definition normalize_provider :: "string \<Rightarrow> string" where
  "normalize_provider p = str_lower (str_strip p)"

text \<open>\<open>str.title\<close> of a lower-case ASCII string: the first letter of each run of letters.\<close>

definition ascii_lower :: "char \<Rightarrow> bool" where
  "ascii_lower c = (let n = of_char c :: nat in 97 \<le> n \<and> n \<le> 122)"

fun title_from :: "bool \<Rightarrow> string \<Rightarrow> string" where
  "title_from in_word [] = []"
| "title_from in_word (c # cs) =
     (if ascii_lower c then (if in_word then c else char_of (of_char c - 32 :: nat)) # title_from True cs
      else c # title_from False cs)"

text \<open>\<open>a or b\<close> for an optional string.\<close>

definition or_text :: "string option \<Rightarrow> string \<Rightarrow> string" where
  "or_text x d = (case x of None \<Rightarrow> d | Some s \<Rightarrow> if s = [] then d else s)"

section \<open>Rows\<close>

definition account_by_provider :: "funding_db \<Rightarrow> string \<Rightarrow> funding_account option" where
  "account_by_provider db p = row_by fa_provider p (accounts db)"

definition save_account :: "funding_account \<Rightarrow> funding_db \<Rightarrow> funding_db" where
  "save_account a db = db\<lparr>accounts := put_row fa_provider a (accounts db)\<rparr>"

definition get_account :: "string \<Rightarrow> funding_db \<Rightarrow> funding_account option" where
  "get_account provider db = account_by_provider db (normalize_provider provider)"

definition list_accounts :: "funding_db \<Rightarrow> funding_account list" where
  "list_accounts db = sort_key fa_provider (accounts db)"

definition event_by_key :: "string \<Rightarrow> funding_db \<Rightarrow> funding_event option" where
  "event_by_key k db = row_by fe_key k (events db)"

text \<open>The unique key and the constraint \<open>uq_provider_funding_request_event\<close>
  (\<open>NULL\<close> request ids are distinct).\<close>

definition event_clash :: "funding_event \<Rightarrow> funding_event \<Rightarrow> bool" where
  "event_clash e f = (fe_key e = fe_key f \<or>
     (fe_request e \<noteq> None \<and> fe_provider e = fe_provider f \<and> fe_request e = fe_request f \<and> fe_type e = fe_type f))"

definition insert_event :: "funding_event \<Rightarrow> funding_db \<Rightarrow> funding_db option" where
  "insert_event e db = (if list_ex (event_clash e) (events db) then None else Some (db\<lparr>events := events db @ [e]\<rparr>))"

interpretation account_repo: repository account_by_provider save_account fa_provider
  by unfold_locales
    (auto simp: account_by_provider_def save_account_def row_by_put_row dest: row_by_SomeD)

section \<open>Configuration\<close>

record funding_config =
  c_label :: "string option"
  c_currency :: string
  c_mode :: string
  c_monitor :: bool
  c_auto :: bool
  c_current :: "decimal option"
  c_estimated :: decimal
  c_minimum :: decimal
  c_target :: decimal
  c_max_top_up :: decimal
  c_daily_limit :: decimal
  c_payment_ref :: "string option"
  c_external_ref :: "string option"
  c_metadata :: metadata

abbreviation q6 :: "decimal \<Rightarrow> decimal" where
  "q6 x \<equiv> funding_money (Some x)"

definition new_account :: "string \<Rightarrow> funding_mode \<Rightarrow> funding_config \<Rightarrow> uuid \<Rightarrow> funding_account" where
  "new_account p mode c i =
     \<lparr>fa_id = i, fa_provider = p, fa_label = or_text (c_label c) (title_from False p),
      fa_currency = str_lower (c_currency c), fa_mode = mode, monitor_enabled = c_monitor c,
      fa_auto = c_auto c, current_balance = c_current c,
      estimated_balance = q6 (case c_current c of Some b \<Rightarrow> b | None \<Rightarrow> c_estimated c),
      minimum_balance = q6 (c_minimum c), target_balance = q6 (c_target c),
      max_top_up = q6 (c_max_top_up c), daily_top_up_limit = q6 (c_daily_limit c),
      daily_top_up_total = 0, payment_method_ref = c_payment_ref c,
      external_account_ref = c_external_ref c, fa_status = UNKNOWN, last_checked_at = None,
      last_error = None, fa_metadata = c_metadata c\<rparr>"

definition reconfigured :: "funding_account \<Rightarrow> funding_mode \<Rightarrow> funding_config \<Rightarrow> funding_account" where
  "reconfigured a mode c =
     a\<lparr>fa_label := or_text (c_label c) (fa_label a), fa_currency := str_lower (c_currency c),
       fa_mode := mode, monitor_enabled := c_monitor c, fa_auto := c_auto c,
       current_balance := (case c_current c of Some b \<Rightarrow> Some (q6 b) | None \<Rightarrow> current_balance a),
       estimated_balance := (case c_current c of Some b \<Rightarrow> q6 b
         | None \<Rightarrow> if current_balance a = None then q6 (c_estimated c) else estimated_balance a),
       minimum_balance := q6 (c_minimum c), target_balance := q6 (c_target c),
       max_top_up := q6 (c_max_top_up c), daily_top_up_limit := q6 (c_daily_limit c),
       payment_method_ref := c_payment_ref c, external_account_ref := c_external_ref c,
       fa_metadata := (if c_metadata c \<noteq> [] then c_metadata c else fa_metadata a)\<rparr>"

definition thresholds_ok :: "decimal \<Rightarrow> decimal \<Rightarrow> decimal \<Rightarrow> decimal \<Rightarrow> bool" where
  "thresholds_ok minimum target maximum daily = (0 \<le> minimum \<and> minimum \<le> target \<and> 0 \<le> maximum \<and> maximum \<le> daily)"

definition configure :: "string \<Rightarrow> funding_config \<Rightarrow> funding_db \<Rightarrow> funding_account funding_outcome" where
  "configure provider c db =
     (let normalized = normalize_provider provider in
      case mode_of_text (str_lower (str_strip (c_mode c))) of
        None \<Rightarrow> (db, Inl (Funding_ValueError ''Unsupported provider funding mode''))
      | Some mode \<Rightarrow>
        if q6 (c_minimum c) < 0 \<or> q6 (c_target c) < q6 (c_minimum c) \<or> q6 (c_max_top_up c) < 0 \<or>
           q6 (c_daily_limit c) < q6 (c_max_top_up c)
        then (db, Inl (Funding_ValueError ''Funding thresholds''))
        else if c_auto c \<and> mode = MANUAL
        then (db, Inl (Funding_ValueError ''Automatic funding requires a recharge mode''))
        else case get_account normalized db of
          None \<Rightarrow> (let a = new_account normalized mode c (next_account db)
                    in (db\<lparr>accounts := accounts db @ [a], next_account := Suc (next_account db)\<rparr>, Inr a))
        | Some old \<Rightarrow> (let a = reconfigured old mode c in (save_account a db, Inr a)))"

text \<open>The body of \<open>PUT /billing/provider-funding/{provider}\<close>: \<open>ProviderFundingUpdate\<close>
  accepts no negative amount.\<close>

definition valid_update :: "funding_config \<Rightarrow> bool" where
  "valid_update c =
     ((case c_current c of None \<Rightarrow> True | Some b \<Rightarrow> 0 \<le> b) \<and> 0 \<le> c_estimated c \<and> 0 \<le> c_minimum c \<and>
      0 \<le> c_target c \<and> 0 \<le> c_max_top_up c \<and> 0 \<le> c_daily_limit c)"

definition admin_configure :: "string \<Rightarrow> funding_config \<Rightarrow> funding_db \<Rightarrow> funding_account funding_outcome" where
  "admin_configure provider c db =
     (if \<not> valid_update c then (db, Inl Funding_Validation) else configure provider c db)"

section \<open>Costs, checks and reconciliation\<close>

definition effective_balance :: "funding_account \<Rightarrow> decimal" where
  "effective_balance a = (case current_balance a of Some b \<Rightarrow> q6 b | None \<Rightarrow> q6 (estimated_balance a))"

definition balance_status :: "funding_account \<Rightarrow> funding_status" where
  "balance_status a = (if effective_balance a \<le> q6 (minimum_balance a) then LOW else HEALTHY)"

definition usage_key :: "string option \<Rightarrow> string \<Rightarrow> string" where
  "usage_key request_id fresh = ''usage:'' @ or_text request_id fresh"

definition charged :: "decimal \<Rightarrow> funding_account \<Rightarrow> funding_account" where
  "charged cost a =
     (let a1 = a\<lparr>estimated_balance := max 0 (q6 (estimated_balance a) - cost),
                 current_balance := map_option (\<lambda>b. max 0 (q6 b - cost)) (current_balance a)\<rparr>
      in a1\<lparr>fa_status := balance_status a1\<rparr>)"

definition record_provider_cost ::
  "string \<Rightarrow> decimal \<Rightarrow> string option \<Rightarrow> string \<Rightarrow> metadata \<Rightarrow> string \<Rightarrow> funding_db \<Rightarrow> funding_account option funding_outcome" where
  "record_provider_cost provider amt request_id model md fresh db =
     (let cost = q6 amt; normalized = normalize_provider provider; key = usage_key request_id fresh in
      if cost \<le> 0 then (db, Inr None)
      else case account_by_provider db normalized of
        None \<Rightarrow> (db, Inr None)
      | Some a \<Rightarrow>
        if event_by_key key db \<noteq> None then (db, Inr (Some a))
        else
         (let a' = charged cost a in
          case insert_event \<lparr>fe_account = fa_id a, fe_provider = normalized, fe_type = ''usage_cost'',
                  fe_status = ''recorded'', fe_amount = cost, fe_balance_after = estimated_balance a',
                  fe_request = request_id, fe_key = key, fe_external = None, fe_error = None,
                  fe_metadata = (''model'', model) # md\<rparr> (save_account a' db) of
            None \<Rightarrow> (db, Inl Funding_IntegrityError)
          | Some db' \<Rightarrow> (db', Inr (Some a'))))"

text \<open>The three outcomes of a balance at or below the minimum: status, error, event status.\<close>

definition low_outcome :: "funding_account \<Rightarrow> funding_status \<times> string \<times> string" where
  "low_outcome a =
     (if fa_auto a \<and> fa_mode a = PROVIDER_AUTO_RECHARGE
      then (AWAITING_RECHARGE, ''Provider-side auto-recharge must be enabled for this account; Zyntry does not debit customer wallets or store card data.'', ''awaiting_provider_recharge'')
      else if fa_auto a \<and> fa_mode a = ZYNTRY_MANAGED
      then (FUNDING_UNSUPPORTED, ''No safe provider top-up adapter is configured. Enable provider-side auto-recharge or add a verified billing adapter.'', ''adapter_required'')
      else (LOW, ''Provider balance is at or below the configured minimum.'', ''low_balance''))"

text \<open>\<open>now.isoformat()\<close> is written as the number of microseconds: it is only compared.\<close>

definition check_event :: "funding_account \<Rightarrow> string \<Rightarrow> string \<Rightarrow> instant \<Rightarrow> funding_event" where
  "check_event a ev err now =
     \<lparr>fe_account = fa_id a, fe_provider = fa_provider a, fe_type = ''funding_check'',
      fe_status = ev, fe_amount = 0, fe_balance_after = effective_balance a, fe_request = None,
      fe_key = ''check:'' @ fa_provider a @ '':'' @ int_text now, fe_external = None,
      fe_error = Some err, fe_metadata = []\<rparr>"

definition check_account :: "funding_account \<Rightarrow> instant \<Rightarrow> funding_db \<Rightarrow> funding_account funding_outcome" where
  "check_account a0 now db =
     (let a = a0\<lparr>last_checked_at := Some now\<rparr> in
      if \<not> monitor_enabled a then
        (let a' = a\<lparr>fa_status := DISABLED\<rparr> in (save_account a' db, Inr a'))
      else if minimum_balance a < effective_balance a then
        (let a' = a\<lparr>fa_status := HEALTHY, last_error := None\<rparr> in (save_account a' db, Inr a'))
      else
       (let (st, err, ev) = low_outcome a; a' = a\<lparr>fa_status := st, last_error := Some err\<rparr> in
        case insert_event (check_event a ev err now) (save_account a' db) of
          None \<Rightarrow> (db, Inl Funding_IntegrityError)
        | Some db' \<Rightarrow> (db', Inr a')))"

text \<open>\<open>check_all\<close>: every check commits on its own and has its own clock reading.\<close>

fun check_each :: "funding_account list \<Rightarrow> (nat \<Rightarrow> instant) \<Rightarrow> funding_account list \<Rightarrow> funding_db \<Rightarrow> funding_account list funding_outcome" where
  "check_each [] clock acc db = (db, Inr acc)"
| "check_each (a # as) clock acc db =
     (case check_account a (clock (length acc)) db of
        (db', Inl e) \<Rightarrow> (db', Inl e)
      | (db', Inr a') \<Rightarrow> check_each as clock (acc @ [a']) db')"

definition check_all :: "(nat \<Rightarrow> instant) \<Rightarrow> funding_db \<Rightarrow> funding_account list funding_outcome" where
  "check_all clock db = check_each (list_accounts db) clock [] db"

definition admin_check :: "string \<Rightarrow> instant \<Rightarrow> funding_db \<Rightarrow> funding_account funding_outcome" where
  "admin_check provider now db =
     (case get_account provider db of
        None \<Rightarrow> (db, Inl Funding_NotFound)
      | Some a \<Rightarrow> check_account a now db)"

definition reconcile :: "string \<Rightarrow> decimal \<Rightarrow> string option \<Rightarrow> metadata \<Rightarrow> string \<Rightarrow> funding_db \<Rightarrow> funding_account funding_outcome" where
  "reconcile provider bal external_id md fresh db =
     (case get_account provider db of
        None \<Rightarrow> (db, Inl (Funding_ValueError ''Provider funding account is not configured''))
      | Some a \<Rightarrow>
        (let actual = q6 bal in
         if actual < 0 then (db, Inl (Funding_ValueError ''Provider balance cannot be negative''))
         else
          (let a1 = a\<lparr>current_balance := Some actual, estimated_balance := actual\<rparr>;
               a' = a1\<lparr>fa_status := balance_status a1, last_error := None\<rparr> in
           case insert_event \<lparr>fe_account = fa_id a, fe_provider = fa_provider a, fe_type = ''balance_reconciled'',
                   fe_status = ''recorded'', fe_amount = actual, fe_balance_after = actual, fe_request = None,
                   fe_key = ''reconcile:'' @ fa_provider a @ '':'' @ fresh, fe_external = external_id,
                   fe_error = None, fe_metadata = md\<rparr> (save_account a' db) of
             None \<Rightarrow> (db, Inl Funding_IntegrityError)
           | Some db' \<Rightarrow> (db', Inr a'))))"

section \<open>Names\<close>

lemma normalize_idem [simp]: "normalize_provider (normalize_provider p) = normalize_provider p"
  by (simp add: normalize_provider_def strip_lower)

section \<open>The invariant\<close>

definition account_ok :: "funding_account \<Rightarrow> bool" where
  "account_ok a =
     (normalize_provider (fa_provider a) = fa_provider a \<and>
      thresholds_ok (minimum_balance a) (target_balance a) (max_top_up a) (daily_top_up_limit a) \<and>
      (fa_auto a \<longrightarrow> fa_mode a \<noteq> MANUAL) \<and> 0 \<le> estimated_balance a \<and>
      q6 (estimated_balance a) = estimated_balance a \<and>
      (\<forall>b. current_balance a = Some b \<longrightarrow> 0 \<le> b))"

definition event_ok :: "funding_event \<Rightarrow> bool" where
  "event_ok e = (case fe_request e of None \<Rightarrow> True | Some r \<Rightarrow> r = [] \<or> fe_key e = ''usage:'' @ r)"

definition funding_ok :: "funding_db \<Rightarrow> bool" where
  "funding_ok db =
     (distinct (map fa_provider (accounts db)) \<and> (\<forall>a \<in> set (accounts db). account_ok a) \<and>
      distinct (map fe_key (events db)) \<and> (\<forall>e \<in> set (events db). event_ok e))"

lemma q6_nonneg [simp]: "0 \<le> x \<Longrightarrow> 0 \<le> q6 x"
  by (rule even_q.q_nonneg)

lemma funding_ok_account: "funding_ok db \<Longrightarrow> account_by_provider db p = Some a \<Longrightarrow> account_ok a \<and> a \<in> set (accounts db)"
  by (auto simp: funding_ok_def account_by_provider_def dest: row_by_SomeD)

lemma funding_ok_save: "funding_ok db \<Longrightarrow> account_ok a \<Longrightarrow> funding_ok (save_account a db)"
  using set_put_row_subset [of fa_provider a "accounts db"]
  by (auto simp: funding_ok_def save_account_def)

lemma insert_event_frames:
  assumes "insert_event e db = Some db'"
  shows "accounts db' = accounts db" "events db' = events db @ [e]" "fe_key e \<notin> fe_key ` set (events db)"
  using assms by (auto simp: insert_event_def event_clash_def list_ex_iff split: if_splits)

lemma funding_ok_insert: "funding_ok db \<Longrightarrow> insert_event e db = Some db' \<Longrightarrow> event_ok e \<Longrightarrow> funding_ok db'"
  by (auto simp: funding_ok_def insert_event_frames)

lemma save_account_frames [simp]: "events (save_account a db) = events db"
  by (simp add: save_account_def)

lemma configure_cases:
  assumes "configure provider c db = (db', Inr a)"
  obtains mode where "mode_of_text (str_lower (str_strip (c_mode c))) = Some mode"
    "thresholds_ok (q6 (c_minimum c)) (q6 (c_target c)) (q6 (c_max_top_up c)) (q6 (c_daily_limit c))"
    "c_auto c \<longrightarrow> mode \<noteq> MANUAL"
    "(get_account provider db = None \<and> a = new_account (normalize_provider provider) mode c (next_account db) \<and>
        db' = db\<lparr>accounts := accounts db @ [a], next_account := Suc (next_account db)\<rparr>) \<or>
     (\<exists>old. get_account provider db = Some old \<and> a = reconfigured old mode c \<and> db' = save_account a db)"
proof -
  obtain mode where m: "mode_of_text (str_lower (str_strip (c_mode c))) = Some mode"
    using assms by (auto simp: configure_def Let_def split: option.splits)
  show ?thesis
    by (rule that [OF m])
      (use assms m in \<open>auto simp: configure_def Let_def thresholds_ok_def get_account_def not_less split: option.splits if_splits\<close>)
qed

lemma configure_error: "configure provider c db = (db', Inl e) \<Longrightarrow> db' = db"
  by (auto simp: configure_def Let_def split: option.splits if_splits)

lemma funding_ok_configure:
  assumes "funding_ok db" and "valid_update c" and "configure provider c db = (db', res)"
  shows "funding_ok db'"
proof (cases res)
  case (Inl e)
  with assms show ?thesis by (auto dest: configure_error)
next
  case (Inr a)
  with assms(3) have "configure provider c db = (db', Inr a)" by simp
  then show ?thesis
  proof (rule configure_cases)
    fix mode
    assume *: "thresholds_ok (q6 (c_minimum c)) (q6 (c_target c)) (q6 (c_max_top_up c)) (q6 (c_daily_limit c))"
      "c_auto c \<longrightarrow> mode \<noteq> MANUAL"
      "(get_account provider db = None \<and> a = new_account (normalize_provider provider) mode c (next_account db) \<and>
          db' = db\<lparr>accounts := accounts db @ [a], next_account := Suc (next_account db)\<rparr>) \<or>
       (\<exists>old. get_account provider db = Some old \<and> a = reconfigured old mode c \<and> db' = save_account a db)"
    from *(3) show "funding_ok db'"
    proof (elim disjE exE conjE)
      assume n: "get_account provider db = None"
        "a = new_account (normalize_provider provider) mode c (next_account db)"
        "db' = db\<lparr>accounts := accounts db @ [a], next_account := Suc (next_account db)\<rparr>"
      have "account_ok a"
        using *(1,2) assms(2) by (auto simp: n(2) account_ok_def new_account_def valid_update_def split: option.splits)
      moreover have "fa_provider a \<notin> fa_provider ` set (accounts db)"
        using n(1) by (simp add: n(2) get_account_def account_by_provider_def row_by_None_iff new_account_def)
      ultimately show ?thesis using assms(1) by (auto simp: funding_ok_def n(3))
    next
      fix old
      assume o: "get_account provider db = Some old" "a = reconfigured old mode c" "db' = save_account a db"
      have "account_ok old" using o(1) assms(1) by (auto simp: get_account_def dest: funding_ok_account)
      then have "account_ok a"
        using *(1,2) assms(2) by (auto simp: o(2) account_ok_def reconfigured_def valid_update_def split: option.splits)
      then show ?thesis using assms(1) by (simp add: o(3) funding_ok_save)
    qed
  qed
qed

lemma account_ok_status: "account_ok (a\<lparr>fa_status := s\<rparr>) = account_ok a"
  "account_ok (a\<lparr>last_error := err\<rparr>) = account_ok a" "account_ok (a\<lparr>last_checked_at := t\<rparr>) = account_ok a"
  by (simp_all add: account_ok_def)

lemma charged_ok:
  assumes "account_ok a"
  shows "account_ok (charged (q6 x) a)"
proof -
  have "q6 (estimated_balance a - q6 x) = estimated_balance a - q6 x"
    using assms by (intro even_q.q_multiple_minus) (simp_all add: account_ok_def)
  with assms show ?thesis
    by (auto simp: charged_def Let_def account_ok_status) (auto simp: account_ok_def max_def)
qed

lemma check_event_ok: "event_ok (check_event a ev err now)"
  by (simp add: event_ok_def check_event_def)

lemma usage_event_ok: "fe_request e = rq \<Longrightarrow> fe_key e = usage_key rq fresh \<Longrightarrow> event_ok e"
  by (auto simp: event_ok_def usage_key_def or_text_def split: option.splits)

lemma record_cost_cases:
  assumes "record_provider_cost p x rq m md fresh db = (db', res)"
  obtains "db' = db"
  | a e where "account_by_provider db (normalize_provider p) = Some a" "0 < q6 x"
    "event_by_key (usage_key rq fresh) db = None" "fe_key e = usage_key rq fresh" "event_ok e"
    "insert_event e (save_account (charged (q6 x) a) db) = Some db'" "res = Inr (Some (charged (q6 x) a))"
proof (cases "db' = db")
  case False
  then obtain a where a: "account_by_provider db (normalize_provider p) = Some a" "0 < q6 x"
    "event_by_key (usage_key rq fresh) db = None"
    using assms unfolding record_provider_cost_def Let_def
    by (cases "account_by_provider db (normalize_provider p)") (simp_all add: not_le split: if_splits)
  with assms False show ?thesis
    unfolding record_provider_cost_def Let_def
    by (intro that(2) [OF a]) (simp_all add: not_le usage_event_ok split: option.splits)
qed (use that in blast)

lemma check_account_cases:
  assumes "check_account a now db = (db', res)"
  obtains "db' = db" "res = Inl Funding_IntegrityError"
  | s err where "db' = save_account (a\<lparr>last_checked_at := Some now, fa_status := s, last_error := err\<rparr>) db \<or>
      (\<exists>e. event_ok e \<and> insert_event e (save_account (a\<lparr>last_checked_at := Some now, fa_status := s, last_error := err\<rparr>) db) = Some db')"
    "res = Inr (a\<lparr>last_checked_at := Some now, fa_status := s, last_error := err\<rparr>)"
proof -
  let ?a = "a\<lparr>last_checked_at := Some now\<rparr>"
  obtain st err ev where o: "low_outcome ?a = (st, err, ev)" by (cases "low_outcome ?a") auto
  consider "\<not> monitor_enabled ?a" | "monitor_enabled ?a" "minimum_balance ?a < effective_balance ?a"
    | "monitor_enabled ?a" "\<not> minimum_balance ?a < effective_balance ?a" by blast
  then show ?thesis
  proof cases
    case 1
    with assms show ?thesis by (intro that(2) [where s = DISABLED and err = "last_error a"]) (simp_all add: check_account_def Let_def)
  next
    case 2
    with assms show ?thesis by (intro that(2) [where s = HEALTHY and err = None]) (simp_all add: check_account_def Let_def)
  next
    case 3
    with assms o have "(db' = db \<and> res = Inl Funding_IntegrityError) \<or>
      (\<exists>e. event_ok e \<and> insert_event e (save_account (?a\<lparr>fa_status := st, last_error := Some err\<rparr>) db) = Some db' \<and>
         res = Inr (?a\<lparr>fa_status := st, last_error := Some err\<rparr>))"
      unfolding check_account_def Let_def
      by (cases "insert_event (check_event ?a ev err now) (save_account (?a\<lparr>fa_status := st, last_error := Some err\<rparr>) db)")
        (auto simp: check_event_ok)
    then show ?thesis using that(1) that(2) [where s = st and err = "Some err"] by auto
  qed
qed

lemma reconcile_cases:
  assumes "reconcile p x ext md fresh db = (db', res)"
  obtains "db' = db" "\<exists>e. res = Inl e"
  | a e where "get_account p db = Some a" "0 \<le> q6 x" "event_ok e"
    "insert_event e (save_account (a\<lparr>current_balance := Some (q6 x), estimated_balance := q6 x,
       fa_status := balance_status (a\<lparr>current_balance := Some (q6 x), estimated_balance := q6 x\<rparr>),
       last_error := None\<rparr>) db) = Some db'"
    "res = Inr (a\<lparr>current_balance := Some (q6 x), estimated_balance := q6 x,
       fa_status := balance_status (a\<lparr>current_balance := Some (q6 x), estimated_balance := q6 x\<rparr>),
       last_error := None\<rparr>)"
proof (cases "db' = db \<and> (\<exists>e. res = Inl e)")
  case False
  then obtain a where a: "get_account p db = Some a" "0 \<le> q6 x"
    using assms unfolding reconcile_def Let_def
    by (cases "get_account p db") (auto simp: not_less split: if_splits)
  with assms False show ?thesis
    unfolding reconcile_def Let_def
    by (intro that(2) [OF a]) (auto simp: not_less event_ok_def split: option.splits)
qed (use that in blast)

lemma funding_ok_cost:
  assumes "funding_ok db" and "record_provider_cost p x rq m md fresh db = (db', res)"
  shows "funding_ok db'"
  using assms(2)
proof (cases rule: record_cost_cases)
  case (2 a e)
  then show ?thesis
    using funding_ok_account [OF assms(1) 2(1)]
    by (intro funding_ok_insert [OF funding_ok_save 2(6)] charged_ok assms(1) 2(5)) simp
qed (use assms in simp)

lemma funding_ok_check:
  assumes "funding_ok db" and "account_ok a" and "check_account a now db = (db', res)"
  shows "funding_ok db'"
  using assms(3)
proof (cases rule: check_account_cases)
  case (2 s err)
  have "funding_ok (save_account (a\<lparr>last_checked_at := Some now, fa_status := s, last_error := err\<rparr>) db)"
    using assms(1,2) by (intro funding_ok_save) (simp_all add: account_ok_def)
  with 2(1) show ?thesis by (auto intro: funding_ok_insert)
qed (use assms in simp)

lemma funding_ok_check_each:
  "funding_ok db \<Longrightarrow> (\<forall>a \<in> set as. account_ok a) \<Longrightarrow> funding_ok (fst (check_each as clock acc db))"
proof (induction "as" arbitrary: acc db)
  case (Cons a "as")
  obtain db1 r where r: "check_account a (clock (length acc)) db = (db1, r)" by fastforce
  have "funding_ok db1" using funding_ok_check [OF Cons.prems(1) _ r] Cons.prems(2) by simp
  with r Cons show ?case by (cases r) auto
qed simp

lemma funding_ok_reconcile:
  assumes "funding_ok db" and "reconcile p x ext md fresh db = (db', res)"
  shows "funding_ok db'"
  using assms(2)
proof (cases rule: reconcile_cases)
  case (2 a e)
  have "account_ok a" using 2(1) assms(1) by (auto simp: get_account_def dest: funding_ok_account)
  then show ?thesis
    using 2(2) by (intro funding_ok_insert [OF funding_ok_save 2(4)] assms(1) 2(3)) (simp add: account_ok_def)
qed (use assms in simp)

section \<open>Reachable accounts\<close>

inductive funding_step :: "funding_db \<Rightarrow> funding_db \<Rightarrow> bool" where
  do_configure: "funding_step db (fst (admin_configure p c db))"
| do_cost: "funding_step db (fst (record_provider_cost p x rq m md fresh db))"
| do_check: "funding_step db (fst (admin_check p now db))"
| do_check_all: "funding_step db (fst (check_all clock db))"
| do_reconcile: "funding_step db (fst (reconcile p x ext md fresh db))"

definition no_funding :: funding_db where
  "no_funding = \<lparr>accounts = [], events = [], next_account = 0\<rparr>"

lemma funding_step_ok:
  assumes "funding_step db db'" and "funding_ok db"
  shows "funding_ok db'"
  using assms
proof (induction rule: funding_step.induct)
  case (do_configure db p c)
  then show ?case
    using funding_ok_configure [of db c p] by (cases "configure p c db") (auto simp: admin_configure_def)
next
  case (do_cost db p x rq m md fresh)
  then show ?case by (metis funding_ok_cost prod.collapse)
next
  case (do_check db p now)
  show ?case
  proof (cases "get_account p db")
    case (Some a)
    then have "account_ok a" using do_check by (auto simp: get_account_def dest: funding_ok_account)
    with Some do_check show ?thesis
      using funding_ok_check [of db a now] by (cases "check_account a now db") (simp add: admin_check_def)
  qed (use do_check in \<open>simp add: admin_check_def\<close>)
next
  case (do_check_all db clock)
  then show ?case
    unfolding check_all_def by (intro funding_ok_check_each) (auto simp: list_accounts_def funding_ok_def)
next
  case (do_reconcile db p x ext md fresh)
  then show ?case by (metis funding_ok_reconcile prod.collapse)
qed

lemma no_funding_ok: "funding_ok no_funding"
  by (simp add: funding_ok_def no_funding_def)

interpretation funding: invariant_system funding_step "\<lambda>db. db = no_funding" funding_ok
  by unfold_locales (auto intro: funding_step_ok no_funding_ok)

section \<open>Contracts\<close>

text \<open>
  C32. Funding accounts are safe in every reachable state: no balance is negative, the
  thresholds satisfy 0 <= minimum <= target and 0 <= max_top_up <= daily limit, a manual
  account never has automatic funding on, a provider has one account, and an event key is
  used once.
\<close>

theorem funding_accounts_safe:
  assumes "reached funding_step (\<lambda>db. db = no_funding) db" and "a \<in> set (accounts db)"
  shows "0 \<le> estimated_balance a \<and> (\<forall>b. current_balance a = Some b \<longrightarrow> 0 \<le> b) \<and>
    thresholds_ok (minimum_balance a) (target_balance a) (max_top_up a) (daily_top_up_limit a) \<and>
    (fa_auto a \<longrightarrow> fa_mode a \<noteq> MANUAL) \<and> get_account (fa_provider a) db = Some a \<and>
    distinct (map fe_key (events db))"
proof -
  note F = funding.reached_inv [OF assms(1)]
  have "account_ok a" using F assms(2) by (simp add: funding_ok_def)
  moreover have "account_by_provider db (fa_provider a) = Some a"
    using F assms(2) by (simp add: funding_ok_def account_by_provider_def row_by_distinct)
  ultimately show ?thesis using F by (simp add: account_ok_def get_account_def funding_ok_def)
qed

definition sample_config :: funding_config where
  "sample_config = \<lparr>c_label = None, c_currency = ''USD'', c_mode = ''provider_auto_recharge'', c_monitor = True,
     c_auto = True, c_current = Some 100, c_estimated = 0, c_minimum = 50, c_target = 200,
     c_max_top_up = 150, c_daily_limit = 300, c_payment_ref = None, c_external_ref = None, c_metadata = []\<rparr>"

definition sample_account :: funding_account where
  "sample_account = new_account ''openai'' PROVIDER_AUTO_RECHARGE sample_config 0"

definition sample_funding :: funding_db where
  "sample_funding = fst (admin_configure '' OpenAI'' sample_config no_funding)"

lemma sample_funding_reached: "reached funding_step (\<lambda>db. db = no_funding) sample_funding"
  unfolding sample_funding_def by (rule reached_step [OF reached_init]) (rule refl, rule do_configure)

lemma sample_funding_eq: "sample_funding = \<lparr>accounts = [sample_account], events = [], next_account = 1\<rparr>"
  by code_simp

theorem funding_accounts_safe_witness:
  "sample_account \<in> set (accounts sample_funding) \<and> 0 \<le> estimated_balance sample_account \<and>
   get_account ''openai'' sample_funding = Some sample_account"
proof -
  have a: "sample_account \<in> set (accounts sample_funding)" by (simp add: sample_funding_eq)
  have "fa_provider sample_account = ''openai''" by (simp add: sample_account_def new_account_def)
  with a funding_accounts_safe [OF sample_funding_reached a] show ?thesis by simp
qed

lemma configured_account:
  assumes "(get_account provider db = None \<and> a = new_account (normalize_provider provider) mode c i \<and>
      db' = db\<lparr>accounts := accounts db @ [a], next_account := j\<rparr>) \<or>
    (\<exists>old. get_account provider db = Some old \<and> a = reconfigured old mode c \<and> db' = save_account a db)"
  shows "get_account provider db' = Some a \<and> events db' = events db"
  using assms
proof (elim disjE exE conjE)
  fix old
  assume o: "get_account provider db = Some old" "a = reconfigured old mode c" "db' = save_account a db"
  have "account_by_provider db (fa_provider old) = Some old" and "fa_provider old = normalize_provider provider"
    using o(1) account_repo.get_ident by (auto simp: get_account_def)
  moreover have "fa_provider a = fa_provider old" by (simp add: o(2) reconfigured_def)
  ultimately show ?thesis
    using account_repo.get_save_same [of db a old] by (simp add: o(3) get_account_def)
qed (simp add: get_account_def account_by_provider_def row_by_append new_account_def)

lemma configure_events: "configure provider c db = (db', res) \<Longrightarrow> events db' = events db"
proof (cases res)
  case (Inr a)
  moreover assume "configure provider c db = (db', res)"
  ultimately have "configure provider c db = (db', Inr a)" by simp
  then show ?thesis by (rule configure_cases) (auto dest: configured_account)
qed (auto dest: configure_error)

definition acceptable :: "funding_config \<Rightarrow> bool" where
  "acceptable c = (\<exists>mode \<in> {MANUAL, PROVIDER_AUTO_RECHARGE, ZYNTRY_MANAGED}.
     mode_of_text (str_lower (str_strip (c_mode c))) = Some mode \<and> (c_auto c \<longrightarrow> mode \<noteq> MANUAL) \<and>
     thresholds_ok (q6 (c_minimum c)) (q6 (c_target c)) (q6 (c_max_top_up c)) (q6 (c_daily_limit c)))"

text \<open>
  What \<open>configure\<close> accepts: the call succeeds exactly when the mode is one of the three,
  the rounded thresholds are ordered and automatic funding is not asked of a manual account;
  a refused call changes nothing, and after an accepted one the provider's account carries
  the rounded thresholds, the mode and the currency asked for.
\<close>

theorem configure_decides:
  "case configure provider c db of
     (db', Inl e) \<Rightarrow> db' = db \<and> \<not> acceptable c
   | (db', Inr a) \<Rightarrow> acceptable c \<and> get_account provider db' = Some a \<and>
       minimum_balance a = q6 (c_minimum c) \<and> target_balance a = q6 (c_target c) \<and>
       max_top_up a = q6 (c_max_top_up c) \<and> daily_top_up_limit a = q6 (c_daily_limit c) \<and>
       Some (fa_mode a) = mode_of_text (str_lower (str_strip (c_mode c))) \<and>
       fa_currency a = str_lower (c_currency c) \<and> events db' = events db"
proof (cases "configure provider c db")
  case (Pair db' res)
  show ?thesis
  proof (cases res)
    case (Inl e)
    then have "\<not> acceptable c"
      using Pair by (auto simp: configure_def acceptable_def thresholds_ok_def Let_def split: option.splits if_splits)
    with Pair Inl configure_error [of provider c db db' e] show ?thesis by simp
  next
    case (Inr a)
    with Pair have "configure provider c db = (db', Inr a)" by simp
    then show ?thesis
    proof (rule configure_cases)
      fix mode
      assume m: "mode_of_text (str_lower (str_strip (c_mode c))) = Some mode"
        "thresholds_ok (q6 (c_minimum c)) (q6 (c_target c)) (q6 (c_max_top_up c)) (q6 (c_daily_limit c))"
        "c_auto c \<longrightarrow> mode \<noteq> MANUAL"
        "(get_account provider db = None \<and> a = new_account (normalize_provider provider) mode c (next_account db) \<and>
            db' = db\<lparr>accounts := accounts db @ [a], next_account := Suc (next_account db)\<rparr>) \<or>
         (\<exists>old. get_account provider db = Some old \<and> a = reconfigured old mode c \<and> db' = save_account a db)"
      have "acceptable c" using m(1-3) by (cases mode) (auto simp: acceptable_def)
      then show ?thesis
        using Pair Inr m(1) configured_account [OF m(4)] m(4) by (auto simp: new_account_def reconfigured_def)
    qed
  qed
qed

lemma check_each_events: "\<exists>es. events (fst (check_each as clock acc db)) = events db @ es"
proof (induction "as" arbitrary: acc db)
  case (Cons a "as")
  obtain db1 r where r: "check_account a (clock (length acc)) db = (db1, r)" by fastforce
  then obtain es where es: "events db1 = events db @ es"
    by (rule check_account_cases) (auto simp: insert_event_frames)
  show ?case
  proof (cases r)
    case (Inr a')
    obtain fs where "events (fst (check_each as clock (acc @ [a']) db1)) = events db1 @ fs" using Cons.IH by blast
    with r es Inr show ?thesis by simp
  qed (use r es in simp)
qed simp

lemma funding_step_events:
  assumes "funding_step db db'"
  shows "\<exists>es. events db' = events db @ es"
  using assms
proof (induction rule: funding_step.induct)
  case (do_configure db p c)
  show ?case by (cases "configure p c db") (auto simp: admin_configure_def configure_events)
next
  case (do_cost db p x rq m md fresh)
  obtain db' res where "record_provider_cost p x rq m md fresh db = (db', res)" by fastforce
  then show ?case by (rule record_cost_cases) (auto simp: \<open>record_provider_cost p x rq m md fresh db = (db', res)\<close> insert_event_frames)
next
  case (do_check db p now)
  have "\<exists>es. events db' = events db @ es" if "check_account a now db = (db', res)" for a db' res
    using that by (rule check_account_cases) (auto simp: insert_event_frames)
  then show ?case by (cases "get_account p db") (auto simp: admin_check_def, metis prod.collapse)
next
  case (do_check_all db clock)
  show ?case unfolding check_all_def by (rule check_each_events)
next
  case (do_reconcile db p x ext md fresh)
  obtain db' res where r: "reconcile p x ext md fresh db = (db', res)" by fastforce
  then show ?case by (rule reconcile_cases) (auto simp: r insert_event_frames)
qed

lemma later_events: "funding_step\<^sup>*\<^sup>* db db' \<Longrightarrow> \<exists>es. events db' = events db @ es"
proof (induction rule: rtranclp_induct)
  case (step y z)
  then show ?case using funding_step_events [OF step(2)] by auto
qed simp

text \<open>
  A provider's cost is booked once: when a cost with a (non-empty) request id has been
  recorded, no later call with that request id changes anything, whatever happened to the
  accounts in between and whatever provider and amount it names.
\<close>

theorem provider_cost_once:
  assumes "record_provider_cost p x (Some (c # cs)) m md fresh db = (db', Inr (Some a))"
    and "funding_step\<^sup>*\<^sup>* db' db''"
  shows "fst (record_provider_cost p2 y (Some (c # cs)) m2 md2 fresh2 db'') = db''"
proof -
  let ?k = "''usage:'' @ c # cs"
  have k: "usage_key (Some (c # cs)) f = ?k" for f by (simp add: usage_key_def or_text_def)
  have "event_by_key ?k db' \<noteq> None"
    using assms(1)
  proof (cases rule: record_cost_cases)
    case 1
    with assms(1) show ?thesis
      by (auto simp: record_provider_cost_def Let_def k dest: insert_event_frames(2) split: option.splits if_splits)
  next
    case (2 b e)
    then have "e \<in> set (events db')" and "fe_key e = ?k" by (auto simp: insert_event_frames k)
    then show ?thesis unfolding event_by_key_def row_by_None_iff by force
  qed
  moreover obtain es where "events db'' = events db' @ es" using later_events [OF assms(2)] by blast
  ultimately have "event_by_key ?k db'' \<noteq> None"
    by (auto simp: event_by_key_def row_by_append)
  then show ?thesis by (auto simp: record_provider_cost_def Let_def k split: option.split)
qed

definition sample_charged :: funding_db where
  "sample_charged = fst (record_provider_cost ''openai'' 60 (Some ''req-1'') ''gpt'' [] ''u'' sample_funding)"

theorem provider_cost_once_witness:
  "fst (record_provider_cost ''openai'' 60 (Some ''req-1'') ''gpt'' [] ''u'' sample_charged) = sample_charged \<and>
   map estimated_balance (accounts sample_charged) = [40]"
proof -
  have "record_provider_cost ''openai'' 60 (Some ''req-1'') ''gpt'' [] ''u'' sample_funding =
      (sample_charged, Inr (Some (charged 60 sample_account)))"
    by code_simp
  moreover have "map estimated_balance (accounts sample_charged) = [40]" by code_simp
  ultimately show ?thesis using provider_cost_once [of _ _ _ _ _ _ _ _ _ _ sample_charged] by blast
qed

fun record_costs :: "string \<Rightarrow> string \<Rightarrow> metadata \<Rightarrow> (string \<times> decimal) list \<Rightarrow> funding_db \<Rightarrow> funding_db" where
  "record_costs p m md [] db = db"
| "record_costs p m md ((rq, x) # xs) db =
     record_costs p m md xs (fst (record_provider_cost p x (Some rq) m md [] db))"

lemma charged_simps [simp]:
  "fa_provider (charged c a) = fa_provider a"
  "estimated_balance (charged c a) = max 0 (q6 (estimated_balance a) - c)"
  by (simp_all add: charged_def Let_def)

lemma record_one_cost:
  assumes F: "funding_ok db" and a: "account_by_provider db (normalize_provider p) = Some a"
    and rq: "rq \<noteq> []" "event_by_key (''usage:'' @ rq) db = None"
    and db': "db' = fst (record_provider_cost p x (Some rq) m md [] db)"
  shows "\<exists>a'. account_by_provider db' (normalize_provider p) = Some a' \<and>
    estimated_balance a' = max 0 (estimated_balance a - max 0 (q6 x)) \<and> funding_ok db' \<and>
    (\<forall>k. k \<noteq> ''usage:'' @ rq \<longrightarrow> event_by_key k db' = event_by_key k db)"
proof (cases "q6 x \<le> 0")
  case True
  with F a db' funding_ok_account [OF F a] show ?thesis
    by (auto simp: record_provider_cost_def account_ok_def Let_def)
next
  case False
  let ?k = "''usage:'' @ rq"
  have k: "usage_key (Some rq) [] = ?k" using rq(1) by (simp add: usage_key_def or_text_def)
  have no: "\<not> list_ex (event_clash e) (events db)" if "fe_key e = ?k" "fe_request e = Some rq" for e
  proof -
    have "fe_key f \<noteq> ?k" if "f \<in> set (events db)" for f
      using rq(2) that by (metis event_by_key_def image_eqI row_by_None_iff)
    moreover have "fe_request f \<noteq> Some rq" if "f \<in> set (events db)" for f
      using F that rq(1) calculation [OF that] by (auto simp: funding_ok_def event_ok_def)
    ultimately show ?thesis using that unfolding event_clash_def list_ex_iff by metis
  qed
  obtain res where r: "record_provider_cost p x (Some rq) m md [] db = (db', res)" using db' by (metis prod.collapse)
  have "db' \<noteq> db"
    using r a rq(2) False no
    by (auto simp: record_provider_cost_def Let_def k insert_event_def save_account_def split: if_splits
        dest!: arg_cong [where f = events])
  obtain e where e: "insert_event e (save_account (charged (q6 x) a) db) = Some db'" "fe_key e = ?k"
    using r by (rule record_cost_cases) (use \<open>db' \<noteq> db\<close> a k in auto)
  note I = insert_event_frames [OF e(1)]
  have p: "fa_provider a = normalize_provider p" using a by (rule account_repo.get_ident)
  have "account_by_provider db' (normalize_provider p) = Some (charged (q6 x) a)"
    using account_repo.get_save_same [of db "charged (q6 x) a"] a p I(1) by (simp add: account_by_provider_def)
  moreover have "q6 (estimated_balance a) = estimated_balance a"
    using funding_ok_account [OF F a] by (simp add: account_ok_def)
  moreover have "funding_ok db'" by (rule funding_ok_cost [OF F r])
  moreover have "event_by_key k' db' = event_by_key k' db" if "k' \<noteq> ?k" for k'
    using that e(2) I(2) by (simp add: event_by_key_def row_by_append split: option.split)
  ultimately show ?thesis using False by auto
qed

lemma record_costs_drain:
  assumes "funding_ok db" and "account_by_provider db (normalize_provider p) = Some a"
    and "distinct (map fst xs)" and "\<forall>(rq, x) \<in> set xs. rq \<noteq> [] \<and> event_by_key (''usage:'' @ rq) db = None"
  shows "\<exists>a'. account_by_provider (record_costs p m md xs db) (normalize_provider p) = Some a' \<and>
    estimated_balance a' = max 0 (estimated_balance a - (\<Sum>(rq, x) \<leftarrow> xs. max 0 (q6 x)))"
  using assms
proof (induction xs arbitrary: a db)
  case Nil
  then show ?case using funding_ok_account [OF Nil(1,2)] by (auto simp: account_ok_def)
next
  case (Cons c xs)
  obtain rq x where c: "c = (rq, x)" by (cases c)
  let ?db = "fst (record_provider_cost p x (Some rq) m md [] db)"
  obtain b where b: "account_by_provider ?db (normalize_provider p) = Some b"
    "estimated_balance b = max 0 (estimated_balance a - max 0 (q6 x))" "funding_ok ?db"
    "\<forall>k. k \<noteq> ''usage:'' @ rq \<longrightarrow> event_by_key k ?db = event_by_key k db"
  proof -
    have "rq \<noteq> []" "event_by_key (''usage:'' @ rq) db = None" using Cons.prems(4) c by simp_all
    then show ?thesis using record_one_cost [OF Cons.prems(1,2) _ _ refl, of rq x m md] that by blast
  qed
  have fresh: "\<forall>(rq, x) \<in> set xs. rq \<noteq> [] \<and> event_by_key (''usage:'' @ rq) ?db = None"
  proof (clarify)
    fix rq' x'
    assume "(rq', x') \<in> set xs"
    moreover from this have "''usage:'' @ rq' \<noteq> ''usage:'' @ rq" using Cons.prems(3) c by force
    ultimately show "rq' \<noteq> [] \<and> event_by_key (''usage:'' @ rq') ?db = None"
      using Cons.prems(4) b(4) by auto
  qed
  obtain a' where a': "account_by_provider (record_costs p m md xs ?db) (normalize_provider p) = Some a'"
    "estimated_balance a' = max 0 (estimated_balance b - (\<Sum>(rq, x) \<leftarrow> xs. max 0 (q6 x)))"
  proof -
    have "distinct (map fst xs)" using Cons.prems(3) by simp
    then show ?thesis using Cons.IH [OF b(3,1)] fresh that by blast
  qed
  have "0 \<le> (\<Sum>(rq, x) \<leftarrow> xs. max 0 (q6 x))"
    by (rule sum_list_nonneg) auto
  with a' b(2) c show ?case by (auto simp: max_def)
qed

text \<open>
  A run of costs drains the balance exactly: from any reachable state, recording costs of
  one provider under new, distinct request ids leaves the estimated balance at the starting
  balance less the sum of the rounded costs, or at zero where the costs exceed it.
\<close>

theorem costs_drain_balance:
  assumes "reached funding_step (\<lambda>db. db = no_funding) db" and "get_account p db = Some a"
    and "distinct (map fst xs)" and "\<forall>(rq, x) \<in> set xs. rq \<noteq> [] \<and> event_by_key (''usage:'' @ rq) db = None"
  shows "\<exists>a'. get_account p (record_costs p m md xs db) = Some a' \<and>
    estimated_balance a' = max 0 (estimated_balance a - (\<Sum>(rq, x) \<leftarrow> xs. max 0 (q6 x)))"
  using record_costs_drain [OF funding.reached_inv [OF assms(1)] _ assms(3,4)] assms(2)
  by (simp add: get_account_def)

theorem costs_drain_balance_witness:
  "\<exists>a'. get_account ''OPENAI'' (record_costs ''OPENAI'' ''gpt'' [] [(''r1'', 30), (''r2'', 45)] sample_funding) = Some a' \<and>
    estimated_balance a' = 25"
proof -
  have g: "get_account ''OPENAI'' sample_funding = Some sample_account" by code_simp
  have "estimated_balance sample_account = 100" and q: "q6 30 = 30" "q6 45 = 45" by code_simp+
  with costs_drain_balance [OF sample_funding_reached g, of "[(''r1'', 30), (''r2'', 45)]" "''gpt''" "[]"]
  show ?thesis by (simp add: sample_funding_eq event_by_key_def q)
qed

text \<open>
  What a funding check decides: a disabled monitor only marks the account; a balance
  above the minimum is healthy and clears the error; at or below the minimum the status is
  the provider-side recharge, the missing adapter or plain low, by the account's funding
  mode, and exactly one event is recorded. No check ever changes a balance.
\<close>

theorem check_account_decides:
  assumes "check_account a now db = (db', Inr a')"
  shows "current_balance a' = current_balance a \<and> estimated_balance a' = estimated_balance a \<and>
    last_checked_at a' = Some now \<and>
    (if \<not> monitor_enabled a then fa_status a' = DISABLED \<and> events db' = events db
     else if minimum_balance a < effective_balance a
     then fa_status a' = HEALTHY \<and> last_error a' = None \<and> events db' = events db
     else fa_status a' = (if fa_auto a \<and> fa_mode a = PROVIDER_AUTO_RECHARGE then AWAITING_RECHARGE
            else if fa_auto a \<and> fa_mode a = ZYNTRY_MANAGED then FUNDING_UNSUPPORTED else LOW) \<and>
          last_error a' \<noteq> None \<and> length (events db') = Suc (length (events db)))"
proof -
  have eff: "effective_balance (a\<lparr>last_checked_at := Some now\<rparr>) = effective_balance a"
    by (simp add: effective_balance_def split: option.split)
  have low: "low_outcome (a\<lparr>last_checked_at := Some now\<rparr>) = low_outcome a" by (simp add: low_outcome_def)
  obtain st err ev where o: "low_outcome a = (st, err, ev)" by (cases "low_outcome a") auto
  have st: "st = (if fa_auto a \<and> fa_mode a = PROVIDER_AUTO_RECHARGE then AWAITING_RECHARGE
      else if fa_auto a \<and> fa_mode a = ZYNTRY_MANAGED then FUNDING_UNSUPPORTED else LOW)"
    using o by (auto simp: low_outcome_def split: if_splits)
  show ?thesis
    using assms st
    by (auto simp: check_account_def Let_def eff low o insert_event_frames split: if_splits option.splits)
qed

theorem check_account_decides_witness:
  "\<exists>db' a'. check_account (sample_account\<lparr>current_balance := Some 40\<rparr>) 5 sample_funding = (db', Inr a') \<and>
     fa_status a' = AWAITING_RECHARGE \<and> length (events db') = 1"
proof -
  let ?a = "sample_account\<lparr>current_balance := Some 40\<rparr>"
  obtain db' res where r: "check_account ?a 5 sample_funding = (db', res)" by fastforce
  have "\<exists>x. snd (check_account ?a 5 sample_funding) = Inr x"
    by (simp add: sample_funding_eq check_account_def Let_def insert_event_def save_account_def split: prod.split)
  then obtain a' where a': "check_account ?a 5 sample_funding = (db', Inr a')" using r by auto
  have "monitor_enabled ?a" "\<not> minimum_balance ?a < effective_balance ?a" "fa_auto ?a" "fa_mode ?a = PROVIDER_AUTO_RECHARGE"
    by code_simp+
  with check_account_decides [OF a'] a' show ?thesis by (simp add: sample_funding_eq)
qed

end
