(* ===== verification/Token_Engine.thy ===== *)
theory Token_Engine
  imports Prelude
begin

text \<open>
  \<open>app/services/token_engine.py\<close>: the character heuristic for preflight estimates and the
  normalisation of what providers report. Provider payloads are JSON values; \<open>str_of\<close> is
  Python's \<open>str\<close> on a value that is not a string, an argument.
\<close>

section \<open>Estimates\<close>

definition CHARS_PER_TOKEN :: int where "CHARS_PER_TOKEN = 4"
definition MESSAGE_OVERHEAD :: int where "MESSAGE_OVERHEAD = 4"

record message =
  role :: string
  content :: string

definition estimate_text :: "string \<Rightarrow> int" where
  "estimate_text s =
     (if s = [] then 0 else max 1 ((int (length s) + CHARS_PER_TOKEN - 1) div CHARS_PER_TOKEN))"

fun estimate_messages :: "message list \<Rightarrow> int" where
  "estimate_messages [] = 0"
| "estimate_messages (m # ms) = estimate_text (content m) + MESSAGE_OVERHEAD + estimate_messages ms"

lemma estimate_text_eq: "estimate_text s = (int (length s) + 3) div 4"
proof (cases s)
  case (Cons c cs)
  have "1 \<le> (int (length s) + 3) div 4" using Cons by simp
  with Cons show ?thesis by (simp add: estimate_text_def CHARS_PER_TOKEN_def max_def)
qed (simp add: estimate_text_def)

lemma estimate_text_nonneg [simp]: "0 \<le> estimate_text s"
  by (simp add: estimate_text_eq)

lemma estimate_messages_append [simp]:
  "estimate_messages (xs @ ys) = estimate_messages xs + estimate_messages ys"
  by (induction xs) auto

lemma estimate_messages_nonneg [simp]: "0 \<le> estimate_messages ms"
  by (induction ms) (auto simp: MESSAGE_OVERHEAD_def)

section \<open>JSON values\<close>

datatype json = JNull | JBool bool | JInt int | JFloat rat | JStr string | JList "json list"
  | JObj "(string \<times> json) list"

definition json_get :: "string \<Rightarrow> (string \<times> json) list \<Rightarrow> json" where
  "json_get k kvs = (case map_of kvs k of None \<Rightarrow> JNull | Some v \<Rightarrow> v)"

fun json_true :: "json \<Rightarrow> bool" where
  "json_true JNull = False"
| "json_true (JBool b) = b"
| "json_true (JInt i) = (i \<noteq> 0)"
| "json_true (JFloat r) = (r \<noteq> 0)"
| "json_true (JStr s) = (s \<noteq> [])"
| "json_true (JList xs) = (xs \<noteq> [])"
| "json_true (JObj kvs) = (kvs \<noteq> [])"

definition json_or :: "json \<Rightarrow> json \<Rightarrow> json" where
  "json_or a b = (if json_true a then a else b)"

text \<open>\<open>int(text)\<close>: surrounding space, a sign, digits with single underscores between them.\<close>

definition digit_value :: "char \<Rightarrow> int option" where
  "digit_value c = (let n = of_char c :: nat in if 48 \<le> n \<and> n \<le> 57 then Some (int n - 48) else None)"

fun parse_digits :: "bool \<Rightarrow> int \<Rightarrow> string \<Rightarrow> int option" where
  "parse_digits after_digit acc [] = (if after_digit then Some acc else None)"
| "parse_digits after_digit acc (c # cs) =
     (case digit_value c of
        Some d \<Rightarrow> parse_digits True (acc * 10 + d) cs
      | None \<Rightarrow> if c = CHR ''_'' \<and> after_digit then parse_digits False acc cs else None)"

definition parse_int :: "string \<Rightarrow> int option" where
  "parse_int text =
     (case str_strip text of
        [] \<Rightarrow> None
      | c # cs \<Rightarrow>
          if c = CHR ''-'' then map_option uminus (parse_digits False 0 cs)
          else if c = CHR ''+'' then parse_digits False 0 cs
          else parse_digits False 0 (c # cs))"

text \<open>\<open>int(value)\<close>; \<open>None\<close> is the \<open>TypeError\<close> or \<open>ValueError\<close>.\<close>

fun int_of_json :: "json \<Rightarrow> int option" where
  "int_of_json (JBool b) = Some (if b then 1 else 0)"
| "int_of_json (JInt i) = Some i"
| "int_of_json (JFloat r) = Some (if r < 0 then \<lceil>r\<rceil> else \<lfloor>r\<rfloor>)"
| "int_of_json (JStr s) = parse_int s"
| "int_of_json _ = None"

fun read_first :: "(string \<times> json) list \<Rightarrow> string list \<Rightarrow> int" where
  "read_first kvs [] = 0"
| "read_first kvs (k # ks) =
     (let value0 = json_get k kvs;
          value = (case value0 of JObj o' \<Rightarrow> json_or (json_get ''total'' o') (json_get ''count'' o') | _ \<Rightarrow> value0)
      in if value = JNull then read_first kvs ks
         else case int_of_json value of Some i \<Rightarrow> max 0 i | None \<Rightarrow> read_first kvs ks)"

text \<open>A payload: nothing, a JSON value, or an object whose \<open>model_dump\<close> is one.\<close>

datatype usage_payload = No_Payload | Payload json | Dumped json

fun read_int :: "usage_payload \<Rightarrow> string list \<Rightarrow> int" where
  "read_int (Payload (JObj kvs)) keys = read_first kvs keys"
| "read_int (Dumped (JObj kvs)) keys = read_first kvs keys"
| "read_int _ keys = 0"

section \<open>Normalisation\<close>

datatype usage_source = Estimated | Provider | Mixed

record completion_usage =
  input_tokens :: int
  output_tokens :: int
  cached_tokens :: int
  source :: usage_source

definition total_tokens :: "completion_usage \<Rightarrow> int" where
  "total_tokens u = input_tokens u + output_tokens u"

text \<open>What a provider adapter returns: text, the text subclass \<open>ProviderResponse\<close> with its
  usage dictionary, a pair, a dictionary, or another object with a \<open>usage\<close> attribute (its
  \<open>text\<close>, \<open>content\<close> and \<open>str\<close>).\<close>

datatype provider_result = Plain_Text string | Provider_Response string "(string \<times> json) list"
  | Text_And_Usage json usage_payload
  | Dictionary "(string \<times> json) list" | Response_Object json json string usage_payload

definition payload_of_json :: "json \<Rightarrow> usage_payload" where
  "payload_of_json j = (case j of JNull \<Rightarrow> No_Payload | _ \<Rightarrow> Payload j)"

fun split_result :: "provider_result \<Rightarrow> json \<times> usage_payload" where
  "split_result (Plain_Text s) = (JStr s, No_Payload)"
| "split_result (Provider_Response s kvs) = (JStr s, Payload (JObj kvs))"
| "split_result (Text_And_Usage t p) = (t, p)"
| "split_result (Dictionary kvs) =
     (json_or (json_get ''text'' kvs) (json_or (json_get ''content'' kvs) (json_or (json_get ''response'' kvs) (JStr []))),
      payload_of_json (json_or (json_get ''usage'' kvs) (json_or (json_get ''usageMetadata'' kvs) (JObj kvs))))"
| "split_result (Response_Object t c s p) = (json_or t (json_or c (JStr s)), p)"

definition source_of_text :: "string \<Rightarrow> usage_source option" where
  "source_of_text s = (if s = ''estimated'' then Some Estimated else if s = ''provider'' then Some Provider
     else if s = ''mixed'' then Some Mixed else None)"

definition text_of :: "(json \<Rightarrow> string) \<Rightarrow> json \<Rightarrow> string" where
  "text_of str_of j = (if json_true j then (case j of JStr s \<Rightarrow> s | _ \<Rightarrow> str_of j) else [])"

definition declared_source :: "(json \<Rightarrow> string) \<Rightarrow> usage_payload \<Rightarrow> usage_source option" where
  "declared_source str_of p =
     (case p of Payload (JObj kvs) \<Rightarrow> source_of_text (str_lower (str_strip (text_of str_of (json_get ''source'' kvs))))
      | _ \<Rightarrow> None)"

text \<open>\<open>isinstance(usage_payload, (int, float))\<close>; a Boolean is an \<open>int\<close>.\<close>

definition number_payload :: "usage_payload \<Rightarrow> int option" where
  "number_payload p =
     (case p of Payload (JBool b) \<Rightarrow> int_of_json (JBool b) | Payload (JInt i) \<Rightarrow> int_of_json (JInt i)
      | Payload (JFloat r) \<Rightarrow> int_of_json (JFloat r) | _ \<Rightarrow> None)"

definition usage_of_payload :: "(json \<Rightarrow> string) \<Rightarrow> int \<Rightarrow> int \<Rightarrow> usage_payload \<Rightarrow> completion_usage" where
  "usage_of_payload str_of est_in est_out p =
     (let in0 = read_int p [''input_tokens'', ''prompt_tokens'', ''promptTokenCount''];
          out0 = read_int p [''output_tokens'', ''completion_tokens'', ''candidatesTokenCount''];
          cached = read_int p [''cached_tokens'', ''cachedTokenCount''];
          total0 = read_int p [''total_tokens'', ''totalTokenCount''];
          total = (case number_payload p of Some n \<Rightarrow> max 0 n | None \<Rightarrow> total0);
          only_total = (total \<noteq> 0 \<and> in0 = 0 \<and> out0 = 0);
          in1 = (if only_total then min est_in total else in0);
          out1 = (if only_total then max 0 (total - in1) else out0);
          src = (case declared_source str_of p of Some s \<Rightarrow> s
                 | None \<Rightarrow> if in1 \<noteq> 0 \<or> out1 \<noteq> 0 \<or> total \<noteq> 0 then Provider else Estimated)
      in \<lparr>input_tokens = (if in1 \<noteq> 0 then in1 else est_in),
          output_tokens = (if out1 \<noteq> 0 then out1 else est_out),
          cached_tokens = cached, source = src\<rparr>)"

definition normalize_usage :: "(json \<Rightarrow> string) \<Rightarrow> provider_result \<Rightarrow> int \<Rightarrow> int \<Rightarrow> string \<times> completion_usage" where
  "normalize_usage str_of result est_in est_out =
     (let (t, p) = split_result result in (text_of str_of t, usage_of_payload str_of est_in est_out p))"

definition clamp_sum :: "('a \<Rightarrow> int) \<Rightarrow> 'a list \<Rightarrow> int" where
  "clamp_sum f xs = sum_list (map (\<lambda>x. max 0 (f x)) xs)"

definition aggregate :: "completion_usage list \<Rightarrow> completion_usage" where
  "aggregate items =
     (case items of
        [] \<Rightarrow> \<lparr>input_tokens = 0, output_tokens = 0, cached_tokens = 0, source = Estimated\<rparr>
      | u # us \<Rightarrow>
        \<lparr>input_tokens = clamp_sum input_tokens items, output_tokens = clamp_sum output_tokens items,
         cached_tokens = clamp_sum cached_tokens items,
         source = (if list_all (\<lambda>v. source v = source u) us then source u else Mixed)\<rparr>)"

section \<open>Facts\<close>

lemma read_first_nonneg [simp]: "0 \<le> read_first kvs ks"
  by (induction kvs ks rule: read_first.induct) (auto simp: Let_def split: option.splits)

lemma read_int_nonneg [simp]: "0 \<le> read_int p ks"
  by (induction p ks rule: read_int.induct) auto

lemma clamp_sum_nonneg [simp]: "0 \<le> clamp_sum f xs"
  unfolding clamp_sum_def by (intro sum_list_nonneg) auto

lemma clamp_sum_append [simp]: "clamp_sum f (xs @ ys) = clamp_sum f xs + clamp_sum f ys"
  by (simp add: clamp_sum_def)

text \<open>
  Normalised usage is sane: with non-negative estimates every token count that comes out
  of a provider's answer, whatever JSON it is, is non-negative; provider-reported input and
  output counts that are positive are taken as they are; and a bare total that exceeds the
  input estimate is split so that input and output add up to it.
\<close>

theorem usage_normalised:
  assumes "0 \<le> est_in" and "0 \<le> est_out"
  shows "let u = usage_of_payload str_of est_in est_out p;
      reported_in = read_int p [''input_tokens'', ''prompt_tokens'', ''promptTokenCount''];
      reported_out = read_int p [''output_tokens'', ''completion_tokens'', ''candidatesTokenCount''] in
    0 \<le> input_tokens u \<and> 0 \<le> output_tokens u \<and> 0 \<le> cached_tokens u \<and>
    (0 < reported_in \<longrightarrow> input_tokens u = reported_in) \<and>
    (0 < reported_out \<longrightarrow> output_tokens u = reported_out) \<and>
    (number_payload p = Some n \<and> est_in < n \<longrightarrow> total_tokens u = n)"
proof -
  have number: "read_int p ks = 0" if "number_payload p = Some n" for ks
    using that by (auto simp: number_payload_def split: usage_payload.splits json.splits)
  show ?thesis
    using assms number unfolding usage_of_payload_def Let_def total_tokens_def
    by (auto simp: max_def min_def split: option.split)
qed

definition sample_payload :: usage_payload where
  "sample_payload = Payload (JObj [(''prompt_tokens'', JStr '' 12 ''), (''completion_tokens'', JInt (- 3)),
     (''cachedTokenCount'', JObj [(''total'', JInt 5)])])"

theorem usage_normalised_witness:
  "input_tokens (usage_of_payload (\<lambda>_. []) 40 9 sample_payload) = 12 \<and>
   0 \<le> output_tokens (usage_of_payload (\<lambda>_. []) 40 9 sample_payload) \<and>
   total_tokens (usage_of_payload (\<lambda>_. []) 40 9 (Payload (JInt 50))) = 50"
proof -
  have r: "read_int sample_payload [''input_tokens'', ''prompt_tokens'', ''promptTokenCount''] = 12" by code_simp
  have n: "number_payload (Payload (JInt 50)) = Some 50" by code_simp
  show ?thesis
    using usage_normalised [of 40 9 "\<lambda>_. []" sample_payload 0] usage_normalised [of 40 9 "\<lambda>_. []" "Payload (JInt 50)" 50] r n
    by (simp add: Let_def)
qed

text \<open>
  A bare total at or below the input estimate is over-counted: the whole total goes to the
  input, the output that is then zero is replaced by its estimate, and the result, still
  marked as reported by the provider, exceeds what the provider reported by that estimate.
\<close>

theorem bare_total_overcounted:
  assumes "0 < n" and "n \<le> est_in" and "0 < est_out"
  shows "total_tokens (usage_of_payload str_of est_in est_out (Payload (JInt n))) = n + est_out \<and>
    source (usage_of_payload str_of est_in est_out (Payload (JInt n))) = Provider"
  using assms by (simp add: usage_of_payload_def Let_def number_payload_def total_tokens_def declared_source_def)

theorem bare_total_overcounted_witness:
  "total_tokens (usage_of_payload (\<lambda>_. []) 100 500 (Payload (JInt 50))) = 550"
  using bare_total_overcounted [of 50 100 500 "\<lambda>_. []"] by simp

text \<open>
  Aggregation over a run: the counts of the aggregate are the sums of the non-negative
  parts, so splitting a run in two and adding the aggregates gives the same, they are never
  negative, and the source is mixed exactly when two calls disagree.
\<close>

theorem aggregate_sums:
  "input_tokens (aggregate (xs @ ys)) = input_tokens (aggregate xs) + input_tokens (aggregate ys) \<and>
   output_tokens (aggregate (xs @ ys)) = output_tokens (aggregate xs) + output_tokens (aggregate ys) \<and>
   cached_tokens (aggregate (xs @ ys)) = cached_tokens (aggregate xs) + cached_tokens (aggregate ys) \<and>
   0 \<le> total_tokens (aggregate xs) \<and>
   ((\<exists>u \<in> set xs. \<exists>v \<in> set xs. source u \<noteq> source v) = (source (aggregate xs) = Mixed \<and> \<not> (\<forall>u \<in> set xs. source u = Mixed)))"
proof -
  have sums: "input_tokens (aggregate us) = clamp_sum input_tokens us \<and>
      output_tokens (aggregate us) = clamp_sum output_tokens us \<and>
      cached_tokens (aggregate us) = clamp_sum cached_tokens us" for us
    by (cases us) (simp_all add: aggregate_def clamp_sum_def)
  have "(\<exists>u \<in> set xs. \<exists>v \<in> set xs. source u \<noteq> source v) =
      (source (aggregate xs) = Mixed \<and> \<not> (\<forall>u \<in> set xs. source u = Mixed))"
    by (cases xs) (auto simp: aggregate_def list_all_iff)
  then show ?thesis by (simp add: sums total_tokens_def)
qed

end
