(* ===== verification/Model_Registry.thy ===== *)
theory Model_Registry
  imports Prelude
begin

text \<open>
  \<open>app/services/model_registry.py\<close>: the table of known models and how a requested provider
  and model are resolved to a row of it, and \<open>ModelInfo\<close> of
  \<open>app/services/model_providers/base.py\<close>. Prices are the decimals written in the source.
  The cache in front of the table has no observable effect and is left out.
\<close>

section \<open>The table\<close>

record registered_model =
  model_id :: string
  provider :: string
  context_window :: int
  max_output_tokens :: int
  input_price_per_1k :: "rat option"
  output_price_per_1k :: "rat option"
  supports_reasoning :: bool
  supports_vision :: bool
  supports_tools :: bool
  supports_streaming :: bool
  supports_structured_output :: bool
  supports_embeddings :: bool
  latency_tier :: string
  quality_tier :: string
  metadata_version :: string

record model_info =
  info_id :: string
  info_name :: string
  info_provider :: string
  max_context :: int
  info_vision :: bool
  info_tools :: bool
  info_streaming :: bool
  info_input_price :: "rat option"
  info_output_price :: "rat option"
  info_latency :: string
  info_quality :: string
  info_config :: metadata
  info_max_output :: int
  info_reasoning :: bool
  info_structured :: bool
  info_embeddings :: bool

definition registered ::
  "string \<Rightarrow> string \<Rightarrow> int \<Rightarrow> int \<Rightarrow> rat \<Rightarrow> rat \<Rightarrow> bool \<Rightarrow> bool \<Rightarrow> bool \<Rightarrow> bool \<Rightarrow> bool \<Rightarrow> bool \<Rightarrow> string \<Rightarrow> string \<Rightarrow> registered_model" where
  "registered i p ctx out inp outp reasoning vision tools streaming structured embeddings latency quality =
     \<lparr>model_id = i, provider = p, context_window = ctx, max_output_tokens = out,
      input_price_per_1k = Some inp, output_price_per_1k = Some outp, supports_reasoning = reasoning,
      supports_vision = vision, supports_tools = tools, supports_streaming = streaming,
      supports_structured_output = structured, supports_embeddings = embeddings,
      latency_tier = latency, quality_tier = quality, metadata_version = ''2026-09-01''\<rparr>"

definition MODELS :: "registered_model list" where
  "MODELS =
   [registered ''gpt-4o'' ''openai'' 128000 16384 (1 / 200) (3 / 200) True True True True True False ''medium'' ''high'',
    registered ''gpt-4o-mini'' ''openai'' 128000 16384 (3 / 20000) (3 / 5000) False True True True True False ''low'' ''standard'',
    registered ''gpt-4.1'' ''openai'' 1000000 32768 (3 / 1000) (3 / 250) True True True True True False ''medium'' ''premium'',
    registered ''gpt-4.1-mini'' ''openai'' 1000000 32768 (3 / 10000) (3 / 2500) True True True True True False ''low'' ''high'',
    registered ''gpt-3.5-turbo'' ''openai'' 16385 4096 (1 / 2000) (3 / 2000) False False True True False False ''low'' ''standard'',
    registered ''gemini-2.5-flash'' ''google'' 1000000 65536 (1 / 10000) (1 / 2500) True True True True True False ''low'' ''high'',
    registered ''gemini-2.5-pro'' ''google'' 1000000 65536 (1 / 400) (1 / 100) True True True True True False ''medium'' ''premium'',
    registered ''gemini-1.5-flash'' ''google'' 1000000 8192 (1 / 10000) (1 / 2500) False True True True True False ''low'' ''high'',
    registered ''gemini-1.5-pro'' ''google'' 2000000 8192 (1 / 500) (3 / 500) True True True True True False ''medium'' ''premium'',
    registered ''claude-3-5-sonnet-latest'' ''anthropic'' 200000 8192 (3 / 1000) (3 / 200) True True True True True False ''medium'' ''premium'',
    registered ''claude-3-5-haiku-latest'' ''anthropic'' 200000 8192 (1 / 1250) (1 / 250) False True True True True False ''low'' ''high'',
    registered ''deepseek-chat'' ''deepseek'' 128000 8192 (7 / 50000) (7 / 25000) False False True True True False ''low'' ''high'',
    registered ''deepseek-reasoner'' ''deepseek'' 128000 8192 (11 / 20000) (219 / 100000) True False True True True False ''medium'' ''premium'',
    registered ''mistral-large-latest'' ''mistral'' 128000 8192 (1 / 500) (3 / 500) True False True True True False ''medium'' ''high'',
    registered ''llama-3.3-70b-versatile'' ''groq'' 128000 32768 (59 / 100000) (79 / 100000) False False True True True False ''low'' ''high'']"

definition as_model_info :: "registered_model \<Rightarrow> model_info" where
  "as_model_info m =
     \<lparr>info_id = model_id m, info_name = model_id m, info_provider = provider m,
      max_context = context_window m, info_vision = supports_vision m, info_tools = supports_tools m,
      info_streaming = supports_streaming m, info_input_price = input_price_per_1k m,
      info_output_price = output_price_per_1k m, info_latency = latency_tier m,
      info_quality = quality_tier m, info_config = [(''metadata_version'', metadata_version m)],
      info_max_output = max_output_tokens m, info_reasoning = supports_reasoning m,
      info_structured = supports_structured_output m, info_embeddings = supports_embeddings m\<rparr>"

section \<open>Resolution\<close>

text \<open>\<open>x.strip().lower() if x else None\<close>\<close>

definition normalized :: "string option \<Rightarrow> string option" where
  "normalized x = (case x of None \<Rightarrow> None | Some s \<Rightarrow> if s = [] then None else Some (str_lower (str_strip s)))"

definition list_registered_models :: "string option \<Rightarrow> registered_model list" where
  "list_registered_models prov =
     (case normalized prov of None \<Rightarrow> MODELS | Some p \<Rightarrow> filter (\<lambda>m. provider m = p) MODELS)"

text \<open>\<open>if normalized_provider\<close>: an all-blank provider is as good as none.\<close>

definition named :: "string option \<Rightarrow> string option" where
  "named x = (case normalized x of None \<Rightarrow> None | Some s \<Rightarrow> if s = [] then None else Some s)"

definition exact_match :: "string option \<Rightarrow> string \<Rightarrow> registered_model option" where
  "exact_match np m =
     (case np of None \<Rightarrow> None
      | Some p \<Rightarrow> find (\<lambda>item. provider item = p \<and> str_lower (model_id item) = m) MODELS)"

definition family_match :: "string option \<Rightarrow> string \<Rightarrow> registered_model option" where
  "family_match np m =
     find (\<lambda>item. (np = None \<or> np = Some (provider item)) \<and>
       (m = str_lower (model_id item) \<or> prefix (str_lower (model_id item) @ ''-'') m)) MODELS"

definition upstream_match :: "string \<Rightarrow> string option \<Rightarrow> string \<Rightarrow> registered_model option" where
  "upstream_match requested np m =
     map_option (\<lambda>item. item\<lparr>model_id := requested, provider := (case np of Some p \<Rightarrow> p | None \<Rightarrow> provider item)\<rparr>)
       (find (\<lambda>item. m = str_lower (model_id item) \<or> str_contains (str_lower (model_id item)) m) MODELS)"

definition get_registered_model :: "string option \<Rightarrow> string option \<Rightarrow> registered_model option" where
  "get_registered_model prov model =
     (case model of None \<Rightarrow> None
      | Some requested \<Rightarrow>
        if requested = [] then None
        else (let m = str_lower (str_strip requested); np = named prov in
         case exact_match np m of
           Some item \<Rightarrow> Some item
         | None \<Rightarrow>
           (case family_match np m of
              Some item \<Rightarrow> Some item
            | None \<Rightarrow> upstream_match requested np m)))"

definition or_unknown :: "string option \<Rightarrow> string" where
  "or_unknown x = (case x of None \<Rightarrow> ''unknown'' | Some s \<Rightarrow> if s = [] then ''unknown'' else s)"

definition model_info_for :: "string option \<Rightarrow> string option \<Rightarrow> int \<Rightarrow> model_info" where
  "model_info_for prov model fallback_context =
     (case get_registered_model prov model of
        Some r \<Rightarrow> as_model_info r
      | None \<Rightarrow>
        \<lparr>info_id = or_unknown model, info_name = or_unknown model,
         info_provider = str_lower (str_strip (or_unknown prov)), max_context = max 1 fallback_context,
         info_vision = False, info_tools = False, info_streaming = True, info_input_price = None,
         info_output_price = None, info_latency = ''medium'', info_quality = ''standard'',
         info_config = [(''metadata_version'', ''conservative-default'')],
         info_max_output = min 8192 (max 1024 (fallback_context div 8)),
         info_reasoning = False, info_structured = False, info_embeddings = False\<rparr>)"

section \<open>Facts about the table\<close>

definition row_ok :: "registered_model \<Rightarrow> bool" where
  "row_ok m = (exact_match (Some (provider m)) (model_id m) = Some m \<and> model_id m \<noteq> [] \<and> provider m \<noteq> [] \<and>
     4096 \<le> max_output_tokens m \<and> max_output_tokens m \<le> context_window m \<and>
     supports_streaming m)"

lemma table_ok: "list_all row_ok MODELS"
  by code_simp

lemma table_row: "m \<in> set MODELS \<Longrightarrow> row_ok m"
  using table_ok by (simp add: list_all_iff)

text \<open>A resolved model is a row of the table, up to the name and provider asked for.\<close>

definition row_of :: "registered_model \<Rightarrow> registered_model \<Rightarrow> bool" where
  "row_of r item = (\<exists>i p. r = item\<lparr>model_id := i, provider := p\<rparr>)"

lemma row_of_refl [simp]: "row_of m m"
  unfolding row_of_def by (intro exI [of _ "model_id m"] exI [of _ "provider m"]) simp

lemma get_registered_cases:
  assumes "get_registered_model prov model = Some r"
  obtains item requested where "item \<in> set MODELS" "model = Some requested" "requested \<noteq> []"
    "row_of r item" "\<And>p. named prov = Some p \<Longrightarrow> provider r = p"
proof -
  obtain requested where q: "model = Some requested" "requested \<noteq> []"
    using assms by (auto simp: get_registered_model_def split: option.splits if_splits)
  let ?m = "str_lower (str_strip requested)" and ?np = "named prov"
  consider "exact_match ?np ?m = Some r"
    | "exact_match ?np ?m = None" "family_match ?np ?m = Some r" | "upstream_match requested ?np ?m = Some r"
    using assms q by (auto simp: get_registered_model_def Let_def split: option.splits)
  then show ?thesis
  proof cases
    case 1
    then show ?thesis
      by (intro that [of r, OF _ q]) (auto simp: exact_match_def dest: find_SomeD split: option.splits)
  next
    case 2
    then show ?thesis
      by (intro that [of r, OF _ q]) (auto simp: family_match_def dest: find_SomeD)
  next
    case 3
    then obtain item where i: "item \<in> set MODELS"
      "r = item\<lparr>model_id := requested, provider := (case ?np of Some p \<Rightarrow> p | None \<Rightarrow> provider item)\<rparr>"
      by (auto simp: upstream_match_def dest: find_SomeD)
    then show ?thesis by (intro that [of item, OF i(1) q]) (auto simp: row_of_def)
  qed
qed

text \<open>
  A known model resolves to its own row: whatever the case and the surrounding space of
  the provider and the model asked for, a pair that names a row of the table resolves to
  exactly that row.
\<close>

theorem registry_exact:
  assumes "m \<in> set MODELS" and "str_lower (str_strip s) = model_id m" and "str_lower (str_strip p) = provider m"
  shows "get_registered_model (Some p) (Some s) = Some m \<and> model_info_for (Some p) (Some s) c = as_model_info m"
proof -
  have ok: "row_ok m" by (rule table_row [OF assms(1)])
  then have "s \<noteq> []" and "named (Some p) = Some (provider m)"
    using assms(2,3) by (auto simp: row_ok_def named_def normalized_def str_strip_def str_lower_def)
  with ok assms(2) have "get_registered_model (Some p) (Some s) = Some m"
    by (simp add: get_registered_model_def row_ok_def Let_def)
  then show ?thesis by (simp add: model_info_for_def)
qed

theorem registry_exact_witness:
  "get_registered_model (Some '' OpenAI'') (Some ''GPT-4o-mini '') = Some (MODELS ! 1)"
proof -
  have "MODELS ! 1 \<in> set MODELS" by (simp add: MODELS_def)
  moreover have "str_lower (str_strip ''GPT-4o-mini '') = model_id (MODELS ! 1)"
    "str_lower (str_strip '' OpenAI'') = provider (MODELS ! 1)" by code_simp+
  ultimately show ?thesis using registry_exact [of "MODELS ! 1"] by blast
qed

text \<open>
  Nothing is invented: a resolved model has the limits, prices, capabilities and tiers of
  one row of the table, under the provider that was asked for.
\<close>

theorem registry_sound:
  assumes "get_registered_model prov model = Some r"
  shows "(\<exists>item \<in> set MODELS. \<exists>i p. r = item\<lparr>model_id := i, provider := p\<rparr>) \<and>
    (named prov = None \<or> named prov = Some (provider r))"
proof (rule get_registered_cases [OF assms])
  fix item requested
  assume "item \<in> set MODELS" "row_of r item" "\<And>p. named prov = Some p \<Longrightarrow> provider r = p"
  then show ?thesis unfolding row_of_def by (cases "named prov") auto
qed

theorem registry_sound_witness:
  "\<exists>r. get_registered_model (Some ''openrouter'') (Some ''anthropic/claude-3-5-haiku-latest'') = Some r \<and>
     provider r = ''openrouter''"
proof -
  have g: "get_registered_model (Some ''openrouter'') (Some ''anthropic/claude-3-5-haiku-latest'') =
      Some ((MODELS ! 10)\<lparr>model_id := ''anthropic/claude-3-5-haiku-latest'', provider := ''openrouter''\<rparr>)"
    by code_simp
  moreover have "named (Some ''openrouter'') = Some ''openrouter''" by code_simp
  ultimately show ?thesis using registry_sound [OF g] by auto
qed

text \<open>
  Every answer is usable: whatever is asked for, the metadata has a context of at least
  one token and an output limit of at least 1024 tokens, and claims streaming.
\<close>

theorem model_info_usable:
  "1 \<le> max_context (model_info_for prov model c) \<and> 1024 \<le> info_max_output (model_info_for prov model c) \<and>
   info_streaming (model_info_for prov model c)"
proof (cases "get_registered_model prov model")
  case (Some r)
  then obtain item where "item \<in> set MODELS" "row_of r item" by (rule get_registered_cases)
  then have "row_ok item" "context_window r = context_window item" "max_output_tokens r = max_output_tokens item"
    "supports_streaming r = supports_streaming item"
    by (auto simp: row_of_def table_row)
  with Some show ?thesis by (simp add: model_info_for_def as_model_info_def row_ok_def)
qed (simp add: model_info_for_def)

text \<open>
  A dated identifier of a small model resolves to its large sibling: the rows are tried in
  table order and \<open>gpt-4o-\<close> is a prefix of \<open>gpt-4o-mini-2024-07-18\<close>, so that model is priced
  at more than thirty times the price of \<open>gpt-4o-mini\<close>; the same holds for \<open>gpt-4.1-mini\<close>.
\<close>

theorem dated_model_shadowed:
  "map_option model_id (get_registered_model (Some ''openai'') (Some ''gpt-4o-mini-2024-07-18'')) = Some ''gpt-4o'' \<and>
   map_option model_id (get_registered_model (Some ''openai'') (Some ''gpt-4.1-mini-2025-04-14'')) = Some ''gpt-4.1'' \<and>
   (case (get_registered_model (Some ''openai'') (Some ''gpt-4o-mini-2024-07-18''),
          get_registered_model (Some ''openai'') (Some ''gpt-4o-mini'')) of
      (Some wrong, Some right) \<Rightarrow> 30 * the (input_price_per_1k right) < the (input_price_per_1k wrong)
    | _ \<Rightarrow> False)"
  by code_simp

end
