(* ===== verification/Context_Manager.thy ===== *)
theory Context_Manager
  imports Token_Engine Model_Registry
begin

text \<open>
  \<open>app/services/context_manager.py\<close>: the token budget of a model and the assembly of a
  request that fits it: drop old messages, compress one, then trim until it fits. The last
  loop is a \<open>partial_function\<close>: a run that does not end is \<open>None\<close>.
  The safety ratio is the decimal written in the source.
\<close>

section \<open>Budget\<close>

record context_budget =
  model_context :: int
  reserved_output :: int
  safety_margin :: int
  working_input :: int

record context_manager =
  default_output_tokens :: int
  safety_ratio :: rat

definition default_manager :: context_manager where
  "default_manager = \<lparr>default_output_tokens = 2048, safety_ratio = 8 / 100\<rparr>"

text \<open>\<open>a or b\<close> for an optional integer.\<close>

definition or_int :: "int option \<Rightarrow> int \<Rightarrow> int" where
  "or_int x d = (case x of None \<Rightarrow> d | Some i \<Rightarrow> if i = 0 then d else i)"

definition int_of_rat :: "rat \<Rightarrow> int" where
  "int_of_rat r = (if r < 0 then \<lceil>r\<rceil> else \<lfloor>r\<rfloor>)"

definition budget_for ::
  "context_manager \<Rightarrow> string option \<Rightarrow> string option \<Rightarrow> int option \<Rightarrow> int option \<Rightarrow> context_budget" where
  "budget_for self prov model requested_output override =
     (let info = model_info_for prov model (or_int override 128000);
          ctx = max 1 (or_int override (max_context info));
          limit = (if info_max_output info \<noteq> 0 then info_max_output info else default_output_tokens self);
          reserved = max 256 (min (or_int requested_output (default_output_tokens self)) limit);
          margin = max 256 (int_of_rat (of_int ctx * safety_ratio self))
      in \<lparr>model_context = ctx, reserved_output = reserved, safety_margin = margin,
          working_input = max 1 (ctx - reserved - margin)\<rparr>)"

section \<open>Messages\<close>

text \<open>A message as it arrives: both keys may be missing or \<open>None\<close>.\<close>

record raw_message =
  raw_role :: "string option"
  raw_content :: "string option"

definition text_or :: "string option \<Rightarrow> string \<Rightarrow> string" where
  "text_or x d = (case x of None \<Rightarrow> d | Some s \<Rightarrow> if s = [] then d else s)"

definition normalize_message :: "raw_message \<Rightarrow> message" where
  "normalize_message m = \<lparr>role = text_or (raw_role m) ''user'', content = text_or (raw_content m) []\<rparr>"

definition is_system :: "message \<Rightarrow> bool" where
  "is_system m = (role m = ''system'')"

fun oldest_from :: "nat \<Rightarrow> nat \<Rightarrow> message list \<Rightarrow> nat option" where
  "oldest_from n i [] = None"
| "oldest_from n i (m # ms) =
     (if \<not> is_system m then (if i = n - 1 then oldest_from n (Suc i) ms else Some i)
      else oldest_from n (Suc i) ms)"

definition oldest_removable_index :: "message list \<Rightarrow> nat option" where
  "oldest_removable_index ms = oldest_from (length ms) 0 ms"

definition pop :: "nat \<Rightarrow> 'a list \<Rightarrow> 'a list" where
  "pop i xs = take i xs @ drop (Suc i) xs"

lemma oldest_from_Some: "oldest_from n i ms = Some j \<Longrightarrow> i \<le> j \<and> j < i + length ms \<and> j \<noteq> n - 1"
  by (induction n i ms rule: oldest_from.induct) (auto split: if_splits)

lemma oldest_removable_less: "oldest_removable_index ms = Some j \<Longrightarrow> Suc j < length ms"
  using oldest_from_Some [of "length ms" 0 ms j] by (auto simp: oldest_removable_index_def)

lemma length_pop [simp]: "i < length xs \<Longrightarrow> length (pop i xs) = length xs - 1"
  by (simp add: pop_def)

section \<open>Assembly\<close>

text \<open>Messages, how many were dropped and how many compressed, and the warnings.\<close>

record assembly_state =
  selected :: "message list"
  dropped :: nat
  compressed :: nat
  warnings :: "string list"

function drop_loop :: "int \<Rightarrow> message list \<Rightarrow> nat \<Rightarrow> message list \<times> nat" where
  "drop_loop budget sel n =
     (if budget < estimate_messages sel \<and> 1 < length sel
      then (case oldest_removable_index sel of
              None \<Rightarrow> (sel, n)
            | Some i \<Rightarrow> drop_loop budget (pop i sel) (Suc n))
      else (sel, n))"
  by pat_completeness auto
termination
  by (relation "measure (\<lambda>(b, sel, n). length sel)") (auto dest!: oldest_removable_less)

declare drop_loop.simps [simp del]

definition W_compressed :: string where
  "W_compressed = ''Context was compressed to fit the selected model.''"
definition W_system :: string where
  "W_system = ''System context is larger than the selected model working budget; system instructions were preserved.''"
definition W_exceeds :: string where
  "W_exceeds = ''The request still exceeds the model working budget after compression.''"
definition newline :: char where
  "newline = CHR 0x0A"
definition long_marker :: string where
  "long_marker = newline # ''[Context truncated to fit the selected model.]''"
definition marker :: string where
  "marker = newline # ''[Context truncated.]''"

definition set_content :: "nat \<Rightarrow> string \<Rightarrow> message list \<Rightarrow> message list" where
  "set_content i c ms = ms[i := (ms ! i)\<lparr>content := c\<rparr>]"

definition compress_targets :: "message list \<Rightarrow> nat list" where
  "compress_targets sel =
     (let latest = length sel - 1;
          targets = filter (\<lambda>i. i \<noteq> latest \<and> \<not> is_system (sel ! i)) [0 ..< length sel]
      in if targets = [] \<and> \<not> is_system (sel ! latest) then [latest] else targets)"

definition shortened :: "int \<Rightarrow> string \<Rightarrow> string" where
  "shortened excess c = take (nat (max 128 (int (length c) - excess * CHARS_PER_TOKEN))) c @ long_marker"

definition compress_once :: "int \<Rightarrow> assembly_state \<Rightarrow> assembly_state" where
  "compress_once budget s =
     (let sel = selected s; excess = estimate_messages sel - budget in
      if excess \<le> 0 then s
      else case compress_targets sel of
        [] \<Rightarrow> s\<lparr>warnings := warnings s @ [W_system]\<rparr>
      | target # _ \<Rightarrow>
          s\<lparr>selected := set_content target (shortened excess (content (sel ! target))) sel,
            compressed := Suc (compressed s), warnings := warnings s @ [W_compressed]\<rparr>)"

text \<open>\<open>max(candidates, key=...)\<close>: the first of the longest.\<close>

fun longest :: "message list \<Rightarrow> nat \<Rightarrow> nat list \<Rightarrow> nat" where
  "longest sel best [] = best"
| "longest sel best (i # is) =
     longest sel (if length (content (sel ! best)) < length (content (sel ! i)) then i else best) is"

definition candidates :: "message list \<Rightarrow> nat list" where
  "candidates sel = filter (\<lambda>i. content (sel ! i) \<noteq> [] \<and> \<not> is_system (sel ! i)) [0 ..< length sel]"

definition trimmed :: "int \<Rightarrow> string \<Rightarrow> string" where
  "trimmed excess c =
     (let remove = min (max (excess * CHARS_PER_TOKEN) 16) (max 1 (int (length c) - 1)) in
      if int (length c) \<le> remove + int (length marker) then []
      else take (length c - nat remove) c @ marker)"

definition trim_step :: "int \<Rightarrow> assembly_state \<Rightarrow> nat \<Rightarrow> assembly_state" where
  "trim_step budget s target =
     (let sel = selected s; excess = estimate_messages sel - budget in
      s\<lparr>selected := set_content target (trimmed excess (content (sel ! target))) sel,
        compressed := Suc (compressed s),
        warnings := (if W_compressed \<in> set (warnings s) then warnings s else warnings s @ [W_compressed])\<rparr>)"

partial_function (option) trim_loop :: "int \<Rightarrow> assembly_state \<Rightarrow> assembly_state option" where
  "trim_loop budget s =
     (if estimate_messages (selected s) \<le> budget then Some s
      else (case candidates (selected s) of
              [] \<Rightarrow> Some (s\<lparr>warnings := warnings s @ [W_system]\<rparr>)
            | i # is \<Rightarrow> trim_loop budget (trim_step budget s (longest (selected s) i is))))"

record breakdown =
  bd_system :: int
  bd_history :: int
  bd_knowledge :: int
  bd_tools :: int
  bd_current :: int

definition empty_breakdown :: breakdown where
  "empty_breakdown = \<lparr>bd_system = 0, bd_history = 0, bd_knowledge = 0, bd_tools = 0, bd_current = 0\<rparr>"

text \<open>One turn of the loop of \<open>_breakdown\<close>: message \<open>i\<close> of \<open>n\<close>.\<close>

definition add_tokens :: "nat \<Rightarrow> nat \<Rightarrow> message \<Rightarrow> breakdown \<Rightarrow> breakdown" where
  "add_tokens n i m b =
     (let tokens = estimate_text (content m) + MESSAGE_OVERHEAD; c = str_lower (content m) in
      if is_system m then b\<lparr>bd_system := bd_system b + tokens\<rparr>
      else if i = n - 1 then b\<lparr>bd_current := bd_current b + tokens\<rparr>
      else if str_contains ''connected internal source context'' c \<or> str_contains ''retrieved context'' c
      then b\<lparr>bd_knowledge := bd_knowledge b + tokens\<rparr>
      else if str_contains ''tool'' c then b\<lparr>bd_tools := bd_tools b + tokens\<rparr>
      else b\<lparr>bd_history := bd_history b + tokens\<rparr>)"

fun breakdown_from :: "nat \<Rightarrow> nat \<Rightarrow> message list \<Rightarrow> breakdown \<Rightarrow> breakdown" where
  "breakdown_from n i [] b = b"
| "breakdown_from n i (m # ms) b = breakdown_from n (Suc i) ms (add_tokens n i m b)"

definition breakdown_of :: "message list \<Rightarrow> breakdown" where
  "breakdown_of ms = breakdown_from (length ms) 0 ms empty_breakdown"

record context_assembly =
  ca_messages :: "message list"
  ca_budget :: context_budget
  ca_estimated :: int
  ca_breakdown :: breakdown
  ca_dropped :: nat
  ca_compressed :: nat
  ca_warnings :: "string list"

definition normalized_messages :: "raw_message list \<Rightarrow> message list" where
  "normalized_messages ms = map normalize_message (filter (\<lambda>m. raw_content m \<noteq> None) ms)"

definition after_drops :: "int \<Rightarrow> message list \<Rightarrow> assembly_state" where
  "after_drops budget ms =
     (let (sel, n) = drop_loop budget ms 0 in
      \<lparr>selected = sel, dropped = n, compressed = 0, warnings = []\<rparr>)"

definition finish :: "context_budget \<Rightarrow> assembly_state \<Rightarrow> context_assembly" where
  "finish b s =
     (let estimated = estimate_messages (selected s) in
      \<lparr>ca_messages = selected s, ca_budget = b, ca_estimated = estimated,
       ca_breakdown = breakdown_of (selected s), ca_dropped = dropped s, ca_compressed = compressed s,
       ca_warnings = (if working_input b < estimated then warnings s @ [W_exceeds] else warnings s)\<rparr>)"

definition assemble ::
  "context_manager \<Rightarrow> raw_message list \<Rightarrow> string option \<Rightarrow> string option \<Rightarrow> int option \<Rightarrow> int option \<Rightarrow> context_assembly option" where
  "assemble self ms prov model requested_output override =
     (let b = budget_for self prov model requested_output override; w = working_input b in
      map_option (finish b) (trim_loop w (compress_once w (after_drops w (normalized_messages ms)))))"

section \<open>Dropping\<close>

abbreviation systems :: "message list \<Rightarrow> message list" where
  "systems ms \<equiv> filter is_system ms"

abbreviation others :: "message list \<Rightarrow> message list" where
  "others ms \<equiv> filter (\<lambda>m. \<not> is_system m) ms"

lemma estimate_split: "estimate_messages ms = estimate_messages (systems ms) + estimate_messages (others ms)"
  by (induction ms) auto

lemma oldest_from_spec:
  "oldest_from n i ms = Some j \<Longrightarrow>
     \<exists>pre m post. ms = pre @ m # post \<and> length pre = j - i \<and> \<not> is_system m \<and>
       (\<forall>k < length pre. is_system (pre ! k) \<or> i + k = n - 1)"
proof (induction n i ms rule: oldest_from.induct)
  case (2 n i m ms)
  show ?case
  proof (cases "\<not> is_system m \<and> i \<noteq> n - 1")
    case True
    with 2(3) show ?thesis by (intro exI [of _ "[]"] exI [of _ m] exI [of _ ms]) auto
  next
    case False
    then have r: "oldest_from n (Suc i) ms = Some j" using 2(3) by (auto split: if_splits)
    have "\<exists>pre m post. ms = pre @ m # post \<and> length pre = j - Suc i \<and> \<not> is_system m \<and>
       (\<forall>k < length pre. is_system (pre ! k) \<or> Suc i + k = n - 1)"
      using False 2(1,2) r by (cases "is_system m") auto
    then obtain pre m' post where *: "ms = pre @ m' # post" "length pre = j - Suc i" "\<not> is_system m'"
      "\<forall>k < length pre. is_system (pre ! k) \<or> Suc i + k = n - 1" by blast
    have "Suc i \<le> j" using oldest_from_Some [OF r] by simp
    with * False show ?thesis
      by (intro exI [of _ "m # pre"] exI [of _ m'] exI [of _ post]) (auto simp: nth_Cons split: nat.splits)
  qed
qed simp

lemma oldest_removable_Some:
  assumes "oldest_removable_index ms = Some j"
  obtains pre m post where "ms = pre @ m # post" "length pre = j" "\<not> is_system m" "list_all is_system pre" "post \<noteq> []"
proof -
  obtain pre m post where *: "ms = pre @ m # post" "length pre = j" "\<not> is_system m"
    "\<forall>k < length pre. is_system (pre ! k) \<or> k = length ms - 1"
    using oldest_from_spec [OF assms [unfolded oldest_removable_index_def]] by auto
  moreover have "list_all is_system pre" using * by (auto simp: list_all_length)
  moreover have "post \<noteq> []" using oldest_removable_less [OF assms] * by auto
  ultimately show ?thesis using that by blast
qed

lemma oldest_from_None:
  "oldest_from n i ms = None \<Longrightarrow> k < length ms \<Longrightarrow> i + k \<noteq> n - 1 \<Longrightarrow> is_system (ms ! k)"
proof (induction n i ms arbitrary: k rule: oldest_from.induct)
  case (2 n i m ms)
  then show ?case by (cases k) (auto split: if_splits)
qed simp

lemma oldest_removable_None:
  assumes "oldest_removable_index ms = None"
  shows "list_all is_system (butlast ms)"
  using oldest_from_None [OF assms [unfolded oldest_removable_index_def]]
  by (auto simp: list_all_length nth_butlast)

text \<open>What dropping keeps: all system messages, the last message, and of the others the latest.\<close>

lemma drop_loop_spec:
  "drop_loop b sel n = (sel', n') \<Longrightarrow>
     systems sel' = systems sel \<and> (\<exists>k. others sel' = drop k (others sel) \<and> n' = n + k) \<and>
     (sel \<noteq> [] \<longrightarrow> sel' \<noteq> [] \<and> last sel' = last sel) \<and>
     (estimate_messages sel' \<le> b \<or> list_all is_system (butlast sel'))"
proof (induction b sel n rule: drop_loop.induct)
  case (1 b sel n)
  show ?case
  proof (cases "b < estimate_messages sel \<and> 1 < length sel")
    case False
    with 1(2) have "sel' = sel" "n' = n" by (auto simp: drop_loop.simps [of b sel n] split: if_splits)
    moreover have "list_all is_system (butlast sel)" if "\<not> 1 < length sel"
      using that by (cases sel) auto
    ultimately show ?thesis using False by (auto intro: exI [of _ 0])
  next
    case True
    show ?thesis
    proof (cases "oldest_removable_index sel")
      case None
      with 1(2) True have "sel' = sel" "n' = n" by (auto simp: drop_loop.simps [of b sel n] split: if_splits)
      with None show ?thesis by (auto intro: exI [of _ 0] dest: oldest_removable_None)
    next
      case (Some i)
      with 1(2) True have r: "drop_loop b (pop i sel) (Suc n) = (sel', n')"
        by (simp add: drop_loop.simps [of b sel n])
      note IH = 1(1) [OF True Some r]
      from Some show ?thesis
      proof (rule oldest_removable_Some)
        fix pre m post
        assume *: "sel = pre @ m # post" "length pre = i" "\<not> is_system m" "list_all is_system pre" "post \<noteq> []"
        have p: "pop i sel = pre @ post" using * by (simp add: pop_def)
        have "others pre = []" using *(4) by (simp add: list_all_iff filter_empty_conv)
        with * p have o': "others sel = m # others (pop i sel)" and s': "systems (pop i sel) = systems sel" by simp_all
        obtain k where k: "others sel' = drop k (others (pop i sel))" "n' = Suc n + k" using IH by blast
        have "others sel' = drop (Suc k) (others sel) \<and> n' = n + Suc k" using k o' by simp
        with IH s' p * show ?thesis by (auto intro!: exI [of _ "Suc k"])
      qed
    qed
  qed
qed

lemma drop_loop_fits: "estimate_messages sel \<le> b \<Longrightarrow> drop_loop b sel n = (sel, n)"
  by (simp add: drop_loop.simps [of b sel n])

section \<open>Trimming never touches a system message\<close>

lemma set_content_systems:
  assumes "i < length ms" and "\<not> is_system (ms ! i)"
  shows "systems (set_content i c ms) = systems ms \<and> length (set_content i c ms) = length ms"
proof -
  have "ms = take i ms @ ms ! i # drop (Suc i) ms" using assms(1) by (rule id_take_nth_drop)
  moreover have "set_content i c ms = take i ms @ (ms ! i)\<lparr>content := c\<rparr> # drop (Suc i) ms"
    using assms(1) by (simp add: set_content_def upd_conv_take_nth_drop)
  moreover have "\<not> is_system ((ms ! i)\<lparr>content := c\<rparr>)" using assms(2) by (simp add: is_system_def)
  ultimately have "systems (set_content i c ms) = systems (take i ms) @ systems (drop (Suc i) ms)"
    and "systems ms = systems (take i ms) @ systems (drop (Suc i) ms)"
    using assms(2) by (simp, metis (no_types, lifting) filter.simps(2) filter_append)
  then show ?thesis by (simp add: set_content_def)
qed

lemma longest_in: "longest sel best is \<in> set (best # is)"
proof (induction "is" arbitrary: best)
  case (Cons i "is")
  then show ?case by (cases "length (content (sel ! best)) < length (content (sel ! i))") force+
qed simp

lemma candidatesD: "i \<in> set (candidates sel) \<Longrightarrow> i < length sel \<and> \<not> is_system (sel ! i) \<and> content (sel ! i) \<noteq> []"
  by (auto simp: candidates_def)

lemma trim_step_systems:
  assumes "candidates (selected s) = i # is"
  shows "systems (selected (trim_step b s (longest (selected s) i is))) = systems (selected s)"
proof -
  have "longest (selected s) i is \<in> set (candidates (selected s))" using longest_in assms by simp
  from candidatesD [OF this] show ?thesis by (simp add: trim_step_def Let_def set_content_systems)
qed

lemma trim_loop_systems:
  assumes "trim_loop b s = Some s'"
  shows "systems (selected s') = systems (selected s) \<and>
     (b < estimate_messages (selected s') \<longrightarrow> candidates (selected s') = [] \<and> W_system \<in> set (warnings s'))"
proof (rule trim_loop.raw_induct [OF _ assms], goal_cases)
  case (1 loop b s s')
  show ?case
  proof (cases "estimate_messages (selected s) \<le> b")
    case False
    show ?thesis
    proof (cases "candidates (selected s)")
      case Nil
      with 1(2) False show ?thesis by auto
    next
      case (Cons i "is")
      with 1(2) False have "loop b (trim_step b s (longest (selected s) i is)) = Some s'" by simp
      from 1(1) [OF this] Cons show ?thesis by (simp add: trim_step_systems)
    qed
  qed (use 1(2) in auto)
qed

lemma compress_targetsD:
  "i \<in> set (compress_targets sel) \<Longrightarrow> \<not> is_system (sel ! i) \<and> (i < length sel \<or> sel = [])"
  by (auto simp: compress_targets_def Let_def split: if_splits)

lemma compress_once_systems: "systems (selected (compress_once b s)) = systems (selected s)"
proof (cases "compress_targets (selected s)")
  case (Cons i "is")
  then have "i \<in> set (compress_targets (selected s))" by simp
  note i = compress_targetsD [OF this]
  have "systems (set_content i c (selected s)) = systems (selected s)" for c
  proof (cases "selected s = []")
    case False
    with i show ?thesis by (simp add: set_content_systems)
  qed (simp add: set_content_def)
  with Cons show ?thesis by (simp add: compress_once_def Let_def)
qed (simp add: compress_once_def Let_def)

section \<open>When the last message does not fit\<close>

text \<open>Trimming a content never makes it shorter than its share of the budget: what is cut off
  is the excess, and the marker that is added is longer than the four characters of a token.\<close>

lemma trimmed_overflows:
  assumes "t < estimate_text c" and "10 \<le> t"
  shows "trimmed (estimate_text c - t) c \<noteq> [] \<and> t < estimate_text (trimmed (estimate_text c - t) c)"
proof -
  define n where "n = int (length c)"
  define e where "e = (n + 3) div 4 - t"
  have e: "estimate_text c - t = e" "0 < e" using assms(1) by (simp_all add: estimate_text_eq e_def n_def)
  have n: "4 * (t + e) - 3 \<le> n" "n \<le> 4 * (t + e)" by (simp_all add: e_def)
  define r where "r = min (max (e * 4) 16) (max 1 (n - 1))"
  have r: "r = max (4 * e) 16" using n assms(2) e(2) by (simp add: r_def min_def max_def)
  have m: "int (length marker) = 21" by (simp add: marker_def)
  have long: "r + 21 < n" using n assms(2) e(2) by (simp add: r max_def)
  have tr: "trimmed e c = take (length c - nat r) c @ marker"
    using long m by (simp add: trimmed_def Let_def CHARS_PER_TOKEN_def r_def n_def)
  have len: "int (length (trimmed e c)) = n - r + 21"
    using long m e(2) by (simp add: tr n_def r max_def)
  have "t < (n - r + 21 + 3) div 4"
    using n e(2) by (simp add: r max_def) presburger
  moreover have "trimmed e c \<noteq> []" by (simp add: tr marker_def)
  ultimately show ?thesis unfolding e(1) by (simp add: estimate_text_eq len)
qed

lemma shortened_overflows:
  assumes "t < estimate_text c" and "10 \<le> t"
  shows "t < estimate_text (shortened (estimate_text c - t) c)"
proof -
  define n where "n = int (length c)"
  define e where "e = (n + 3) div 4 - t"
  have e: "estimate_text c - t = e" "0 < e" using assms(1) by (simp_all add: estimate_text_eq e_def n_def)
  have n: "4 * (t + e) - 3 \<le> n" "n \<le> 4 * (t + e)" by (simp_all add: e_def)
  have "int (length (shortened e c)) = min n (max 128 (n - e * 4)) + 47"
    using e(2) by (simp add: shortened_def long_marker_def CHARS_PER_TOKEN_def n_def min_def max_def) linarith
  moreover have "4 * t < min n (max 128 (n - e * 4)) + 47" using n assms(2) e(2) by (simp add: min_def max_def)
  ultimately show ?thesis unfolding e(1) by (simp add: estimate_text_eq)
qed

text \<open>A state whose last message is the only one that may be trimmed, and does not fit.\<close>

definition stuck :: "int \<Rightarrow> assembly_state \<Rightarrow> bool" where
  "stuck b s = (\<exists>pre m. selected s = pre @ [m] \<and> list_all is_system pre \<and> \<not> is_system m \<and> content m \<noteq> [] \<and>
     b < estimate_messages (selected s) \<and> estimate_messages pre + MESSAGE_OVERHEAD + 10 \<le> b)"

lemma candidates_last:
  "list_all is_system pre \<Longrightarrow> \<not> is_system m \<Longrightarrow> content m \<noteq> [] \<Longrightarrow> candidates (pre @ [m]) = [length pre]"
  by (auto simp: candidates_def nth_append list_all_length filter_empty_conv)

lemma set_content_last: "set_content (length pre) c (pre @ [m]) = pre @ [m\<lparr>content := c\<rparr>]"
  by (simp add: set_content_def)

lemma stuck_step:
  assumes "stuck b s"
  obtains i where "candidates (selected s) = [i]" "stuck b (trim_step b s i)"
proof -
  obtain pre m where *: "selected s = pre @ [m]" "list_all is_system pre" "\<not> is_system m" "content m \<noteq> []"
    "b < estimate_messages (selected s)" "estimate_messages pre + MESSAGE_OVERHEAD + 10 \<le> b"
    using assms by (auto simp: stuck_def)
  define t where "t = b - estimate_messages pre - MESSAGE_OVERHEAD"
  have t: "t < estimate_text (content m)" "10 \<le> t" "estimate_messages (selected s) - b = estimate_text (content m) - t"
    using * by (simp_all add: t_def)
  let ?c = "trimmed (estimate_text (content m) - t) (content m)"
  have sel: "selected (trim_step b s (length pre)) = pre @ [m\<lparr>content := ?c\<rparr>]"
    using t(3) unfolding trim_step_def Let_def *(1) by (simp only: set_content_last nth_append_length) simp
  have "\<not> is_system (m\<lparr>content := ?c\<rparr>)" using *(3) by (simp add: is_system_def)
  with sel trimmed_overflows [OF t(1,2)] *(2,6) have "stuck b (trim_step b s (length pre))"
    unfolding stuck_def by (intro exI [of _ pre] exI [of _ "m\<lparr>content := ?c\<rparr>"]) (simp add: t_def)
  then show ?thesis using that *(1-4) candidates_last by simp
qed

lemma stuck_diverges:
  assumes "stuck b s"
  shows "trim_loop b s = None"
proof (rule ccontr)
  assume "trim_loop b s \<noteq> None"
  then obtain s' where s': "trim_loop b s = Some s'" by auto
  have "\<not> stuck b s"
  proof (rule trim_loop.raw_induct [OF _ s'], goal_cases)
    case (1 loop b s s')
    show ?case
    proof
      assume st: "stuck b s"
      then obtain i where i: "candidates (selected s) = [i]" "stuck b (trim_step b s i)" by (rule stuck_step)
      have "b < estimate_messages (selected s)" using st by (auto simp: stuck_def)
      with 1(2) i(1) have "loop b (trim_step b s i) = Some s'" by simp
      from 1(1) [OF this] i(2) show False by simp
    qed
  qed
  with assms show False by simp
qed

text \<open>The drop loop leaves the system messages and the last message when these exceed the budget.\<close>

definition protected_ones :: "message list \<Rightarrow> message list" where
  "protected_ones ms = systems (butlast ms) @ [last ms]"

lemma systems_butlast: "ms \<noteq> [] \<Longrightarrow> systems ms = systems (butlast ms) @ (if is_system (last ms) then [last ms] else [])"
  by (subst append_butlast_last_id [symmetric], assumption) (simp del: append_butlast_last_id)

lemma protected_le: "ms \<noteq> [] \<Longrightarrow> estimate_messages (protected_ones ms) \<le> estimate_messages ms"
  by (subst (2) append_butlast_last_id [symmetric], assumption)
    (simp add: protected_ones_def estimate_split [of "butlast ms"] del: append_butlast_last_id)

lemma drop_loop_overflow:
  assumes "drop_loop b ms n = (sel, n')" and "ms \<noteq> []" and "b < estimate_messages (protected_ones ms)"
  shows "sel = protected_ones ms"
proof -
  note D = drop_loop_spec [OF assms(1)]
  have ne: "sel \<noteq> []" and last: "last sel = last ms" and sys: "systems sel = systems ms" using D assms(2) by auto
  have "systems (butlast sel) = systems (butlast ms)"
    using sys systems_butlast [OF ne] systems_butlast [OF assms(2)] last by auto
  then have P: "protected_ones sel = protected_ones ms" using last by (simp add: protected_ones_def)
  then have "\<not> estimate_messages sel \<le> b" using protected_le [OF ne] assms(3) by simp
  with D have "list_all is_system (butlast sel)" by simp
  then have "systems (butlast sel) = butlast sel" by (simp add: list_all_iff)
  with P ne show ?thesis by (simp add: protected_ones_def)
qed

section \<open>Assembling a request\<close>

abbreviation working ::
  "context_manager \<Rightarrow> string option \<Rightarrow> string option \<Rightarrow> int option \<Rightarrow> int option \<Rightarrow> int" where
  "working self prov model out override \<equiv> working_input (budget_for self prov model out override)"

lemma compress_once_fits: "estimate_messages (selected s) \<le> b \<Longrightarrow> compress_once b s = s"
  by (simp add: compress_once_def Let_def)

lemma trim_loop_fits: "estimate_messages (selected s) \<le> b \<Longrightarrow> trim_loop b s = Some s"
  by (subst trim_loop.simps) simp

text \<open>
  C30. A request that can fit is made to fit: when the system messages and the last message
  fit the working budget, assembly returns; the result fits, keeps every system message and
  the last message as they are, keeps of the other messages the most recent ones in order,
  compresses nothing, warns of nothing, and is the whole request if that fits.
\<close>

theorem assemble_fits:
  assumes "normalized_messages ms \<noteq> []"
    and "estimate_messages (protected_ones (normalized_messages ms)) \<le> working self prov model out override"
  shows "\<exists>a. assemble self ms prov model out override = Some a \<and>
    ca_estimated a = estimate_messages (ca_messages a) \<and> ca_estimated a \<le> working self prov model out override \<and>
    systems (ca_messages a) = systems (normalized_messages ms) \<and>
    last (ca_messages a) = last (normalized_messages ms) \<and>
    others (ca_messages a) = drop (ca_dropped a) (others (normalized_messages ms)) \<and>
    ca_compressed a = 0 \<and> ca_warnings a = [] \<and>
    (estimate_messages (normalized_messages ms) \<le> working self prov model out override \<longrightarrow>
       ca_messages a = normalized_messages ms \<and> ca_dropped a = 0)"
proof -
  let ?N = "normalized_messages ms" and ?b = "budget_for self prov model out override"
  let ?w = "working_input ?b"
  obtain sel n where d: "drop_loop ?w ?N 0 = (sel, n)" by fastforce
  note D = drop_loop_spec [OF d]
  have ne: "sel \<noteq> []" and last: "last sel = last ?N" and sys: "systems sel = systems ?N" using D assms(1) by auto
  have fits: "estimate_messages sel \<le> ?w"
  proof (cases "list_all is_system (butlast sel)")
    case True
    have "systems (butlast sel) = systems (butlast ?N)"
      using sys systems_butlast [OF ne] systems_butlast [OF assms(1)] last by auto
    moreover have "systems (butlast sel) = butlast sel" using True by (simp add: list_all_iff)
    ultimately have "sel = protected_ones ?N" using last ne by (simp add: protected_ones_def) (metis append_butlast_last_id)
    then show ?thesis using assms(2) by simp
  qed (use D in simp)
  have s: "after_drops ?w ?N = \<lparr>selected = sel, dropped = n, compressed = 0, warnings = []\<rparr>"
    by (simp add: after_drops_def d)
  have "assemble self ms prov model out override = Some (finish ?b (after_drops ?w ?N))"
    using fits by (simp add: assemble_def Let_def s compress_once_fits trim_loop_fits)
  moreover have "estimate_messages ?N \<le> ?w \<longrightarrow> sel = ?N \<and> n = 0"
    using d by (auto simp: drop_loop_fits)
  ultimately show ?thesis using fits D last sys by (auto simp: finish_def Let_def s)
qed

definition sample_request :: "raw_message list" where
  "sample_request =
     [\<lparr>raw_role = Some ''system'', raw_content = Some ''be kind''\<rparr>,
      \<lparr>raw_role = None, raw_content = Some (replicate 600 CHR ''x'')\<rparr>,
      \<lparr>raw_role = Some ''assistant'', raw_content = Some ''ok''\<rparr>,
      \<lparr>raw_role = Some ''user'', raw_content = Some ''hello''\<rparr>]"

theorem assemble_fits_witness:
  "\<exists>a. assemble default_manager sample_request None (Some ''local'') (Some 256) (Some 612) = Some a \<and>
     systems (ca_messages a) = [\<lparr>role = ''system'', content = ''be kind''\<rparr>] \<and>
     last (ca_messages a) = \<lparr>role = ''user'', content = ''hello''\<rparr> \<and> ca_estimated a \<le> 100"
proof -
  have N: "normalized_messages sample_request \<noteq> []"
    and w: "working default_manager None (Some ''local'') (Some 256) (Some 612) = 100"
    and p: "estimate_messages (protected_ones (normalized_messages sample_request)) = 12"
    and s: "systems (normalized_messages sample_request) = [\<lparr>role = ''system'', content = ''be kind''\<rparr>]"
    and l: "last (normalized_messages sample_request) = \<lparr>role = ''user'', content = ''hello''\<rparr>"
    by code_simp+
  from assemble_fits [of sample_request default_manager None "Some ''local''" "Some 256" "Some 612"] show ?thesis
    using N w p s l by auto
qed

text \<open>
  A last message that is too long makes assembly run forever: whenever the system
  messages and the last message exceed the working budget, the last one is not a system
  message and the budget has room for at least ten tokens of it, the final loop adds a marker
  longer than what it gains and never ends, so no request is ever assembled.
\<close>

theorem oversized_message_diverges:
  assumes "normalized_messages ms \<noteq> []" and "\<not> is_system (last (normalized_messages ms))"
    and "working self prov model out override < estimate_messages (protected_ones (normalized_messages ms))"
    and "estimate_messages (systems (normalized_messages ms)) + MESSAGE_OVERHEAD + 10 \<le> working self prov model out override"
  shows "assemble self ms prov model out override = None"
proof -
  let ?N = "normalized_messages ms" and ?w = "working self prov model out override"
  let ?pre = "systems ?N" and ?m = "last ?N"
  obtain sel n where d: "drop_loop ?w ?N 0 = (sel, n)" by fastforce
  have N: "protected_ones ?N = ?pre @ [?m]"
    using systems_butlast [OF assms(1)] assms(2) by (simp add: protected_ones_def)
  then have sel: "sel = ?pre @ [?m]" using drop_loop_overflow [OF d assms(1,3)] by simp
  define t where "t = ?w - estimate_messages ?pre - MESSAGE_OVERHEAD"
  have t: "10 \<le> t" "t < estimate_text (content ?m)" using assms(3,4) N by (simp_all add: t_def)
  have ex: "estimate_messages (?pre @ [?m]) - ?w = estimate_text (content ?m) - t" by (simp add: t_def)
  have targets: "compress_targets (?pre @ [?m]) = [length ?pre]"
  proof -
    have "filter (\<lambda>i. i \<noteq> length ?pre \<and> \<not> is_system ((?pre @ [?m]) ! i)) [0 ..< length (?pre @ [?m])] = []"
    proof -
      have "is_system ((?pre @ [?m]) ! i)" if "i < length ?pre" for i
        using nth_mem [OF that] by (simp add: nth_append that)
      then show ?thesis by (auto simp: filter_empty_conv less_Suc_eq)
    qed
    then show ?thesis using assms(2) by (simp add: compress_targets_def)
  qed
  let ?c = "shortened (estimate_text (content ?m) - t) (content ?m)"
  let ?s = "after_drops ?w ?N"
  have s: "selected ?s = ?pre @ [?m]" by (simp add: after_drops_def d sel)
  have pos: "\<not> estimate_text (content ?m) - t \<le> 0" using t by simp
  have "selected (compress_once ?w ?s) = ?pre @ [?m\<lparr>content := ?c\<rparr>]"
    unfolding compress_once_def Let_def s ex targets using pos by (simp add: set_content_last)
  moreover have "\<not> is_system (?m\<lparr>content := ?c\<rparr>)" using assms(2) by (simp add: is_system_def)
  moreover have "list_all is_system ?pre" by (simp add: list_all_iff)
  moreover have "t < estimate_text ?c" by (rule shortened_overflows [OF t(2,1)])
  moreover have "?c \<noteq> []" by (simp add: shortened_def long_marker_def)
  ultimately have "stuck ?w (compress_once ?w ?s)"
    using assms(4) unfolding stuck_def
    by (intro exI [of _ ?pre] exI [of _ "?m\<lparr>content := ?c\<rparr>"]) (simp add: t_def)
  then show ?thesis by (simp add: assemble_def Let_def stuck_diverges)
qed

definition oversized_request :: "raw_message list" where
  "oversized_request = [\<lparr>raw_role = Some ''user'', raw_content = Some (replicate 500 CHR ''x'')\<rparr>]"

theorem oversized_message_diverges_witness:
  "assemble default_manager oversized_request None (Some ''local'') (Some 256) (Some 612) = None"
proof -
  have N: "normalized_messages oversized_request \<noteq> []"
    and w: "working default_manager None (Some ''local'') (Some 256) (Some 612) = 100"
    and p: "estimate_messages (protected_ones (normalized_messages oversized_request)) = 129"
    and s: "estimate_messages (systems (normalized_messages oversized_request)) = 0"
    and l: "\<not> is_system (last (normalized_messages oversized_request))"
    by code_simp+
  show ?thesis
    by (rule oversized_message_diverges) (use N w p s l in \<open>simp_all add: MESSAGE_OVERHEAD_def\<close>)
qed

text \<open>
  System instructions are never touched: whatever is assembled contains every system
  message of the request unchanged and in order, and if it still exceeds the budget that is
  reported in the warnings.
\<close>

theorem system_messages_preserved:
  assumes "assemble self ms prov model out override = Some a"
  shows "systems (ca_messages a) = systems (normalized_messages ms) \<and>
    (working self prov model out override < ca_estimated a \<longrightarrow> W_exceeds \<in> set (ca_warnings a) \<and> W_system \<in> set (ca_warnings a))"
proof -
  let ?b = "budget_for self prov model out override"
  let ?w = "working_input ?b"
  let ?s = "compress_once ?w (after_drops ?w (normalized_messages ms))"
  obtain s' where s': "trim_loop ?w ?s = Some s'" "a = finish ?b s'"
    using assms by (auto simp: assemble_def Let_def)
  obtain sel n where d: "drop_loop ?w (normalized_messages ms) 0 = (sel, n)" by fastforce
  have "systems (selected s') = systems (normalized_messages ms)"
    using trim_loop_systems [OF s'(1)] drop_loop_spec [OF d] by (simp add: compress_once_systems after_drops_def d)
  then show ?thesis using trim_loop_systems [OF s'(1)] by (auto simp: s'(2) finish_def Let_def)
qed

definition system_heavy :: "raw_message list" where
  "system_heavy = [\<lparr>raw_role = Some ''system'', raw_content = Some (replicate 500 CHR ''x'')\<rparr>]"

theorem system_messages_preserved_witness:
  "\<exists>a. assemble default_manager system_heavy None (Some ''local'') (Some 256) (Some 612) = Some a \<and>
     systems (ca_messages a) = [\<lparr>role = ''system'', content = replicate 500 CHR ''x''\<rparr>]"
proof -
  obtain a where a: "assemble default_manager system_heavy None (Some ''local'') (Some 256) (Some 612) = Some a"
  proof -
    have w: "working default_manager None (Some ''local'') (Some 256) (Some 612) = 100" by code_simp
    have "candidates (selected (compress_once 100 (after_drops 100 (normalized_messages system_heavy)))) = []"
      by code_simp
    then have "trim_loop 100 (compress_once 100 (after_drops 100 (normalized_messages system_heavy))) \<noteq> None"
      by (subst trim_loop.simps) simp
    with w that show ?thesis by (auto simp: assemble_def Let_def)
  qed
  moreover have "systems (normalized_messages system_heavy) = [\<lparr>role = ''system'', content = replicate 500 CHR ''x''\<rparr>]"
    by code_simp
  ultimately show ?thesis using system_messages_preserved [OF a] by auto
qed

definition breakdown_total :: "breakdown \<Rightarrow> int" where
  "breakdown_total b = bd_system b + bd_history b + bd_knowledge b + bd_tools b + bd_current b"

definition breakdown_nonneg :: "breakdown \<Rightarrow> bool" where
  "breakdown_nonneg b = (0 \<le> bd_system b \<and> 0 \<le> bd_history b \<and> 0 \<le> bd_knowledge b \<and> 0 \<le> bd_tools b \<and> 0 \<le> bd_current b)"

lemma add_tokens_total:
  assumes "breakdown_nonneg b"
  shows "breakdown_nonneg (add_tokens n i m b) \<and>
    breakdown_total (add_tokens n i m b) = breakdown_total b + (estimate_text (content m) + MESSAGE_OVERHEAD)"
proof -
  have "0 \<le> estimate_text (content m) + MESSAGE_OVERHEAD" by (simp add: MESSAGE_OVERHEAD_def)
  with assms show ?thesis by (simp add: add_tokens_def Let_def breakdown_nonneg_def breakdown_total_def)
qed

lemma breakdown_from_total:
  "breakdown_nonneg b \<Longrightarrow> breakdown_nonneg (breakdown_from n i ms b) \<and>
     breakdown_total (breakdown_from n i ms b) = breakdown_total b + estimate_messages ms"
proof (induction n i ms b rule: breakdown_from.induct)
  case (2 n i m ms b)
  then show ?case using add_tokens_total [of b n i m] by simp
qed simp

text \<open>
  The breakdown accounts for every token: for any messages the five parts of the
  breakdown are non-negative and add up to the estimate of the whole request.
\<close>

theorem breakdown_complete:
  "breakdown_nonneg (breakdown_of ms) \<and> breakdown_total (breakdown_of ms) = estimate_messages ms"
  using breakdown_from_total [of empty_breakdown "length ms" 0 ms]
  by (simp add: breakdown_of_def breakdown_total_def breakdown_nonneg_def empty_breakdown_def)

end
