(* ===== verification/Provider_Health.thy ===== *)
theory Provider_Health
  imports Prelude "HOL-Library.List_Lexorder"
begin

text \<open>
  \<open>app/services/provider_health.py\<close>: process-local health of model providers and the
  failover filter. Times are exact rationals: \<open>tick\<close> the monotonic clock, \<open>wall\<close> the wall
  clock. The shared cooldown in Redis is outside: its answer is an argument (\<open>None\<close> for any
  exception) and what is sent to it is a list of commands.
\<close>

record health_state =
  h_provider :: string
  consecutive_failures :: nat
  total_failures :: nat
  total_successes :: nat
  last_latency_ms :: "rat option"
  h_last_error :: "string option"
  h_checked_at :: "rat option"
  unhealthy_until :: "rat option"

record provider_health =
  failure_threshold :: nat
  cooldown_seconds :: int
  health_states :: "health_state list"

definition new_health :: "int \<Rightarrow> int \<Rightarrow> provider_health" where
  "new_health threshold cooldown =
     \<lparr>failure_threshold = nat (max 1 threshold), cooldown_seconds = max 1 cooldown, health_states = []\<rparr>"

definition health_name :: "string \<Rightarrow> string" where
  "health_name p = str_lower (str_strip p)"

definition fresh_state :: "string \<Rightarrow> health_state" where
  "fresh_state p = \<lparr>h_provider = p, consecutive_failures = 0, total_failures = 0, total_successes = 0,
     last_latency_ms = None, h_last_error = None, h_checked_at = None, unhealthy_until = None\<rparr>"

text \<open>\<open>not unhealthy_until or unhealthy_until <= time.monotonic()\<close>\<close>

definition state_available :: "rat \<Rightarrow> health_state \<Rightarrow> bool" where
  "state_available tick s = (case unhealthy_until s of None \<Rightarrow> True | Some t \<Rightarrow> t = 0 \<or> t \<le> tick)"

definition lookup_state :: "provider_health \<Rightarrow> string \<Rightarrow> health_state option" where
  "lookup_state h n = row_by h_provider n (health_states h)"

definition save_state :: "health_state \<Rightarrow> provider_health \<Rightarrow> provider_health" where
  "save_state s h = h\<lparr>health_states := put_row h_provider s (health_states h)\<rparr>"

text \<open>\<open>_get\<close> inserts the state it does not find.\<close>

definition get_state :: "string \<Rightarrow> provider_health \<Rightarrow> provider_health \<times> health_state" where
  "get_state p h =
     (let n = health_name p in
      case lookup_state h n of
        Some s \<Rightarrow> (h, s)
      | None \<Rightarrow> (h\<lparr>health_states := health_states h @ [fresh_state n]\<rparr>, fresh_state n))"

definition is_available :: "string \<Rightarrow> rat \<Rightarrow> provider_health \<Rightarrow> provider_health \<times> bool" where
  "is_available p tick h = (let (h', s) = get_state p h in (h', state_available tick s))"

definition is_available_async :: "bool \<Rightarrow> (string \<Rightarrow> bool option) \<Rightarrow> string \<Rightarrow> rat \<Rightarrow> provider_health \<Rightarrow> provider_health \<times> bool" where
  "is_available_async has_redis blocked p tick h =
     (case is_available p tick h of
        (h', False) \<Rightarrow> (h', False)
      | (h', True) \<Rightarrow>
          if \<not> has_redis then (h', True)
          else (h', (case blocked (health_name p) of Some b \<Rightarrow> \<not> b | None \<Rightarrow> True)))"

definition record_success :: "string \<Rightarrow> rat option \<Rightarrow> rat \<Rightarrow> provider_health \<Rightarrow> provider_health" where
  "record_success p latency wall h =
     (let (h', s) = get_state p h in
      save_state (s\<lparr>consecutive_failures := 0, total_successes := Suc (total_successes s),
        last_latency_ms := latency, h_last_error := None, h_checked_at := Some wall, unhealthy_until := None\<rparr>) h')"

definition record_failure :: "string \<Rightarrow> string \<Rightarrow> rat \<Rightarrow> rat \<Rightarrow> provider_health \<Rightarrow> provider_health" where
  "record_failure p err wall tick h =
     (let (h', s) = get_state p h; n = Suc (consecutive_failures s);
          s1 = s\<lparr>consecutive_failures := n, total_failures := Suc (total_failures s),
                 h_last_error := Some (take 500 err), h_checked_at := Some wall\<rparr>
      in save_state (if failure_threshold h \<le> n
           then s1\<lparr>unhealthy_until := Some (tick + of_int (cooldown_seconds h))\<rparr> else s1) h')"

datatype redis_command = R_Set string int | R_Delete string

definition redis_key :: "string \<Rightarrow> string" where
  "redis_key p = ''zyntry:provider_health:'' @ health_name p"

definition record_success_async :: "bool \<Rightarrow> string \<Rightarrow> rat option \<Rightarrow> rat \<Rightarrow> provider_health \<Rightarrow> provider_health \<times> redis_command list" where
  "record_success_async has_redis p latency wall h =
     (record_success p latency wall h, if has_redis then [R_Delete (redis_key p)] else [])"

definition record_failure_async :: "bool \<Rightarrow> string \<Rightarrow> string \<Rightarrow> rat \<Rightarrow> rat \<Rightarrow> provider_health \<Rightarrow> provider_health \<times> redis_command list" where
  "record_failure_async has_redis p err wall tick h =
     (let (h', s) = get_state p (record_failure p err wall tick h) in
      (h', if (case unhealthy_until s of None \<Rightarrow> False | Some t \<Rightarrow> t \<noteq> 0) \<and> has_redis
           then [R_Set (redis_key p) (cooldown_seconds h)] else []))"

text \<open>\<open>snapshot\<close>: \<open>None\<close> and names that are all blank select every provider.\<close>

definition snapshot :: "string list \<Rightarrow> provider_health \<Rightarrow> health_state list" where
  "snapshot providers h =
     (let names = map health_name (filter (\<lambda>p. str_strip p \<noteq> []) providers) in
      sort_key h_provider (filter (\<lambda>s. names = [] \<or> h_provider s \<in> set names) (health_states h)))"

definition reset :: "string option \<Rightarrow> provider_health \<Rightarrow> provider_health" where
  "reset p h = (case p of None \<Rightarrow> h\<lparr>health_states := []\<rparr>
     | Some n \<Rightarrow> h\<lparr>health_states := filter (\<lambda>s. h_provider s \<noteq> health_name n) (health_states h)\<rparr>)"

section \<open>Failover\<close>

text \<open>\<open>FailoverManager\<close>; a candidate is known by its provider name. Each provider is asked
  once per call of \<open>eligible_async\<close>.\<close>

fun eligible :: "('c \<Rightarrow> string) \<Rightarrow> 'c list \<Rightarrow> rat \<Rightarrow> provider_health \<Rightarrow> provider_health \<times> 'c list" where
  "eligible prov [] tick h = (h, [])"
| "eligible prov (c # cs) tick h =
     (let (h1, ok) = is_available (prov c) tick h; (h2, rest) = eligible prov cs tick h1
      in (h2, if ok then c # rest else rest))"

fun eligible_from :: "bool \<Rightarrow> (string \<Rightarrow> bool option) \<Rightarrow> ('c \<Rightarrow> string) \<Rightarrow> rat \<Rightarrow> 'c list \<Rightarrow> (string \<times> bool) list \<Rightarrow> provider_health \<Rightarrow> provider_health \<times> 'c list" where
  "eligible_from has_redis blocked prov tick [] known h = (h, [])"
| "eligible_from has_redis blocked prov tick (c # cs) known h =
     (let p = health_name (prov c);
          (h1, known1) = (if map_of known p = None
             then (let (h', ok) = is_available_async has_redis blocked p tick h in (h', (p, ok) # known))
             else (h, known));
          (h2, rest) = eligible_from has_redis blocked prov tick cs known1 h1
      in (h2, if map_of known1 p = Some True then c # rest else rest))"

definition eligible_async :: "bool \<Rightarrow> (string \<Rightarrow> bool option) \<Rightarrow> ('c \<Rightarrow> string) \<Rightarrow> rat \<Rightarrow> 'c list \<Rightarrow> provider_health \<Rightarrow> provider_health \<times> 'c list" where
  "eligible_async has_redis blocked prov tick cs h = eligible_from has_redis blocked prov tick cs [] h"

section \<open>What the calls change\<close>

text \<open>The state a provider name stands for, stored or fresh.\<close>

definition view :: "string \<Rightarrow> provider_health \<Rightarrow> health_state" where
  "view n h = (case lookup_state h n of Some s \<Rightarrow> s | None \<Rightarrow> fresh_state n)"

interpretation health_repo: repository lookup_state save_state h_provider
  by unfold_locales (auto simp: lookup_state_def save_state_def row_by_put_row dest: row_by_SomeD)

lemma health_name_idem [simp]: "health_name (health_name p) = health_name p"
  by (simp add: health_name_def strip_lower)

lemma view_provider [simp]: "h_provider (view n h) = n"
  by (auto simp: view_def fresh_state_def dest: health_repo.get_ident split: option.split)

lemma get_state_view:
  assumes "get_state p h = (h', s)"
  shows "s = view (health_name p) h" "view m h' = view m h" "lookup_state h' (health_name p) = Some s"
    "failure_threshold h' = failure_threshold h" "cooldown_seconds h' = cooldown_seconds h"
  using assms
  by (auto simp: get_state_def view_def lookup_state_def row_by_append fresh_state_def Let_def
      split: option.splits if_splits)

lemma view_save:
  assumes "lookup_state h (h_provider s) = Some s0"
  shows "view m (save_state s h) = (if m = h_provider s then s else view m h)"
  using health_repo.get_save [OF assms, of m] by (simp add: view_def)

definition failed :: "nat \<Rightarrow> int \<Rightarrow> string \<Rightarrow> rat \<Rightarrow> rat \<Rightarrow> health_state \<Rightarrow> health_state" where
  "failed threshold cooldown err wall tick s =
     s\<lparr>consecutive_failures := Suc (consecutive_failures s), total_failures := Suc (total_failures s),
       h_last_error := Some (take 500 err), h_checked_at := Some wall,
       unhealthy_until := (if threshold \<le> Suc (consecutive_failures s) then Some (tick + of_int cooldown)
         else unhealthy_until s)\<rparr>"

lemma record_failure_view:
  "view m (record_failure p err wall tick h) =
     (if m = health_name p then failed (failure_threshold h) (cooldown_seconds h) err wall tick (view m h)
      else view m h)"
  "failure_threshold (record_failure p err wall tick h) = failure_threshold h"
  "cooldown_seconds (record_failure p err wall tick h) = cooldown_seconds h"
proof -
  obtain h' s where g: "get_state p h = (h', s)" by fastforce
  note G = get_state_view [OF g]
  have n: "h_provider s = health_name p" by (simp add: G(1))
  show "view m (record_failure p err wall tick h) =
     (if m = health_name p then failed (failure_threshold h) (cooldown_seconds h) err wall tick (view m h)
      else view m h)"
    using G(3) by (auto simp: record_failure_def g view_save n G(2) failed_def G(1))
  show "failure_threshold (record_failure p err wall tick h) = failure_threshold h"
    and "cooldown_seconds (record_failure p err wall tick h) = cooldown_seconds h"
    by (simp_all add: record_failure_def g save_state_def Let_def G(4,5))
qed

lemma record_success_view:
  "view m (record_success p latency wall h) =
     (if m = health_name p then (view m h)\<lparr>consecutive_failures := 0, total_successes := Suc (total_successes (view m h)),
        last_latency_ms := latency, h_last_error := None, h_checked_at := Some wall, unhealthy_until := None\<rparr>
      else view m h)"
proof -
  obtain h' s where g: "get_state p h = (h', s)" by fastforce
  note G = get_state_view [OF g]
  have n: "h_provider s = health_name p" by (simp add: G(1))
  show ?thesis using G(3) by (auto simp: record_success_def g view_save n G(2) G(1))
qed

lemma is_available_view:
  "is_available p tick h = (h', ok) \<Longrightarrow> ok = state_available tick (view (health_name p) h) \<and> view m h' = view m h"
proof -
  assume a: "is_available p tick h = (h', ok)"
  obtain h1 s where g: "get_state p h = (h1, s)" by fastforce
  with a show ?thesis using get_state_view(1,2) [OF g] by (simp add: is_available_def)
qed

section \<open>Contracts\<close>

text \<open>Failures of one provider, each with its error, wall-clock and monotonic time.\<close>

fun record_failures :: "string \<Rightarrow> (string \<times> rat \<times> rat) list \<Rightarrow> provider_health \<Rightarrow> provider_health" where
  "record_failures p [] h = h"
| "record_failures p ((err, wall, tick) # fs) h = record_failures p fs (record_failure p err wall tick h)"

lemma record_failures_frames:
  "failure_threshold (record_failures p fs h) = failure_threshold h \<and>
   cooldown_seconds (record_failures p fs h) = cooldown_seconds h \<and>
   (m \<noteq> health_name p \<longrightarrow> view m (record_failures p fs h) = view m h) \<and>
   consecutive_failures (view (health_name p) (record_failures p fs h)) =
     consecutive_failures (view (health_name p) h) + length fs"
  by (induction p fs h rule: record_failures.induct) (auto simp: record_failure_view failed_def)

lemma record_failures_append:
  "record_failures p (fs @ gs) h = record_failures p gs (record_failures p fs h)"
  by (induction p fs h rule: record_failures.induct) auto

lemma below_threshold:
  "consecutive_failures (view (health_name p) h) + length fs < failure_threshold h \<Longrightarrow>
     unhealthy_until (view (health_name p) (record_failures p fs h)) = unhealthy_until (view (health_name p) h)"
  by (induction p fs h rule: record_failures.induct) (auto simp: record_failure_view failed_def)

text \<open>
  The circuit breaker: starting from a provider with no failures on record, after a run
  of failures it counts as available exactly when the run is shorter than the threshold or
  the cooldown that the last failure started has passed; no other provider is affected, and
  one success makes it available at once.
\<close>

theorem circuit_breaker:
  assumes "consecutive_failures (view (health_name p) h) = 0" and "unhealthy_until (view (health_name p) h) = None"
    and "1 \<le> cooldown_seconds h" and "1 \<le> failure_threshold h" and "\<forall>(err, wall, tick) \<in> set fs. 0 \<le> tick" and "fs \<noteq> []"
  shows "state_available now (view (health_name p) (record_failures p fs h)) =
      (length fs < failure_threshold h \<or> snd (snd (last fs)) + of_int (cooldown_seconds h) \<le> now) \<and>
    (m \<noteq> health_name p \<longrightarrow> view m (record_failures p fs h) = view m h) \<and>
    state_available now (view (health_name p) (record_success p latency wall (record_failures p fs h)))"
proof -
  obtain gs err w t where fs: "fs = gs @ [(err, w, t)]" using assms(6) by (metis prod_cases3 rev_exhaust)
  let ?h = "record_failures p gs h"
  note F = record_failures_frames [of p gs h]
  have pos: "0 < t + of_int (cooldown_seconds h)"
    using assms(3,5) fs by (intro add_nonneg_pos) auto
  have v: "view (health_name p) (record_failures p fs h) =
      failed (failure_threshold h) (cooldown_seconds h) err w t (view (health_name p) ?h)"
    using F by (simp add: fs record_failures_append record_failure_view)
  have "state_available now (view (health_name p) (record_failures p fs h)) =
      (length fs < failure_threshold h \<or> snd (snd (last fs)) + of_int (cooldown_seconds h) \<le> now)"
  proof (cases "length fs < failure_threshold h")
    case True
    then have "unhealthy_until (view (health_name p) (record_failures p fs h)) = None"
      using below_threshold [of p h fs] assms(1,2) by simp
    with True show ?thesis by (simp add: state_available_def)
  next
    case False
    then have "failure_threshold h \<le> Suc (length gs)" by (simp add: fs)
    then have u: "unhealthy_until (view (health_name p) (record_failures p fs h)) = Some (t + of_int (cooldown_seconds h))"
      using F assms(1) unfolding v by (simp add: failed_def)
    show ?thesis using pos False unfolding state_available_def u by (simp add: fs)
  qed
  moreover have "m \<noteq> health_name p \<longrightarrow> view m (record_failures p fs h) = view m h"
    using record_failures_frames [of p fs h m] by simp
  ultimately show ?thesis by (simp add: record_success_view state_available_def)
qed

definition three_failures :: "(string \<times> rat \<times> rat) list" where
  "three_failures = [(''e'', 1, 1), (''e'', 2, 2), (''e'', 5, 5)]"

theorem circuit_breaker_witness:
  "\<not> state_available 34 (view ''openai'' (record_failures '' OpenAI'' three_failures (new_health 3 30))) \<and>
   state_available 35 (view ''openai'' (record_failures '' OpenAI'' three_failures (new_health 3 30)))"
proof -
  have n: "health_name '' OpenAI'' = ''openai''" by code_simp
  have v: "view ''openai'' (new_health 3 30) = fresh_state ''openai''" by code_simp
  have h: "cooldown_seconds (new_health 3 30) = 30" "failure_threshold (new_health 3 30) = 3"
    by (simp_all add: new_health_def)
  show ?thesis
    using circuit_breaker [of "'' OpenAI''" "new_health 3 30" three_failures 34 undefined None 0]
      circuit_breaker [of "'' OpenAI''" "new_health 3 30" three_failures 35 undefined None 0]
    by (simp add: n v h three_failures_def fresh_state_def)
qed

lemma eligible_from_filter:
  assumes "\<And>p ok. map_of known p = Some ok \<Longrightarrow> ok = f p"
    and "\<And>p. f p = (state_available tick (view (health_name p) h) \<and> (has_redis \<longrightarrow> blocked (health_name p) \<noteq> Some True))"
  shows "snd (eligible_from has_redis blocked prov tick cs known h) = filter (\<lambda>c. f (health_name (prov c))) cs"
  using assms
proof (induction cs arbitrary: known h)
  case (Cons c cs)
  let ?p = "health_name (prov c)"
  show ?case
  proof (cases "map_of known ?p")
    case None
    obtain h1 ok where a: "is_available_async has_redis blocked ?p tick h = (h1, ok)" by fastforce
    obtain h2 b where b: "is_available ?p tick h = (h2, b)" by fastforce
    note V = is_available_view [OF b]
    have "h1 = h2" and ok: "ok = f ?p"
      using a b V Cons.prems(2) [of ?p] by (auto simp: is_available_async_def split: if_splits option.splits bool.splits)
    then have "snd (eligible_from has_redis blocked prov tick cs ((?p, ok) # known) h1) =
        filter (\<lambda>c. f (health_name (prov c))) cs"
      using Cons.prems V by (intro Cons.IH) (auto split: if_splits)
    moreover obtain h3 rest where "eligible_from has_redis blocked prov tick cs ((?p, ok) # known) h1 = (h3, rest)"
      by fastforce
    ultimately show ?thesis using None a ok by (cases "f ?p") simp_all
  next
    case (Some ok)
    then have "snd (eligible_from has_redis blocked prov tick cs known h) = filter (\<lambda>c. f (health_name (prov c))) cs"
      using Cons.IH [OF Cons.prems] by blast
    moreover obtain h3 rest where "eligible_from has_redis blocked prov tick cs known h = (h3, rest)"
      by fastforce
    ultimately show ?thesis using Some Cons.prems(1) [OF Some] by (cases "f ?p") simp_all
  qed
qed simp

lemma eligible_exact_set: "set (snd (eligible_async has_redis blocked prov tick cs h)) \<subseteq> set cs"
  unfolding eligible_async_def
  by (subst eligible_from_filter [where f = "\<lambda>p. state_available tick (view (health_name p) h) \<and>
        (has_redis \<longrightarrow> blocked (health_name p) \<noteq> Some True)"]) auto

text \<open>
  Failover keeps the order and drops exactly the unhealthy: the candidates eligible for a
  request are those whose provider is not cooling down locally and not reported blocked by
  Redis, in their routing order; an exception from Redis blocks nobody.
\<close>

theorem eligible_exact:
  "snd (eligible_async has_redis blocked prov tick cs h) =
     filter (\<lambda>c. state_available tick (view (health_name (prov c)) h) \<and>
       \<not> (has_redis \<and> blocked (health_name (prov c)) = Some True)) cs"
  unfolding eligible_async_def
  by (subst eligible_from_filter [where f = "\<lambda>p. state_available tick (view (health_name p) h) \<and>
        \<not> (has_redis \<and> blocked (health_name p) = Some True)"]) simp_all

end
