(* ===== verification/Model_Router.thy ===== *)
theory Model_Router
  imports Token_Engine Model_Registry Provider_Health "HOL-Library.AList"
begin

text \<open>
  \<open>app/services/model_router.py\<close>: scoring and ordering of candidates, invocation with
  failover and invocation of a fixed provider. The provider adapters (HTTP clients) are
  arguments: \<open>catalog\<close> is what \<open>list_models\<close> returns (\<open>Inl\<close> for an exception), \<open>adapter\<close>
  what a call answers or streams. Scores are exact where the code has floats, a call reads
  the clocks once, and the telemetry's rounded latency is left out.
\<close>

section \<open>Preferences and candidates\<close>

datatype routing_goal = FASTEST | CHEAPEST | BALANCED | REASONING | CODING | VISION | LONG_CONTEXT

fun goal_text :: "routing_goal \<Rightarrow> string" where
  "goal_text FASTEST = ''fastest''"
| "goal_text CHEAPEST = ''cheapest''"
| "goal_text BALANCED = ''balanced''"
| "goal_text REASONING = ''reasoning''"
| "goal_text CODING = ''coding''"
| "goal_text VISION = ''vision''"
| "goal_text LONG_CONTEXT = ''long_context''"

record preference =
  goal :: routing_goal
  preferred_providers :: "string list"
  excluded_providers :: "string list"
  max_latency :: "int option"
  max_cost_per_1k :: "rat option"
  min_context :: "int option"
  required_context_tokens :: "int option"
  requires_vision :: bool
  requires_tools :: bool
  requires_streaming :: bool
  failover_enabled :: bool

record candidate =
  cand_info :: model_info
  cand_provider :: string
  cand_score :: rat
  cand_available :: bool

definition PROVIDER_NAMES :: "string list" where
  "PROVIDER_NAMES = [''openai'', ''anthropic'', ''google'', ''deepseek'', ''groq'', ''openrouter'',
     ''mistral'', ''meta'', ''bedrock'']"

fun PROVIDER_PRIORITY :: "routing_goal \<Rightarrow> string list" where
  "PROVIDER_PRIORITY CODING = [''anthropic'', ''openai'', ''deepseek'', ''groq'']"
| "PROVIDER_PRIORITY FASTEST = [''groq'', ''deepseek'', ''openrouter'', ''openai'']"
| "PROVIDER_PRIORITY CHEAPEST = [''deepseek'', ''groq'', ''openrouter'', ''mistral'']"
| "PROVIDER_PRIORITY REASONING = [''anthropic'', ''openai'', ''deepseek'']"
| "PROVIDER_PRIORITY BALANCED = [''openai'', ''anthropic'', ''groq'', ''deepseek'']"
| "PROVIDER_PRIORITY VISION = [''openai'', ''anthropic'', ''google'']"
| "PROVIDER_PRIORITY LONG_CONTEXT = [''anthropic'', ''openai'', ''deepseek'']"

section \<open>Generation models\<close>

text \<open>The regular expression \<open>_NON_GENERATION_MODEL\<close>: one of the words, between the ends of
  the identifier or separators, ignoring case.\<close>

definition is_separator :: "char \<Rightarrow> bool" where
  "is_separator c = (c \<in> {CHR ''/'', CHR ''_'', CHR ''.'', CHR '':'', CHR ''-''})"

definition joined :: "string \<Rightarrow> string \<Rightarrow> string list" where
  "joined a b = [a @ b, a @ ''-'' @ b, a @ ''_'' @ b]"

definition NON_GENERATION_WORDS :: "string list" where
  "NON_GENERATION_WORDS =
     [''embedding'', ''embed'', ''rerank'', ''reranker'', ''moderation'', ''moderator''] @
     joined ''prompt'' ''guard'' @ joined ''safe'' ''guard'' @
     [''classifier'', ''classification'', ''detector'', ''whisper'', ''transcribe'', ''transcription''] @
     concat (map (joined ''text'') (joined ''to'' ''speech'')) @ [''tts'']"

definition ends_word :: "string \<Rightarrow> bool" where
  "ends_word rest = (case rest of [] \<Rightarrow> True | c # cs \<Rightarrow> is_separator c \<or> (c = CHR 0x0A \<and> cs = []))"

definition word_at :: "string \<Rightarrow> bool" where
  "word_at s = list_ex (\<lambda>w. prefix w s \<and> ends_word (drop (length w) s)) NON_GENERATION_WORDS"

fun word_after_separator :: "string \<Rightarrow> bool" where
  "word_after_separator [] = False"
| "word_after_separator (c # cs) = ((is_separator c \<and> word_at cs) \<or> word_after_separator cs)"

definition non_generation :: "string \<Rightarrow> bool" where
  "non_generation s = (let l = str_lower s in word_at l \<or> word_after_separator l)"

definition is_generation_model :: "model_info \<Rightarrow> bool" where
  "is_generation_model m =
     (\<not> (info_embeddings m \<or> info_max_output m \<le> 0) \<and> \<not> non_generation (info_provider m @ ''/'' @ info_id m))"

section \<open>Scores\<close>

definition goal_score :: "model_info \<Rightarrow> routing_goal \<Rightarrow> string \<Rightarrow> rat" where
  "goal_score m g prov =
     (let price = (case info_input_price m of None \<Rightarrow> 0 | Some p \<Rightarrow> p);
          good = (info_quality m = ''high'' \<or> info_quality m = ''premium'') in
      case g of
        CHEAPEST \<Rightarrow> - (price * 10) + (if info_latency m = ''fast'' then 5 else 0)
      | FASTEST \<Rightarrow> (if info_latency m = ''fast'' then 30 else if info_latency m = ''medium'' then 10 else 0) - price * 2
      | CODING \<Rightarrow> (if info_tools m then 20 else 0) + (if good then 15 else 0) +
          (if prov = ''anthropic'' \<or> prov = ''openai'' then 10 else 0)
      | REASONING \<Rightarrow> (if good then 25 else 0) + (if 128000 \<le> max_context m then 10 else 0)
      | VISION \<Rightarrow> (if info_vision m then 30 else 0) +
          (if prov = ''openai'' \<or> prov = ''anthropic'' \<or> prov = ''google'' then 10 else 0)
      | LONG_CONTEXT \<Rightarrow> (if 200000 \<le> max_context m then 30 else if 128000 \<le> max_context m then 20
          else if 32000 \<le> max_context m then 10 else 0)
      | BALANCED \<Rightarrow> 0)"

definition score_model :: "model_info \<Rightarrow> preference \<Rightarrow> string \<Rightarrow> rat" where
  "score_model m pref prov =
     50 + goal_score m (goal pref) prov +
     (case (max_cost_per_1k pref, info_input_price m) of
        (Some limit, Some price) \<Rightarrow> if limit < price then - 100 else 0 | _ \<Rightarrow> 0) +
     (if prov \<in> set (preferred_providers pref) then 15 else 0)"

definition or_zero :: "int option \<Rightarrow> int" where
  "or_zero x = (case x of None \<Rightarrow> 0 | Some i \<Rightarrow> i)"

text \<open>\<open>preference.required_context_tokens or preference.min_context\<close>; 0 for none.\<close>

definition required_context :: "preference \<Rightarrow> int" where
  "required_context pref =
     (if or_zero (required_context_tokens pref) \<noteq> 0 then or_zero (required_context_tokens pref)
      else or_zero (min_context pref))"

definition meets :: "preference \<Rightarrow> model_info \<Rightarrow> bool" where
  "meets pref m =
     (is_generation_model m \<and> (requires_vision pref \<longrightarrow> info_vision m) \<and> (requires_tools pref \<longrightarrow> info_tools m) \<and>
      (requires_streaming pref \<longrightarrow> info_streaming m) \<and>
      \<not> (required_context pref \<noteq> 0 \<and> max_context m < required_context pref))"

section \<open>Candidates\<close>

type_synonym catalog = "string \<Rightarrow> string + model_info list"
type_synonym credentials = "(string \<times> string) list"

definition ordered_providers :: "preference \<Rightarrow> credentials \<Rightarrow> string list" where
  "ordered_providers pref creds =
     (let allowed = (\<lambda>p. p \<notin> set (excluded_providers pref));
          prioritized = filter (\<lambda>p. p \<in> set (map fst creds) \<and> allowed p) (PROVIDER_PRIORITY (goal pref))
      in prioritized @ sort (filter (\<lambda>p. p \<notin> set prioritized \<and> allowed p) (map fst creds)))"

definition credential :: "credentials \<Rightarrow> string \<Rightarrow> string" where
  "credential creds p = (case map_of creds p of None \<Rightarrow> [] | Some k \<Rightarrow> k)"

definition supported :: "string \<Rightarrow> bool" where
  "supported p = (str_lower p \<in> set PROVIDER_NAMES)"

definition new_candidate :: "preference \<Rightarrow> string \<Rightarrow> model_info \<Rightarrow> candidate" where
  "new_candidate pref p m =
     \<lparr>cand_info = m, cand_provider = p, cand_score = score_model m pref p, cand_available = True\<rparr>"

fun build_from ::
  "catalog \<Rightarrow> preference \<Rightarrow> credentials \<Rightarrow> rat \<times> rat \<Rightarrow> string list \<Rightarrow> provider_health \<Rightarrow> provider_health \<times> candidate list" where
  "build_from catalog pref creds now [] h = (h, [])"
| "build_from catalog pref creds now (p # ps) h =
     (if credential creds p = [] \<or> \<not> supported p then build_from catalog pref creds now ps h
      else case catalog p of
        Inl err \<Rightarrow> build_from catalog pref creds now ps (record_failure p err (fst now) (snd now) h)
      | Inr models0 \<Rightarrow>
         (let models = (if models0 = [] then map as_model_info (list_registered_models (Some p)) else models0);
              (h', rest) = build_from catalog pref creds now ps h
          in (h', map (new_candidate pref p) (filter (meets pref) models) @ rest)))"

definition build_candidates ::
  "catalog \<Rightarrow> preference \<Rightarrow> credentials \<Rightarrow> rat \<times> rat \<Rightarrow> provider_health \<Rightarrow> provider_health \<times> candidate list" where
  "build_candidates catalog pref creds now h =
     build_from catalog pref creds now (ordered_providers pref creds) h"

text \<open>\<open>sort(key=score, reverse=True)\<close> keeps the order of equal scores.\<close>

definition ranked :: "candidate list \<Rightarrow> candidate list" where
  "ranked cs = sort_key (\<lambda>c. - cand_score c) (filter cand_available cs)"

fun join_text :: "string \<Rightarrow> string list \<Rightarrow> string" where
  "join_text sep [] = []"
| "join_text sep [x] = x"
| "join_text sep (x # y # xs) = x @ sep @ join_text sep (y # xs)"

definition routing_reason :: "preference \<Rightarrow> candidate \<Rightarrow> string" where
  "routing_reason pref c =
     ''Selected '' @ cand_provider c @ ''/'' @ info_id (cand_info c) @ '' ('' @
     join_text '', ''
       ([''goal='' @ goal_text (goal pref)] @
        (if required_context pref \<noteq> 0 then [''context>='' @ int_text (required_context pref)] else []) @
        (if requires_tools pref then [''tool calling''] else []) @
        (if requires_vision pref then [''vision''] else []) @
        (if preferred_providers pref \<noteq> [] then [''preferred provider''] else [])) @ '')''"

definition route ::
  "catalog \<Rightarrow> preference \<Rightarrow> credentials \<Rightarrow> rat \<times> rat \<Rightarrow> provider_health \<Rightarrow> provider_health \<times> candidate option" where
  "route catalog pref creds now h =
     (let (h', cs) = build_candidates catalog pref creds now h in
      (h', case ranked cs of [] \<Rightarrow> None | c # _ \<Rightarrow> Some c))"

definition route_with_fallback ::
  "catalog \<Rightarrow> preference \<Rightarrow> credentials \<Rightarrow> rat \<times> rat \<Rightarrow> provider_health \<Rightarrow> provider_health \<times> candidate list" where
  "route_with_fallback catalog pref creds now h =
     (let (h', cs) = build_candidates catalog pref creds now h in
      (h', if failover_enabled pref then ranked cs else take 1 (ranked cs)))"

section \<open>Invocation\<close>

text \<open>A provider call: an answer with its latency, or an error; a stream shows chunks first.\<close>

datatype completion = Answer provider_result rat | Call_Error string
datatype streamed = Stream_Done "string list" "(string \<times> json) list" rat | Stream_Error "string list" string

record adapter =
  chat_completion :: "string \<Rightarrow> string \<Rightarrow> int \<Rightarrow> completion"          \<comment> \<open>provider, model, tokens\<close>
  chat_completion_stream :: "string \<Rightarrow> string \<Rightarrow> int \<Rightarrow> streamed"

datatype attempt_status = Started | Completed completion_usage | Failed string

record attempt =
  att_provider :: string
  att_model :: string
  att_status :: attempt_status

record router_state =
  latency_tracker :: "(string \<times> rat list) list"
  last_invoked :: "candidate option"
  last_usage :: "completion_usage option"
  last_reason :: "string option"
  attempts :: "attempt list"
  shown :: "(string \<times> string \<times> string) list"   \<comment> \<open>chunks passed to \<open>on_token\<close>, with their source\<close>
  router_health :: provider_health

text \<open>What one call shows, and its error or its result with the latency.\<close>

definition ask :: "adapter \<Rightarrow> bool \<Rightarrow> string \<Rightarrow> string \<Rightarrow> int \<Rightarrow> string list \<times> (string + provider_result \<times> rat)" where
  "ask ad streaming p m tokens =
     (if \<not> streaming then
        (case chat_completion ad p m tokens of
           Answer r l \<Rightarrow> ([], Inr (r, l)) | Call_Error e \<Rightarrow> ([], Inl e))
      else
        (case chat_completion_stream ad p m tokens of
           Stream_Done cs u l \<Rightarrow>
             (let chunks = filter (\<lambda>c. c \<noteq> []) cs in (chunks, Inr (Provider_Response (concat chunks) u, l)))
         | Stream_Error cs e \<Rightarrow> (filter (\<lambda>c. c \<noteq> []) cs, Inl e)))"

definition text_result :: "provider_result \<Rightarrow> string" where
  "text_result r = (case r of Plain_Text s \<Rightarrow> s | Provider_Response s _ \<Rightarrow> s | _ \<Rightarrow> [])"

definition output_limit :: "int \<Rightarrow> model_info \<Rightarrow> int" where
  "output_limit tokens m = min tokens (if info_max_output m \<noteq> 0 then info_max_output m else tokens)"

definition tracker_key :: "string \<Rightarrow> string \<Rightarrow> string" where
  "tracker_key p m = p @ '':'' @ m"

definition tracked :: "(string \<times> rat list) list \<Rightarrow> string \<Rightarrow> rat list" where
  "tracked t k = (case map_of t k of None \<Rightarrow> [] | Some vs \<Rightarrow> vs)"

definition record_latency :: "string \<Rightarrow> string \<Rightarrow> rat \<Rightarrow> (string \<times> rat list) list \<Rightarrow> (string \<times> rat list) list" where
  "record_latency p m l t =
     (let k = tracker_key p m; vs = tracked t k @ [l] in AList.update k (drop (length vs - 100) vs) t)"

definition get_avg_latency :: "string \<Rightarrow> string \<Rightarrow> (string \<times> rat list) list \<Rightarrow> rat option" where
  "get_avg_latency p m t =
     (let vs = tracked t (tracker_key p m) in if vs = [] then None else Some (sum_list vs / of_nat (length vs)))"

definition set_last_status :: "attempt_status \<Rightarrow> attempt list \<Rightarrow> attempt list" where
  "set_last_status st as = butlast as @ [(last as)\<lparr>att_status := st\<rparr>]"

definition begin_attempt :: "string \<Rightarrow> string \<Rightarrow> router_state \<Rightarrow> router_state" where
  "begin_attempt p m s = s\<lparr>attempts := attempts s @ [\<lparr>att_provider = p, att_model = m, att_status = Started\<rparr>]\<rparr>"

definition show_chunks :: "string \<Rightarrow> string \<Rightarrow> string list \<Rightarrow> router_state \<Rightarrow> router_state" where
  "show_chunks p m cs s = s\<lparr>shown := shown s @ map (\<lambda>c. (p, m, c)) cs\<rparr>"

definition fail_attempt :: "string \<Rightarrow> string \<Rightarrow> rat \<times> rat \<Rightarrow> router_state \<Rightarrow> router_state" where
  "fail_attempt p e now s =
     s\<lparr>router_health := record_failure p e (fst now) (snd now) (router_health s),
       attempts := set_last_status (Failed (take 500 e)) (attempts s)\<rparr>"

text \<open>Bookkeeping of an answered call: latency, health, candidate, usage; the text is returned.\<close>

definition complete_attempt ::
  "(json \<Rightarrow> string) \<Rightarrow> message list \<Rightarrow> candidate \<Rightarrow> provider_result \<Rightarrow> rat \<Rightarrow> rat \<times> rat \<Rightarrow> string \<Rightarrow> router_state \<Rightarrow> router_state \<times> string" where
  "complete_attempt str_of msgs c r l now reason s =
     (let (text, usage) = normalize_usage str_of r (estimate_messages msgs) (estimate_text (text_result r)) in
      (s\<lparr>latency_tracker := record_latency (cand_provider c) (info_id (cand_info c)) l (latency_tracker s),
         router_health := record_success (cand_provider c) (Some l) (fst now) (router_health s),
         last_invoked := Some c, last_reason := Some reason, last_usage := Some usage,
         attempts := set_last_status (Completed usage) (attempts s)\<rparr>, text))"

type_synonym invocation = "router_state \<times> string option \<times> string \<times> string \<times> string"

fun try_candidates ::
  "adapter \<Rightarrow> (json \<Rightarrow> string) \<Rightarrow> bool \<Rightarrow> preference \<Rightarrow> message list \<Rightarrow> int \<Rightarrow> rat \<times> rat \<Rightarrow> candidate list \<Rightarrow> string \<Rightarrow> router_state \<Rightarrow> invocation" where
  "try_candidates ad str_of streaming pref msgs tokens now [] err s = (s, None, [], [], err)"
| "try_candidates ad str_of streaming pref msgs tokens now (c # cs) err s =
     (let p = cand_provider c; m = info_id (cand_info c); s1 = begin_attempt p m s in
      if \<not> supported p then try_candidates ad str_of streaming pref msgs tokens now cs err s1
      else (case ask ad streaming p m (output_limit tokens (cand_info c)) of
          (chunks, Inr (r, l)) \<Rightarrow>
            (let (s2, text) = complete_attempt str_of msgs c r l now (routing_reason pref c) (show_chunks p m chunks s1)
             in (s2, Some text, m, p, []))
        | (chunks, Inl e) \<Rightarrow>
            (let s2 = fail_attempt p e now (show_chunks p m chunks s1) in
             if chunks \<noteq> [] then (s2, None, [], [], e)
             else try_candidates ad str_of streaming pref msgs tokens now cs e s2)))"

definition start_invocation :: "router_state \<Rightarrow> router_state" where
  "start_invocation s = s\<lparr>last_invoked := None, last_usage := None, attempts := [], shown := []\<rparr>"

definition invoke_with_fallback ::
  "catalog \<Rightarrow> adapter \<Rightarrow> bool \<Rightarrow> (string \<Rightarrow> bool option) \<Rightarrow> (json \<Rightarrow> string) \<Rightarrow> bool \<Rightarrow> preference \<Rightarrow> credentials \<Rightarrow> message list \<Rightarrow> int \<Rightarrow> rat \<times> rat \<Rightarrow> router_state \<Rightarrow> invocation" where
  "invoke_with_fallback catalog ad has_redis blocked str_of streaming pref creds msgs tokens now s0 =
     (let s = start_invocation s0;
          (h1, cs) = route_with_fallback catalog pref creds now (router_health s);
          s1 = s\<lparr>last_reason := (case cs of [] \<Rightarrow> last_reason s | c # _ \<Rightarrow> Some (routing_reason pref c))\<rparr>;
          (h2, ok) = eligible_async has_redis blocked cand_provider (snd now) cs h1;
          s2 = s1\<lparr>router_health := h2\<rparr>
      in if ok = [] then (s2, None, [], [], ''No healthy provider is currently available for this request'')
         else try_candidates ad str_of streaming pref msgs tokens now ok [] s2)"

fun try_models ::
  "adapter \<Rightarrow> (json \<Rightarrow> string) \<Rightarrow> bool \<Rightarrow> string \<Rightarrow> message list \<Rightarrow> int \<Rightarrow> rat \<times> rat \<Rightarrow> string list \<Rightarrow> string \<Rightarrow> router_state \<Rightarrow> invocation" where
  "try_models ad str_of streaming p msgs tokens now [] err s =
     (s, Some [], [], p, if err \<noteq> [] then err else ''No configured model was available'')"
| "try_models ad str_of streaming p msgs tokens now (m # ms) err s =
     (let info = model_info_for (Some p) (Some m) 128000;
          c = \<lparr>cand_info = info, cand_provider = p, cand_score = 0, cand_available = True\<rparr>;
          s1 = begin_attempt p m s
      in case ask ad streaming p m (output_limit tokens info) of
          (chunks, Inr (r, l)) \<Rightarrow>
            (let (s2, text) = complete_attempt str_of msgs (c\<lparr>cand_info := info\<lparr>info_id := m\<rparr>\<rparr>) r l now
                   (''Configured '' @ p @ ''/'' @ m) (show_chunks p m chunks s1)
             in (s2\<lparr>last_invoked := Some c\<rparr>, Some text, m, p, []))
        | (chunks, Inl e) \<Rightarrow>
            (let s2 = fail_attempt p e now (show_chunks p m chunks s1) in
             if chunks \<noteq> [] then (s2, Some [], [], p, e)
             else try_models ad str_of streaming p msgs tokens now ms e s2))"

definition invoke_fixed ::
  "adapter \<Rightarrow> (json \<Rightarrow> string) \<Rightarrow> bool \<Rightarrow> string \<Rightarrow> string list \<Rightarrow> credentials \<Rightarrow> message list \<Rightarrow> int \<Rightarrow> rat \<times> rat \<Rightarrow> router_state \<Rightarrow> invocation" where
  "invoke_fixed ad str_of streaming provider_name model_names creds msgs tokens now s0 =
     (let s = start_invocation s0; p = str_lower (str_strip provider_name) in
      if credential creds p = []
      then (s, Some [], [], p, ''No credentials are configured for provider '' @ p)
      else if p \<notin> set PROVIDER_NAMES then (s, Some [], [], p, ''Provider is not supported: '' @ p)
      else try_models ad str_of streaming p msgs tokens now
             (map str_strip (filter (\<lambda>m. str_strip m \<noteq> []) model_names)) [] s)"

section \<open>What may be routed to\<close>

lemma build_from_member:
  "c \<in> set (snd (build_from catalog pref creds now ps h)) \<Longrightarrow>
     cand_provider c \<in> set ps \<and> credential creds (cand_provider c) \<noteq> [] \<and> supported (cand_provider c) \<and>
     meets pref (cand_info c) \<and> cand_score c = score_model (cand_info c) pref (cand_provider c)"
proof (induction catalog pref creds now ps h rule: build_from.induct)
  case (2 catalog pref creds now p ps h)
  show ?case
  proof (cases "credential creds p = [] \<or> \<not> supported p")
    case True
    with 2 show ?thesis by auto
  next
    case ok: False
    show ?thesis
    proof (cases "catalog p")
      case (Inl err)
      with 2 ok show ?thesis by auto
    next
      case (Inr models0)
      define models where "models = (if models0 = [] then map as_model_info (list_registered_models (Some p)) else models0)"
      obtain h' rest where r: "build_from catalog pref creds now ps h = (h', rest)" by fastforce
      have "c \<in> set (map (new_candidate pref p) (filter (meets pref) models)) \<or> c \<in> set rest"
        using 2(4) ok Inr r by (auto simp: models_def Let_def)
      then show ?thesis
      proof
        assume "c \<in> set rest"
        with 2(3) ok Inr r show ?thesis by auto
      next
        assume "c \<in> set (map (new_candidate pref p) (filter (meets pref) models))"
        with ok show ?thesis by (auto simp: new_candidate_def)
      qed
    qed
  qed
qed simp

lemma ordered_allowed: "p \<in> set (ordered_providers pref creds) \<Longrightarrow> p \<notin> set (excluded_providers pref) \<and> p \<in> set (map fst creds)"
  by (auto simp: ordered_providers_def Let_def)

lemma ranked_set [simp]: "set (ranked cs) = {c \<in> set cs. cand_available c}"
  by (simp add: ranked_def)

lemma ranked_best:
  assumes "ranked cs = c # rest" and "d \<in> set cs" and "cand_available d"
  shows "cand_score d \<le> cand_score c"
proof -
  have "sorted (map (\<lambda>c. - cand_score c) (ranked cs))" by (simp add: ranked_def)
  moreover have "d \<in> set (ranked cs)" using assms(2,3) by simp
  ultimately show ?thesis using assms(1) by auto
qed

text \<open>
  The router picks the best admissible model: the candidate it returns has credentials, a
  supported provider that is not excluded, is a text generation model with the capabilities
  and the context asked for, carries its score, and no other candidate scores higher; it
  returns nothing only when no model is admissible.
\<close>

theorem route_best:
  "case route catalog pref creds now h of
     (h', None) \<Rightarrow> \<not> (\<exists>d \<in> set (snd (build_candidates catalog pref creds now h)). cand_available d)
   | (h', Some c) \<Rightarrow>
       cand_provider c \<notin> set (excluded_providers pref) \<and> credential creds (cand_provider c) \<noteq> [] \<and>
       supported (cand_provider c) \<and> meets pref (cand_info c) \<and>
       cand_score c = score_model (cand_info c) pref (cand_provider c) \<and>
       \<not> (\<exists>d \<in> set (snd (build_candidates catalog pref creds now h)). cand_available d \<and> cand_score c < cand_score d)"
proof -
  obtain h' cs where b: "build_candidates catalog pref creds now h = (h', cs)" by fastforce
  show ?thesis
  proof (cases "ranked cs")
    case Nil
    then have "{c \<in> set cs. cand_available c} = {}" using ranked_set [of cs] by simp
    with Nil b show ?thesis by (simp add: route_def)
  next
    case (Cons c rest)
    then have c: "c \<in> set cs" "cand_available c" using ranked_set [of cs] by auto
    have "c \<in> set (snd (build_from catalog pref creds now (ordered_providers pref creds) h))"
      using c(1) b by (simp add: build_candidates_def)
    from build_from_member [OF this] ordered_allowed [of "cand_provider c" pref creds] show ?thesis
      using Cons b ranked_best [OF Cons] by (auto simp: route_def not_less)
  qed
qed

section \<open>One answer at most is shown\<close>

lemma shown_frames [simp]:
  "shown (begin_attempt p m s) = shown s"
  "shown (show_chunks p m cs s) = shown s @ map (\<lambda>c. (p, m, c)) cs"
  "shown (fail_attempt p e now s) = shown s"
  "attempts (show_chunks p m cs s) = attempts s"
  by (simp_all add: begin_attempt_def show_chunks_def fail_attempt_def)

lemma complete_attempt_frames:
  assumes "complete_attempt str_of msgs c r l now why s = (s', text)"
  shows "shown s' = shown s" "last_invoked s' = Some c"
    "text = text_of str_of (fst (split_result r))" "attempts s' \<noteq> []"
    "map att_provider (attempts s') = map att_provider (butlast (attempts s)) @ [att_provider (last (attempts s))]"
  using assms
  by (auto simp: complete_attempt_def normalize_usage_def set_last_status_def split: prod.splits)

lemma ask_streaming_text:
  assumes "ask ad True p m n = (chunks, Inr (r, l))"
  shows "text_of str_of (fst (split_result r)) = concat chunks"
  using assms by (auto simp: ask_def text_of_def Let_def split: streamed.splits)

lemma ask_silent: "ask ad False p m n = (chunks, res) \<Longrightarrow> chunks = []"
  by (auto simp: ask_def split: completion.splits)

text \<open>All chunks after \<open>before\<close> come from one call, the one that is answered from, if any.\<close>

definition one_source ::
  "bool \<Rightarrow> (string \<times> string \<times> string) list \<Rightarrow> candidate list \<Rightarrow> invocation \<Rightarrow> bool" where
  "one_source streaming before cs outcome =
     (case outcome of (s', text, m, p, e) \<Rightarrow>
       \<exists>p' m' chunks. shown s' = before @ map (\<lambda>c. (p', m', c)) chunks \<and>
         (text \<noteq> None \<longrightarrow> p' = p \<and> m' = m \<and> (\<exists>c \<in> set cs. cand_provider c = p \<and> info_id (cand_info c) = m) \<and>
           (streaming \<longrightarrow> text = Some (concat chunks))))"

lemma one_source_Cons: "one_source streaming before cs outcome \<Longrightarrow> one_source streaming before (c # cs) outcome"
  unfolding one_source_def by (simp only: split_beta) (elim exE conjE, intro exI conjI, assumption, auto)

lemma one_sourceI:
  "shown s' = before @ map (\<lambda>c. (p', m', c)) chunks \<Longrightarrow>
    (text \<noteq> None \<Longrightarrow> p' = p \<and> m' = m \<and> (\<exists>c \<in> set cs. cand_provider c = p \<and> info_id (cand_info c) = m) \<and>
           (streaming \<longrightarrow> text = Some (concat chunks))) \<Longrightarrow> one_source streaming before cs (s', text, m, p, e)"
  unfolding one_source_def prod.case
  by (rule exI [of _ p'], rule exI [of _ m'], rule exI [of _ chunks]) blast

lemma try_candidates_shown:
  "one_source streaming (shown s) cs (try_candidates ad str_of streaming pref msgs tokens now cs err s)"
proof (induction cs arbitrary: err s)
  case Nil
  show ?case by (simp add: one_source_def)
next
  case (Cons c cs)
  let ?p = "cand_provider c" and ?m = "info_id (cand_info c)"
  let ?s1 = "begin_attempt ?p ?m s"
  show ?case
  proof (cases "supported ?p")
    case False
    then show ?thesis using one_source_Cons [OF Cons.IH [of ?s1 err]] by (simp add: Let_def)
  next
    case True
    obtain chunks res where a: "ask ad streaming ?p ?m (output_limit tokens (cand_info c)) = (chunks, res)" by fastforce
    show ?thesis
    proof (cases res)
      case (Inr rl)
      obtain r l where rl: "rl = (r, l)" by fastforce
      obtain s2 t where c: "complete_attempt str_of msgs c r l now (routing_reason pref c) (show_chunks ?p ?m chunks ?s1) = (s2, t)"
        by fastforce
      have "streaming \<longrightarrow> t = concat chunks"
        using complete_attempt_frames(3) [OF c] ask_streaming_text [of ad ?p ?m _ chunks r l str_of] a Inr rl by auto
      moreover have "shown s2 = shown s @ map (\<lambda>c. (?p, ?m, c)) chunks"
        using complete_attempt_frames(1) [OF c] by simp
      ultimately have "one_source streaming (shown s) (c # cs) (s2, Some t, ?m, ?p, [])"
        by (intro one_sourceI [where p' = ?p and m' = ?m and chunks = chunks]) auto
      with c True a Inr rl show ?thesis by (simp add: Let_def)
    next
      case (Inl e')
      let ?s2 = "fail_attempt ?p e' now (show_chunks ?p ?m chunks ?s1)"
      show ?thesis
      proof (cases "chunks = []")
        case True
        then show ?thesis
          using one_source_Cons [OF Cons.IH [of ?s2 e']] \<open>supported ?p\<close> a Inl by (simp add: Let_def)
      next
        case False
        have "one_source streaming (shown s) (c # cs) (?s2, None, [], [], e')"
          by (rule one_sourceI [where p' = ?p and m' = ?m and chunks = chunks]) simp_all
        with False True a Inl show ?thesis by (simp add: Let_def)
      qed
    qed
  qed
qed

text \<open>
  C29. An answer is never interleaved: during one invocation with failover all chunks shown to
  the user come from one provider and model, and when a text is returned it is from that
  candidate, which passed the routing, and in streaming mode it is exactly what was shown.
\<close>

theorem no_interleaving:
  assumes "invoke_with_fallback catalog ad has_redis blocked str_of streaming pref creds msgs tokens now s =
    (s', text, m, p, e)"
  shows "\<exists>p' m' chunks. shown s' = map (\<lambda>c. (p', m', c)) chunks \<and>
    (text \<noteq> None \<longrightarrow> p' = p \<and> m' = m \<and> p \<notin> set (excluded_providers pref) \<and> credential creds p \<noteq> [] \<and>
      (streaming \<longrightarrow> text = Some (concat chunks)))"
proof -
  let ?s = "start_invocation s"
  obtain h1 cs where r: "route_with_fallback catalog pref creds now (router_health ?s) = (h1, cs)" by fastforce
  obtain h2 ok where o: "eligible_async has_redis blocked cand_provider (snd now) cs h1 = (h2, ok)" by fastforce
  have "set ok \<subseteq> set cs" using o eligible_exact_set [of has_redis blocked cand_provider "snd now" cs h1] by simp
  moreover have "cand_provider c \<notin> set (excluded_providers pref) \<and> credential creds (cand_provider c) \<noteq> []"
    if "c \<in> set cs" for c
  proof -
    have "c \<in> set (snd (build_from catalog pref creds now (ordered_providers pref creds) (router_health ?s)))"
      using r that by (auto simp: route_with_fallback_def build_candidates_def split: if_splits prod.splits dest: in_set_takeD)
    from build_from_member [OF this] ordered_allowed [of "cand_provider c" pref creds] show ?thesis by auto
  qed
  ultimately have good: "cand_provider c \<notin> set (excluded_providers pref) \<and> credential creds (cand_provider c) \<noteq> []"
    if "c \<in> set ok" for c using that by blast
  show ?thesis
  proof (cases "ok = []")
    case True
    with assms r o show ?thesis by (auto simp: invoke_with_fallback_def Let_def start_invocation_def)
  next
    case False
    define s2 where "s2 = (?s\<lparr>last_reason := (case cs of [] \<Rightarrow> last_reason ?s | c # _ \<Rightarrow> Some (routing_reason pref c))\<rparr>)\<lparr>router_health := h2\<rparr>"
    have t: "try_candidates ad str_of streaming pref msgs tokens now ok [] s2 = (s', text, m, p, e)"
      using assms r o False by (simp add: invoke_with_fallback_def Let_def s2_def)
    have "shown s2 = []" by (simp add: s2_def start_invocation_def)
    with try_candidates_shown [of streaming s2 ok ad str_of pref msgs tokens now "[]"] t
    obtain p' m' chunks where *: "shown s' = map (\<lambda>c. (p', m', c)) chunks"
      "text \<noteq> None \<longrightarrow> p' = p \<and> m' = m \<and> (\<exists>c \<in> set ok. cand_provider c = p \<and> info_id (cand_info c) = m) \<and>
         (streaming \<longrightarrow> text = Some (concat chunks))"
      by (simp only: one_source_def prod.case append_Nil) (elim exE conjE, rule that)
    show ?thesis
      by (rule exI [of _ p'], rule exI [of _ m'], rule exI [of _ chunks]) (use * good in auto)
  qed
qed

definition sample_preference :: "routing_goal \<Rightarrow> preference" where
  "sample_preference g = \<lparr>goal = g, preferred_providers = [], excluded_providers = [], max_latency = None,
     max_cost_per_1k = None, min_context = None, required_context_tokens = None, requires_vision = False,
     requires_tools = False, requires_streaming = False, failover_enabled = True\<rparr>"

definition sample_adapter :: adapter where
  "sample_adapter = \<lparr>chat_completion = (\<lambda>p m n. Answer (Plain_Text ''hi'') 10),
     chat_completion_stream = (\<lambda>p m n. if m = ''gpt-4o'' then Stream_Error [] ''down''
       else Stream_Done [''he'', [], ''llo''] [] 12)\<rparr>"

definition idle_router :: router_state where
  "idle_router = \<lparr>latency_tracker = [], last_invoked = None, last_usage = None, last_reason = None,
     attempts = [], shown = [], router_health = new_health 3 30\<rparr>"

theorem no_interleaving_witness:
  "\<exists>s' m p. invoke_with_fallback (\<lambda>_. Inr []) sample_adapter False (\<lambda>_. None) (\<lambda>_. []) True
       (sample_preference BALANCED) [(''openai'', ''k'')] [] 100 (0, 0) idle_router = (s', Some ''hello'', m, p, []) \<and>
     concat (map (\<lambda>x. snd (snd x)) (shown s')) = ''hello''"
proof -
  obtain s' tx m p e where r: "invoke_with_fallback (\<lambda>_. Inr []) sample_adapter False (\<lambda>_. None) (\<lambda>_. []) True
       (sample_preference BALANCED) [(''openai'', ''k'')] [] 100 (0, 0) idle_router = (s', tx, m, p, e)"
    by (rule prod_cases5)
  have "(case invoke_with_fallback (\<lambda>_. Inr []) sample_adapter False (\<lambda>_. None) (\<lambda>_. []) True
       (sample_preference BALANCED) [(''openai'', ''k'')] [] 100 (0, 0) idle_router of
       (s', text, m, p, e) \<Rightarrow> text = Some ''hello'' \<and> e = [])" by code_simp
  with r have t: "tx = Some ''hello''" "e = []" by simp_all
  from no_interleaving [OF r] t(1) obtain p' m' chunks where "shown s' = map (\<lambda>c. (p', m', c)) chunks"
    and "''hello'' = concat chunks" by auto
  then have "concat (map (\<lambda>x. snd (snd x)) (shown s')) = ''hello''" by (simp add: comp_def)
  with r t show ?thesis by blast
qed

lemma set_last_status_providers:
  "as \<noteq> [] \<Longrightarrow> map att_provider (set_last_status st as) = map att_provider as"
  by (induction "as" rule: rev_induct) (simp_all add: set_last_status_def)

lemma attempt_providers:
  "map att_provider (attempts (begin_attempt p m s)) = map att_provider (attempts s) @ [p]"
  "attempts (begin_attempt p m s) \<noteq> []"
  by (simp_all add: begin_attempt_def)

lemma complete_providers:
  assumes "complete_attempt str_of msgs c r l now why (show_chunks p m chunks (begin_attempt p m s)) = (s', text)"
  shows "map att_provider (attempts s') = map att_provider (attempts s) @ [p]"
  using assms attempt_providers [of p m s]
  by (auto simp: complete_attempt_def set_last_status_providers split: prod.splits)

lemma fail_providers:
  "map att_provider (attempts (fail_attempt p e now (show_chunks p m chunks (begin_attempt p m s)))) =
     map att_provider (attempts s) @ [p]"
  using attempt_providers [of p m s] by (simp add: fail_attempt_def set_last_status_providers)

lemma try_models_provider:
  "try_models ad str_of streaming p msgs tokens now ms err s = (s', text, m, p', e) \<Longrightarrow>
     p' = p \<and> set (map att_provider (attempts s')) \<subseteq> insert p (set (map att_provider (attempts s))) \<and>
     set (map fst (shown s')) \<subseteq> insert p (set (map fst (shown s)))"
proof (induction ms arbitrary: err s)
  case (Cons n ms)
  let ?info = "model_info_for (Some p) (Some n) 128000" and ?s1 = "begin_attempt p n s"
  obtain chunks res where a: "ask ad streaming p n (output_limit tokens ?info) = (chunks, res)" by fastforce
  show ?case
  proof (cases res)
    case (Inr rl)
    obtain r l where rl: "rl = (r, l)" by fastforce
    let ?c = "\<lparr>cand_info = ?info, cand_provider = p, cand_score = 0, cand_available = True\<rparr>\<lparr>cand_info := ?info\<lparr>info_id := n\<rparr>\<rparr>"
    obtain s2 t where c: "complete_attempt str_of msgs ?c r l now (''Configured '' @ p @ ''/'' @ n)
        (show_chunks p n chunks ?s1) = (s2, t)" by fastforce
    with Cons.prems a Inr rl have "p' = p" "attempts s' = attempts s2" "shown s' = shown s2"
      by (auto simp: Let_def)
    moreover have "set (map att_provider (attempts s2)) \<subseteq> insert p (set (map att_provider (attempts s)))"
      unfolding complete_providers [OF c] by auto
    moreover have "set (map fst (shown s2)) \<subseteq> insert p (set (map fst (shown s)))"
      unfolding complete_attempt_frames(1) [OF c] by auto
    ultimately show ?thesis by simp
  next
    case (Inl e')
    let ?s2 = "fail_attempt p e' now (show_chunks p n chunks ?s1)"
    have at: "set (map att_provider (attempts ?s2)) \<subseteq> insert p (set (map att_provider (attempts s)))"
      unfolding fail_providers by auto
    have sh: "set (map fst (shown ?s2)) \<subseteq> insert p (set (map fst (shown s)))" by auto
    show ?thesis
    proof (cases "chunks = []")
      case True
      with Cons.prems a Inl have "try_models ad str_of streaming p msgs tokens now ms e' ?s2 = (s', text, m, p', e)"
        by (simp add: Let_def)
      from Cons.IH [OF this] at sh show ?thesis by blast
    next
      case False
      with Cons.prems a Inl have "s' = ?s2" "p' = p" by (auto simp: Let_def)
      with at sh show ?thesis by simp
    qed
  qed
qed auto

text \<open>
  A fixed provider stays fixed: an invocation of the configured provider attempts no
  other provider, shows nothing from another and reports that provider; without credentials
  for it nothing is attempted.
\<close>

theorem fixed_provider_only:
  assumes "invoke_fixed ad str_of streaming provider_name models creds msgs tokens now s = (s', text, m, p, e)"
  shows "p = str_lower (str_strip provider_name) \<and> (\<forall>a \<in> set (attempts s'). att_provider a = p) \<and>
    (\<forall>x \<in> set (shown s'). fst x = p) \<and>
    (credential creds p = [] \<longrightarrow> attempts s' = [] \<and> router_health s' = router_health s)"
proof -
  let ?p = "str_lower (str_strip provider_name)"
  consider "credential creds ?p = [] \<or> ?p \<notin> set PROVIDER_NAMES"
    | "credential creds ?p \<noteq> []" "?p \<in> set PROVIDER_NAMES" by blast
  then show ?thesis
  proof cases
    case 1
    with assms show ?thesis by (auto simp: invoke_fixed_def start_invocation_def Let_def split: if_splits)
  next
    case 2
    with assms have "try_models ad str_of streaming ?p msgs tokens now
        (map str_strip (filter (\<lambda>m. str_strip m \<noteq> []) models)) [] (start_invocation s) = (s', text, m, p, e)"
      by (simp add: invoke_fixed_def Let_def)
    from try_models_provider [OF this] 2 show ?thesis by (auto simp: start_invocation_def image_subset_iff)
  qed
qed

theorem fixed_provider_only_witness:
  "case invoke_fixed sample_adapter (\<lambda>_. []) True '' OpenAI'' [''gpt-4o'', ''gpt-4o-mini''] [(''openai'', ''k'')] [] 100 (0, 0) idle_router of
     (s', text, m, p, e) \<Rightarrow> p = ''openai'' \<and> (\<forall>a \<in> set (attempts s'). att_provider a = ''openai'')"
proof -
  have "str_lower (str_strip '' OpenAI'') = ''openai''" by code_simp
  then show ?thesis
    using fixed_provider_only [of sample_adapter "\<lambda>_. []" True "'' OpenAI''" "[''gpt-4o'', ''gpt-4o-mini'']"
        "[(''openai'', ''k'')]" "[]" 100 "(0, 0)" idle_router]
    by (auto split: prod.split)
qed

text \<open>
  Latency samples: recording keeps exactly the last hundred samples of that provider and
  model, ending with the new one, and leaves the samples of every other pair alone.
\<close>

theorem latency_window:
  "tracked (record_latency p m l t) (tracker_key p m) =
     drop (Suc (length (tracked t (tracker_key p m))) - 100) (tracked t (tracker_key p m) @ [l]) \<and>
   length (tracked (record_latency p m l t) (tracker_key p m)) = min 100 (Suc (length (tracked t (tracker_key p m)))) \<and>
   last (tracked (record_latency p m l t) (tracker_key p m)) = l \<and>
   (tracker_key p2 m2 = tracker_key p m \<or>
    get_avg_latency p2 m2 (record_latency p m l t) = get_avg_latency p2 m2 t)"
proof -
  have t: "tracked (record_latency p m l t) k =
      (if k = tracker_key p m then drop (Suc (length (tracked t k)) - 100) (tracked t k @ [l]) else tracked t k)" for k
    by (simp add: record_latency_def Let_def tracked_def update_conv')
  show ?thesis by (auto simp: t get_avg_latency_def last_drop)
qed

text \<open>
  The fastest route is not the fastest model: the scores give points to the tiers
  \<open>fast\<close> and \<open>medium\<close>, but the registry calls its quickest tier \<open>low\<close>, so with the goal
  \<open>FASTEST\<close> and the registry's models every low-latency model scores below every
  medium-latency one, and a medium-latency model is routed to.
\<close>

theorem fastest_is_slower:
  "(case snd (route (\<lambda>_. Inr []) (sample_preference FASTEST) [(''openai'', ''k'')] (0, 0) (new_health 3 30)) of
      Some c \<Rightarrow> info_latency (cand_info c) = ''medium'' | None \<Rightarrow> False) \<and>
   list_all (\<lambda>quick. list_all (\<lambda>slow.
       score_model (as_model_info quick) (sample_preference FASTEST) (provider quick)
         < score_model (as_model_info slow) (sample_preference FASTEST) (provider slow))
     (filter (\<lambda>m. latency_tier m = ''medium'') MODELS)) (filter (\<lambda>m. latency_tier m = ''low'') MODELS)"
  by code_simp

end
