(* ===== verification/Rate_Limit.thy ===== *)
theory Rate_Limit
  imports Prelude
begin

text \<open>
  \<open>app/middleware/rate_limit.py\<close>: the in-memory sliding-window limiter, the Redis limiter
  and the middleware that chooses between them. Times are seconds (exact rationals). Redis is
  not modelled: \<open>zset key member now cutoff window\<close> stands for the pipeline (ZADD,
  ZREMRANGEBYSCORE, ZCARD, EXPIRE) on its state, with \<open>None\<close> for any exception.
\<close>

section \<open>In memory\<close>

text \<open>The \<open>defaultdict(list)\<close> of timestamps by key.\<close>

type_synonym window_store = "string \<Rightarrow> rat list"
type_synonym verdict = "bool \<times> int \<times> int"   \<comment> \<open>allowed, remaining, reset\<close>

definition int_seconds :: "rat \<Rightarrow> int" where
  "int_seconds x = (if x < 0 then \<lceil>x\<rceil> else \<lfloor>x\<rfloor>)"

definition live :: "rat \<Rightarrow> int \<Rightarrow> rat list \<Rightarrow> rat list" where
  "live now window ts = filter (\<lambda>t. now - of_int window < t) ts"

definition memory_allowed :: "string \<Rightarrow> int \<Rightarrow> int \<Rightarrow> rat \<Rightarrow> window_store \<Rightarrow> window_store \<times> verdict" where
  "memory_allowed key limit window now store =
     (let ts = live now window (store key); remaining = max 0 (limit - int (length ts)) in
      if limit \<le> int (length ts)
      then (store(key := ts),
            (False, 0, int_seconds (case ts of [] \<Rightarrow> now + of_int window | t # _ \<Rightarrow> t + of_int window)))
      else (store(key := ts @ [now]), (True, remaining - 1, int_seconds (now + of_int window))))"

section \<open>Redis\<close>

type_synonym 'r pipeline = "string \<Rightarrow> string \<Rightarrow> rat \<Rightarrow> rat \<Rightarrow> int \<Rightarrow> 'r \<Rightarrow> 'r \<times> int option"

text \<open>The result and the new value of \<open>available\<close>. \<open>member\<close> is the text of the clock
  reading and the identity of the limiter.\<close>

definition redis_allowed ::
  "'r pipeline \<Rightarrow> bool \<Rightarrow> (rat \<Rightarrow> string) \<Rightarrow> string \<Rightarrow> int \<Rightarrow> int \<Rightarrow> rat \<Rightarrow> 'r \<Rightarrow> 'r \<times> bool \<times> verdict" where
  "redis_allowed zset fail_open member key limit window now r =
     (case zset key (member now) now (now - of_int window) window r of
        (r', Some count) \<Rightarrow>
          (let remaining = max 0 (limit - count) in
           if limit \<le> count then (r', True, (False, 0, int_seconds (now + of_int window)))
           else (r', True, (True, remaining - 1, int_seconds (now + of_int window))))
      | (r', None) \<Rightarrow>
          (if fail_open then (r', False, (True, limit - 1, int_seconds (now + of_int window)))
           else (r', False, (False, 0, int_seconds (now + of_int window)))))"

section \<open>Middleware\<close>

record http_request =
  path :: string
  authorization :: "string option"
  session_cookie :: "string option"
  client_host :: "string option"

definition bearer :: string where "bearer = ''Bearer ''"

definition user_part :: "http_request \<Rightarrow> string" where
  "user_part rq =
     (let auth = (case authorization rq of None \<Rightarrow> [] | Some a \<Rightarrow> a) in
      if prefix bearer auth then drop 7 auth
      else (case session_cookie rq of
              None \<Rightarrow> []
            | Some c \<Rightarrow> if c = [] then [] else ''session:'' @ take 16 c))"

definition rate_key :: "http_request \<Rightarrow> string" where
  "rate_key rq =
     (let ip = (case client_host rq of None \<Rightarrow> ''unknown'' | Some h \<Rightarrow> h);
          base = ip @ '':'' @ path rq; u = user_part rq
      in if u \<noteq> [] then ''user:'' @ u @ '':'' @ base else ''ip:'' @ base)"

definition exempt :: "http_request \<Rightarrow> bool" where
  "exempt rq = (path rq = ''/health'' \<or> \<not> prefix ''/api'' (path rq))"

datatype backend = Redis bool | In_Memory    \<comment> \<open>\<open>Redis fail_open\<close>\<close>

record 'r limiter_state =
  redis_state :: 'r
  primary :: window_store
  fallback :: window_store

datatype answer = Bypassed | Forwarded int int | Too_Many int int int
  \<comment> \<open>with the headers: remaining, reset, and \<open>Retry-After\<close>\<close>

definition dispatch ::
  "'r pipeline \<Rightarrow> (rat \<Rightarrow> string) \<Rightarrow> backend \<Rightarrow> int \<Rightarrow> int \<Rightarrow> http_request \<Rightarrow> rat \<Rightarrow> 'r limiter_state \<Rightarrow> 'r limiter_state \<times> answer" where
  "dispatch zset member be limit window rq now s =
     (if exempt rq then (s, Bypassed)
      else
       (let key = rate_key rq;
            (s', allowed, remaining, reset) =
              (case be of
                 In_Memory \<Rightarrow>
                   (let (st, v) = memory_allowed key limit window now (primary s) in (s\<lparr>primary := st\<rparr>, v))
               | Redis fail_open \<Rightarrow>
                   (let (r, available, ok, rem, rst) = redis_allowed zset fail_open member key limit window now (redis_state s);
                        s1 = s\<lparr>redis_state := r\<rparr> in
                    if \<not> ok \<and> \<not> available
                    then (let (st, v) = memory_allowed key limit window now (fallback s1) in (s1\<lparr>fallback := st\<rparr>, v))
                    else (s1, ok, rem, rst)))
        in (s', if allowed then Forwarded remaining reset else Too_Many remaining reset window)))"

section \<open>The sliding window\<close>

text \<open>Requests of one key at the times given; the result is the times of those let through.\<close>

fun admitted :: "string \<Rightarrow> int \<Rightarrow> int \<Rightarrow> rat list \<Rightarrow> window_store \<Rightarrow> rat list" where
  "admitted key limit window [] store = []"
| "admitted key limit window (t # ts) store =
     (case memory_allowed key limit window t store of
        (store', (ok, _, _)) \<Rightarrow> (if ok then [t] else []) @ admitted key limit window ts store')"

definition in_window :: "int \<Rightarrow> rat \<Rightarrow> rat list \<Rightarrow> nat" where
  "in_window window x ts = length (filter (\<lambda>t. x - of_int window < t \<and> t \<le> x) ts)"

text \<open>What the store holds for a key, given all the times let through so far.\<close>

definition tracks :: "string \<Rightarrow> int \<Rightarrow> rat \<Rightarrow> rat list \<Rightarrow> window_store \<Rightarrow> bool" where
  "tracks key window now A store =
     ((\<forall>t \<in> set A. t \<le> now) \<and> (\<forall>later \<ge> now. live later window (store key) = live later window A))"

lemma live_live: "now \<le> later \<Longrightarrow> live later window (live now window ts) = live later window ts"
  by (induction ts) (auto simp: live_def)

lemma live_Nil [simp]: "live now window [] = []"
  by (simp add: live_def)

lemma live_append [simp]: "live now window (xs @ ys) = live now window xs @ live now window ys"
  by (simp add: live_def)

lemma memory_step:
  assumes "tracks key window now A store" and "now \<le> t"
    and "memory_allowed key limit window t store = (store', ok, rem, rst)"
  shows "tracks key window t (A @ (if ok then [t] else [])) store' \<and>
    ok = (int (length (live t window A)) < limit)"
proof -
  have L: "live t window (store key) = live t window A" using assms(1,2) by (simp add: tracks_def)
  have "\<forall>s \<in> set A. s \<le> t" using assms(1,2) by (force simp: tracks_def)
  moreover have "live later window (live t window A) = live later window A" if "t \<le> later" for later
    by (rule live_live [OF that])
  ultimately show ?thesis
    using assms(3) by (auto simp: memory_allowed_def Let_def L tracks_def split: if_splits)
qed

lemma in_window_le_live:
  assumes "\<forall>s \<in> set A. s \<le> t" and "t \<le> x"
  shows "in_window window x A \<le> length (live t window A)"
  using assms unfolding in_window_def live_def
  by (induction A) auto

lemma admitted_bound:
  assumes "tracks key window now A store" and "sorted (now # ts)" and "0 \<le> limit"
    and "\<forall>x. int (in_window window x A) \<le> limit"
  shows "int (in_window window x (A @ admitted key limit window ts store)) \<le> limit"
  using assms
proof (induction ts arbitrary: now A store)
  case (Cons t ts)
  obtain store' ok rem rst where m: "memory_allowed key limit window t store = (store', ok, rem, rst)"
    by (cases "memory_allowed key limit window t store") auto
  have t: "now \<le> t" "sorted (t # ts)" using Cons.prems(2) by auto
  note S = memory_step [OF Cons.prems(1) t(1) m]
  let ?A = "A @ (if ok then [t] else [])"
  have le: "\<forall>s \<in> set A. s \<le> t" using Cons.prems(1) t(1) by (force simp: tracks_def)
  have "int (in_window window x ?A) \<le> limit" for x
  proof (cases "ok \<and> t \<le> x")
    case True
    then have "in_window window x ?A \<le> Suc (length (live t window A))"
      using in_window_le_live [OF le, of x window] by (simp add: in_window_def)
    with True S show ?thesis by linarith
  next
    case False
    then have "in_window window x ?A = in_window window x A" by (auto simp: in_window_def)
    with Cons.prems(4) show ?thesis by simp
  qed
  then have "int (in_window window x (?A @ admitted key limit window ts store')) \<le> limit"
    using Cons.IH [OF _ t(2) Cons.prems(3)] S by blast
  then show ?case by (simp add: m)
qed simp

text \<open>
  C31. The in-memory limiter enforces the limit on every window: for any sequence of requests
  of a key at non-decreasing times, starting from an empty store, the number of requests let
  through in any half-open interval of the window's length is at most the limit.
\<close>

theorem sliding_window_bound:
  assumes "sorted ts" and "store key = []" and "0 \<le> limit"
  shows "int (in_window window x (admitted key limit window ts store)) \<le> limit"
proof (cases ts)
  case (Cons t us)
  have "tracks key window t [] store" using assms(2) by (simp add: tracks_def live_def)
  moreover have "sorted (t # ts)" using assms(1) Cons by simp
  ultimately show ?thesis
    using admitted_bound [of key window t "[]" store ts limit x] assms(3) by (simp add: in_window_def)
qed (use assms(3) in \<open>simp add: in_window_def\<close>)

theorem sliding_window_bound_witness:
  "int (in_window 60 70 (admitted ''k'' 2 60 [0, 5, 7, 61, 66, 67] (\<lambda>_. []))) \<le> 2 \<and>
   admitted ''k'' 2 60 [0, 5, 7, 61, 66, 67] (\<lambda>_. []) = [0, 5, 61, 66]"
proof -
  have "sorted [0, 5, 7, 61, 66, 67 :: rat]" by simp
  moreover have "admitted ''k'' 2 60 [0, 5, 7, 61, 66, 67] (\<lambda>_. []) = [0, 5, 61, 66]" by code_simp
  ultimately show ?thesis using sliding_window_bound [of "[0, 5, 7, 61, 66, 67]" "\<lambda>_. []" "''k''" 2 60 70] by simp
qed

text \<open>
  The in-memory verdict: a request is let through exactly when fewer than the limit are
  live in its window; the reported remaining count is what the window still has room for, is
  never negative, and other keys are not touched.
\<close>

theorem memory_verdict:
  "case memory_allowed key limit window now store of (store', ok, remaining, reset) \<Rightarrow>
     ok = (int (length (live now window (store key))) < limit) \<and>
     remaining = (if ok then limit - 1 - int (length (live now window (store key))) else 0) \<and> 0 \<le> remaining \<and>
     store' key = live now window (store key) @ (if ok then [now] else []) \<and>
     store'(key := store key) = store"
  by (auto simp: memory_allowed_def Let_def split: list.split)

section \<open>Redis and the fallback\<close>

text \<open>
  The Redis limiter admits one request less than the limit: its pipeline adds the request
  before it counts, so with \<open>n\<close> other requests in the window the count is \<open>n + 1\<close> and the
  request with which the window would hold exactly the limit is refused, where the in-memory
  limiter, holding the same \<open>n\<close> requests, lets it through. With a limit of one nothing ever
  passes.
\<close>

theorem redis_one_less:
  assumes "zset key (member now) now (now - of_int window) window r = (r', Some (int n + 1))"
    and "length (live now window (store key)) = n" and "int n = limit - 1"
  shows "fst (snd (snd (redis_allowed zset fo member key limit window now r))) = False \<and>
    fst (snd (memory_allowed key limit window now store)) = True"
  using assms by (simp add: redis_allowed_def memory_allowed_def Let_def)

text \<open>A sorted-set pipeline for the examples: members with their scores by key.\<close>

definition sample_zset :: "(string \<times> string \<times> rat) list pipeline" where
  "sample_zset key m now cutoff window r =
     (let r1 = (key, m, now) # filter (\<lambda>(k, m', t). \<not> (k = key \<and> (m' = m \<or> t \<le> cutoff))) r
      in (r1, Some (int (length (filter (\<lambda>(k, m', t). k = key) r1)))))"

definition clock_text :: "rat \<Rightarrow> string" where
  "clock_text t = int_text \<lfloor>t\<rfloor>"

theorem redis_one_less_witness:
  "fst (snd (snd (redis_allowed sample_zset False clock_text ''k'' 2 60 30 [(''k'', ''10'', 10)]))) = False \<and>
   fst (snd (memory_allowed ''k'' 2 60 30 (\<lambda>_. [10]))) = True"
proof -
  have z: "sample_zset ''k'' (clock_text 30) 30 (30 - of_int 60) 60 [(''k'', ''10'', 10)] =
      ([(''k'', ''30'', 30), (''k'', ''10'', 10)], Some (int 1 + 1))" by code_simp
  show ?thesis
    using redis_one_less [of sample_zset "''k''" clock_text, OF z, of "\<lambda>_. [10]" 2 False] by (simp add: live_def)
qed

text \<open>
  When Redis fails the middleware stays up: with \<open>RATE_LIMIT_FAIL_OPEN\<close> off the request
  is judged by the process-local window alone, with it on every request is let through, and
  a request outside \<open>/api\<close> is never limited and changes nothing.
\<close>

theorem redis_outage:
  assumes "zset (rate_key rq) (member now) now (now - of_int window) window (redis_state s) = (r', None)"
    and "prefix ''/api'' (path rq)"
  shows "((\<exists>rem rst. snd (dispatch zset member (Redis False) limit window rq now s) = Forwarded rem rst) =
      (int (length (live now window (fallback s (rate_key rq)))) < limit)) \<and>
    (\<exists>rst. snd (dispatch zset member (Redis True) limit window rq now s) = Forwarded (limit - 1) rst) \<and>
    (\<not> prefix ''/api'' (path rq2) \<longrightarrow> dispatch zset member be limit window rq2 now s = (s, Bypassed))"
proof -
  have "path rq \<noteq> ''/health''" using assms(2) by auto
  with assms(2) have ex: "\<not> exempt rq" by (simp add: exempt_def)
  show ?thesis
    using assms(1) ex
    by (simp add: dispatch_def exempt_def redis_allowed_def memory_allowed_def Let_def split: if_splits)
qed

definition sample_rq :: http_request where
  "sample_rq = \<lparr>path = ''/api/v1/chat'', authorization = Some ''Bearer t'', session_cookie = None, client_host = Some ''h''\<rparr>"

theorem redis_outage_witness:
  "(\<exists>rem rst. snd (dispatch (\<lambda>k m n c w r. (r, None)) clock_text (Redis False) 1 60 sample_rq 5
      \<lparr>redis_state = (), primary = \<lambda>_. [], fallback = \<lambda>_. []\<rparr>) = Forwarded rem rst)"
  using redis_outage [of "\<lambda>k m n c w r. (r, None)" sample_rq clock_text 5 60
      "\<lparr>redis_state = (), primary = \<lambda>_. [], fallback = \<lambda>_. []\<rparr>" "()" 1]
  by (simp add: sample_rq_def)

end
