(* ===== verification/Tenancy.thy ===== *)
theory Tenancy
  imports Token_Engine
begin

text \<open>
  Who may touch what: users, organizations, projects, runtimes, sessions and API keys as rows
  (\<open>app/models\<close>), the session and API key authentication of \<open>app/api/v1/dependencies.py\<close> and
  \<open>dependencies_api_key.py\<close>, and the tenant checks of \<open>dependencies_tenant.py\<close>. An
  identifier that arrives as text is modelled as \<open>uuid.UUID\<close> reads it: \<open>None\<close> is the text it
  rejects. \<open>hash_token\<close> (SHA-256) is the parameter \<open>hash\<close>.
\<close>

section \<open>Rows\<close>

record user =
  usr_id :: uuid
  usr_email :: string
  usr_name :: "string option"
  hashed_password :: "string option"
  usr_active :: bool
  is_superuser :: bool
  email_verified :: bool
  usr_organization :: "uuid option"
  two_factor_enabled :: bool
  two_factor_secret :: "string option"
  usr_settings :: "(string \<times> json) list option"

record organization =
  org_id :: uuid
  org_name :: string
  org_slug :: string
  external_id :: "string option"

record project =
  prj_id :: uuid
  prj_name :: string
  prj_slug :: string
  prj_description :: "string option"
  prj_organization :: uuid
  prj_settings :: "(string \<times> json) list"
  prj_status :: string
  has_built_runtime :: bool

record runtime =
  rt_id :: uuid
  rt_name :: string
  rt_user :: uuid
  rt_project :: "uuid option"
  rt_organization :: "uuid option"
  rt_status :: string
  rt_version :: string
  rt_environment :: string
  rt_provider :: string
  rt_model :: string
  rt_fallback_models :: "string list"
  rt_routing_strategy :: string
  rt_embedding_model :: string
  rt_vector_store :: string
  rt_chunk_size :: int
  rt_chunk_overlap :: int
  rt_documents :: int
  rt_chunks :: int
  rt_embeddings :: int
  rt_index_size :: int
  rt_build_started :: "instant option"
  rt_build_completed :: "instant option"
  rt_last_propagated :: "instant option"
  rt_health :: rat
  rt_error :: "string option"
  rt_api_key :: "uuid option"
  rt_instructions :: "string option"
  rt_policies :: "(string \<times> json) list"
  rt_config :: "(string \<times> json) list"
  rt_metadata :: "(string \<times> json) list"

record session_row =
  ses_id :: uuid
  ses_user :: uuid
  ses_hash :: string
  ses_ip :: "string option"
  ses_agent :: "string option"
  ses_expires :: instant
  ses_revoked :: bool

record api_key =
  key_id :: uuid
  key_name :: string
  hashed_key :: string
  key_prefix :: string
  key_organization :: "uuid option"
  key_user :: "uuid option"
  key_project :: "uuid option"
  key_runtime :: "uuid option"
  key_environment :: string
  allowed_origins :: "string list"
  revoked :: bool
  key_expires :: "instant option"
  scopes :: "string list"
  last_used_at :: "instant option"
  usage_count :: int
  usage_stats :: "(string \<times> json) list"

record tenant_db =
  users :: "user list"
  organizations :: "organization list"
  projects :: "project list"
  runtimes :: "runtime list"
  sessions :: "session_row list"
  api_keys :: "api_key list"
  next_key :: uuid
  mail_queue :: "(string \<times> string \<times> string) list"   \<comment> \<open>event, recipient, key name\<close>

datatype http_error = HTTP nat string

type_synonym 'a reply = "http_error + 'a"

section \<open>Look-ups\<close>

definition user_by_id :: "tenant_db \<Rightarrow> uuid \<Rightarrow> user option" where
  "user_by_id db i = row_by usr_id i (users db)"

definition project_by_id :: "tenant_db \<Rightarrow> uuid \<Rightarrow> project option" where
  "project_by_id db i = row_by prj_id i (projects db)"

definition organization_by_id :: "tenant_db \<Rightarrow> uuid \<Rightarrow> organization option" where
  "organization_by_id db i = row_by org_id i (organizations db)"

definition runtime_by_id :: "tenant_db \<Rightarrow> uuid \<Rightarrow> runtime option" where
  "runtime_by_id db i = row_by rt_id i (runtimes db)"

definition key_by_id :: "tenant_db \<Rightarrow> uuid \<Rightarrow> api_key option" where
  "key_by_id db i = row_by key_id i (api_keys db)"

definition key_by_hash :: "string \<Rightarrow> tenant_db \<Rightarrow> api_key option" where
  "key_by_hash h db = row_by hashed_key h (api_keys db)"

definition save_key :: "api_key \<Rightarrow> tenant_db \<Rightarrow> tenant_db" where
  "save_key k db = db\<lparr>api_keys := put_row key_id k (api_keys db)\<rparr>"

interpretation key_repo: repository key_by_id save_key key_id
  by unfold_locales
    (auto simp: key_by_id_def save_key_def row_by_put_row dest: row_by_SomeD)

section \<open>Sessions\<close>

definition get_session_user :: "(string \<Rightarrow> string) \<Rightarrow> string option \<Rightarrow> instant \<Rightarrow> tenant_db \<Rightarrow> user option" where
  "get_session_user hash session_token now db =
     (case session_token of
        None \<Rightarrow> None
      | Some t \<Rightarrow>
         (case row_by ses_hash (hash t) (sessions db) of
            None \<Rightarrow> None
          | Some s \<Rightarrow>
              if ses_revoked s then None
              else if ses_expires s \<le> now then None
              else case user_by_id db (ses_user s) of
                None \<Rightarrow> None
              | Some u \<Rightarrow> if usr_active u then Some u else None))"

definition get_current_user :: "(string \<Rightarrow> string) \<Rightarrow> string option \<Rightarrow> instant \<Rightarrow> tenant_db \<Rightarrow> user reply" where
  "get_current_user hash session_token now db =
     (case get_session_user hash session_token now db of
        None \<Rightarrow> Inl (HTTP 401 ''Not authenticated'')
      | Some u \<Rightarrow> Inr u)"

definition bearer_token :: "string option \<Rightarrow> string option" where
  "bearer_token h = (case h of None \<Rightarrow> None
     | Some a \<Rightarrow> if prefix ''Bearer '' a then Some (drop 7 a) else None)"

text \<open>\<open>_get_current_user\<close> of \<open>dependencies_tenant.py\<close>: the session token as a bearer header.\<close>

definition header_user :: "(string \<Rightarrow> string) \<Rightarrow> string option \<Rightarrow> instant \<Rightarrow> tenant_db \<Rightarrow> user option" where
  "header_user hash header now db =
     (case bearer_token header of None \<Rightarrow> None | Some t \<Rightarrow> get_session_user hash (Some t) now db)"

section \<open>Tenant checks\<close>

definition require_project_membership :: "uuid option \<Rightarrow> user \<Rightarrow> tenant_db \<Rightarrow> project reply" where
  "require_project_membership pid u db =
     (case pid of
        None \<Rightarrow> Inl (HTTP 400 ''Invalid project id'')
      | Some i \<Rightarrow>
         (case project_by_id db i of
            None \<Rightarrow> Inl (HTTP 404 ''Project not found'')
          | Some p \<Rightarrow>
              if Some (prj_organization p) \<noteq> usr_organization u
              then Inl (HTTP 403 ''Not a member of this project'')
              else Inr p))"

definition require_organization_membership :: "uuid option \<Rightarrow> user \<Rightarrow> tenant_db \<Rightarrow> organization reply" where
  "require_organization_membership oid u db =
     (case oid of
        None \<Rightarrow> Inl (HTTP 400 ''Invalid organization id'')
      | Some i \<Rightarrow>
         (case organization_by_id db i of
            None \<Rightarrow> Inl (HTTP 404 ''Organization not found'')
          | Some g \<Rightarrow>
              if Some (org_id g) \<noteq> usr_organization u
              then Inl (HTTP 403 ''Not a member of this organization'')
              else Inr g))"

text \<open>\<open>expected\<close> is the optional \<open>project_id\<close> argument.\<close>

definition require_runtime_access :: "uuid option \<Rightarrow> user \<Rightarrow> uuid option option \<Rightarrow> tenant_db \<Rightarrow> runtime reply" where
  "require_runtime_access rid u expected db =
     (case rid of
        None \<Rightarrow> Inl (HTTP 400 ''Invalid runtime id'')
      | Some i \<Rightarrow>
         (case runtime_by_id db i of
            None \<Rightarrow> Inl (HTTP 404 ''Runtime not found'')
          | Some r \<Rightarrow>
              if expected = Some None then Inl (HTTP 400 ''Invalid project id'')
              else (case rt_project r of
                Some p \<Rightarrow>
                 (case project_by_id db p of
                    None \<Rightarrow> Inl (HTTP 404 ''Runtime not found'')
                  | Some project \<Rightarrow>
                      if Some (prj_organization project) \<noteq> usr_organization u
                      then Inl (HTTP 404 ''Runtime not found'')
                      else if expected \<noteq> None \<and> expected \<noteq> Some (Some p)
                      then Inl (HTTP 409 ''runtime_project_mismatch'')
                      else (let env = json_get ''environment'' (prj_settings project) in
                        if json_true env \<and> env \<noteq> JStr (rt_environment r)
                        then Inl (HTTP 409 ''runtime_environment_mismatch'')
                        else Inr r))
              | None \<Rightarrow>
                  if rt_user r \<noteq> usr_id u \<and> \<not> is_superuser u then Inl (HTTP 404 ''Runtime not found'')
                  else if expected \<noteq> None then Inl (HTTP 409 ''runtime_project_mismatch'')
                  else Inr r)))"

definition require_api_key_access :: "uuid option \<Rightarrow> user \<Rightarrow> tenant_db \<Rightarrow> api_key reply" where
  "require_api_key_access kid u db =
     (case kid of
        None \<Rightarrow> Inl (HTTP 400 ''Invalid api key id'')
      | Some i \<Rightarrow>
         (case key_by_id db i of
            None \<Rightarrow> Inl (HTTP 404 ''API key not found'')
          | Some k \<Rightarrow>
              if is_superuser u \<or> key_user k = Some (usr_id u) \<or>
                 (key_organization k \<noteq> None \<and> usr_organization u \<noteq> None \<and> key_organization k = usr_organization u)
              then Inr k
              else Inl (HTTP 404 ''API key not found'')))"

section \<open>API key authentication\<close>

definition rstrip_slash :: "string \<Rightarrow> string" where
  "rstrip_slash s = rev (dropWhile (\<lambda>c. c = CHR ''/'') (rev s))"

text \<open>The browser-origin policy: no origin sent, or no origin configured, or one of the configured.\<close>

definition origin_refused :: "string option \<Rightarrow> api_key \<Rightarrow> bool" where
  "origin_refused origin k =
     (case origin of
        None \<Rightarrow> False
      | Some o' \<Rightarrow> o' \<noteq> [] \<and> allowed_origins k \<noteq> [] \<and>
          rstrip_slash o' \<notin> set (map rstrip_slash (allowed_origins k)))"

definition expired :: "instant \<Rightarrow> api_key \<Rightarrow> bool" where
  "expired now k = (case key_expires k of None \<Rightarrow> False | Some t \<Rightarrow> t \<le> now)"

definition foreign_org :: "api_key \<Rightarrow> user \<Rightarrow> bool" where
  "foreign_org k u = (key_organization k \<noteq> None \<and> key_organization k \<noteq> usr_organization u)"

definition owner :: "tenant_db \<Rightarrow> api_key \<Rightarrow> user option" where
  "owner db k = (case key_user k of None \<Rightarrow> None | Some i \<Rightarrow> user_by_id db i)"

definition count_use :: "api_key \<Rightarrow> tenant_db \<Rightarrow> tenant_db" where
  "count_use k = save_key (k\<lparr>usage_count := usage_count k + 1\<rparr>)"

text \<open>The result carries what the request state is given: the key and its project.\<close>

definition get_api_key_user ::
  "(string \<Rightarrow> string) \<Rightarrow> string option \<Rightarrow> string option \<Rightarrow> instant \<Rightarrow> tenant_db \<Rightarrow>
   tenant_db \<times> (user \<times> uuid \<times> uuid option) reply" where
  "get_api_key_user hash authorization origin now db =
     (case bearer_token authorization of
        None \<Rightarrow> (db, Inl (HTTP 401 ''Invalid API key''))
      | Some raw \<Rightarrow>
          if raw = [] then (db, Inl (HTTP 401 ''Invalid API key''))
          else (case key_by_hash (hash raw) db of
            None \<Rightarrow> (db, Inl (HTTP 401 ''Invalid API key''))
          | Some k \<Rightarrow>
              if revoked k then (db, Inl (HTTP 401 ''Invalid API key''))
              else if expired now k then (db, Inl (HTTP 401 ''API key expired''))
              else (case owner db k of
                None \<Rightarrow> (db, Inl (HTTP 401 ''Invalid API key''))
              | Some u \<Rightarrow>
                  if \<not> usr_active u then (db, Inl (HTTP 401 ''Invalid API key''))
                  else if foreign_org k u then (db, Inl (HTTP 401 ''Invalid API key''))
                  else if origin_refused origin k
                  then (db, Inl (HTTP 403 ''API key is not authorized for this application origin''))
                  else (count_use k db, Inr (u, key_id k, key_project k)))))"

record auth_context =
  auth_user :: user
  auth_project :: "uuid option"
  auth_key :: "api_key option"

definition get_action_auth ::
  "(string \<Rightarrow> string) \<Rightarrow> string option \<Rightarrow> string option \<Rightarrow> string option \<Rightarrow> instant \<Rightarrow> tenant_db \<Rightarrow>
   tenant_db \<times> auth_context reply" where
  "get_action_auth hash session_token authorization origin now db =
     (case (if session_token = Some [] then None else get_session_user hash session_token now db) of
        Some u \<Rightarrow> (db, Inr \<lparr>auth_user = u, auth_project = None, auth_key = None\<rparr>)
      | None \<Rightarrow>
         (case bearer_token authorization of
            None \<Rightarrow> (db, Inl (HTTP 401 ''Not authenticated''))
          | Some raw \<Rightarrow>
              if raw = [] then (db, Inl (HTTP 401 ''Not authenticated''))
              else (case key_by_hash (hash raw) db of
                None \<Rightarrow> (db, Inl (HTTP 401 ''Not authenticated''))
              | Some k \<Rightarrow>
                  if revoked k \<or> expired now k then (db, Inl (HTTP 401 ''Not authenticated''))
                  else (case owner db k of
                    None \<Rightarrow> (db, Inl (HTTP 401 ''Not authenticated''))
                  | Some u \<Rightarrow>
                      if \<not> usr_active u \<or> foreign_org k u then (db, Inl (HTTP 401 ''Not authenticated''))
                      else if origin_refused origin k
                      then (db, Inl (HTTP 403 ''API key is not authorized for this application origin''))
                      else (count_use k db,
                        Inr \<lparr>auth_user = u, auth_project = key_project k,
                             auth_key = Some (k\<lparr>usage_count := usage_count k + 1\<rparr>)\<rparr>)))))"

end
