(* ===== verification/Api_Keys.thy ===== *)
theory Api_Keys
  imports Tenancy
begin

text \<open>
  \<open>ApiKeyService\<close> of \<open>app/services/apikeys.py\<close> and the handlers of
  \<open>app/api/v1/apikeys/router.py\<close>. The random part of a new key (\<open>secrets.token_urlsafe\<close>) is the
  argument \<open>token\<close>; \<open>broker\<close> says whether the notification queue accepts a message (a refusal
  is logged and swallowed). Identifiers are given as \<open>uuid.UUID\<close> reads them. What the handlers
  return is the stored row.
\<close>

section \<open>The service\<close>

record api_key_create =
  new_name :: string
  new_project :: "uuid option"
  new_runtime :: "uuid option"
  new_environment :: string
  new_scopes :: "string list"
  new_origins :: "string list"

datatype key_error = Key_ValueError string | Key_IntegrityError

type_synonym 'a key_outcome = "tenant_db \<times> (key_error + 'a)"

definition prefix_type :: "string \<Rightarrow> string" where
  "prefix_type env =
     (if env \<in> set [''development'', ''staging'', ''test''] then ''sk_test'' else ''sk_live'')"

definition generate_api_key :: "string \<Rightarrow> string \<Rightarrow> string" where
  "generate_api_key pre token = pre @ ''_'' @ token"

text \<open>\<open>hashed_key\<close> is unique: inserting a second row with the same hash is the IntegrityError.\<close>

definition insert_key :: "api_key \<Rightarrow> tenant_db \<Rightarrow> (tenant_db \<times> api_key) option" where
  "insert_key k db =
     (if key_by_hash (hashed_key k) db \<noteq> None then None
      else (let k' = k\<lparr>key_id := next_key db\<rparr>
            in Some (db\<lparr>api_keys := api_keys db @ [k'], next_key := Suc (next_key db)\<rparr>, k')))"

definition or_list :: "'a list \<Rightarrow> 'a list \<Rightarrow> 'a list" where
  "or_list xs ys = (if xs = [] then ys else xs)"

definition new_key :: "(string \<Rightarrow> string) \<Rightarrow> string \<Rightarrow> uuid option \<Rightarrow> api_key_create \<Rightarrow> uuid option \<Rightarrow> api_key" where
  "new_key hash raw u data oid =
     \<lparr>key_id = 0, key_name = new_name data, hashed_key = hash raw, key_prefix = take 16 raw,
      key_organization = oid, key_user = u, key_project = new_project data, key_runtime = new_runtime data,
      key_environment = or_list (new_environment data) ''development'', allowed_origins = new_origins data,
      revoked = False, key_expires = None, scopes = or_list (new_scopes data) [''read'', ''write''],
      last_used_at = None, usage_count = 0, usage_stats = []\<rparr>"

definition create_key ::
  "(string \<Rightarrow> string) \<Rightarrow> string \<Rightarrow> uuid \<Rightarrow> api_key_create \<Rightarrow> uuid option \<Rightarrow> tenant_db \<Rightarrow> (api_key \<times> string) key_outcome" where
  "create_key hash token u data oid db =
     (let raw = generate_api_key (prefix_type (new_environment data)) token in
      case insert_key (new_key hash raw (Some u) data oid) db of
        None \<Rightarrow> (db, Inl Key_IntegrityError)
      | Some (db', k) \<Rightarrow> (db', Inr (k, raw)))"

definition key_or_error :: "uuid option \<Rightarrow> tenant_db \<Rightarrow> key_error + api_key" where
  "key_or_error kid db =
     (case kid of
        None \<Rightarrow> Inl (Key_ValueError ''Invalid api key id'')
      | Some i \<Rightarrow> (case key_by_id db i of None \<Rightarrow> Inl (Key_ValueError ''API key not found'') | Some k \<Rightarrow> Inr k))"

definition rotated :: "(string \<Rightarrow> string) \<Rightarrow> string \<Rightarrow> api_key \<Rightarrow> api_key" where
  "rotated hash raw k =
     k\<lparr>key_id := 0, hashed_key := hash raw, key_prefix := take 16 raw, revoked := False, key_expires := None,
       last_used_at := None, usage_count := 0, usage_stats := []\<rparr>"

definition rotate_key :: "(string \<Rightarrow> string) \<Rightarrow> string \<Rightarrow> uuid option \<Rightarrow> tenant_db \<Rightarrow> (api_key \<times> string) key_outcome" where
  "rotate_key hash token kid db =
     (case key_or_error kid db of
        Inl e \<Rightarrow> (db, Inl e)
      | Inr old \<Rightarrow>
          if revoked old then (db, Inl (Key_ValueError ''API key is already revoked''))
          else (let raw = generate_api_key (prefix_type (key_environment old)) token in
            case insert_key (rotated hash raw old) db of
              None \<Rightarrow> (db, Inl Key_IntegrityError)
            | Some (db', k) \<Rightarrow> (save_key (old\<lparr>revoked := True\<rparr>) db', Inr (k, raw))))"

definition revoke_key :: "uuid option \<Rightarrow> tenant_db \<Rightarrow> api_key key_outcome" where
  "revoke_key kid db =
     (case key_or_error kid db of
        Inl e \<Rightarrow> (db, Inl e)
      | Inr k \<Rightarrow> (save_key (k\<lparr>revoked := True\<rparr>) db, Inr (k\<lparr>revoked := True\<rparr>)))"

text \<open>A filter is \<open>None\<close> when the argument is absent.\<close>

definition list_keys :: "uuid option \<Rightarrow> uuid option \<Rightarrow> uuid option \<Rightarrow> string option \<Rightarrow> tenant_db \<Rightarrow> api_key list" where
  "list_keys project_id user_id runtime_id environment db =
     filter (\<lambda>k. (project_id = None \<or> key_project k = project_id) \<and>
                 (user_id = None \<or> key_user k = user_id) \<and>
                 (runtime_id = None \<or> key_runtime k = runtime_id) \<and>
                 (environment = None \<or> Some (key_environment k) = environment)) (api_keys db)"

record key_usage =
  used_key :: uuid
  used_calls :: json
  used_tokens :: json
  used_errors :: json
  used_start :: json
  used_end :: json

definition stat :: "string \<Rightarrow> json \<Rightarrow> (string \<times> json) list \<Rightarrow> json" where
  "stat n absent stats = (case map_of stats n of None \<Rightarrow> absent | Some v \<Rightarrow> v)"

definition get_usage :: "uuid option \<Rightarrow> tenant_db \<Rightarrow> key_error + key_usage" where
  "get_usage kid db =
     (case key_or_error kid db of
        Inl e \<Rightarrow> Inl e
      | Inr k \<Rightarrow> (let s = usage_stats k in
          Inr \<lparr>used_key = key_id k, used_calls = stat ''calls'' (JInt (usage_count k)) s,
               used_tokens = stat ''tokens'' (JInt 0) s, used_errors = stat ''errors'' (JInt 0) s,
               used_start = stat ''period_start'' JNull s, used_end = stat ''period_end'' JNull s\<rparr>))"

definition update_scopes :: "uuid option \<Rightarrow> string list \<Rightarrow> tenant_db \<Rightarrow> api_key key_outcome" where
  "update_scopes kid ss db =
     (case key_or_error kid db of
        Inl e \<Rightarrow> (db, Inl e)
      | Inr k \<Rightarrow> (save_key (k\<lparr>scopes := ss\<rparr>) db, Inr (k\<lparr>scopes := ss\<rparr>)))"

definition check_scope :: "uuid option \<Rightarrow> string \<Rightarrow> tenant_db \<Rightarrow> key_error + bool" where
  "check_scope kid s db =
     (case key_or_error kid db of Inl e \<Rightarrow> Inl e | Inr k \<Rightarrow> Inr (s \<in> set (scopes k)))"

section \<open>The handlers\<close>

definition enqueue :: "bool \<Rightarrow> string \<Rightarrow> user \<Rightarrow> string \<Rightarrow> tenant_db \<Rightarrow> tenant_db" where
  "enqueue broker ev u name db =
     (if broker then db\<lparr>mail_queue := mail_queue db @ [(ev, usr_email u, name)]\<rparr> else db)"

text \<open>\<open>except ValueError\<close>: the status of the handler; anything else is the server error.\<close>

definition as_http :: "nat \<Rightarrow> key_error \<Rightarrow> http_error" where
  "as_http code e = (case e of Key_ValueError m \<Rightarrow> HTTP code m | Key_IntegrityError \<Rightarrow> HTTP 500 ''Internal Server Error'')"

definition list_api_keys ::
  "user \<Rightarrow> uuid option option \<Rightarrow> uuid option option \<Rightarrow> string option \<Rightarrow> tenant_db \<Rightarrow> api_key list reply" where
  "list_api_keys u project_id runtime_id environment db =
     (case (case project_id of None \<Rightarrow> Inr () | Some p \<Rightarrow>
              (case require_project_membership p u db of Inl e \<Rightarrow> Inl e | Inr _ \<Rightarrow> Inr ())) of
        Inl e \<Rightarrow> Inl e
      | Inr _ \<Rightarrow>
         (case (case runtime_id of None \<Rightarrow> Inr () | Some r \<Rightarrow>
                  (case require_runtime_access r u None db of Inl e \<Rightarrow> Inl e | Inr _ \<Rightarrow> Inr ())) of
            Inl e \<Rightarrow> Inl e
          | Inr _ \<Rightarrow> Inr (list_keys (Option.bind project_id id) (Some (usr_id u)) (Option.bind runtime_id id) environment db)))"

definition get_api_key :: "uuid option \<Rightarrow> user \<Rightarrow> tenant_db \<Rightarrow> api_key reply" where
  "get_api_key kid u db = require_api_key_access kid u db"

text \<open>The project of the body: its organization, or the error.\<close>

definition key_organization_for :: "uuid option \<Rightarrow> user \<Rightarrow> tenant_db \<Rightarrow> uuid option reply" where
  "key_organization_for proj u db =
     (case proj of
        None \<Rightarrow> Inr (usr_organization u)
      | Some p \<Rightarrow>
         (case project_by_id db p of
            None \<Rightarrow> Inl (HTTP 404 ''Project not found'')
          | Some project \<Rightarrow>
              if Some (prj_organization project) \<noteq> usr_organization u \<and> \<not> is_superuser u
              then Inl (HTTP 403 ''Cannot create an API key for another organization'')
              else Inr (Some (prj_organization project))))"

text \<open>The runtime of the body settles project, organization and environment.\<close>

definition attach_runtime ::
  "api_key_create \<Rightarrow> uuid option \<Rightarrow> user \<Rightarrow> tenant_db \<Rightarrow> (api_key_create \<times> uuid option) reply" where
  "attach_runtime body oid u db =
     (case new_runtime body of
        None \<Rightarrow> Inr (body, oid)
      | Some r \<Rightarrow>
         (case require_runtime_access (Some r) u None db of
            Inl e \<Rightarrow> Inl e
          | Inr rt \<Rightarrow>
              if rt_project rt \<noteq> None \<and> new_project body \<noteq> None \<and> rt_project rt \<noteq> new_project body
              then Inl (HTTP 400 ''Runtime does not belong to the selected project'')
              else Inr (body\<lparr>new_project := (if new_project body = None then rt_project rt else new_project body),
                             new_environment := or_list (rt_environment rt) ''development''\<rparr>,
                        (if rt_organization rt \<noteq> None then rt_organization rt else oid))))"

definition create_api_key ::
  "(string \<Rightarrow> string) \<Rightarrow> string \<Rightarrow> bool \<Rightarrow> api_key_create \<Rightarrow> user \<Rightarrow> tenant_db \<Rightarrow> tenant_db \<times> (api_key \<times> string) reply" where
  "create_api_key hash token broker body u db =
     (case key_organization_for (new_project body) u db of
        Inl e \<Rightarrow> (db, Inl e)
      | Inr oid \<Rightarrow>
         (case attach_runtime body oid u db of
            Inl e \<Rightarrow> (db, Inl e)
          | Inr (body', oid') \<Rightarrow>
             (case create_key hash token (usr_id u) body' oid' db of
                (db', Inl e) \<Rightarrow> (db', Inl (HTTP 500 ''Failed to create API key''))
              | (db', Inr r) \<Rightarrow> (enqueue broker ''api_key.created'' u (new_name body') db', Inr r))))"

text \<open>The service's answer has no \<open>name\<close> at its top level, so the mail says \<open>API Key\<close>.\<close>

definition rotate_api_key ::
  "(string \<Rightarrow> string) \<Rightarrow> string \<Rightarrow> bool \<Rightarrow> uuid option \<Rightarrow> user \<Rightarrow> tenant_db \<Rightarrow> tenant_db \<times> (api_key \<times> string) reply" where
  "rotate_api_key hash token broker kid u db =
     (case require_api_key_access kid u db of
        Inl e \<Rightarrow> (db, Inl e)
      | Inr _ \<Rightarrow>
         (case rotate_key hash token kid db of
            (db', Inl e) \<Rightarrow> (db', Inl (as_http 400 e))
          | (db', Inr r) \<Rightarrow> (enqueue broker ''api_key.rotated'' u ''API Key'' db', Inr r)))"

definition expire_api_key :: "uuid option \<Rightarrow> instant option \<Rightarrow> user \<Rightarrow> tenant_db \<Rightarrow> tenant_db \<times> api_key reply" where
  "expire_api_key kid until u db =
     (case require_api_key_access kid u db of
        Inl e \<Rightarrow> (db, Inl e)
      | Inr k \<Rightarrow> (save_key (k\<lparr>key_expires := until\<rparr>) db, Inr (k\<lparr>key_expires := until\<rparr>)))"

definition revoke_api_key :: "bool \<Rightarrow> uuid option \<Rightarrow> user \<Rightarrow> tenant_db \<Rightarrow> tenant_db \<times> unit reply" where
  "revoke_api_key broker kid u db =
     (case require_api_key_access kid u db of
        Inl e \<Rightarrow> (db, Inl e)
      | Inr _ \<Rightarrow>
         (case revoke_key kid db of
            (db', Inl e) \<Rightarrow> (db', Inl (as_http 400 e))
          | (db', Inr k) \<Rightarrow> (enqueue broker ''api_key.revoked'' u (key_name k) db', Inr ())))"

definition delete_api_key :: "uuid option \<Rightarrow> user \<Rightarrow> tenant_db \<Rightarrow> tenant_db \<times> unit reply" where
  "delete_api_key kid u db =
     (case require_api_key_access kid u db of
        Inl e \<Rightarrow> (db, Inl e)
      | Inr k \<Rightarrow> (db\<lparr>api_keys := filter (\<lambda>x. key_id x \<noteq> key_id k) (api_keys db)\<rparr>, Inr ()))"

definition get_api_key_usage :: "uuid option \<Rightarrow> user \<Rightarrow> tenant_db \<Rightarrow> key_usage reply" where
  "get_api_key_usage kid u db =
     (case require_api_key_access kid u db of
        Inl e \<Rightarrow> Inl e
      | Inr _ \<Rightarrow> (case get_usage kid db of Inl e \<Rightarrow> Inl (as_http 404 e) | Inr r \<Rightarrow> Inr r))"

definition update_api_key_scopes :: "uuid option \<Rightarrow> string list \<Rightarrow> user \<Rightarrow> tenant_db \<Rightarrow> tenant_db \<times> api_key reply" where
  "update_api_key_scopes kid ss u db =
     (case require_api_key_access kid u db of
        Inl e \<Rightarrow> (db, Inl e)
      | Inr _ \<Rightarrow>
         (case update_scopes kid ss db of
            (db', Inl e) \<Rightarrow> (db', Inl (as_http 400 e))
          | (db', Inr k) \<Rightarrow> (db', Inr k)))"

end
