(* ===== verification/Key_Laws.thy ===== *)
theory Key_Laws
  imports Api_Keys
begin

text \<open>
  What authentication by API key guarantees: the two dependencies that read a key agree, a
  revoked or rotated secret is refused for ever, a rotated key keeps its identity, and runtimes
  and keys of other tenants are out of reach. Histories are the steps of the handlers together
  with everything else that may happen to the other tables.
\<close>

section \<open>The steps\<close>

text \<open>\<open>avoid\<close> are hashes that no newly drawn secret has.\<close>

inductive key_step :: "(string \<Rightarrow> string) \<Rightarrow> string set \<Rightarrow> tenant_db \<Rightarrow> tenant_db \<Rightarrow> bool"
  for hash :: "string \<Rightarrow> string" and avoid :: "string set" where
  create_step: "create_api_key hash token broker body u db = (db', Inr (k, raw)) \<Longrightarrow> hash raw \<notin> avoid \<Longrightarrow>
    key_step hash avoid db db'"
| rotate_step: "rotate_api_key hash token broker kid u db = (db', Inr (k, raw)) \<Longrightarrow> hash raw \<notin> avoid \<Longrightarrow>
    key_step hash avoid db db'"
| expire_step: "expire_api_key kid until u db = (db', res) \<Longrightarrow> key_step hash avoid db db'"
| revoke_step: "revoke_api_key broker kid u db = (db', res2) \<Longrightarrow> key_step hash avoid db db'"
| delete_step: "delete_api_key kid u db = (db', res2) \<Longrightarrow> key_step hash avoid db db'"
| scopes_step: "update_api_key_scopes kid ss u db = (db', res) \<Longrightarrow> key_step hash avoid db db'"
| user_step: "get_api_key_user hash a origin now db = (db', res3) \<Longrightarrow> key_step hash avoid db db'"
| action_step: "get_action_auth hash s a origin now db = (db', res4) \<Longrightarrow> key_step hash avoid db db'"
| other_step: "api_keys db' = api_keys db \<Longrightarrow> next_key db' = next_key db \<Longrightarrow> key_step hash avoid db db'"

definition keys_ok :: "tenant_db \<Rightarrow> bool" where
  "keys_ok db = (distinct (map key_id (api_keys db)) \<and> distinct (map hashed_key (api_keys db)) \<and>
     (\<forall>k \<in> set (api_keys db). key_id k < next_key db))"

definition no_keys :: "tenant_db \<Rightarrow> bool" where
  "no_keys db = (api_keys db = [])"

text \<open>Every row with the hash is revoked.\<close>

definition dead :: "string \<Rightarrow> tenant_db \<Rightarrow> bool" where
  "dead h db = (\<forall>k \<in> set (api_keys db). hashed_key k = h \<longrightarrow> revoked k)"

section \<open>What the steps do to the keys\<close>

text \<open>A change of the key table: nothing, one row rewritten under its identity, rows removed, or
  one row added, perhaps with the old one rewritten.\<close>

definition rewritten :: "tenant_db \<Rightarrow> tenant_db \<Rightarrow> bool" where
  "rewritten db db' = (\<exists>k k'. k \<in> set (api_keys db) \<and> key_id k' = key_id k \<and> hashed_key k' = hashed_key k \<and>
     (revoked k \<longrightarrow> revoked k') \<and> api_keys db' = put_row key_id k' (api_keys db) \<and> next_key db' = next_key db)"

definition adds :: "string set \<Rightarrow> tenant_db \<Rightarrow> tenant_db \<Rightarrow> bool" where
  "adds avoid db db' = (\<exists>k. key_id k = next_key db \<and> hashed_key k \<notin> avoid \<and> hashed_key k \<notin> hashed_key ` set (api_keys db) \<and>
     api_keys db' = api_keys db @ [k] \<and> next_key db' = Suc (next_key db))"

lemma key_by_idD: "key_by_id db i = Some k \<Longrightarrow> k \<in> set (api_keys db) \<and> key_id k = i"
  by (auto simp: key_by_id_def dest: row_by_SomeD)

lemma key_by_hashD: "key_by_hash h db = Some k \<Longrightarrow> k \<in> set (api_keys db) \<and> hashed_key k = h"
  by (auto simp: key_by_hash_def dest: row_by_SomeD)

lemma accessD: "require_api_key_access kid u db = Inr k \<Longrightarrow> k \<in> set (api_keys db) \<and> kid = Some (key_id k) \<and> key_by_id db (key_id k) = Some k"
  by (auto simp: require_api_key_access_def dest: key_by_idD split: option.splits if_splits)

lemma key_or_errorD: "key_or_error kid db = Inr k \<Longrightarrow> k \<in> set (api_keys db) \<and> kid = Some (key_id k) \<and> key_by_id db (key_id k) = Some k"
  by (auto simp: key_or_error_def dest: key_by_idD split: option.splits)

lemma enqueue_frames [simp]:
  "api_keys (enqueue broker ev u n db) = api_keys db" "next_key (enqueue broker ev u n db) = next_key db"
  "users (enqueue broker ev u n db) = users db"
  by (simp_all add: enqueue_def)

lemma save_key_frames [simp]:
  "api_keys (save_key k db) = put_row key_id k (api_keys db)" "next_key (save_key k db) = next_key db"
  "users (save_key k db) = users db"
  by (simp_all add: save_key_def)

lemma insert_keyD:
  assumes "insert_key k db = Some (db', k')"
  shows "k' = k\<lparr>key_id := next_key db\<rparr> \<and> api_keys db' = api_keys db @ [k'] \<and> next_key db' = Suc (next_key db) \<and>
    users db' = users db \<and> hashed_key k \<notin> hashed_key ` set (api_keys db)"
  using assms by (auto simp: insert_key_def key_by_hash_def row_by_None_iff Let_def split: if_splits)

lemma create_keyD:
  assumes "create_api_key hash token broker body u db = (db', Inr (k, raw))"
  shows "adds (- {hash raw}) db db' \<and> key_by_hash (hash raw) db = None"
  using assms insert_keyD
  by (fastforce simp: create_api_key_def create_key_def adds_def new_key_def Let_def key_by_hash_def row_by_None_iff
      split: sum.splits prod.splits option.splits)

lemma rotate_keyD:
  assumes "rotate_api_key hash token broker kid u db = (db', Inr (k, raw))"
  shows "\<exists>old. key_by_id db (key_id old) = Some old \<and> kid = Some (key_id old) \<and> \<not> revoked old \<and>
    k = (rotated hash raw old)\<lparr>key_id := next_key db\<rparr> \<and> hash raw \<notin> hashed_key ` set (api_keys db) \<and>
    api_keys db' = put_row key_id (old\<lparr>revoked := True\<rparr>) (api_keys db @ [k]) \<and> next_key db' = Suc (next_key db) \<and>
    users db' = users db"
proof -
  from assms have "\<exists>db1. rotate_key hash token kid db = (db1, Inr (k, raw)) \<and>
      api_keys db' = api_keys db1 \<and> next_key db' = next_key db1 \<and> users db' = users db1"
    by (auto simp: rotate_api_key_def split: sum.splits prod.splits)
  then obtain db1 where r: "rotate_key hash token kid db = (db1, Inr (k, raw))"
    and db': "api_keys db' = api_keys db1" "next_key db' = next_key db1" "users db' = users db1" by blast
  from r obtain old where old: "key_or_error kid db = Inr old" "\<not> revoked old"
    by (auto simp: rotate_key_def split: sum.splits if_splits)
  from r old obtain db2 where ins: "insert_key (rotated hash raw old) db = Some (db2, k)"
    and db1: "db1 = save_key (old\<lparr>revoked := True\<rparr>) db2"
    by (auto simp: rotate_key_def Let_def split: option.splits)
  have "hashed_key (rotated hash raw old) = hash raw" by (simp add: rotated_def)
  with insert_keyD [OF ins] key_or_errorD [OF old(1)] old(2) db' db1 show ?thesis
    by (intro exI [of _ old]) auto
qed

lemma rewrittenI:
  "k \<in> set (api_keys db) \<Longrightarrow> key_id k' = key_id k \<Longrightarrow> hashed_key k' = hashed_key k \<Longrightarrow> (revoked k \<longrightarrow> revoked k') \<Longrightarrow>
     rewritten db (save_key k' db)"
  unfolding rewritten_def by (intro exI [of _ k] exI [of _ k']) simp

lemma rewritten_use: "key_by_hash h db = Some k \<Longrightarrow> rewritten db (count_use k db)"
  unfolding count_use_def by (rule rewrittenI [of k]) (auto dest: key_by_hashD)

lemma rewritten_enqueue: "rewritten db db' \<Longrightarrow> rewritten db (enqueue broker ev u n db')"
  by (simp add: rewritten_def)

text \<open>The cases of a step, for the invariants below.\<close>

lemma key_step_cases:
  assumes "key_step hash avoid db db'"
  shows "(api_keys db' = api_keys db \<and> next_key db' = next_key db) \<or> rewritten db db' \<or> adds avoid db db' \<or>
    (\<exists>P. api_keys db' = filter P (api_keys db) \<and> next_key db' = next_key db) \<or>
    (\<exists>db1. adds avoid db db1 \<and> rewritten db1 db')"
  using assms
proof cases
  case (create_step token broker body u k raw)
  then show ?thesis using create_keyD [OF create_step(1)] by (auto simp: adds_def)
next
  case (rotate_step token broker kid u k raw)
  from rotate_keyD [OF rotate_step(1)] obtain old where old: "key_by_id db (key_id old) = Some old"
    "k = (rotated hash raw old)\<lparr>key_id := next_key db\<rparr>" "hash raw \<notin> hashed_key ` set (api_keys db)"
    "api_keys db' = put_row key_id (old\<lparr>revoked := True\<rparr>) (api_keys db @ [k])" "next_key db' = Suc (next_key db)"
    by blast
  let ?db1 = "db\<lparr>api_keys := api_keys db @ [k], next_key := Suc (next_key db)\<rparr>"
  have "adds avoid db ?db1" unfolding adds_def
    by (intro exI [of _ k]) (use old(2,3) rotate_step(2) in \<open>simp add: rotated_def\<close>)
  moreover have "rewritten ?db1 db'" unfolding rewritten_def
    by (intro exI [of _ old] exI [of _ "old\<lparr>revoked := True\<rparr>"]) (use old(4,5) key_by_idD [OF old(1)] in simp)
  ultimately show ?thesis by blast
next
  case (expire_step kid until u res)
  then show ?thesis
    by (cases "require_api_key_access kid u db")
      (auto simp: expire_api_key_def dest!: accessD intro: rewrittenI)
next
  case (revoke_step broker kid u res)
  show ?thesis
  proof (cases "\<exists>k0 k. require_api_key_access kid u db = Inr k0 \<and> key_or_error kid db = Inr k")
    case True
    then obtain k0 k where "require_api_key_access kid u db = Inr k0" and k: "key_or_error kid db = Inr k" by blast
    then have "db' = enqueue broker ''api_key.revoked'' u (key_name k) (save_key (k\<lparr>revoked := True\<rparr>) db)"
      using revoke_step by (auto simp: revoke_api_key_def revoke_key_def)
    moreover have "rewritten db (save_key (k\<lparr>revoked := True\<rparr>) db)"
      using key_or_errorD [OF k] by (intro rewrittenI [of k]) auto
    ultimately show ?thesis by (auto intro: rewritten_enqueue)
  next
    case False
    with revoke_step have "db' = db"
      by (auto simp: revoke_api_key_def revoke_key_def split: sum.splits)
    then show ?thesis by simp
  qed
next
  case (delete_step kid u res)
  then show ?thesis
    by (cases "require_api_key_access kid u db") (auto simp: delete_api_key_def)
next
  case (scopes_step kid ss u res)
  then show ?thesis
    by (cases "require_api_key_access kid u db"; cases "key_or_error kid db")
      (auto simp: update_api_key_scopes_def update_scopes_def dest!: key_or_errorD intro: rewrittenI)
next
  case (user_step a origin now res)
  then have "db' = db \<or> (\<exists>h k. key_by_hash h db = Some k \<and> db' = count_use k db)"
    unfolding get_api_key_user_def by (auto split: option.splits if_splits)
  then show ?thesis by (auto intro: rewritten_use)
next
  case (action_step s a origin now res)
  then have "db' = db \<or> (\<exists>h k. key_by_hash h db = Some k \<and> db' = count_use k db)"
    unfolding get_action_auth_def by (simp split: option.splits if_split_asm) blast+
  then show ?thesis by (auto intro: rewritten_use)
qed auto

section \<open>Invariants\<close>

lemma rewritten_ok: "rewritten db db' \<Longrightarrow> keys_ok db \<Longrightarrow> keys_ok db'"
proof -
  assume "rewritten db db'" and ok: "keys_ok db"
  then obtain k k' where k: "k \<in> set (api_keys db)" "key_id k' = key_id k" "hashed_key k' = hashed_key k"
    "api_keys db' = put_row key_id k' (api_keys db)" "next_key db' = next_key db"
    by (auto simp: rewritten_def)
  have "map hashed_key (api_keys db') = map hashed_key (api_keys db)"
    unfolding k(4)
  proof (rule map_other_put_row)
    fix x assume "x \<in> set (api_keys db)" "key_id x = key_id k'"
    then have "x = k" using ok k(1,2) unfolding keys_ok_def distinct_map by (auto dest: inj_onD)
    then show "hashed_key x = hashed_key k'" using k(3) by simp
  qed
  moreover have "map key_id (api_keys db') = map key_id (api_keys db)" by (simp add: k(4))
  moreover have "\<forall>x \<in> set (api_keys db'). key_id x < next_key db'"
    using ok k by (auto simp: keys_ok_def dest!: in_put_rowD)
  ultimately show "keys_ok db'" using ok by (simp add: keys_ok_def)
qed

lemma adds_ok: "adds avoid db db' \<Longrightarrow> keys_ok db \<Longrightarrow> keys_ok db'"
  unfolding adds_def keys_ok_def by (fastforce simp: less_Suc_eq)

lemma key_step_ok: "keys_ok db \<Longrightarrow> key_step hash avoid db db' \<Longrightarrow> keys_ok db'"
  apply (drule key_step_cases)
  apply (elim conjE disjE exE)
      apply (simp add: keys_ok_def)
     apply (blast intro: rewritten_ok)
    apply (blast intro: adds_ok)
   apply (simp add: keys_ok_def distinct_map_filter)
  apply (blast intro: rewritten_ok adds_ok)
  done

lemma rewritten_dead: "rewritten db db' \<Longrightarrow> keys_ok db \<Longrightarrow> dead h db \<Longrightarrow> dead h db'"
  by (auto simp: rewritten_def dead_def dest!: in_put_rowD)

lemma adds_dead: "adds avoid db db' \<Longrightarrow> h \<in> avoid \<Longrightarrow> dead h db \<Longrightarrow> dead h db'"
  by (auto simp: adds_def dead_def)

lemma key_step_dead: "keys_ok db \<and> dead h db \<Longrightarrow> key_step hash {h} db db' \<Longrightarrow> keys_ok db' \<and> dead h db'"
  apply (rule conjI)
   apply (blast intro: key_step_ok)
  apply (drule key_step_cases)
  apply (elim conjE disjE exE)
      apply (simp add: dead_def)
     apply (blast intro: rewritten_dead)
    apply (blast intro: adds_dead)
   apply (simp add: dead_def)
  apply (blast intro: rewritten_dead adds_dead adds_ok)
  done

interpretation keys: invariant_system "key_step hash {}" no_keys keys_ok
  by unfold_locales (simp add: no_keys_def keys_ok_def, rule key_step_ok)

interpretation dead_keys: invariant_system "key_step hash {h}" "\<lambda>db. keys_ok db \<and> dead h db" "\<lambda>db. keys_ok db \<and> dead h db"
  by unfold_locales (assumption, rule key_step_dead)

lemma steps_reached: "step\<^sup>*\<^sup>* s t \<Longrightarrow> init s \<Longrightarrow> reached step init t"
  by (induction rule: rtranclp_induct) (auto intro: reached.intros)

end
