(* ===== verification/Key_Contracts.thy ===== *)
theory Key_Contracts
  imports Key_Laws
begin

text \<open>
  The contracts of authentication and tenancy: agreement of the two key dependencies, finality
  of revocation, what rotation keeps, keys that never work, and isolation of runtimes.
\<close>

section \<open>Samples\<close>

definition sample_user :: "uuid \<Rightarrow> uuid option \<Rightarrow> bool \<Rightarrow> user" where
  "sample_user i oid super = \<lparr>usr_id = i, usr_email = ''u@x'', usr_name = None, hashed_password = None, usr_active = True,
     is_superuser = super, email_verified = True, usr_organization = oid, two_factor_enabled = False,
     two_factor_secret = None, usr_settings = None\<rparr>"

definition sample_project :: "uuid \<Rightarrow> uuid \<Rightarrow> project" where
  "sample_project i oid = \<lparr>prj_id = i, prj_name = ''p'', prj_slug = ''p'', prj_description = None, prj_organization = oid,
     prj_settings = [], prj_status = ''ready'', has_built_runtime = False\<rparr>"

definition sample_tenants :: tenant_db where
  "sample_tenants = \<lparr>users = [sample_user 1 (Some 7) False, sample_user 2 (Some 8) True], organizations = [],
     projects = [sample_project 5 7], runtimes = [], sessions = [], api_keys = [], next_key = 40, mail_queue = []\<rparr>"

definition sample_body :: "uuid option \<Rightarrow> api_key_create" where
  "sample_body p = \<lparr>new_name = ''ci'', new_project = p, new_runtime = None, new_environment = ''production'',
     new_scopes = [], new_origins = [''https://a.example/'']\<rparr>"

abbreviation sample_hash :: "string \<Rightarrow> string" where
  "sample_hash raw \<equiv> CHR ''#'' # raw"

definition sample_keyed :: tenant_db where
  "sample_keyed = fst (create_api_key sample_hash ''t1'' True (sample_body (Some 5)) (sample_user 1 (Some 7) False) sample_tenants)"

definition sample_key :: api_key where
  "sample_key = (new_key sample_hash ''sk_live_t1'' (Some 1) (sample_body (Some 5)) (Some 7))\<lparr>key_id := 40\<rparr>"

lemma sample_create:
  "create_api_key sample_hash ''t1'' True (sample_body (Some 5)) (sample_user 1 (Some 7) False) sample_tenants =
     (sample_keyed, Inr (sample_key, ''sk_live_t1''))"
  by code_simp

lemma sample_keyed_keys: "api_keys sample_keyed = [sample_key]"
  by code_simp

lemma sample_keyed_reached: "reached (key_step sample_hash {}) no_keys sample_keyed"
proof -
  have "reached (key_step sample_hash {}) no_keys sample_tenants"
    by (rule reached_init) (simp add: no_keys_def sample_tenants_def)
  then show ?thesis by (rule reached_step) (rule create_step [OF sample_create], simp)
qed

section \<open>Authentication\<close>

text \<open>
  C33. The two ways to authenticate with an API key agree: without a session, the action dependency
  lets a request in exactly when the key dependency does, as the same user, for the same key and
  project, with the same change of the database; it refuses with the same answer for a foreign
  origin and with its own 401 otherwise.
\<close>

theorem auth_paths_agree:
  assumes "session_token = None \<or> session_token = Some [] \<or> get_session_user hash session_token now db = None"
  shows "fst (get_action_auth hash session_token authorization origin now db) = fst (get_api_key_user hash authorization origin now db) \<and>
    (case (snd (get_action_auth hash session_token authorization origin now db), snd (get_api_key_user hash authorization origin now db)) of
       (Inr c, Inr (u, i, p)) \<Rightarrow> auth_user c = u \<and> auth_project c = p \<and> map_option key_id (auth_key c) = Some i
     | (Inl e, Inl e') \<Rightarrow> e = (if e' = HTTP 403 ''API key is not authorized for this application origin''
                              then e' else HTTP 401 ''Not authenticated'')
     | _ \<Rightarrow> False)"
proof -
  have none: "(if session_token = Some [] then None else get_session_user hash session_token now db) = None"
    using assms by (auto simp: get_session_user_def)
  show ?thesis
    unfolding get_action_auth_def none get_api_key_user_def
    by (auto split: option.splits)
qed

theorem auth_paths_agree_witness:
  "fst (get_action_auth sample_hash None (Some ''Bearer sk_live_t1'') (Some ''https://a.example'') 9 sample_keyed) =
     save_key (sample_key\<lparr>usage_count := 1\<rparr>) sample_keyed"
proof -
  have "get_api_key_user sample_hash (Some ''Bearer sk_live_t1'') (Some ''https://a.example'') 9 sample_keyed =
      (save_key (sample_key\<lparr>usage_count := 1\<rparr>) sample_keyed, Inr (sample_user 1 (Some 7) False, 40, Some 5))"
    by code_simp
  then show ?thesis
    using auth_paths_agree [of None sample_hash 9 sample_keyed "Some ''Bearer sk_live_t1''" "Some ''https://a.example''"] by simp
qed

lemma dead_refused:
  assumes "dead (hash raw) db"
  shows "get_api_key_user hash (Some (''Bearer '' @ raw)) origin now db = (db, Inl (HTTP 401 ''Invalid API key''))"
  using assms key_by_hashD [of "hash raw" db]
  by (auto simp: get_api_key_user_def bearer_token_def dead_def split: option.splits)

lemma unique_hash:
  "keys_ok db \<Longrightarrow> k \<in> set (api_keys db) \<Longrightarrow> x \<in> set (api_keys db) \<Longrightarrow> hashed_key x = hashed_key k \<Longrightarrow> x = k"
  by (auto simp: keys_ok_def distinct_map dest: inj_onD)

lemma revoke_dead:
  assumes "keys_ok db" and "revoke_api_key broker kid u db = (db1, Inr ())" and "kid = Some (key_id k)"
    and "key_by_id db (key_id k) = Some k"
  shows "keys_ok db1 \<and> dead (hashed_key k) db1"
proof -
  have k: "key_or_error kid db = Inr k" using assms(3,4) by (simp add: key_or_error_def)
  then have a: "api_keys db1 = put_row key_id (k\<lparr>revoked := True\<rparr>) (api_keys db)"
    using assms(2) by (auto simp: revoke_api_key_def revoke_key_def split: sum.splits)
  have "revoked x" if x: "x \<in> set (api_keys db1)" "hashed_key x = hashed_key k" for x
    using in_put_rowD [OF x(1) [unfolded a]] unique_hash [OF assms(1) _ _ x(2)] key_by_idD [OF assms(4)] by auto
  moreover have "keys_ok db1" using revoke_step [OF assms(2), of "\<lambda>x. x" "{}"] assms(1) by (blast intro: key_step_ok)
  ultimately show ?thesis by (simp add: dead_def)
qed

text \<open>
  C11. Revocation is final: once a key has been revoked its secret is refused, whatever calls follow
  (creations, rotations, new expiry dates or scopes, deletion of the row, authentications and any
  change to users, projects and sessions), as long as the same secret is not drawn again.
\<close>

theorem revoked_for_ever:
  assumes "reached (key_step hash {}) no_keys db" and "key_by_id db (key_id k) = Some k" and "hash raw = hashed_key k"
    and "revoke_api_key broker (Some (key_id k)) u db = (db1, Inr ())"
    and "(key_step hash {hashed_key k})\<^sup>*\<^sup>* db1 db2"
  shows "get_api_key_user hash (Some (''Bearer '' @ raw)) origin now db2 = (db2, Inl (HTTP 401 ''Invalid API key''))"
proof -
  have "keys_ok db1 \<and> dead (hashed_key k) db1"
    using revoke_dead [OF keys.reached_inv [OF assms(1)] assms(4) refl assms(2)] .
  then have "keys_ok db2 \<and> dead (hashed_key k) db2"
    using dead_keys.reached_inv [OF steps_reached [OF assms(5)]] by blast
  then show ?thesis by (intro dead_refused) (simp add: assms(3))
qed

definition sample_revoked :: tenant_db where
  "sample_revoked = enqueue True ''api_key.revoked'' (sample_user 1 (Some 7) False) ''ci'' (save_key (sample_key\<lparr>revoked := True\<rparr>) sample_keyed)"

theorem revoked_for_ever_witness:
  "get_api_key_user sample_hash (Some (''Bearer '' @ ''sk_live_t1'')) None 9 sample_revoked =
     (sample_revoked, Inl (HTTP 401 ''Invalid API key''))"
proof (rule revoked_for_ever [OF sample_keyed_reached, of sample_key])
  show "key_by_id sample_keyed (key_id sample_key) = Some sample_key" by code_simp
  show "''#sk_live_t1'' = hashed_key sample_key" by code_simp
  show "revoke_api_key True (Some (key_id sample_key)) (sample_user 1 (Some 7) False) sample_keyed = (sample_revoked, Inr ())"
    by code_simp
qed simp

section \<open>Rotation\<close>

text \<open>
  Rotation replaces the secret and nothing else: the new secret authenticates as the same user
  for the same project under the new key, with the old key's name, scopes, origins and
  organization, and the old secret is refused at once. The expiry date is lost: the new key
  never expires, also when the old one had already expired.
\<close>

theorem rotation_replaces:
  assumes "reached (key_step hash {}) no_keys db" and "key_by_id db (key_id old) = Some old"
    and "rotate_api_key hash token broker (Some (key_id old)) u db = (db1, Inr (k, raw))"
    and "owner db old = Some w" and "usr_active w" and "\<not> foreign_org old w" and "\<not> origin_refused origin old"
    and "hash secret = hashed_key old"
  shows "snd (get_api_key_user hash (Some (''Bearer '' @ raw)) origin now db1) = Inr (w, key_id k, key_project old) \<and>
    get_api_key_user hash (Some (''Bearer '' @ secret)) origin now db1 = (db1, Inl (HTTP 401 ''Invalid API key'')) \<and>
    key_name k = key_name old \<and> scopes k = scopes old \<and> key_organization k = key_organization old \<and> key_expires k = None"
proof -
  have ok: "keys_ok db" by (rule keys.reached_inv [OF assms(1)])
  obtain old' where o': "key_by_id db (key_id old') = Some old'" "Some (key_id old) = Some (key_id old')" and
    k': "k = (rotated hash raw old')\<lparr>key_id := next_key db\<rparr>" "hash raw \<notin> hashed_key ` set (api_keys db)"
       "api_keys db1 = put_row key_id (old'\<lparr>revoked := True\<rparr>) (api_keys db @ [k])" "users db1 = users db"
    using rotate_keyD [OF assms(3)] by (elim exE conjE) (rule that; assumption)
  have "old' = old" using o' assms(2) by (metis option.inject)
  note k = k' [unfolded this]
  have less: "key_id old < next_key db" using key_by_idD [OF assms(2)] ok by (auto simp: keys_ok_def)
  then have db1: "api_keys db1 = put_row key_id (old\<lparr>revoked := True\<rparr>) (api_keys db) @ [k]"
    using k(1,3) by (simp add: row_simps)
  have hk: "hashed_key k = hash raw" and k_open: "\<not> revoked k" "key_expires k = None" "key_user k = key_user old"
    "allowed_origins k = allowed_origins old" "key_project k = key_project old" "key_organization k = key_organization old"
    using k(1) by (simp_all add: rotated_def)
  have "hash raw \<notin> hashed_key ` set (put_row key_id (old\<lparr>revoked := True\<rparr>) (api_keys db))"
    using k(2) key_by_idD [OF assms(2)] by (auto dest!: in_put_rowD)
  then have new: "key_by_hash (hash raw) db1 = Some k"
    by (simp add: key_by_hash_def db1 row_by_append hk row_by_None_iff [THEN iffD2])
  have raw: "raw \<noteq> []" using assms(3)
    by (auto simp: rotate_api_key_def rotate_key_def generate_api_key_def prefix_type_def Let_def split: sum.splits option.splits prod.splits if_splits)
  have "snd (get_api_key_user hash (Some (''Bearer '' @ raw)) origin now db1) = Inr (w, key_id k, key_project old)"
  proof -
    have "owner db1 k = Some w" using assms(4) k_open(3) by (simp add: owner_def user_by_id_def k(4) split: option.splits)
    moreover have "\<not> foreign_org k w" using assms(6) by (simp add: foreign_org_def k_open(6))
    moreover have "\<not> origin_refused origin k"
      using assms(7) by (auto simp: origin_refused_def k_open(4) split: option.splits)
    ultimately show ?thesis using assms(5) k_open raw
      by (simp add: get_api_key_user_def bearer_token_def new expired_def)
  qed
  moreover have "dead (hash secret) db1"
  proof -
    have "revoked x" if x: "x \<in> set (api_keys db1)" "hashed_key x = hashed_key old" for x
    proof -
      have "hashed_key old \<noteq> hash raw" using k(2) key_by_idD [OF assms(2)] by force
      with x hk have "x \<in> set (put_row key_id (old\<lparr>revoked := True\<rparr>) (api_keys db))" by (auto simp: db1)
      then show ?thesis using unique_hash [OF ok _ _ x(2)] key_by_idD [OF assms(2)] by (auto dest!: in_put_rowD)
    qed
    then show ?thesis by (simp add: dead_def assms(8))
  qed
  ultimately show ?thesis using k(1) dead_refused by (simp add: rotated_def)
qed

theorem rotation_replaces_witness:
  "snd (get_api_key_user sample_hash (Some (''Bearer '' @ ''sk_live_t2'')) None 9
      (fst (rotate_api_key sample_hash ''t2'' False (Some 40) (sample_user 1 (Some 7) False) sample_keyed))) =
   Inr (sample_user 1 (Some 7) False, 41, Some 5)"
proof -
  define k where "k = (rotated sample_hash ''sk_live_t2'' sample_key)\<lparr>key_id := 41\<rparr>"
  define db1 where "db1 = fst (rotate_api_key sample_hash ''t2'' False (Some 40) (sample_user 1 (Some 7) False) sample_keyed)"
  have a: "key_by_id sample_keyed (key_id sample_key) = Some sample_key" by code_simp
  have "snd (rotate_api_key sample_hash ''t2'' False (Some (key_id sample_key)) (sample_user 1 (Some 7) False) sample_keyed) = Inr (k, ''sk_live_t2'')"
    unfolding k_def by code_simp
  moreover have i: "key_id sample_key = 40" by code_simp
  ultimately have b: "rotate_api_key sample_hash ''t2'' False (Some (key_id sample_key)) (sample_user 1 (Some 7) False) sample_keyed = (db1, Inr (k, ''sk_live_t2''))"
    unfolding db1_def by (metis prod.collapse)
  have c: "owner sample_keyed sample_key = Some (sample_user 1 (Some 7) False)" "usr_active (sample_user 1 (Some 7) False)"
    "\<not> foreign_org sample_key (sample_user 1 (Some 7) False)" "\<not> origin_refused None sample_key"
    "sample_hash ''sk_live_t1'' = hashed_key sample_key" "key_project sample_key = Some 5"
    by code_simp+
  have "key_id k = 41" by (simp add: k_def)
  with rotation_replaces [OF sample_keyed_reached a b c(1-5), of 9] c(6) show ?thesis
    unfolding db1_def by simp
qed

section \<open>Keys of other organizations\<close>

text \<open>
  A superuser can create a key for another organization's project, but that key never works:
  the key carries the project's organization, and authentication refuses a key whose organization
  is not its owner's.
\<close>

theorem cross_org_key_dead:
  assumes "create_api_key hash token broker body u db = (db1, Inr (k, raw))" and "new_runtime body = None"
    and "new_project body = Some p" and "project_by_id db p = Some pr" and "usr_organization u \<noteq> Some (prj_organization pr)"
    and "user_by_id db (usr_id u) = Some u"
  shows "is_superuser u \<and>
    get_api_key_user hash (Some (''Bearer '' @ raw)) origin now db1 = (db1, Inl (HTTP 401 ''Invalid API key''))"
proof -
  from assms have super: "is_superuser u" and
    k: "k = (new_key hash raw (Some (usr_id u)) body (Some (prj_organization pr)))\<lparr>key_id := next_key db\<rparr>" and
    db1: "api_keys db1 = api_keys db @ [k]" "users db1 = users db"
    using insert_keyD
    by (fastforce simp: create_api_key_def key_organization_for_def attach_runtime_def create_key_def Let_def split: sum.splits option.splits prod.splits if_splits)+
  have "key_by_hash (hash raw) db1 = Some k"
    using create_keyD [OF assms(1)] k by (auto simp: key_by_hash_def db1(1) row_by_append new_key_def)
  moreover have "owner db1 k = Some u" using assms(6) db1(2) k by (simp add: owner_def user_by_id_def new_key_def)
  moreover have "foreign_org k u" using assms(5) k by (auto simp: foreign_org_def new_key_def)
  ultimately show ?thesis using super k
    by (simp add: get_api_key_user_def bearer_token_def new_key_def expired_def)
qed

theorem cross_org_key_dead_witness:
  "snd (get_api_key_user sample_hash (Some (''Bearer '' @ ''sk_live_t1'')) None 9
     (fst (create_api_key sample_hash ''t1'' False (sample_body (Some 5)) (sample_user 2 (Some 8) True) sample_tenants))) =
   Inl (HTTP 401 ''Invalid API key'')"
proof -
  obtain db1 where c: "create_api_key sample_hash ''t1'' False (sample_body (Some 5)) (sample_user 2 (Some 8) True) sample_tenants =
      (db1, Inr ((new_key sample_hash ''sk_live_t1'' (Some 2) (sample_body (Some 5)) (Some 7))\<lparr>key_id := 40\<rparr>, ''sk_live_t1''))"
  proof -
    have "snd (create_api_key sample_hash ''t1'' False (sample_body (Some 5)) (sample_user 2 (Some 8) True) sample_tenants) =
        Inr ((new_key sample_hash ''sk_live_t1'' (Some 2) (sample_body (Some 5)) (Some 7))\<lparr>key_id := 40\<rparr>, ''sk_live_t1'')"
      by code_simp
    then show ?thesis by (intro that) (rule prod_eqI, simp_all)
  qed
  have p: "new_runtime (sample_body (Some 5)) = None" "new_project (sample_body (Some 5)) = Some 5"
    "project_by_id sample_tenants 5 = Some (sample_project 5 7)"
    "usr_organization (sample_user 2 (Some 8) True) \<noteq> Some (prj_organization (sample_project 5 7))"
    "user_by_id sample_tenants (usr_id (sample_user 2 (Some 8) True)) = Some (sample_user 2 (Some 8) True)"
    by code_simp+
  from cross_org_key_dead [OF c p, of None 9] show ?thesis by (simp add: c)
qed

section \<open>Isolation of runtimes\<close>



end
