(* ===== verification/Secrets.thy ===== *)
theory Secrets
  imports Token_Engine
begin

text \<open>
  \<open>SecretManager\<close> of \<open>app/services/security/secrets.py\<close>: the envelope around AES-GCM and the
  redaction of values for logs. Bytes are \<open>char\<close>s (8 bits); texts are given as their UTF-8 bytes.
  \<open>base64\<close> is the standard library's, with the decoder's treatment of foreign characters and
  padding. AES-GCM (package \<open>cryptography\<close>) is the pair of parameters \<open>seal\<close> and \<open>unseal\<close>; the
  random IV and the master key are arguments.
\<close>

type_synonym bytes = string

section \<open>Base64\<close>

definition sextet_char :: "nat \<Rightarrow> char" where
  "sextet_char n =
     (if n < 26 then char_of (65 + n) else if n < 52 then char_of (71 + n)
      else if n < 62 then char_of (n - 4) else if n = 62 then CHR ''+'' else CHR ''/'')"

definition char_sextet :: "char \<Rightarrow> nat option" where
  "char_sextet c = (let n = of_char c :: nat in
     if 65 \<le> n \<and> n \<le> 90 then Some (n - 65) else if 97 \<le> n \<and> n \<le> 122 then Some (n - 71)
     else if 48 \<le> n \<and> n \<le> 57 then Some (n + 4) else if n = 43 then Some 62 else if n = 47 then Some 63 else None)"

abbreviation val :: "char \<Rightarrow> nat" where
  "val c \<equiv> of_char c"

fun b64encode :: "bytes \<Rightarrow> string" where
  "b64encode [] = []"
| "b64encode [a] = [sextet_char (val a div 4), sextet_char (val a mod 4 * 16), CHR ''='', CHR ''='']"
| "b64encode [a, b] = [sextet_char (val a div 4), sextet_char (val a mod 4 * 16 + val b div 16),
     sextet_char (val b mod 16 * 4), CHR ''='']"
| "b64encode (a # b # c # rest) =
     [sextet_char (val a div 4), sextet_char (val a mod 4 * 16 + val b div 16),
      sextet_char (val b mod 16 * 4 + val c div 64), sextet_char (val c mod 64)] @ b64encode rest"

text \<open>The decoder's loop: position in the quad, pads seen, bits left over. Characters outside the
  alphabet are skipped; a complete pad ends the input; an incomplete quad is the error.\<close>

fun b64loop :: "nat \<Rightarrow> nat \<Rightarrow> nat \<Rightarrow> string \<Rightarrow> bytes option" where
  "b64loop pos pads left [] = (if pos = 0 then Some [] else None)"
| "b64loop pos pads left (c # cs) =
     (if c = CHR ''='' then
        (if 2 \<le> pos \<and> 4 \<le> pos + Suc pads then Some []
         else b64loop pos (if 2 \<le> pos then Suc pads else pads) left cs)
      else case char_sextet c of
        None \<Rightarrow> b64loop pos pads left cs
      | Some s \<Rightarrow>
          if pos = 0 then b64loop 1 0 s cs
          else if pos = 1 then map_option ((#) (char_of (left * 4 + s div 16))) (b64loop 2 0 (s mod 16) cs)
          else if pos = 2 then map_option ((#) (char_of (left * 16 + s div 4))) (b64loop 3 0 (s mod 4) cs)
          else map_option ((#) (char_of (left * 64 + s))) (b64loop 0 0 0 cs))"

definition b64decode :: "string \<Rightarrow> bytes option" where
  "b64decode s = (if list_ex (\<lambda>c. 128 \<le> val c) s then None else b64loop 0 0 0 s)"

lemma val_less: "val c < 256"
  by simp

lemma sextet_val:
  "n < 64 \<Longrightarrow> val (sextet_char n) =
     (if n < 26 then 65 + n else if n < 52 then 71 + n else if n < 62 then n - 4 else if n = 62 then 43 else 47)"
  by (auto simp: sextet_char_def of_char_of)

lemma sextet_back [simp]:
  assumes "n < 64"
  shows "char_sextet (sextet_char n) = Some n" and "sextet_char n \<noteq> CHR ''=''" and "sextet_char n \<noteq> CHR '':''"
proof -
  note v = sextet_val [OF assms]
  show "char_sextet (sextet_char n) = Some n"
    using assms unfolding char_sextet_def Let_def v by auto
  have "val (sextet_char n) \<noteq> 61" "val (sextet_char n) \<noteq> 58" using assms unfolding v by auto
  then show "sextet_char n \<noteq> CHR ''=''" "sextet_char n \<noteq> CHR '':''" by auto
qed

lemma val_bounds [simp]:
  "val a div 4 < 64" "val a mod 4 * 16 < 64" "val a mod 4 * 16 + val b div 16 < 64" "val b mod 16 * 4 < 64"
  "val b mod 16 * 4 + val c div 64 < 64" "val c mod 64 < 64"
  using val_less [of a] val_less [of b] val_less [of c] by linarith+

lemma quad_parts [simp]:
  "val b div 16 div 16 = 0" "val b div 16 mod 16 = val b div 16" "val c div 64 div 4 = 0" "val c div 64 mod 4 = val c div 64"
proof -
  have "val b div 16 < 16" "val c div 64 < 4" using val_less [of b] val_less [of c] by linarith+
  then show "val b div 16 div 16 = 0" "val b div 16 mod 16 = val b div 16" "val c div 64 div 4 = 0" "val c div 64 mod 4 = val c div 64"
    by simp_all
qed

lemma b64_ascii: "c \<in> set (b64encode xs) \<Longrightarrow> val c < 128"
  by (induction xs rule: b64encode.induct) (auto simp: sextet_val)

lemma b64_roundtrip [simp]: "b64decode (b64encode xs) = Some xs"
proof -
  have "\<not> list_ex (\<lambda>c. 128 \<le> val c) (b64encode xs)"
    using b64_ascii by (auto simp: list_ex_iff not_le)
  moreover have "b64loop 0 0 0 (b64encode xs) = Some xs"
    by (induction xs rule: b64encode.induct) simp_all
  ultimately show ?thesis by (simp only: b64decode_def if_False)
qed

lemma b64_no_colon [simp]: "CHR '':'' \<notin> set (b64encode xs)"
  by (induction xs rule: b64encode.induct) (simp_all add: eq_commute [of "CHR '':''"])

section \<open>The envelope\<close>

datatype secret_error = Secret_ValueError string

definition KEY_SIZE :: nat where "KEY_SIZE = 32"
definition TAG_SIZE :: nat where "TAG_SIZE = 16"
definition IV_SIZE :: nat where "IV_SIZE = 12"
definition PREFIX :: string where "PREFIX = ''ENCV1''"

definition normalize_key :: "bytes \<Rightarrow> bytes option \<Rightarrow> secret_error + bytes" where
  "normalize_key master key =
     (case key of
        Some k \<Rightarrow> if length k \<noteq> KEY_SIZE then Inl (Secret_ValueError ''Encryption key must be 32 bytes for AES-256'') else Inr k
      | None \<Rightarrow> Inr master)"

definition encrypt :: "(bytes \<Rightarrow> bytes \<Rightarrow> bytes \<Rightarrow> bytes) \<Rightarrow> bytes \<Rightarrow> bytes \<Rightarrow> bytes option \<Rightarrow> bytes \<Rightarrow> secret_error + string" where
  "encrypt seal master iv key plaintext =
     (case normalize_key master key of
        Inl e \<Rightarrow> Inl e
      | Inr k \<Rightarrow>
         (let box = seal k iv plaintext; n = length box - TAG_SIZE
          in Inr (PREFIX @ '':'' @ b64encode iv @ '':'' @ b64encode (drop n box) @ '':'' @ b64encode (take n box))))"

text \<open>\<open>str.split(":", n)\<close>\<close>

fun split_colon :: "nat \<Rightarrow> string \<Rightarrow> string list" where
  "split_colon 0 s = [s]"
| "split_colon (Suc n) s =
     (case dropWhile (\<lambda>c. c \<noteq> CHR '':'') s of
        [] \<Rightarrow> [s]
      | _ # rest \<Rightarrow> takeWhile (\<lambda>c. c \<noteq> CHR '':'') s # split_colon n rest)"

definition decrypt :: "(bytes \<Rightarrow> bytes \<Rightarrow> bytes \<Rightarrow> bytes option) \<Rightarrow> bytes \<Rightarrow> bytes option \<Rightarrow> string \<Rightarrow> secret_error + bytes" where
  "decrypt unseal master key ciphertext =
     (case normalize_key master key of
        Inl e \<Rightarrow> Inl e
      | Inr k \<Rightarrow>
        if \<not> prefix (PREFIX @ '':'') ciphertext then Inl (Secret_ValueError ''Invalid ciphertext format'')
        else (case split_colon 3 ciphertext of
          [_, iv_b64, tag_b64, ct_b64] \<Rightarrow>
           (case (b64decode iv_b64, b64decode tag_b64, b64decode ct_b64) of
              (Some iv, Some tag, Some ct) \<Rightarrow>
                if length iv \<noteq> IV_SIZE then Inl (Secret_ValueError ''Invalid IV length'')
                else (case unseal k iv (ct @ tag) of
                  None \<Rightarrow> Inl (Secret_ValueError ''Failed to decrypt value'')
                | Some plaintext \<Rightarrow> Inr plaintext)
            | _ \<Rightarrow> Inl (Secret_ValueError ''Invalid ciphertext encoding''))
        | _ \<Rightarrow> Inl (Secret_ValueError ''Invalid ciphertext format'')))"

definition rotate ::
  "(bytes \<Rightarrow> bytes \<Rightarrow> bytes \<Rightarrow> bytes) \<Rightarrow> (bytes \<Rightarrow> bytes \<Rightarrow> bytes \<Rightarrow> bytes option) \<Rightarrow> bytes \<Rightarrow> bytes \<Rightarrow> string \<Rightarrow> bytes \<Rightarrow> bytes \<Rightarrow> secret_error + string" where
  "rotate seal unseal master iv ciphertext old_key new_key =
     (if length old_key \<noteq> KEY_SIZE \<or> length new_key \<noteq> KEY_SIZE
      then Inl (Secret_ValueError ''Encryption keys must be 32 bytes for AES-256'')
      else (case decrypt unseal master (Some old_key) ciphertext of
        Inl e \<Rightarrow> Inl e
      | Inr plaintext \<Rightarrow> encrypt seal master iv (Some new_key) plaintext))"

section \<open>Redaction\<close>

text \<open>\<open>_SENSITIVE_KEYS_RE\<close>: an optional \<open>[_-]\<close> is the two or three words it stands for.\<close>

definition SENSITIVE_WORDS :: "string list" where
  "SENSITIVE_WORDS =
     [''password'', ''secret'', ''token'', ''apikey'', ''api_key'', ''api-key'',
      ''accesstoken'', ''access_token'', ''access-token'', ''refreshtoken'', ''refresh_token'', ''refresh-token'',
      ''credential'', ''authorization'', ''auth_code'', ''private_key'']"

definition sensitive :: "string \<Rightarrow> bool" where
  "sensitive k = list_ex (\<lambda>w. str_contains w (str_lower k)) SENSITIVE_WORDS"

definition token_like :: "string \<Rightarrow> bool" where
  "token_like s = (prefix ''sk_'' s \<or> prefix ''ghp_'' s \<or> prefix ''xoxb-'' s)"

definition REDACTED :: string where "REDACTED = ''[REDACTED]''"

fun redact :: "json \<Rightarrow> json" where
  "redact (JObj kvs) = JObj (map (\<lambda>(k, v). (k, if sensitive k then JStr REDACTED else redact v)) kvs)"
| "redact (JList xs) = JList (map redact xs)"
| "redact (JStr s) = JStr (if token_like s then take 7 s @ ''...'' @ REDACTED else s)"
| "redact v = v"

text \<open>What a log may contain: under a sensitive key the marker only, and of a text that looks
  like a token at most seven characters.\<close>

fun clean :: "json \<Rightarrow> bool" where
  "clean (JObj kvs) = list_all (\<lambda>(k, v). if sensitive k then v = JStr REDACTED else clean v) kvs"
| "clean (JList xs) = list_all clean xs"
| "clean (JStr s) = (\<not> token_like s \<or> (\<exists>p. length p \<le> 7 \<and> s = p @ ''...'' @ REDACTED))"
| "clean v = True"

text \<open>The same keys in the same places.\<close>

fun shape :: "json \<Rightarrow> json" where
  "shape (JObj kvs) = JObj (map (\<lambda>(k, v). (k, if sensitive k then JNull else shape v)) kvs)"
| "shape (JList xs) = JList (map shape xs)"
| "shape v = JNull"

section \<open>Contracts\<close>

text \<open>What the package promises of AES-GCM: opening what was sealed under the same key and
  nonce gives it back, and a sealed box holds a 16-byte tag.\<close>

definition aead :: "(bytes \<Rightarrow> bytes \<Rightarrow> bytes \<Rightarrow> bytes) \<Rightarrow> (bytes \<Rightarrow> bytes \<Rightarrow> bytes \<Rightarrow> bytes option) \<Rightarrow> bool" where
  "aead seal unseal =
     (\<forall>k iv p. length k = KEY_SIZE \<longrightarrow> length iv = IV_SIZE \<longrightarrow>
        unseal k iv (seal k iv p) = Some p \<and> TAG_SIZE \<le> length (seal k iv p))"

lemma colon_free_split:
  "CHR '':'' \<notin> set a \<Longrightarrow> split_colon (Suc n) (a @ '':'' @ rest) = a # split_colon n rest"
proof -
  assume "CHR '':'' \<notin> set a"
  then have "dropWhile (\<lambda>c. c \<noteq> CHR '':'') (a @ '':'' @ rest) = CHR '':'' # rest"
    "takeWhile (\<lambda>c. c \<noteq> CHR '':'') (a @ '':'' @ rest) = a"
    by (induction a) auto
  then show ?thesis by simp
qed

lemma split_envelope:
  "split_colon 3 (PREFIX @ '':'' @ b64encode a @ '':'' @ b64encode b @ '':'' @ b64encode c) =
     [PREFIX, b64encode a, b64encode b, b64encode c]"
proof -
  have "CHR '':'' \<notin> set PREFIX" by (simp add: PREFIX_def)
  then show ?thesis
    by (simp only: numeral_3_eq_3 colon_free_split b64_no_colon not_False_eq_True split_colon.simps(1))
qed

lemma secret_roundtrip_core:
  assumes "aead seal unseal" and "length master = KEY_SIZE" and "length iv = IV_SIZE"
    and "encrypt seal master iv key plaintext = Inr c"
  shows "decrypt unseal master key c = Inr plaintext"
proof -
  from assms(4) obtain k where k: "normalize_key master key = Inr k"
    by (auto simp: encrypt_def split: sum.splits)
  then have "length k = KEY_SIZE" using assms(2) by (auto simp: normalize_key_def split: option.splits if_splits)
  then have "unseal k iv (seal k iv plaintext) = Some plaintext" using assms(1,3) by (simp add: aead_def)
  moreover have "c = PREFIX @ '':'' @ b64encode iv @ '':'' @ b64encode (drop (length (seal k iv plaintext) - TAG_SIZE) (seal k iv plaintext))
      @ '':'' @ b64encode (take (length (seal k iv plaintext) - TAG_SIZE) (seal k iv plaintext))"
    using assms(4) k by (simp add: encrypt_def Let_def)
  ultimately show ?thesis
    using k assms(3) by (simp add: decrypt_def split_envelope del: append.simps split_colon.simps)
qed

text \<open>
  Secrets come back: whatever is encrypted under a key (given or the master key) and a 12-byte
  IV is decrypted to the same text under that key.
\<close>

theorem secret_roundtrip:
  assumes "aead seal unseal" and "length master = KEY_SIZE" and "length iv = IV_SIZE"
    and "encrypt seal master iv key plaintext = Inr c"
  shows "decrypt unseal master key c = Inr plaintext"
  using assms by (rule secret_roundtrip_core)

definition sample_seal :: "bytes \<Rightarrow> bytes \<Rightarrow> bytes \<Rightarrow> bytes" where
  "sample_seal k iv p = p @ replicate 16 CHR ''t''"

definition sample_unseal :: "bytes \<Rightarrow> bytes \<Rightarrow> bytes \<Rightarrow> bytes option" where
  "sample_unseal k iv c = Some (take (length c - 16) c)"

lemma sample_aead: "aead sample_seal sample_unseal"
  by (simp add: aead_def sample_seal_def sample_unseal_def TAG_SIZE_def)

definition sample_master :: bytes where "sample_master = replicate 32 CHR ''k''"
definition sample_iv :: bytes where "sample_iv = replicate 12 CHR ''i''"

theorem secret_roundtrip_witness:
  "\<exists>c. encrypt sample_seal sample_master sample_iv None ''hello'' = Inr c \<and>
     decrypt sample_unseal sample_master None c = Inr ''hello''"
proof -
  obtain c where c: "encrypt sample_seal sample_master sample_iv None ''hello'' = Inr c"
    by (auto simp: encrypt_def normalize_key_def Let_def)
  moreover have "decrypt sample_unseal sample_master None c = Inr ''hello''"
    by (rule secret_roundtrip [OF sample_aead _ _ c])
      (simp_all add: sample_master_def sample_iv_def KEY_SIZE_def IV_SIZE_def)
  ultimately show ?thesis by blast
qed

text \<open>
  Rotation re-encrypts: a ciphertext rotated from an old to a new key decrypts under the new key
  to what it decrypted to under the old one.
\<close>

theorem rotation_reencrypts:
  assumes "aead seal unseal" and "length master = KEY_SIZE" and "length iv = IV_SIZE"
    and "rotate seal unseal master iv c old_key new_key = Inr c'"
  shows "decrypt unseal master (Some new_key) c' = decrypt unseal master (Some old_key) c \<and>
    (\<exists>p. decrypt unseal master (Some old_key) c = Inr p)"
proof -
  from assms(4) obtain p where p: "decrypt unseal master (Some old_key) c = Inr p"
    and e: "encrypt seal master iv (Some new_key) p = Inr c'"
    by (auto simp: rotate_def split: if_splits sum.splits)
  from secret_roundtrip_core [OF assms(1-3) e] p show ?thesis by simp
qed

text \<open>
  Redaction is complete: whatever the value, the redacted one has the same keys in the same
  places, only the marker under every sensitive key, and of every text that looks like a token
  at most seven characters.
\<close>

theorem redaction_complete: "clean (redact v) \<and> shape (redact v) = shape v"
proof (induction v rule: redact.induct)
  case (1 kvs)
  then show ?case by (fastforce simp: list_all_iff)
next
  case (2 xs)
  then show ?case by (simp add: list_all_iff)
next
  case (3 s)
  have "length (take 7 s) \<le> 7" by simp
  then show ?case by auto
qed simp_all

end
