(* ===== verification/Regex.thy ===== *)
theory Regex
  imports Prelude
begin

text \<open>
  The part of Python's \<open>re\<close> that the guardrails use: \<open>re.search\<close> of a pattern built from
  character classes, alternation, concatenation, repetition and options, by derivatives; and its
  meaning, that some substring is in the pattern's language. Characters are code points below
  256; \<open>re.IGNORECASE\<close> compares lower-cased letters.
\<close>

section \<open>Patterns and their language\<close>

datatype rx = Never | Empty | Cls "char \<Rightarrow> bool" | Alt rx rx | Cat rx rx | Star rx

inductive matches :: "rx \<Rightarrow> string \<Rightarrow> bool" where
  m_empty: "matches Empty []"
| m_cls: "P c \<Longrightarrow> matches (Cls P) [c]"
| m_left: "matches r s \<Longrightarrow> matches (Alt r r') s"
| m_right: "matches r' s \<Longrightarrow> matches (Alt r r') s"
| m_cat: "matches r s \<Longrightarrow> matches r' s' \<Longrightarrow> matches (Cat r r') (s @ s')"
| m_nil: "matches (Star r) []"
| m_star: "matches r s \<Longrightarrow> matches (Star r) s' \<Longrightarrow> matches (Star r) (s @ s')"

inductive_cases never_cases: "matches Never s"
inductive_simps matches_empty [simp]: "matches Empty s"
inductive_simps matches_cls [simp]: "matches (Cls P) s"
inductive_simps matches_alt [simp]: "matches (Alt r r') s"
inductive_simps matches_cat: "matches (Cat r r') s"

lemma matches_never [simp]: "\<not> matches Never s"
  by (auto elim: never_cases)

section \<open>The matcher\<close>

fun nullable :: "rx \<Rightarrow> bool" where
  "nullable Never = False"
| "nullable Empty = True"
| "nullable (Cls P) = False"
| "nullable (Alt r r') = (nullable r \<or> nullable r')"
| "nullable (Cat r r') = (nullable r \<and> nullable r')"
| "nullable (Star r) = True"

definition alt :: "rx \<Rightarrow> rx \<Rightarrow> rx" where
  "alt r r' = (case r of Never \<Rightarrow> r' | _ \<Rightarrow> (case r' of Never \<Rightarrow> r | _ \<Rightarrow> Alt r r'))"

definition cat :: "rx \<Rightarrow> rx \<Rightarrow> rx" where
  "cat r r' = (case r of Never \<Rightarrow> Never | Empty \<Rightarrow> r' | _ \<Rightarrow> Cat r r')"

fun deriv :: "char \<Rightarrow> rx \<Rightarrow> rx" where
  "deriv c Never = Never"
| "deriv c Empty = Never"
| "deriv c (Cls P) = (if P c then Empty else Never)"
| "deriv c (Alt r r') = alt (deriv c r) (deriv c r')"
| "deriv c (Cat r r') = (if nullable r then alt (cat (deriv c r) r') (deriv c r') else cat (deriv c r) r')"
| "deriv c (Star r) = cat (deriv c r) (Star r)"

fun match_prefix :: "rx \<Rightarrow> string \<Rightarrow> bool" where
  "match_prefix r [] = nullable r"
| "match_prefix r (c # cs) = (nullable r \<or> match_prefix (deriv c r) cs)"

fun search :: "rx \<Rightarrow> string \<Rightarrow> bool" where
  "search r [] = nullable r"
| "search r (c # cs) = (match_prefix r (c # cs) \<or> search r cs)"

section \<open>Correctness\<close>

lemma nullable_iff: "nullable r = matches r []"
  by (induction r) (auto simp: matches_cat intro: m_nil)

lemma matches_alt_smart [simp]: "matches (alt r r') s = (matches r s \<or> matches r' s)"
  by (auto simp: alt_def split: rx.split)

lemma matches_cat_smart [simp]: "matches (cat r r') s = matches (Cat r r') s"
  by (auto simp: cat_def matches_cat split: rx.split)

lemma cat_Cons:
  "matches (Cat r r') (c # s) =
     ((\<exists>a b. s = a @ b \<and> matches r (c # a) \<and> matches r' b) \<or> (matches r [] \<and> matches r' (c # s)))"
  by (auto simp: matches_cat Cons_eq_append_conv)

lemma star_Cons_split:
  "matches q t \<Longrightarrow> q = Star r \<Longrightarrow> t = c # s \<Longrightarrow> \<exists>a b. s = a @ b \<and> matches r (c # a) \<and> matches (Star r) b"
proof (induction arbitrary: s rule: matches.induct)
  case (m_star r' u u')
  then show ?case by (cases u) auto
qed auto

lemma star_Cons: "matches (Star r) (c # s) = (\<exists>a b. s = a @ b \<and> matches r (c # a) \<and> matches (Star r) b)"
  using star_Cons_split m_star [of r "c # _"] by fastforce

lemma deriv_iff: "matches (deriv c r) s = matches r (c # s)"
proof (induction r arbitrary: s)
  case (Cat r1 r2)
  then show ?case by (auto simp: cat_Cons nullable_iff) (auto simp: matches_cat)
next
  case (Star r)
  then show ?case by (auto simp: star_Cons) (auto simp: matches_cat)
qed auto

lemma match_prefix_iff: "match_prefix r s = (\<exists>a b. s = a @ b \<and> matches r a)"
proof (induction s arbitrary: r)
  case (Cons c s)
  have "(\<exists>a b. c # s = a @ b \<and> matches r a) = (matches r [] \<or> (\<exists>a b. s = a @ b \<and> matches r (c # a)))"
    by (auto simp: Cons_eq_append_conv)
  with Cons show ?case by (simp add: nullable_iff deriv_iff)
qed (simp add: nullable_iff)

text \<open>
  The matcher is correct: \<open>search\<close> answers exactly whether some substring belongs to the
  language of the pattern.
\<close>

theorem search_iff: "search r s = (\<exists>a b c. s = a @ b @ c \<and> matches r b)"
proof (induction s)
  case (Cons x s)
  have "(\<exists>a b c. x # s = a @ b @ c \<and> matches r b) =
      ((\<exists>b c. x # s = b @ c \<and> matches r b) \<or> (\<exists>a b c. s = a @ b @ c \<and> matches r b))"
    by (subst Cons_eq_append_conv) blast
  with Cons show ?case by (simp only: search.simps match_prefix_iff)
qed (simp add: nullable_iff)

section \<open>Pattern syntax\<close>

text \<open>\<open>lit\<close> is a literal under \<open>re.IGNORECASE\<close>, \<open>exactly\<close> without it.\<close>

fun lit :: "string \<Rightarrow> rx" where
  "lit [] = Empty"
| "lit [c] = Cls (\<lambda>x. lower_char x = lower_char c)"
| "lit (c # d # s) = Cat (Cls (\<lambda>x. lower_char x = lower_char c)) (lit (d # s))"

fun exactly :: "string \<Rightarrow> rx" where
  "exactly [] = Empty"
| "exactly [c] = Cls (\<lambda>x. x = c)"
| "exactly (c # d # s) = Cat (Cls (\<lambda>x. x = c)) (exactly (d # s))"

fun seqs :: "rx list \<Rightarrow> rx" where
  "seqs [] = Empty"
| "seqs [r] = r"
| "seqs (r # r' # rs) = Cat r (seqs (r' # rs))"

fun anyof :: "rx list \<Rightarrow> rx" where
  "anyof [] = Never"
| "anyof [r] = r"
| "anyof (r # r' # rs) = Alt r (anyof (r' # rs))"

definition maybe :: "rx \<Rightarrow> rx" where "maybe r = Alt Empty r"
definition some_of :: "rx \<Rightarrow> rx" where "some_of r = Cat r (Star r)"
definition spaces :: rx where "spaces = some_of (Cls is_space)"                   \<comment> \<open>\<open>\s+\<close>\<close>
definition spaces0 :: rx where "spaces0 = Star (Cls is_space)"                    \<comment> \<open>\<open>\s*\<close>\<close>
definition line_part :: rx where "line_part = Star (Cls (\<lambda>c. of_char c \<noteq> (10 :: nat)))"   \<comment> \<open>\<open>.*\<close>\<close>

text \<open>\<open>\w\<close>: \<open>str.isalnum\<close> or the underscore.\<close>

definition is_word :: "char \<Rightarrow> bool" where
  "is_word c = (let n = of_char c :: nat in
     (48 \<le> n \<and> n \<le> 57) \<or> (65 \<le> n \<and> n \<le> 90) \<or> n = 95 \<or> (97 \<le> n \<and> n \<le> 122) \<or>
     n \<in> set [170, 178, 179, 181, 185, 186, 188, 189, 190] \<or> (192 \<le> n \<and> n \<noteq> 215 \<and> n \<noteq> 247))"

definition word_chars :: rx where "word_chars = some_of (Cls is_word)"            \<comment> \<open>\<open>\w+\<close>\<close>

lemma cat_cls [simp]: "matches (Cat (Cls P) r) s = (case s of [] \<Rightarrow> False | c # t \<Rightarrow> P c \<and> matches r t)"
proof (cases s)
  case (Cons c t)
  have "matches (Cat (Cls P) r) (c # t)" if "P c" "matches r t"
    using m_cat [OF m_cls [of P c, OF that(1)] that(2)] by simp
  moreover have "P c \<and> matches r t" if "matches (Cat (Cls P) r) (c # t)"
    using that by (auto simp: matches_cat)
  ultimately show ?thesis using Cons by auto
qed (auto simp: matches_cat)

lemma matches_lit: "matches (lit w) s = (str_lower s = str_lower w)"
  by (induction w arbitrary: s rule: lit.induct) (auto simp: str_lower_def split: list.split)

lemma matches_exactly: "matches (exactly w) s = (s = w)"
  by (induction w arbitrary: s rule: exactly.induct) (auto split: list.split)

lemma matches_star_cls: "matches (Star (Cls P)) s = (\<forall>c \<in> set s. P c)"
proof (induction s)
  case (Cons c s)
  have "matches (Star (Cls P)) (c # s) = (P c \<and> matches (Star (Cls P)) s)"
    by (auto simp: star_Cons)
  with Cons show ?case by simp
qed (simp add: m_nil)

lemma matches_some_cls: "matches (some_of (Cls P)) s = (s \<noteq> [] \<and> (\<forall>c \<in> set s. P c))"
  by (cases s) (auto simp: some_of_def matches_star_cls)

lemma matches_seqs_Cons: "matches r a \<Longrightarrow> matches (seqs (r' # rs)) b \<Longrightarrow> matches (seqs (r # r' # rs)) (a @ b)"
  by (auto intro: m_cat)

lemma matches_maybe: "matches (maybe r) s = (s = [] \<or> matches r s)"
  by (simp add: maybe_def)

end
