(* ===== verification/Action_Guardrails.thy ===== *)
theory Action_Guardrails
  imports Regex Token_Engine
begin

text \<open>
  \<open>app/services/actions/guardrails.py\<close>: which actions are writes and need a confirmation, the
  prompt and argument filters, and the cleaning of outputs.
\<close>

section \<open>Writes\<close>

record action_definition =
  def_name :: string
  def_description :: string
  def_provider :: string
  def_parameters :: "(string \<times> json) list"
  def_permissions :: "string list"
  def_risk :: string

definition WRITE_ACTION_PREFIXES :: "string list" where
  "WRITE_ACTION_PREFIXES =
     [''create'', ''update'', ''delete'', ''remove'', ''send'', ''post'', ''put'', ''patch'',
      ''upload'', ''invite'', ''pin'', ''schedule'', ''trigger'', ''merge'', ''close'',
      ''cancel'', ''archive'', ''revoke'', ''comment'', ''commit'', ''add'', ''modify'',
      ''move'', ''rename'', ''set'', ''write'']"

definition is_write_action :: "string \<Rightarrow> action_definition option \<Rightarrow> bool" where
  "is_write_action action d =
     ((case d of None \<Rightarrow> False
       | Some x \<Rightarrow> ''write'' \<in> set (map str_lower (def_permissions x)) \<or> def_risk x \<in> set [''medium'', ''high'', ''critical'']) \<or>
      list_ex (\<lambda>p. prefix p (str_lower (str_strip action))) WRITE_ACTION_PREFIXES)"

definition requires_action_confirmation :: "string \<Rightarrow> action_definition option \<Rightarrow> bool" where
  "requires_action_confirmation action d = is_write_action action d"

section \<open>Prompts\<close>

definition a_word :: rx where "a_word = seqs [anyof [lit ''a'', lit ''an''], spaces, word_chars]"
definition rules_words :: rx where "rules_words = anyof [lit ''instructions'', lit ''rules'', lit ''guidelines'']"
definition your_all :: rx where "your_all = anyof [lit ''your'', lit ''all'']"

definition INJECTION_PATTERNS :: "rx list" where
  "INJECTION_PATTERNS =
     [seqs [lit ''ignore'', spaces, maybe (seqs [lit ''all'', spaces]), lit ''previous'', spaces, lit ''instructions''],
      seqs [lit ''ignore'', spaces, lit ''the'', spaces, lit ''above''],
      seqs [lit ''forget'', spaces, maybe (seqs [lit ''all'', spaces]), lit ''previous'', spaces, lit ''instructions''],
      seqs [lit ''forget'', spaces, lit ''the'', spaces, lit ''above''],
      seqs [lit ''you'', spaces, lit ''are'', spaces, lit ''now'', spaces, a_word],
      seqs [lit ''pretend'', spaces, lit ''you'', spaces, lit ''are'', spaces, a_word],
      seqs [lit ''act'', spaces, lit ''as'', spaces, a_word],
      seqs [lit ''roleplay'', spaces, lit ''as'', spaces, a_word],
      seqs [lit ''simulate'', spaces, lit ''being'', spaces, a_word],
      seqs [lit ''new'', spaces, lit ''instruction'', maybe (lit ''s''), spaces0, lit '':''],
      seqs [lit ''system'', spaces0, lit '':'', spaces0, lit ''you'', spaces, lit ''are''],
      anyof [lit ''[system]'', lit ''[user]'', lit ''[assistant]''],
      anyof [lit ''<|im_start|>'', lit ''<|im_end|>''],
      seqs [lit ''###'', spaces0, anyof [lit ''instruction'', lit ''system'', lit ''prompt'']],
      seqs [lit ''override'', spaces, your_all, spaces, rules_words],
      seqs [lit ''disregard'', spaces, your_all, spaces, rules_words],
      seqs [lit ''bypass'', spaces, your_all, spaces, rules_words]]"

definition validate_prompt :: "string \<Rightarrow> bool \<times> string option" where
  "validate_prompt prompt =
     (if str_strip prompt = [] then (False, Some ''Prompt cannot be empty'')
      else if 10000 < length prompt then (False, Some ''Prompt exceeds maximum length of 10000 characters'')
      else if list_ex (\<lambda>p. search p prompt) INJECTION_PATTERNS then (False, Some ''Potentially unsafe prompt detected'')
      else (True, None))"

section \<open>Arguments and outputs\<close>

definition SUSPICIOUS_PATTERNS :: "rx list" where
  "SUSPICIOUS_PATTERNS =
     [exactly ''../'', exactly (''..'' @ [CHR 0x5C]), seqs [exactly ''$('', line_part, exactly '')''],
      seqs [exactly [CHR 0x60], line_part, exactly [CHR 0x60]], exactly ''|'', exactly '';'', exactly ''&'', exactly ''${'']"

fun validate_action_arguments :: "(string \<times> json) list \<Rightarrow> bool \<times> string option" where
  "validate_action_arguments [] = (True, None)"
| "validate_action_arguments ((key, v) # rest) =
     (case v of
        JStr s \<Rightarrow>
          if list_ex (\<lambda>p. search p s) SUSPICIOUS_PATTERNS
          then (False, Some (''Suspicious characters in argument '' @ key))
          else validate_action_arguments rest
      | _ \<Rightarrow> validate_action_arguments rest)"

fun sanitize_output :: "json \<Rightarrow> json" where
  "sanitize_output (JStr s) = JStr (filter (\<lambda>c. of_char c \<noteq> (0 :: nat)) s)"
| "sanitize_output (JObj kvs) = JObj (map (\<lambda>(k, v). (k, sanitize_output v)) kvs)"
| "sanitize_output (JList xs) = JList (map sanitize_output xs)"
| "sanitize_output v = v"

section \<open>What the filters guarantee\<close>

lemma validate_arguments_iff:
  "fst (validate_action_arguments args) = (\<forall>(k, v) \<in> set args. \<forall>s. v = JStr s \<longrightarrow> \<not> list_ex (\<lambda>p. search p s) SUSPICIOUS_PATTERNS)"
  by (induction args rule: validate_action_arguments.induct) (auto split: json.split)

text \<open>
  The shell filter: arguments pass exactly when no text value at the top level contains a parent
  path, a pipe, a semicolon, an ampersand, a variable or command substitution or a pair of
  backquotes on one line. Values nested in lists or objects are not looked at.
\<close>

theorem arguments_filtered:
  "fst (validate_action_arguments args) =
   (\<not> (\<exists>k s. (k, JStr s) \<in> set args \<and>
      (sublist ''../'' s \<or> sublist (''..'' @ [CHR 0x5C]) s \<or> (\<exists>a m b. s = a @ ''$('' @ m @ '')'' @ b \<and> CHR 0x0A \<notin> set m) \<or>
       (\<exists>a m b. s = a @ [CHR 0x60] @ m @ [CHR 0x60] @ b \<and> CHR 0x0A \<notin> set m) \<or>
       sublist ''|'' s \<or> sublist '';'' s \<or> sublist ''&'' s \<or> sublist ''${'' s)))"
proof -
  have nl: "(of_char c \<noteq> (10 :: nat)) = (c \<noteq> CHR 0x0A)" for c :: char
  proof -
    have "(of_char c = (10 :: nat)) = (of_char c = (of_char (CHR 0x0A) :: nat))" by simp
    then show ?thesis by (simp del: of_char_Char)
  qed
  have exact: "search (exactly w) s = sublist w s" for w s
    by (auto simp: search_iff matches_exactly sublist_def)
  have two: "search (seqs [exactly w, line_part, exactly w']) s =
      (\<exists>a m b. s = a @ w @ m @ w' @ b \<and> CHR 0x0A \<notin> set m)" for w w' s
  proof -
    have "matches (seqs [exactly w, line_part, exactly w']) t = (\<exists>m. t = w @ m @ w' \<and> CHR 0x0A \<notin> set m)" for t
      unfolding seqs.simps matches_cat line_part_def matches_star_cls matches_exactly nl by auto
    then show ?thesis unfolding search_iff
      by (metis append.assoc)
  qed
  have ex: "list_ex P (x # xs) = (P x \<or> list_ex P xs)" "list_ex P [] = False" for P :: "rx \<Rightarrow> bool" and x xs
    by simp_all
  have "list_ex (\<lambda>p. search p s) SUSPICIOUS_PATTERNS =
      (sublist ''../'' s \<or> sublist (''..'' @ [CHR 0x5C]) s \<or> (\<exists>a m b. s = a @ ''$('' @ m @ '')'' @ b \<and> CHR 0x0A \<notin> set m) \<or>
       (\<exists>a m b. s = a @ [CHR 0x60] @ m @ [CHR 0x60] @ b \<and> CHR 0x0A \<notin> set m) \<or>
       sublist ''|'' s \<or> sublist '';'' s \<or> sublist ''&'' s \<or> sublist ''${'' s)" for s
    by (simp only: SUSPICIOUS_PATTERNS_def ex exact two simp_thms)
  moreover have "(\<forall>(k, v) \<in> set args. \<forall>s. v = JStr s \<longrightarrow> \<not> Q s) = (\<not> (\<exists>k s. (k, JStr s) \<in> set args \<and> Q s))" for Q
    by blast
  ultimately show ?thesis by (simp only: validate_arguments_iff)
qed

lemma search_inside: "matches r b \<Longrightarrow> search r (a @ b @ c)"
  by (auto simp: search_iff)

definition blank :: "string \<Rightarrow> bool" where
  "blank s = (s \<noteq> [] \<and> list_all is_space s)"

lemma matches_spaces: "blank s \<Longrightarrow> matches spaces s"
  by (simp add: spaces_def matches_some_cls blank_def list_all_iff)

text \<open>
  The injection filter cannot be dodged by case or spacing: a prompt with the words "ignore
  (all) previous instructions", in any case, separated by any blanks and inside any text, is
  rejected.
\<close>

theorem ignore_previous_rejected:
  assumes "str_lower w1 = ''ignore''" and "str_lower w2 = ''all''" and "str_lower w3 = ''previous''"
    and "str_lower w4 = ''instructions''" and "blank b1" and "blank b2" and "blank b3"
  shows "fst (validate_prompt (before @ w1 @ b1 @ w2 @ b2 @ w3 @ b3 @ w4 @ after)) = False \<and>
    fst (validate_prompt (before @ w1 @ b1 @ w3 @ b3 @ w4 @ after)) = False"
proof -
  let ?p = "seqs [lit ''ignore'', spaces, maybe (seqs [lit ''all'', spaces]), lit ''previous'', spaces, lit ''instructions'']"
  have low: "str_lower ''ignore'' = ''ignore''" "str_lower ''all'' = ''all''" "str_lower ''previous'' = ''previous''"
    "str_lower ''instructions'' = ''instructions''" by code_simp+
  have l: "matches (lit ''ignore'') w1" "matches (lit ''all'') w2" "matches (lit ''previous'') w3" "matches (lit ''instructions'') w4"
    using assms(1-4) by (simp_all only: matches_lit low)
  have b: "matches spaces b1" "matches spaces b2" "matches spaces b3" using assms(5-7) by (simp_all only: matches_spaces)
  have m: "matches (maybe (seqs [lit ''all'', spaces])) (w2 @ b2)" "matches (maybe (seqs [lit ''all'', spaces])) []"
    using m_cat [OF l(2) b(2)] by (simp_all only: matches_maybe seqs.simps simp_thms)
  have long: "matches ?p (w1 @ b1 @ (w2 @ b2) @ w3 @ b3 @ w4)"
    unfolding seqs.simps by (intro m_cat l b m [unfolded seqs.simps])
  have short: "matches ?p (w1 @ b1 @ [] @ w3 @ b3 @ w4)"
    unfolding seqs.simps by (intro m_cat l b m [unfolded seqs.simps])
  note search_inside [OF long, of before after, unfolded append.assoc]
    and search_inside [OF short, of before after, unfolded append.assoc append_Nil]
  moreover have "fst (validate_prompt t) = False" if "search ?p t" for t
    using that by (simp add: validate_prompt_def INJECTION_PATTERNS_def del: lit.simps seqs.simps)
  ultimately show ?thesis by blast
qed

theorem ignore_previous_rejected_witness:
  "fst (validate_prompt (''please '' @ ''IGNORE'' @ '' '' @ ''All'' @ ''  '' @ ''Previous'' @ '' '' @ ''instructions'' @ ''!'')) = False"
proof -
  have "str_lower ''IGNORE'' = ''ignore''" "str_lower ''All'' = ''all''" "str_lower ''Previous'' = ''previous''"
    "str_lower ''instructions'' = ''instructions''" "blank '' ''" "blank ''  ''" by code_simp+
  from ignore_previous_rejected [OF this(1-5,6,5), of "''please ''" "''!''"] show ?thesis by (rule conjunct1)
qed

end
