(* ===== verification/OAuth.thy ===== *)
theory OAuth
  imports Token_Engine
begin

text \<open>
  \<open>OAuthService\<close> of \<open>app/services/oauth/service.py\<close>. Rows are read into objects: a session keeps
  one object per row (its identity map, and with \<open>expire_on_commit=False\<close> a loaded object is not
  read again), and the class-level caches hold objects across sessions. The model has the tables,
  the store of objects by session and row, and the two caches. Encryption (\<open>enc\<close>, \<open>dec\<close>), the
  token endpoint (\<open>post\<close>) and the user-info endpoint (\<open>fetch\<close>) are parameters, random values are
  arguments.
\<close>

section \<open>State\<close>

record oauth_provider =
  op_id :: uuid
  op_name :: string
  op_display :: string
  op_client_id :: string
  op_client_secret :: string
  op_auth_url :: string
  op_token_url :: string
  op_scopes :: "string list"
  op_enabled :: bool

record oauth_connection =
  oc_id :: uuid
  oc_user :: uuid
  oc_project :: uuid
  oc_provider :: uuid
  oc_access :: string
  oc_refresh :: "string option"
  oc_expires :: "instant option"
  oc_scope :: "string option"
  oc_status :: string
  oc_metadata :: "(string \<times> json) list"

record oauth_state =
  os_provider :: string
  os_state :: string
  os_verifier :: string
  os_user :: "uuid option"
  os_project :: "uuid option"
  os_redirect :: "string option"
  os_purpose :: string
  os_display :: "string option"
  os_source :: "(string \<times> json) list"
  os_expires :: instant

type_synonym obj = "nat \<times> uuid"   \<comment> \<open>session, primary key\<close>

record oauth_db =
  oauth_providers :: "oauth_provider list"
  oauth_connections :: "oauth_connection list"
  oauth_states :: "oauth_state list"
  next_connection :: uuid
  objects :: "obj \<Rightarrow> oauth_connection option"
  provider_cache :: "(string \<times> oauth_provider) list"
  connection_cache :: "(string \<times> obj \<times> string) list"

datatype oauth_error = OAuthError string | OAuth_IntegrityError | OAuth_TypeError

type_synonym 'a oauth_outcome = "oauth_db \<times> (oauth_error + 'a)"

definition connection_by_id :: "oauth_db \<Rightarrow> uuid \<Rightarrow> oauth_connection option" where
  "connection_by_id db i = row_by oc_id i (oauth_connections db)"

definition save_connection :: "oauth_connection \<Rightarrow> oauth_db \<Rightarrow> oauth_db" where
  "save_connection c db = db\<lparr>oauth_connections := put_row oc_id c (oauth_connections db)\<rparr>"

interpretation connection_repo: repository connection_by_id save_connection oc_id
  by unfold_locales
    (auto simp: connection_by_id_def save_connection_def row_by_put_row dest: row_by_SomeD)

text \<open>A query in session \<open>s\<close> that returned the row: the session's object, created if new.\<close>

definition load_row :: "nat \<Rightarrow> oauth_connection \<Rightarrow> oauth_db \<Rightarrow> oauth_db \<times> obj" where
  "load_row s c db =
     (case objects db (s, oc_id c) of
        Some _ \<Rightarrow> (db, (s, oc_id c))
      | None \<Rightarrow> (db\<lparr>objects := (objects db)((s, oc_id c) := Some c)\<rparr>, (s, oc_id c)))"

text \<open>\<open>repository.update\<close>: the attributes of the object and the columns written.\<close>

definition update_object :: "obj \<Rightarrow> (oauth_connection \<Rightarrow> oauth_connection) \<Rightarrow> oauth_db \<Rightarrow> oauth_db" where
  "update_object x f db =
     (case (objects db x, connection_by_id db (snd x)) of
        (Some c, Some row) \<Rightarrow> (save_connection (f row) db)\<lparr>objects := (objects db)(x := Some (f c))\<rparr>
      | _ \<Rightarrow> db)"

section \<open>Providers and authorization\<close>

definition get_provider :: "string \<Rightarrow> oauth_db \<Rightarrow> oauth_db \<times> oauth_provider option" where
  "get_provider name db =
     (case map_of (provider_cache db) name of
        Some p \<Rightarrow> (db, Some p)
      | None \<Rightarrow>
         (case find (\<lambda>p. op_name p = name \<and> op_enabled p) (oauth_providers db) of
            None \<Rightarrow> (db, None)
          | Some p \<Rightarrow> (db\<lparr>provider_cache := (name, p) # provider_cache db\<rparr>, Some p)))"

definition list_providers :: "oauth_db \<Rightarrow> oauth_provider list" where
  "list_providers db = filter op_enabled (oauth_providers db)"

text \<open>\<open>" ".join(scopes)\<close>\<close>

fun joined_scopes :: "string list \<Rightarrow> string" where
  "joined_scopes [] = []"
| "joined_scopes [x] = x"
| "joined_scopes (x # y # xs) = x @ '' '' @ joined_scopes (y # xs)"

definition TEN_MINUTES :: int where "TEN_MINUTES = 600000000"

text \<open>\<open>code\<close> is the base64url SHA-256 of the verifier; the result is the query of the redirect and
  the state.\<close>

definition authorize ::
  "(string \<Rightarrow> string) \<Rightarrow> string \<Rightarrow> string \<Rightarrow> string \<Rightarrow> string \<Rightarrow> uuid \<Rightarrow> uuid option \<Rightarrow> string \<Rightarrow> string option \<Rightarrow>
   (string \<times> json) list \<Rightarrow> instant \<Rightarrow> oauth_db \<Rightarrow> (string \<times> (string \<times> string) list \<times> string) oauth_outcome" where
  "authorize code app_url state verifier name u project purpose display src now db =
     (let (db1, po) = get_provider name db in
      case po of
        None \<Rightarrow> (db1, Inl (OAuthError (''OAuth provider '' @ name @ '' is not configured on this environment'')))
      | Some p \<Rightarrow>
         (let redirect = app_url @ ''/api/v1/oauth/'' @ name @ ''/callback'';
              st = \<lparr>os_provider = name, os_state = state, os_verifier = verifier, os_user = Some u, os_project = project,
                    os_redirect = Some redirect, os_purpose = purpose, os_display = display, os_source = src,
                    os_expires = now + TEN_MINUTES\<rparr>
          in if row_by os_state state (oauth_states db1) \<noteq> None then (db1, Inl OAuth_IntegrityError)
             else (db1\<lparr>oauth_states := oauth_states db1 @ [st]\<rparr>,
                   Inr (op_auth_url p,
                        [(''client_id'', op_client_id p), (''redirect_uri'', redirect), (''response_type'', ''code''),
                         (''scope'', joined_scopes (op_scopes p)),
                         (''state'', state), (''code_challenge'', code verifier), (''code_challenge_method'', ''S256'')],
                        state))))"

section \<open>The callback\<close>

definition validate_state :: "string \<Rightarrow> string \<Rightarrow> instant \<Rightarrow> oauth_db \<Rightarrow> oauth_error + oauth_state" where
  "validate_state name state now db =
     (case find (\<lambda>s. os_provider s = name \<and> os_state s = state \<and> now < os_expires s) (oauth_states db) of
        None \<Rightarrow> Inl (OAuthError ''Invalid or expired state'')
      | Some s \<Rightarrow> Inr s)"

text \<open>A response of the token endpoint: the status, the text, and the fields that OAuth 2.0
  gives an access token response; an absent field is \<open>None\<close>.\<close>

record token_response =
  resp_status :: int
  resp_text :: string
  resp_access :: "string option"
  resp_refresh :: "string option"
  resp_expires_in :: "int option"
  resp_scope :: "string option"

definition nonempty :: "string option \<Rightarrow> string option" where
  "nonempty t = (if t = Some [] then None else t)"

text \<open>\<open>if expires_in\<close>: absent and zero leave no expiry.\<close>

definition expiry_of :: "token_response \<Rightarrow> instant \<Rightarrow> instant option" where
  "expiry_of resp now =
     (case resp_expires_in resp of None \<Rightarrow> None | Some n \<Rightarrow> if n = 0 then None else Some (now + n * 1000000))"

definition new_connection ::
  "(string \<Rightarrow> string) \<Rightarrow> oauth_state \<Rightarrow> oauth_provider \<Rightarrow> uuid \<Rightarrow> uuid \<Rightarrow> string \<Rightarrow> token_response \<Rightarrow> json \<Rightarrow> instant \<Rightarrow> uuid \<Rightarrow> oauth_connection" where
  "new_connection enc st p u pid access resp info now i =
     \<lparr>oc_id = i, oc_user = u, oc_project = pid, oc_provider = op_id p, oc_access = enc access,
      oc_refresh = map_option enc (nonempty (resp_refresh resp)), oc_expires = expiry_of resp now,
      oc_scope = resp_scope resp, oc_status = ''active'', oc_metadata = [(''user_info'', info)]\<rparr>"

definition redirect_of :: "string \<Rightarrow> string \<Rightarrow> oauth_state \<Rightarrow> string" where
  "redirect_of app_url name st =
     (case nonempty (os_redirect st) of Some r \<Rightarrow> r | None \<Rightarrow> app_url @ ''/api/v1/oauth/'' @ name @ ''/callback'')"

text \<open>The user and project columns are not null: a state without either is the IntegrityError.\<close>

definition callback ::
  "(string \<Rightarrow> string) \<Rightarrow> (string \<Rightarrow> string) \<Rightarrow> (string \<Rightarrow> (string \<times> string) list \<Rightarrow> token_response) \<Rightarrow> (string \<Rightarrow> string \<Rightarrow> json) \<Rightarrow> string \<Rightarrow>
   string \<Rightarrow> string \<Rightarrow> string \<Rightarrow> uuid option \<Rightarrow> uuid option \<Rightarrow> instant \<Rightarrow> oauth_db \<Rightarrow> oauth_connection oauth_outcome" where
  "callback enc dec post fetch app_url name code state project_id expected_user now db =
     (case validate_state name state now db of
        Inl e \<Rightarrow> (db, Inl e)
      | Inr st \<Rightarrow>
        if expected_user \<noteq> None \<and> os_user st \<noteq> expected_user
        then (db, Inl (OAuthError ''OAuth state does not belong to the current user''))
        else if project_id \<noteq> None \<and> os_project st \<noteq> project_id
        then (db, Inl (OAuthError ''OAuth project does not match the authorization request''))
        else (let (db1, po) = get_provider name db in
          case po of
            None \<Rightarrow> (db1, Inl (OAuthError (''Provider '' @ name @ '' not found'')))
          | Some p \<Rightarrow>
             (let resp = post (op_token_url p)
                    [(''grant_type'', ''authorization_code''), (''client_id'', op_client_id p),
                     (''client_secret'', dec (op_client_secret p)), (''code'', code),
                     (''redirect_uri'', redirect_of app_url name st),
                     (''code_verifier'', os_verifier st)]
              in if resp_status resp \<noteq> 200
                 then (db1, Inl (OAuthError (''Token exchange failed: '' @ int_text (resp_status resp) @ '' '' @ resp_text resp)))
                 else (case nonempty (resp_access resp) of
                   None \<Rightarrow> (db1, Inl (OAuthError ''No access token in response''))
                 | Some access \<Rightarrow>
                    (case (os_user st, (case project_id of Some q \<Rightarrow> Some q | None \<Rightarrow> os_project st)) of
                       (Some u, Some pid) \<Rightarrow>
                         (let c = new_connection enc st p u pid access resp (fetch name access) now (next_connection db1);
                              db2 = db1\<lparr>oauth_connections := oauth_connections db1 @ [c], next_connection := Suc (next_connection db1),
                                        oauth_states := filter (\<lambda>s. os_state s \<noteq> os_state st) (oauth_states db1)\<rparr>
                          in (db2, Inr c))
                     | _ \<Rightarrow> (db1, Inl OAuth_IntegrityError))))))"

section \<open>Connections\<close>

definition get_connection_cached ::
  "(string \<Rightarrow> string) \<Rightarrow> nat \<Rightarrow> string \<Rightarrow> (oauth_connection \<Rightarrow> bool) \<Rightarrow> oauth_db \<Rightarrow> oauth_db \<times> obj option" where
  "get_connection_cached dec s key P db =
     (case map_of (connection_cache db) key of
        Some (x, _) \<Rightarrow> (db, Some x)
      | None \<Rightarrow>
         (case find P (oauth_connections db) of
            None \<Rightarrow> (db, None)
          | Some row \<Rightarrow>
             (let (db1, x) = load_row s row db;
                  token = (case objects db1 x of Some c \<Rightarrow> (if oc_access c = [] then [] else dec (oc_access c)) | None \<Rightarrow> [])
              in (db1\<lparr>connection_cache := (key, x, token) # connection_cache db1\<rparr>, Some x))))"

definition user_key :: "uuid \<Rightarrow> string \<Rightarrow> string" where
  "user_key u name = ''user:'' @ nat_text u @ '':'' @ name"

definition project_key :: "uuid \<Rightarrow> string \<Rightarrow> string" where
  "project_key p name = ''project:'' @ nat_text p @ '':'' @ name"

definition get_connection_by_provider :: "(string \<Rightarrow> string) \<Rightarrow> nat \<Rightarrow> uuid \<Rightarrow> string \<Rightarrow> oauth_db \<Rightarrow> oauth_db \<times> obj option" where
  "get_connection_by_provider dec s u name db =
     (let (db1, po) = get_provider name db in
      case po of
        None \<Rightarrow> (db1, None)
      | Some p \<Rightarrow> get_connection_cached dec s (user_key u name)
          (\<lambda>c. oc_user c = u \<and> oc_provider c = op_id p \<and> oc_status c = ''active'') db1)"

definition get_connection_by_project :: "(string \<Rightarrow> string) \<Rightarrow> nat \<Rightarrow> uuid \<Rightarrow> string \<Rightarrow> oauth_db \<Rightarrow> oauth_db \<times> obj option" where
  "get_connection_by_project dec s pid name db =
     (let (db1, po) = get_provider name db in
      case po of
        None \<Rightarrow> (db1, None)
      | Some p \<Rightarrow> get_connection_cached dec s (project_key pid name)
          (\<lambda>c. oc_project c = pid \<and> oc_provider c = op_id p \<and> oc_status c = ''active'') db1)"

definition get_connection :: "nat \<Rightarrow> uuid \<Rightarrow> oauth_db \<Rightarrow> oauth_db \<times> obj option" where
  "get_connection s i db =
     (case connection_by_id db i of
        None \<Rightarrow> (db, None)
      | Some row \<Rightarrow> (let (db1, x) = load_row s row db in (db1, Some x)))"

definition invalidate :: "string \<Rightarrow> oauth_db \<Rightarrow> oauth_db" where
  "invalidate key db = db\<lparr>connection_cache := filter (\<lambda>e. fst e \<noteq> key) (connection_cache db)\<rparr>"

definition refresh_token ::
  "(string \<Rightarrow> string) \<Rightarrow> (string \<Rightarrow> string) \<Rightarrow> (string \<Rightarrow> (string \<times> string) list \<Rightarrow> token_response) \<Rightarrow> nat \<Rightarrow> uuid \<Rightarrow> instant \<Rightarrow> oauth_db \<Rightarrow> instant option oauth_outcome" where
  "refresh_token enc dec post s i now db =
     (let (db1, xo) = get_connection s i db in
      case xo of
        None \<Rightarrow> (db1, Inl (OAuthError ''Connection not found''))
      | Some x \<Rightarrow>
         (case objects db1 x of
            None \<Rightarrow> (db1, Inl (OAuthError ''Connection not found''))
          | Some c \<Rightarrow>
             (case row_by op_id (oc_provider c) (oauth_providers db1) of
                None \<Rightarrow> (db1, Inl (OAuthError ''Provider not found''))
              | Some p \<Rightarrow>
                 (case oc_refresh c of
                    None \<Rightarrow> (db1, Inl (OAuthError ''No refresh token available''))
                  | Some rt \<Rightarrow>
                    if rt = [] then (db1, Inl (OAuthError ''No refresh token available''))
                    else (let db2 = invalidate (project_key (oc_project c) (op_name p)) (invalidate (user_key (oc_user c) (op_name p)) db1);
                          resp = post (op_token_url p)
                            [(''grant_type'', ''refresh_token''), (''client_id'', op_client_id p),
                             (''client_secret'', dec (op_client_secret p)), (''refresh_token'', dec rt)]
                      in if resp_status resp \<noteq> 200
                         then (db2, Inl (OAuthError (''Token refresh failed: '' @ int_text (resp_status resp) @ '' '' @ resp_text resp)))
                         else (case resp_access resp of
                           None \<Rightarrow> (db2, Inl OAuth_TypeError)
                         | Some access \<Rightarrow>
                            (let refresh = (case resp_refresh resp of Some t \<Rightarrow> t | None \<Rightarrow> dec rt);
                                 exp = expiry_of resp now
                             in (update_object x (\<lambda>o'. o'\<lparr>oc_access := enc access, oc_refresh := Some (enc refresh), oc_expires := exp\<rparr>) db2,
                                 Inr exp))))))))"

text \<open>The tokens of all active connections of a project, by provider name; a failing refresh is
  swallowed.\<close>

definition overdue :: "instant \<Rightarrow> oauth_connection \<Rightarrow> bool" where
  "overdue now c = (case oc_expires c of None \<Rightarrow> False | Some t \<Rightarrow> t \<le> now)"

definition put_token :: "string \<Rightarrow> string \<Rightarrow> (string \<times> string) list \<Rightarrow> (string \<times> string) list" where
  "put_token name t ts = (name, t) # filter (\<lambda>e. fst e \<noteq> name) ts"

fun resolve_each ::
  "(string \<Rightarrow> string) \<Rightarrow> (string \<Rightarrow> string) \<Rightarrow> (string \<Rightarrow> (string \<times> string) list \<Rightarrow> token_response) \<Rightarrow> nat \<Rightarrow> instant \<Rightarrow> obj list \<Rightarrow>
   (string \<times> string) list \<Rightarrow> oauth_db \<Rightarrow> oauth_db \<times> (string \<times> string) list" where
  "resolve_each enc dec post s now [] ts db = (db, ts)"
| "resolve_each enc dec post s now (x # xs) ts db =
     (case objects db x of
        None \<Rightarrow> resolve_each enc dec post s now xs ts db
      | Some c \<Rightarrow>
         (case row_by op_id (oc_provider c) (oauth_providers db) of
            None \<Rightarrow> resolve_each enc dec post s now xs ts db
          | Some p \<Rightarrow>
             (let db1 = db\<lparr>provider_cache := (op_name p, p) # filter (\<lambda>e. fst e \<noteq> op_name p) (provider_cache db)\<rparr> in
              if oc_access c = [] then resolve_each enc dec post s now xs ts db1
              else if overdue now c then
                (case refresh_token enc dec post s (oc_id c) now db1 of
                   (db2, Inl e) \<Rightarrow> resolve_each enc dec post s now xs (put_token (op_name p) (dec (oc_access c)) ts) db2
                 | (db2, Inr _) \<Rightarrow>
                     resolve_each enc dec post s now xs
                       (put_token (op_name p) (case objects db2 x of Some c' \<Rightarrow> dec (oc_access c') | None \<Rightarrow> dec (oc_access c)) ts) db2)
              else resolve_each enc dec post s now xs (put_token (op_name p) (dec (oc_access c)) ts) db1)))"

fun load_rows :: "nat \<Rightarrow> oauth_connection list \<Rightarrow> oauth_db \<Rightarrow> oauth_db \<times> obj list" where
  "load_rows s [] db = (db, [])"
| "load_rows s (c # cs) db =
     (let (db1, x) = load_row s c db; (db2, xs) = load_rows s cs db1 in (db2, x # xs))"

definition pre_resolve_project_tokens ::
  "(string \<Rightarrow> string) \<Rightarrow> (string \<Rightarrow> string) \<Rightarrow> (string \<Rightarrow> (string \<times> string) list \<Rightarrow> token_response) \<Rightarrow> nat \<Rightarrow> uuid \<Rightarrow> instant \<Rightarrow> oauth_db \<Rightarrow>
   oauth_db \<times> (string \<times> string) list" where
  "pre_resolve_project_tokens enc dec post s pid now db =
     (let (db1, xs) = load_rows s (filter (\<lambda>c. oc_project c = pid \<and> oc_status c = ''active'') (oauth_connections db)) db
      in resolve_each enc dec post s now xs [] db1)"

definition revoke :: "nat \<Rightarrow> uuid \<Rightarrow> oauth_db \<Rightarrow> unit oauth_outcome" where
  "revoke s i db =
     (let (db1, xo) = get_connection s i db in
      case xo of
        None \<Rightarrow> (db1, Inl (OAuthError ''Connection not found''))
      | Some x \<Rightarrow> (update_object x (\<lambda>c. c\<lparr>oc_status := ''revoked''\<rparr>) db1, Inr ()))"

end
