(* ===== verification/Actions.thy ===== *)
theory Actions
  imports Action_Guardrails OAuth Tenancy
begin

text \<open>
  Running actions on connected systems: \<open>ActionRegistry\<close>, \<open>ActionExecutor\<close> and
  \<open>ConfirmationService\<close> of \<open>app/services/actions\<close> and the handlers of
  \<open>app/api/v1/actions/router.py\<close>. The registered provider classes are the argument \<open>registry\<close>; what
  a provider does on \<open>execute\<close> is its function, and every such call is recorded in \<open>calls\<close> with the
  credentials it was given. \<open>uuid_of\<close> is \<open>uuid.UUID\<close> on text. Texts of exceptions are strings.
\<close>

section \<open>State\<close>

datatype action_status = PENDING | RUNNING | SUCCEEDED | FAILED | CANCELLED

record action_execution =
  ax_id :: uuid
  ax_user :: uuid
  ax_project :: uuid
  ax_provider :: string
  ax_action :: string
  ax_arguments :: "(string \<times> json) list"
  ax_result :: json
  ax_error :: "string option"
  ax_status :: action_status
  ax_duration :: "int option"
  ax_tokens :: int
  ax_cost :: rat

record action_confirmation =
  ac_id :: uuid
  ac_user :: uuid
  ac_project :: uuid
  ac_provider :: string
  ac_action :: string
  ac_arguments :: "(string \<times> json) list"
  ac_risk :: string
  ac_status :: action_status
  ac_expires :: instant
  ac_created :: instant

record provider_call =
  call_provider :: string
  call_action :: string
  call_arguments :: "(string \<times> json) list"
  call_credentials :: "json option"

record action_provider =
  ap_actions :: "action_definition list"
  ap_validate :: "string \<Rightarrow> (string \<times> json) list \<Rightarrow> bool"
  ap_execute :: "json option \<Rightarrow> string \<Rightarrow> (string \<times> json) list \<Rightarrow> (string \<times> json) list \<Rightarrow> string + json"

type_synonym registry = "(string \<times> action_provider) list"

record action_db =
  executions :: "action_execution list"
  confirmations :: "action_confirmation list"
  next_action :: uuid
  oauth :: oauth_db
  tenants :: tenant_db
  calls :: "provider_call list"

record environment =
  env_registry :: registry
  env_enc :: "string \<Rightarrow> string"
  env_dec :: "string \<Rightarrow> string"
  env_post :: "string \<Rightarrow> (string \<times> string) list \<Rightarrow> token_response"
  env_uuid :: "string \<Rightarrow> uuid option"
  env_session :: nat
  env_now :: instant

definition confirmation_by_id :: "action_db \<Rightarrow> uuid \<Rightarrow> action_confirmation option" where
  "confirmation_by_id db i = row_by ac_id i (confirmations db)"

definition save_confirmation :: "action_confirmation \<Rightarrow> action_db \<Rightarrow> action_db" where
  "save_confirmation c db = db\<lparr>confirmations := put_row ac_id c (confirmations db)\<rparr>"

interpretation confirmation_repo: repository confirmation_by_id save_confirmation ac_id
  by unfold_locales
    (auto simp: confirmation_by_id_def save_confirmation_def row_by_put_row dest: row_by_SomeD)

section \<open>The registry\<close>

text \<open>\<open>list_actions(provider)\<close>; an unknown provider is the KeyError that the callers turn into no
  actions.\<close>

definition list_actions :: "registry \<Rightarrow> string \<Rightarrow> action_definition list" where
  "list_actions reg provider = (case map_of reg provider of None \<Rightarrow> [] | Some p \<Rightarrow> ap_actions p)"

definition definition_of :: "registry \<Rightarrow> string \<Rightarrow> string \<Rightarrow> action_definition option" where
  "definition_of reg provider action = find (\<lambda>d. def_name d = action) (list_actions reg provider)"

text \<open>The connection of the project, else of the user; every failure of the look-ups is swallowed.\<close>

definition find_connection :: "environment \<Rightarrow> string \<Rightarrow> json \<Rightarrow> json \<Rightarrow> oauth_db \<Rightarrow> oauth_db \<times> obj option" where
  "find_connection env provider project_text user_text db =
     (let (db1, c1) = (case project_text of
            JStr p \<Rightarrow> (if p = [] then (db, None) else case env_uuid env p of
                None \<Rightarrow> (db, None)
              | Some pid \<Rightarrow> get_connection_by_project (env_dec env) (env_session env) pid provider db)
          | _ \<Rightarrow> (db, None))
      in case c1 of
           Some x \<Rightarrow> (db1, Some x)
         | None \<Rightarrow>
            (case user_text of
               JStr u \<Rightarrow> (if u = [] then (db1, None) else case env_uuid env u of
                   None \<Rightarrow> (db1, None)
                 | Some uid \<Rightarrow> get_connection_by_provider (env_dec env) (env_session env) uid provider db1)
             | _ \<Rightarrow> (db1, None)))"

text \<open>An expired token is refreshed, and the object's token read again.\<close>

definition connection_credentials :: "environment \<Rightarrow> obj \<Rightarrow> oauth_db \<Rightarrow> oauth_db \<times> (string + json)" where
  "connection_credentials env x db =
     (case objects db x of
        None \<Rightarrow> (db, Inr (JObj []))
      | Some c \<Rightarrow>
          if oc_access c = [] then (db, Inr (JObj []))
          else if overdue (env_now env) c then
            (case refresh_token (env_enc env) (env_dec env) (env_post env) (env_session env) (oc_id c) (env_now env) db of
               (db1, Inl (OAuthError m)) \<Rightarrow> (db1, Inl m)
             | (db1, Inl _) \<Rightarrow> (db1, Inl ''TypeError'')
             | (db1, Inr _) \<Rightarrow>
                 (db1, Inr (JObj [(''access_token'', JStr (env_dec env (case objects db1 x of Some c' \<Rightarrow> oc_access c' | None \<Rightarrow> oc_access c)))])))
          else (db, Inr (JObj [(''access_token'', JStr (env_dec env (oc_access c)))])))"

text \<open>\<open>provider in resolved\<close> and \<open>resolved[provider]\<close> for whatever the context holds.\<close>

definition resolved_for :: "string \<Rightarrow> (string \<times> json) list \<Rightarrow> string + json option" where
  "resolved_for provider context =
     (case map_of context ''_resolved_oauth_tokens'' of
        None \<Rightarrow> Inr None
      | Some (JObj kvs) \<Rightarrow>
         (case map_of kvs provider of
            None \<Rightarrow> Inr None
          | Some v \<Rightarrow> Inr (Some v))
      | Some (JStr s) \<Rightarrow> (if str_contains provider s then Inl ''TypeError'' else Inr None)
      | Some (JList xs) \<Rightarrow> (if JStr provider \<in> set xs then Inl ''TypeError'' else Inr None)
      | Some _ \<Rightarrow> Inl ''TypeError'')"

definition registry_execute ::
  "environment \<Rightarrow> string \<Rightarrow> string \<Rightarrow> (string \<times> json) list \<Rightarrow> (string \<times> json) list \<Rightarrow> action_db \<Rightarrow> action_db \<times> (string + json)" where
  "registry_execute env provider action args context db =
     (case map_of (env_registry env) provider of
        None \<Rightarrow> (db, Inl (''Provider '' @ provider @ '' not found''))
      | Some p \<Rightarrow>
         (let (db1, creds) =
            (case resolved_for provider context of
               Inl e \<Rightarrow> (db, Inl e)
             | Inr (Some cs) \<Rightarrow> (db, Inr cs)
             | Inr None \<Rightarrow>
                (let (o1, x) = find_connection env provider (json_get ''project_id'' context) (json_get ''user_id'' context) (oauth db) in
                 case x of
                   None \<Rightarrow> (db\<lparr>oauth := o1\<rparr>, Inr (JObj []))
                 | Some y \<Rightarrow> (let (o2, cs) = connection_credentials env y o1 in (db\<lparr>oauth := o2\<rparr>, cs))))
          in case creds of
               Inl e \<Rightarrow> (db1, Inl e)
             | Inr cs \<Rightarrow>
                 if \<not> ap_validate p action args
                 then (db1, Inl (''Invalid arguments for action '' @ action @ '' on provider '' @ provider))
                 else (db1\<lparr>calls := calls db1 @ [\<lparr>call_provider = provider, call_action = action,
                          call_arguments = args, call_credentials = (if json_true cs then Some cs else None)\<rparr>]\<rparr>,
                       ap_execute p (if json_true cs then Some cs else None) action args context)))"

section \<open>One action\<close>

record action_request =
  rq_project :: string
  rq_provider :: string
  rq_action :: string
  rq_arguments :: "(string \<times> json) list"
  rq_confirm :: bool

record action_response =
  rsp_success :: bool
  rsp_result :: json
  rsp_error :: "string option"
  rsp_execution :: "string option"

text \<open>The row is created from the values of a transient object; the later update writes to that
  object, which belongs to no session and has no id, so the stored row is not changed and the
  response names the execution \<open>None\<close>.\<close>

definition execute_action_request :: "environment \<Rightarrow> action_request \<Rightarrow> uuid \<Rightarrow> uuid \<Rightarrow> action_db \<Rightarrow> action_db \<times> action_response" where
  "execute_action_request env body u pid db =
     (let row = \<lparr>ax_id = next_action db, ax_user = u, ax_project = pid, ax_provider = rq_provider body,
                 ax_action = rq_action body, ax_arguments = rq_arguments body, ax_result = JNull, ax_error = None,
                 ax_status = RUNNING, ax_duration = None, ax_tokens = 0, ax_cost = 0\<rparr>;
          db1 = db\<lparr>executions := executions db @ [row], next_action := Suc (next_action db)\<rparr>
      in case registry_execute env (rq_provider body) (rq_action body) (rq_arguments body)
             [(''user_id'', JStr (nat_text u)), (''project_id'', JStr (nat_text pid)), (''confirmed'', JBool (rq_confirm body))] db1 of
           (db2, Inr result) \<Rightarrow>
             (db2, \<lparr>rsp_success = True, rsp_result = result, rsp_error = None, rsp_execution = Some ''None''\<rparr>)
         | (db2, Inl e) \<Rightarrow>
             (db2, \<lparr>rsp_success = False, rsp_result = JNull, rsp_error = Some e, rsp_execution = Some ''None''\<rparr>))"

section \<open>Confirmations\<close>

definition CONFIRMATION_TIME :: int where "CONFIRMATION_TIME = 600000000"

definition request_confirmation ::
  "uuid \<Rightarrow> uuid \<Rightarrow> string \<Rightarrow> string \<Rightarrow> (string \<times> json) list \<Rightarrow> string \<Rightarrow> instant \<Rightarrow> action_db \<Rightarrow> action_db \<times> action_confirmation" where
  "request_confirmation u pid provider action args risk now db =
     (let c = \<lparr>ac_id = next_action db, ac_user = u, ac_project = pid, ac_provider = provider, ac_action = action,
               ac_arguments = args, ac_risk = risk, ac_status = PENDING, ac_expires = now + CONFIRMATION_TIME,
               ac_created = now\<rparr>
      in (db\<lparr>confirmations := confirmations db @ [c], next_action := Suc (next_action db)\<rparr>, c))"

definition resolve_confirmation :: "action_status \<Rightarrow> uuid \<Rightarrow> instant \<Rightarrow> action_db \<Rightarrow> action_db \<times> (string + action_confirmation)" where
  "resolve_confirmation verdict i now db =
     (case confirmation_by_id db i of
        None \<Rightarrow> (db, Inl ''Confirmation not found'')
      | Some c \<Rightarrow>
          if ac_status c \<noteq> PENDING then (db, Inl ''Confirmation already resolved'')
          else if ac_expires c \<le> now
          then (save_confirmation (c\<lparr>ac_status := CANCELLED\<rparr>) db, Inl ''Confirmation expired'')
          else (save_confirmation (c\<lparr>ac_status := verdict\<rparr>) db, Inr (c\<lparr>ac_status := verdict\<rparr>)))"

definition approve :: "uuid \<Rightarrow> instant \<Rightarrow> action_db \<Rightarrow> action_db \<times> (string + action_confirmation)" where
  "approve = resolve_confirmation SUCCEEDED"

definition reject :: "uuid \<Rightarrow> instant \<Rightarrow> action_db \<Rightarrow> action_db \<times> (string + action_confirmation)" where
  "reject = resolve_confirmation FAILED"

section \<open>Workflows\<close>

record workflow_step =
  ws_provider :: string
  ws_action :: string
  ws_arguments :: "(string \<times> json) list"
  ws_depends :: "string option"
  ws_condition :: "string option"

record workflow_request =
  wf_project :: string
  wf_steps :: "workflow_step list"
  wf_context :: "(string \<times> json) list"
  wf_confirm :: bool

datatype workflow_event =
    Step_Start workflow_step
  | Step_Error workflow_step string
  | Step_Skipped workflow_step string
  | Step_Complete workflow_step json
  | Workflow_Complete

definition set_key :: "string \<Rightarrow> json \<Rightarrow> (string \<times> json) list \<Rightarrow> (string \<times> json) list" where
  "set_key k v kvs = (k, v) # filter (\<lambda>e. fst e \<noteq> k) kvs"

definition given :: "string option \<Rightarrow> bool" where
  "given t = (t \<noteq> None \<and> t \<noteq> Some [])"

fun run_steps ::
  "environment \<Rightarrow> bool \<Rightarrow> workflow_step list \<Rightarrow> (string \<times> json) list \<Rightarrow> action_db \<Rightarrow> action_db \<times> workflow_event list" where
  "run_steps env confirm [] context db = (db, [Workflow_Complete])"
| "run_steps env confirm (st # steps) context db =
     (if given (ws_depends st) \<and> json_get (the (ws_depends st)) context = JNull then
        (let (db1, evs) = run_steps env confirm steps context db
         in (db1, Step_Start st # Step_Error st (''Dependency '' @ the (ws_depends st) @ '' not found'') # evs))
      else if given (ws_condition st) \<and> \<not> json_true (json_get (the (ws_condition st)) context) then
        (let (db1, evs) = run_steps env confirm steps context db
         in (db1, Step_Start st # Step_Skipped st (''Condition '' @ the (ws_condition st) @ '' not met'') # evs))
      else if requires_action_confirmation (ws_action st) (definition_of (env_registry env) (ws_provider st) (ws_action st)) \<and> \<not> confirm then
        (db, [Step_Start st, Step_Error st ''Workflow write operation requires explicit confirmation'', Workflow_Complete])
      else (case registry_execute env (ws_provider st) (ws_action st) (ws_arguments st) context db of
          (db1, Inl e) \<Rightarrow> (db1, [Step_Start st, Step_Error st e, Workflow_Complete])
        | (db1, Inr result) \<Rightarrow>
            (let (db2, evs) = run_steps env confirm steps (set_key (ws_action st) result context) db1
             in (db2, Step_Start st # Step_Complete st result # evs))))"

text \<open>The context of the request, with the caller and the project of the request; the tokens of
  that project are resolved in advance.\<close>

definition workflow_context :: "environment \<Rightarrow> workflow_request \<Rightarrow> uuid \<Rightarrow> action_db \<Rightarrow> action_db \<times> (string \<times> json) list" where
  "workflow_context env body u db =
     (let context = set_key ''confirmed'' (JBool (wf_confirm body)) (set_key ''project_id'' (JStr (wf_project body))
            (set_key ''user_id'' (JStr (nat_text u)) (wf_context body)))
      in if wf_steps body = [] \<or> wf_project body = [] then (db, context)
         else (case env_uuid env (wf_project body) of
             None \<Rightarrow> (db, context)
           | Some pid \<Rightarrow>
              (let (o1, ts) = pre_resolve_project_tokens (env_enc env) (env_dec env) (env_post env) (env_session env) pid (env_now env) (oauth db)
               in (db\<lparr>oauth := o1\<rparr>,
                   set_key ''_resolved_oauth_tokens'' (JObj (map (\<lambda>(n, t). (n, JObj [(''access_token'', JStr t)])) ts)) context))))"

definition execute_workflow :: "environment \<Rightarrow> workflow_request \<Rightarrow> uuid \<Rightarrow> action_db \<Rightarrow> action_db \<times> workflow_event list" where
  "execute_workflow env body u db =
     (let (db1, context) = workflow_context env body u db in run_steps env (wf_confirm body) (wf_steps body) context db1)"

section \<open>The handlers\<close>

text \<open>The caller is the result of \<open>get_action_auth\<close>. \<open>lacks_write\<close>: a key without the write scope.\<close>

definition lacks_write :: "auth_context \<Rightarrow> bool" where
  "lacks_write auth = (case auth_key auth of None \<Rightarrow> False
     | Some k \<Rightarrow> ''write'' \<notin> set (scopes k) \<and> ''*'' \<notin> set (scopes k))"

definition the_project :: "environment \<Rightarrow> auth_context \<Rightarrow> string \<Rightarrow> uuid option" where
  "the_project env auth project_text = (case auth_project auth of Some p \<Rightarrow> Some p | None \<Rightarrow> env_uuid env project_text)"

definition high_risk :: "string \<Rightarrow> bool" where
  "high_risk action = list_ex (\<lambda>d. str_contains d (str_lower action)) [''delete'', ''remove'', ''archive'']"

definition execute_action :: "environment \<Rightarrow> action_request \<Rightarrow> auth_context \<Rightarrow> action_db \<Rightarrow> action_db \<times> action_response reply" where
  "execute_action env body auth db =
     (if lacks_write auth then (db, Inl (HTTP 403 ''API key lacks write scope''))
      else (case validate_action_arguments (rq_arguments body) of
        (False, e) \<Rightarrow> (db, Inl (HTTP 400 (case e of None \<Rightarrow> [] | Some m \<Rightarrow> m)))
      | (True, _) \<Rightarrow>
         (case the_project env auth (rq_project body) of
            None \<Rightarrow> (db, Inl (HTTP 500 ''Internal Server Error''))
          | Some pid \<Rightarrow>
             (case require_project_membership (Some pid) (auth_user auth) (tenants db) of
                Inl e \<Rightarrow> (db, Inl e)
              | Inr project \<Rightarrow>
                  if auth_project auth \<noteq> None \<and> auth_project auth \<noteq> Some (prj_id project)
                  then (db, Inl (HTTP 403 ''API key is not authorized for this project''))
                  else if requires_action_confirmation (rq_action body) (definition_of (env_registry env) (rq_provider body) (rq_action body))
                       \<and> \<not> rq_confirm body
                  then (let (db1, c) = request_confirmation (usr_id (auth_user auth)) pid (rq_provider body) (rq_action body)
                              (rq_arguments body) (if high_risk (rq_action body) then ''high'' else ''medium'') (env_now env) db
                        in (db1, Inr \<lparr>rsp_success = False, rsp_result = JNull, rsp_error = Some ''Confirmation required'',
                                     rsp_execution = Some (nat_text (ac_id c))\<rparr>))
                  else (let (db1, r) = execute_action_request env body (usr_id (auth_user auth)) pid db in (db1, Inr r))))))"

fun first_bad_step :: "workflow_step list \<Rightarrow> string option" where
  "first_bad_step [] = None"
| "first_bad_step (st # steps) =
     (case validate_action_arguments (ws_arguments st) of
        (False, e) \<Rightarrow> Some (case e of None \<Rightarrow> [] | Some m \<Rightarrow> m)
      | (True, _) \<Rightarrow> first_bad_step steps)"

definition write_steps :: "registry \<Rightarrow> workflow_step list \<Rightarrow> string list" where
  "write_steps reg steps =
     map (\<lambda>st. ws_provider st @ ''.'' @ ws_action st)
       (filter (\<lambda>st. requires_action_confirmation (ws_action st) (definition_of reg (ws_provider st) (ws_action st))) steps)"

definition execute_workflow_handler ::
  "environment \<Rightarrow> workflow_request \<Rightarrow> auth_context \<Rightarrow> action_db \<Rightarrow> action_db \<times> workflow_event list reply" where
  "execute_workflow_handler env body auth db =
     (if lacks_write auth then (db, Inl (HTTP 403 ''API key lacks write scope''))
      else (case the_project env auth (wf_project body) of
        None \<Rightarrow> (db, Inl (HTTP 500 ''Internal Server Error''))
      | Some pid \<Rightarrow>
         (case require_project_membership (Some pid) (auth_user auth) (tenants db) of
            Inl e \<Rightarrow> (db, Inl e)
          | Inr project \<Rightarrow>
              if auth_project auth \<noteq> None \<and> auth_project auth \<noteq> Some (prj_id project)
              then (db, Inl (HTTP 403 ''API key is not authorized for this project''))
              else (case first_bad_step (wf_steps body) of
                Some m \<Rightarrow> (db, Inl (HTTP 400 m))
              | None \<Rightarrow>
                  if write_steps (env_registry env) (wf_steps body) \<noteq> [] \<and> \<not> wf_confirm body
                  then (db, Inl (HTTP 409 ''workflow_confirmation_required''))
                  else (let (db1, evs) = execute_workflow env body (usr_id (auth_user auth)) db in (db1, Inr evs))))))"

text \<open>The guards that approval and rejection share.\<close>

definition confirmation_guard :: "uuid option \<Rightarrow> auth_context \<Rightarrow> action_db \<Rightarrow> uuid reply" where
  "confirmation_guard cid auth db =
     (if lacks_write auth then Inl (HTTP 403 ''API key lacks write scope'')
      else (case cid of
        None \<Rightarrow> Inl (HTTP 400 ''badly formed hexadecimal UUID string'')
      | Some i \<Rightarrow>
         (case confirmation_by_id db i of
            None \<Rightarrow> Inl (HTTP 400 ''Confirmation not found'')
          | Some c \<Rightarrow>
              if ac_user c \<noteq> usr_id (auth_user auth) \<and> \<not> is_superuser (auth_user auth)
              then Inl (HTTP 404 ''Confirmation not found'')
              else (case require_project_membership (Some (ac_project c)) (auth_user auth) (tenants db) of
                Inl e \<Rightarrow> Inl e | Inr _ \<Rightarrow> Inr i))))"

definition approve_confirmation :: "environment \<Rightarrow> uuid option \<Rightarrow> auth_context \<Rightarrow> action_db \<Rightarrow> action_db \<times> action_response reply" where
  "approve_confirmation env cid auth db =
     (case confirmation_guard cid auth db of
        Inl e \<Rightarrow> (db, Inl e)
      | Inr i \<Rightarrow>
         (case approve i (env_now env) db of
            (db1, Inl m) \<Rightarrow> (db1, Inl (HTTP 400 m))
          | (db1, Inr c) \<Rightarrow>
             (let (db2, r) = execute_action_request env
                    \<lparr>rq_project = nat_text (ac_project c), rq_provider = ac_provider c, rq_action = ac_action c,
                     rq_arguments = ac_arguments c, rq_confirm = True\<rparr> (usr_id (auth_user auth)) (ac_project c) db1
              in (db2, Inr r))))"

definition reject_confirmation :: "environment \<Rightarrow> uuid option \<Rightarrow> auth_context \<Rightarrow> action_db \<Rightarrow> action_db \<times> unit reply" where
  "reject_confirmation env cid auth db =
     (case confirmation_guard cid auth db of
        Inl e \<Rightarrow> (db, Inl e)
      | Inr i \<Rightarrow>
         (case reject i (env_now env) db of
            (db1, Inl m) \<Rightarrow> (db1, Inl (HTTP 400 m))
          | (db1, Inr c) \<Rightarrow> (db1, Inr ())))"

end
