(* ===== verification/OAuth_Laws.thy ===== *)
theory OAuth_Laws
  imports OAuth
begin

text \<open>
  Contracts of the OAuth service: a callback is bound to its state and consumes it, refreshing
  replaces the token and empties the caches, and a revoked connection that is cached is still
  served.
\<close>

lemma get_provider_frames:
  "get_provider name db = (db', po) \<Longrightarrow> oauth_states db' = oauth_states db \<and> oauth_connections db' = oauth_connections db \<and>
     oauth_providers db' = oauth_providers db \<and> objects db' = objects db \<and> connection_cache db' = connection_cache db \<and>
     next_connection db' = next_connection db"
  by (auto simp: get_provider_def split: option.splits)

lemma load_row_frames:
  "load_row s c db = (db', x) \<Longrightarrow> x = (s, oc_id c) \<and> oauth_states db' = oauth_states db \<and> oauth_connections db' = oauth_connections db \<and>
     oauth_providers db' = oauth_providers db \<and> connection_cache db' = connection_cache db \<and> provider_cache db' = provider_cache db \<and>
     (\<forall>y. y \<noteq> x \<longrightarrow> objects db' y = objects db y) \<and> (\<exists>o'. objects db' x = Some o') \<and>
     (objects db x \<noteq> None \<longrightarrow> objects db' x = objects db x) \<and> (objects db x = None \<longrightarrow> objects db' x = Some c)"
  by (auto simp: load_row_def split: option.splits if_splits)

section \<open>Callbacks\<close>

text \<open>
  C35. A callback is bound to its authorization request and spends it: the new connection belongs to
  the user and project that the (unexpired) state was issued for, under the provider asked for,
  is active and holds the access token of the response; and a second callback with the same
  state, in whatever way, is refused and creates nothing.
\<close>

theorem callback_binds_and_spends:
  assumes "callback enc dec post fetch app_url name code state project_id expected now db = (db', Inr c)"
    and "\<And>t. dec (enc t) = t"
  shows "(\<exists>st \<in> set (oauth_states db). os_provider st = name \<and> os_state st = state \<and> now < os_expires st \<and>
       os_user st = Some (oc_user c) \<and> os_project st = Some (oc_project c)) \<and>
    (expected = None \<or> expected = Some (oc_user c)) \<and> (project_id = None \<or> project_id = Some (oc_project c)) \<and>
    oc_status c = ''active'' \<and> oauth_connections db' = oauth_connections db @ [c] \<and>
    (\<exists>url q. resp_access (post url q) = Some (dec (oc_access c))) \<and>
    callback enc dec post fetch app_url name code2 state project2 expected2 now2 db' =
      (db', Inl (OAuthError ''Invalid or expired state''))"
proof -
  from assms(1) obtain st where st: "validate_state name state now db = Inr st"
    and g: "\<not> (expected \<noteq> None \<and> os_user st \<noteq> expected)" "\<not> (project_id \<noteq> None \<and> os_project st \<noteq> project_id)"
    by (auto simp: callback_def split: sum.splits if_splits)
  obtain db1 p where p: "get_provider name db = (db1, Some p)"
    using assms(1) st g by (auto simp: callback_def Let_def split: prod.splits option.splits)
  note fr = get_provider_frames [OF p]
  obtain url q access u pid info where r: "nonempty (resp_access (post url q)) = Some access" and u: "os_user st = Some u"
    and pid: "(case project_id of Some q \<Rightarrow> Some q | None \<Rightarrow> os_project st) = Some pid"
    and c: "c = new_connection enc st p u pid access (post url q) info now (next_connection db1)"
    and db': "oauth_connections db' = oauth_connections db1 @ [c]"
      "oauth_states db' = filter (\<lambda>s. os_state s \<noteq> os_state st) (oauth_states db1)"
  proof -
    have "\<exists>url q access u pid info. nonempty (resp_access (post url q)) = Some access \<and> os_user st = Some u \<and>
        (case project_id of Some q \<Rightarrow> Some q | None \<Rightarrow> os_project st) = Some pid \<and>
        c = new_connection enc st p u pid access (post url q) info now (next_connection db1) \<and>
        oauth_connections db' = oauth_connections db1 @ [c] \<and>
        oauth_states db' = filter (\<lambda>s. os_state s \<noteq> os_state st) (oauth_states db1)"
      using assms(1) unfolding callback_def st sum.case Let_def p case_prod_conv option.case
      by (simp only: g if_False split: option.splits if_splits) fastforce+
    then show ?thesis using that by blast
  qed
  from st have in_st: "st \<in> set (oauth_states db)" "os_provider st = name" "os_state st = state" "now < os_expires st"
    by (auto simp: validate_state_def dest!: find_SomeD split: option.splits)
  have proj: "os_project st = Some pid" "project_id = None \<or> project_id = Some pid"
    using pid g(2) by (auto split: option.splits)
  have "validate_state name state now2 db' = Inl (OAuthError ''Invalid or expired state'')"
    using in_st by (auto simp: validate_state_def db'(2) find_None_iff split: option.split dest!: find_SomeD)
  then have "callback enc dec post fetch app_url name code2 state project2 expected2 now2 db' =
      (db', Inl (OAuthError ''Invalid or expired state''))"
    by (simp add: callback_def)
  moreover have "resp_access (post url q) = Some (dec (oc_access c))"
    using r assms(2) by (auto simp: c new_connection_def nonempty_def split: if_splits)
  moreover have "oc_user c = u" "oc_project c = pid" "oc_status c = ''active''" by (simp_all add: c new_connection_def)
  ultimately show ?thesis using in_st u proj g(1) db'(1) fr by auto
qed

definition sample_state :: oauth_state where
  "sample_state = \<lparr>os_provider = ''drive'', os_state = ''xyz'', os_verifier = ''v'', os_user = Some 9, os_project = Some 12,
     os_redirect = None, os_purpose = ''tool'', os_display = None, os_source = [], os_expires = 50\<rparr>"

definition sample_drive :: oauth_provider where
  "sample_drive = \<lparr>op_id = 3, op_name = ''drive'', op_display = [], op_client_id = [], op_client_secret = [],
     op_auth_url = [], op_token_url = ''https://t'', op_scopes = [], op_enabled = True\<rparr>"

definition sample_pending :: oauth_db where
  "sample_pending = \<lparr>oauth_providers = [sample_drive], oauth_connections = [], oauth_states = [sample_state],
     next_connection = 6, objects = (\<lambda>_. None), provider_cache = [], connection_cache = []\<rparr>"

definition sample_post :: "string \<Rightarrow> (string \<times> string) list \<Rightarrow> token_response" where
  "sample_post url q = \<lparr>resp_status = 200, resp_text = [], resp_access = Some ''acc'', resp_refresh = Some ''ref'',
     resp_expires_in = Some 3600, resp_scope = None\<rparr>"

definition plain :: "string \<Rightarrow> string" where
  [simp]: "plain t = t"

definition sample_connected :: oauth_db where
  "sample_connected = fst (callback plain plain sample_post (\<lambda>_ _. JNull) ''https://a'' ''drive'' ''code'' ''xyz'' None (Some 9) 10 sample_pending)"

definition sample_connection :: oauth_connection where
  "sample_connection = \<lparr>oc_id = 6, oc_user = 9, oc_project = 12, oc_provider = 3, oc_access = ''acc'', oc_refresh = Some ''ref'',
     oc_expires = Some 3600000010, oc_scope = None, oc_status = ''active'', oc_metadata = [(''user_info'', JNull)]\<rparr>"

lemma sample_callback:
  "callback plain plain sample_post (\<lambda>_ _. JNull) ''https://a'' ''drive'' ''code'' ''xyz'' None (Some 9) 10 sample_pending =
     (sample_connected, Inr sample_connection)"
proof -
  have "snd (callback plain plain sample_post (\<lambda>_ _. JNull) ''https://a'' ''drive'' ''code'' ''xyz'' None (Some 9) 10 sample_pending) =
      Inr sample_connection" by code_simp
  then show ?thesis unfolding sample_connected_def by (metis prod.collapse)
qed

theorem callback_binds_and_spends_witness:
  "oc_user sample_connection = 9 \<and> oc_project sample_connection = 12 \<and>
   callback plain plain sample_post (\<lambda>_ _. JNull) ''https://a'' ''drive'' ''code'' ''xyz'' None None 11 sample_connected =
     (sample_connected, Inl (OAuthError ''Invalid or expired state''))"
  using callback_binds_and_spends [OF sample_callback, of "''code''" None None 11]
  by (auto simp: sample_connection_def)

section \<open>Refreshing and revoking\<close>

lemma invalidate_frames [simp]:
  "oauth_connections (invalidate k db) = oauth_connections db" "objects (invalidate k db) = objects db"
  "oauth_providers (invalidate k db) = oauth_providers db"
  "connection_cache (invalidate k db) = filter (\<lambda>e. fst e \<noteq> k) (connection_cache db)"
  by (simp_all add: invalidate_def)

lemma update_object_frames:
  "connection_cache (update_object x f db) = connection_cache db" "provider_cache (update_object x f db) = provider_cache db"
  "oauth_providers (update_object x f db) = oauth_providers db"
  by (auto simp: update_object_def save_connection_def split: option.split)

text \<open>
  A refresh replaces the token everywhere but in objects other sessions hold: after it the stored
  row has the new token and no look-up of the connection's user or project is answered from the
  cache, so the next one reads the row.
\<close>

theorem refresh_replaces_token:
  assumes "refresh_token enc dec post s i now db = (db', Inr until)" and "connection_by_id db i = Some row"
    and "objects db (s, i) = None" and "row_by op_id (oc_provider row) (oauth_providers db) = Some p"
    and "\<And>t. dec (enc t) = t"
  shows "(\<exists>row' url q. connection_by_id db' i = Some row' \<and> resp_access (post url q) = Some (dec (oc_access row')) \<and>
       oc_expires row' = until \<and> oc_refresh row' \<noteq> None) \<and>
    map_of (connection_cache db') (user_key (oc_user row) (op_name p)) = None \<and>
    map_of (connection_cache db') (project_key (oc_project row) (op_name p)) = None"
proof -
  have i: "oc_id row = i" using assms(2) by (rule connection_repo.get_ident)
  define db1 where "db1 = db\<lparr>objects := (objects db)((s, i) := Some row)\<rparr>"
  have g: "get_connection s i db = (db1, Some (s, i))"
    using assms(2,3) i by (simp add: get_connection_def load_row_def db1_def)
  define db2 where "db2 = invalidate (project_key (oc_project row) (op_name p)) (invalidate (user_key (oc_user row) (op_name p)) db1)"
  have "\<exists>url q access refresh. resp_access (post url q) = Some access \<and>
      db' = update_object (s, i) (\<lambda>o'. o'\<lparr>oc_access := enc access, oc_refresh := Some (enc refresh), oc_expires := until\<rparr>) db2"
    using assms(1,4) unfolding refresh_token_def g Let_def
    by (auto simp: db1_def db2_def split: option.splits if_splits)
  then obtain url q access refresh where r: "resp_access (post url q) = Some access"
    and db': "db' = update_object (s, i) (\<lambda>o'. o'\<lparr>oc_access := enc access, oc_refresh := Some (enc refresh), oc_expires := until\<rparr>) db2"
    by blast
  have row2: "connection_by_id db2 i = Some row" using assms(2) by (simp add: connection_by_id_def db2_def db1_def)
  moreover have "objects db2 (s, i) = Some row" by (simp add: db2_def db1_def)
  ultimately have c: "connection_by_id db' i = Some (row\<lparr>oc_access := enc access, oc_refresh := Some (enc refresh), oc_expires := until\<rparr>)"
    using connection_repo.get_save_same [of db2 "row\<lparr>oc_access := enc access, oc_refresh := Some (enc refresh), oc_expires := until\<rparr>" row] i
    by (simp add: db' update_object_def connection_by_id_def save_connection_def)
  have "map_of (connection_cache db') (user_key (oc_user row) (op_name p)) = None"
    "map_of (connection_cache db') (project_key (oc_project row) (op_name p)) = None"
    by (auto simp: db' update_object_frames db2_def map_of_eq_None_iff)
  then show ?thesis using c r assms(5) by auto
qed

definition sample_refreshed :: oauth_db where
  "sample_refreshed = fst (refresh_token plain plain sample_post 4 6 20 sample_connected)"

theorem refresh_replaces_token_witness:
  "map_of (connection_cache sample_refreshed) (project_key 12 ''drive'') = None"
proof -
  have "snd (refresh_token plain plain sample_post 4 6 20 sample_connected) = Inr (Some 3600000020)" by code_simp
  then have r: "refresh_token plain plain sample_post 4 6 20 sample_connected = (sample_refreshed, Inr (Some 3600000020))"
    unfolding sample_refreshed_def by (metis prod.collapse)
  have c: "connection_by_id sample_connected 6 = Some sample_connection" by code_simp
  have o': "objects sample_connected (4, 6) = None" by code_simp
  have p: "row_by op_id (oc_provider sample_connection) (oauth_providers sample_connected) = Some sample_drive" by code_simp
  from refresh_replaces_token [OF r c o' p] show ?thesis by (simp add: sample_connection_def sample_drive_def)
qed

text \<open>
  A revoked connection is still served: once a project's connection has been looked up, revoking
  it in another session changes the row but neither the cache nor the object in it, so every
  later look-up returns the same object with its token, still marked active.
\<close>

theorem revoked_still_served:
  assumes "get_connection_by_project dec s pid name db = (db1, Some x)" and "fst x \<noteq> s2"
    and "revoke s2 (snd x) db1 = (db2, Inr ())"
  shows "get_connection_by_project dec s3 pid name db2 = (db2, Some x) \<and> objects db2 x = objects db1 x"
proof -
  from assms(1) obtain dbp p where p: "get_provider name db = (dbp, Some p)"
    by (auto simp: get_connection_by_project_def split: prod.splits option.splits)
  have cp: "map_of (provider_cache dbp) name = Some p" using p by (auto simp: get_provider_def split: option.splits)
  have cached: "map_of (provider_cache db1) name = Some p \<and> (\<exists>t. map_of (connection_cache db1) (project_key pid name) = Some (x, t))"
    using assms(1) p cp
    by (auto simp: get_connection_by_project_def get_connection_cached_def Let_def dest!: load_row_frames split: option.splits prod.splits)
  obtain dbr y where g: "get_connection s2 (snd x) db1 = (dbr, Some y)" and db2: "db2 = update_object y (\<lambda>c. c\<lparr>oc_status := ''revoked''\<rparr>) dbr"
    using assms(3) by (auto simp: revoke_def split: prod.splits option.splits)
  from g obtain row where row: "connection_by_id db1 (snd x) = Some row" and l: "load_row s2 row db1 = (dbr, y)"
    by (auto simp: get_connection_def split: option.splits prod.splits)
  note lf = load_row_frames [OF l]
  have "y \<noteq> x" using lf assms(2) by auto
  then have "objects dbr x = objects db1 x" using lf by metis
  with \<open>y \<noteq> x\<close> have "objects db2 x = objects db1 x"
    by (simp add: db2 update_object_def save_connection_def split: option.split)
  moreover have "provider_cache db2 = provider_cache db1" "connection_cache db2 = connection_cache db1"
    using lf by (simp_all add: db2 update_object_frames)
  ultimately show ?thesis using cached
    by (auto simp: get_connection_by_project_def get_connection_cached_def get_provider_def)
qed

definition sample_looked_up :: oauth_db where
  "sample_looked_up = fst (get_connection_by_project plain 1 12 ''drive'' sample_connected)"

theorem revoked_still_served_witness:
  "\<exists>db2. revoke 2 6 sample_looked_up = (db2, Inr ()) \<and> map oc_status (oauth_connections db2) = [''revoked''] \<and>
     get_connection_by_project plain 3 12 ''drive'' db2 = (db2, Some (1, 6)) \<and> map_option oc_status (objects db2 (1, 6)) = Some ''active''"
proof -
  have "snd (get_connection_by_project plain 1 12 ''drive'' sample_connected) = Some (1, 6)" by code_simp
  then have g: "get_connection_by_project plain 1 12 ''drive'' sample_connected = (sample_looked_up, Some (1, 6))"
    unfolding sample_looked_up_def by (metis prod.collapse)
  have "snd (revoke 2 (snd (1 :: nat, 6)) sample_looked_up) = Inr ()" by code_simp
  then have r: "revoke 2 (snd (1 :: nat, 6)) sample_looked_up = (fst (revoke 2 6 sample_looked_up), Inr ())"
    by (metis prod.collapse snd_conv)
  have "map oc_status (oauth_connections (fst (revoke 2 6 sample_looked_up))) = [''revoked'']" by code_simp
  moreover have "map_option oc_status (objects sample_looked_up (1, 6)) = Some ''active''" by code_simp
  moreover have "fst (1 :: nat, 6 :: uuid) \<noteq> 2" by simp
  ultimately show ?thesis using revoked_still_served [OF g _ r, of 3] r by auto
qed

text \<open>A refresh in one session leaves the objects of the others.\<close>

lemma refresh_other_objects:
  assumes "refresh_token enc dec post s i now db = (db', res)" and "fst x \<noteq> s"
  shows "objects db' x = objects db x"
proof -
  obtain db1 xo where g: "get_connection s i db = (db1, xo)" by fastforce
  have o1: "objects db1 x = objects db x" and y: "\<And>y. xo = Some y \<Longrightarrow> y \<noteq> x"
    using g assms(2) by (cases x; auto simp: get_connection_def load_row_def split: option.splits if_splits)+
  have "objects (update_object y f db2) x = objects db2 x" if "y \<noteq> x" for y f db2
    using that by (simp add: update_object_def save_connection_def split: option.split)
  with o1 y show ?thesis using assms(1) unfolding refresh_token_def g Let_def
    by (auto split: option.splits if_splits)
qed

end
