(* ===== verification/Action_Laws.thy ===== *)
theory Action_Laws
  imports Actions OAuth_Laws
begin

text \<open>
  What the action services guarantee: no write without confirmation, one execution per
  confirmation, the shape of a workflow's event stream; and where they fall short: execution
  rows that never leave the running state, and workflows that use another project's tokens.
\<close>

section \<open>Calls of one registry execution\<close>

definition writes :: "registry \<Rightarrow> provider_call \<Rightarrow> bool" where
  "writes reg c = requires_action_confirmation (call_action c) (definition_of reg (call_provider c) (call_action c))"

lemma registry_execute_cases:
  assumes "registry_execute env provider action args ctx db = (db', res)"
  shows "executions db' = executions db \<and> confirmations db' = confirmations db \<and> tenants db' = tenants db \<and>
    next_action db' = next_action db \<and>
    (calls db' = calls db \<or>
     (\<exists>cs. calls db' = calls db @ [\<lparr>call_provider = provider, call_action = action, call_arguments = args, call_credentials = cs\<rparr>]))"
  using assms
  by (auto simp: registry_execute_def Let_def split: option.splits sum.splits prod.splits if_splits)

section \<open>Workflows\<close>

lemma run_steps_calls:
  "run_steps env confirm steps ctx db = (db', evs) \<Longrightarrow> \<not> confirm \<Longrightarrow>
     \<exists>cs. calls db' = calls db @ cs \<and> (\<forall>c \<in> set cs. \<not> writes (env_registry env) c)"
proof (induction env confirm steps ctx db arbitrary: db' evs rule: run_steps.induct)
  case (2 env confirm st steps ctx db)
  let ?dep = "given (ws_depends st) \<and> json_get (the (ws_depends st)) ctx = JNull"
  let ?cond = "given (ws_condition st) \<and> \<not> json_true (json_get (the (ws_condition st)) ctx)"
  let ?w = "requires_action_confirmation (ws_action st) (definition_of (env_registry env) (ws_provider st) (ws_action st))"
  show ?case
  proof (cases "?dep \<or> ?cond \<or> ?w")
    case True
    then show ?thesis
    proof (cases "?dep \<or> ?cond")
      case True
      then show ?thesis using 2(1,2,4,5) by (cases "?dep") (auto split: prod.splits)
    next
      case False
      with \<open>?dep \<or> ?cond \<or> ?w\<close> 2(4,5) have "db' = db" by auto
      then show ?thesis by simp
    qed
  next
    case False
    obtain db1 res where r: "registry_execute env (ws_provider st) (ws_action st) (ws_arguments st) ctx db = (db1, res)"
      by fastforce
    have one: "\<exists>cs. calls db1 = calls db @ cs \<and> (\<forall>c \<in> set cs. \<not> writes (env_registry env) c)"
      using registry_execute_cases [OF r] False by (auto simp: writes_def)
    show ?thesis
    proof (cases res)
      case (Inl e)
      with r False 2(4) one show ?thesis by auto
    next
      case (Inr v)
      obtain db2 ev2 where s: "run_steps env confirm steps (set_key (ws_action st) v ctx) db1 = (db2, ev2)" by fastforce
      with r Inr False 2(4) have "db' = db2" by auto
      with 2(3) [of db1 res v db2 ev2] False r Inr s 2(5) one show ?thesis by fastforce
    qed
  qed
qed simp

lemma workflow_context_calls: "workflow_context env body u db = (db1, ctx) \<Longrightarrow> calls db1 = calls db"
  by (auto simp: workflow_context_def Let_def split: option.splits prod.splits if_splits)

text \<open>
  C5. No write without confirmation in a workflow: if the request does not confirm, no call that
  reaches a provider during the workflow is a write, whatever the steps, their dependencies and
  the results they pass on.
\<close>

theorem workflow_writes_confirmed:
  assumes "execute_workflow env body u db = (db', evs)" and "\<not> wf_confirm body"
  shows "\<exists>cs. calls db' = calls db @ cs \<and> (\<forall>c \<in> set cs. \<not> writes (env_registry env) c)"
proof -
  obtain db1 ctx where c: "workflow_context env body u db = (db1, ctx)" by fastforce
  with assms(1) have "run_steps env (wf_confirm body) (wf_steps body) ctx db1 = (db', evs)"
    by (simp add: execute_workflow_def)
  from run_steps_calls [OF this assms(2)] workflow_context_calls [OF c] show ?thesis by simp
qed

definition sample_provider :: action_provider where
  "sample_provider = \<lparr>ap_actions = [\<lparr>def_name = ''list_files'', def_description = [], def_provider = ''drive'', def_parameters = [],
       def_permissions = [''read''], def_risk = ''low''\<rparr>],
     ap_validate = (\<lambda>_ _. True), ap_execute = (\<lambda>_ _ _ _. Inr (JStr ''ok''))\<rparr>"

definition sample_env :: environment where
  "sample_env = \<lparr>env_registry = [(''drive'', sample_provider)], env_enc = (\<lambda>s. s), env_dec = (\<lambda>s. s),
     env_post = (\<lambda>_ _. \<lparr>resp_status = 500, resp_text = [], resp_access = None, resp_refresh = None, resp_expires_in = None, resp_scope = None\<rparr>),
     env_uuid = (\<lambda>s. if s = ''A'' then Some 11 else if s = ''B'' then Some 12 else None), env_session = 1, env_now = 100\<rparr>"

definition sample_oauth :: oauth_db where
  "sample_oauth = \<lparr>oauth_providers = [\<lparr>op_id = 3, op_name = ''drive'', op_display = [], op_client_id = [], op_client_secret = [],
       op_auth_url = [], op_token_url = [], op_scopes = [], op_enabled = True\<rparr>],
     oauth_connections = [\<lparr>oc_id = 5, oc_user = 9, oc_project = 12, oc_provider = 3, oc_access = ''token of B'', oc_refresh = None,
       oc_expires = None, oc_scope = None, oc_status = ''active'', oc_metadata = []\<rparr>],
     oauth_states = [], next_connection = 6, objects = (\<lambda>_. None), provider_cache = [], connection_cache = []\<rparr>"

definition sample_member :: user where
  "sample_member = \<lparr>usr_id = 1, usr_email = [], usr_name = None, hashed_password = None, usr_active = True,
     is_superuser = False, email_verified = True, usr_organization = Some 7, two_factor_enabled = False,
     two_factor_secret = None, usr_settings = None\<rparr>"

definition sample_actions :: action_db where
  "sample_actions = \<lparr>executions = [], confirmations = [], next_action = 0, oauth = sample_oauth,
     tenants = \<lparr>users = [sample_member], organizations = [],
       projects = [\<lparr>prj_id = 11, prj_name = [], prj_slug = [], prj_description = None, prj_organization = 7, prj_settings = [],
           prj_status = [], has_built_runtime = False\<rparr>,
         \<lparr>prj_id = 12, prj_name = [], prj_slug = [], prj_description = None, prj_organization = 8, prj_settings = [],
           prj_status = [], has_built_runtime = False\<rparr>],
       runtimes = [], sessions = [], api_keys = [], next_key = 0, mail_queue = []\<rparr>,
     calls = []\<rparr>"

definition sample_step :: "string \<Rightarrow> workflow_step" where
  "sample_step a = \<lparr>ws_provider = ''drive'', ws_action = a, ws_arguments = [], ws_depends = None, ws_condition = None\<rparr>"

definition sample_workflow :: "workflow_step list \<Rightarrow> workflow_request" where
  "sample_workflow steps = \<lparr>wf_project = ''B'', wf_steps = steps, wf_context = [], wf_confirm = False\<rparr>"

theorem workflow_writes_confirmed_witness:
  "\<exists>db'. execute_workflow sample_env (sample_workflow [sample_step ''list_files'', sample_step ''delete_file'']) 1 sample_actions =
      (db', [Step_Start (sample_step ''list_files''), Step_Complete (sample_step ''list_files'') (JStr ''ok''),
        Step_Start (sample_step ''delete_file''),
        Step_Error (sample_step ''delete_file'') ''Workflow write operation requires explicit confirmation'', Workflow_Complete]) \<and>
     (\<exists>cs. calls db' = calls sample_actions @ cs \<and> (\<forall>c \<in> set cs. \<not> writes (env_registry sample_env) c))"
proof -
  let ?w = "sample_workflow [sample_step ''list_files'', sample_step ''delete_file'']"
  obtain db' evs where e: "execute_workflow sample_env ?w 1 sample_actions = (db', evs)" by fastforce
  have "snd (execute_workflow sample_env ?w 1 sample_actions) =
     [Step_Start (sample_step ''list_files''), Step_Complete (sample_step ''list_files'') (JStr ''ok''),
        Step_Start (sample_step ''delete_file''),
        Step_Error (sample_step ''delete_file'') ''Workflow write operation requires explicit confirmation'', Workflow_Complete]"
    by code_simp
  moreover have "\<not> wf_confirm ?w" by (simp add: sample_workflow_def)
  ultimately show ?thesis using workflow_writes_confirmed [OF e] e by auto
qed

text \<open>The stream of a workflow: each step starts and has one outcome, in order; the stream stops
  early only after an error, and it ends with the completion event.\<close>

fun outcome_of :: "workflow_step \<Rightarrow> workflow_event \<Rightarrow> bool" where
  "outcome_of st (Step_Error st' _) = (st' = st)"
| "outcome_of st (Step_Skipped st' _) = (st' = st)"
| "outcome_of st (Step_Complete st' _) = (st' = st)"
| "outcome_of st _ = False"

fun is_error :: "workflow_event \<Rightarrow> bool" where
  "is_error (Step_Error _ _) = True"
| "is_error _ = False"

fun stream_of :: "workflow_step list \<Rightarrow> workflow_event list \<Rightarrow> bool" where
  "stream_of [] evs = (evs = [Workflow_Complete])"
| "stream_of (st # steps) (Step_Start st' # e # evs) =
     (st' = st \<and> outcome_of st e \<and> (stream_of steps evs \<or> (is_error e \<and> evs = [Workflow_Complete])))"
| "stream_of (st # steps) _ = False"

lemma run_steps_stream: "stream_of steps (snd (run_steps env confirm steps ctx db))"
proof (induction env confirm steps ctx db rule: run_steps.induct)
  case (2 env confirm st steps ctx db)
  let ?dep = "given (ws_depends st) \<and> json_get (the (ws_depends st)) ctx = JNull"
  let ?cond = "given (ws_condition st) \<and> \<not> json_true (json_get (the (ws_condition st)) ctx)"
  let ?w = "requires_action_confirmation (ws_action st) (definition_of (env_registry env) (ws_provider st) (ws_action st)) \<and> \<not> confirm"
  consider (dep) ?dep | (cond) "\<not> ?dep" ?cond | (w) "\<not> ?dep" "\<not> ?cond" ?w | (go) "\<not> ?dep" "\<not> ?cond" "\<not> ?w" by blast
  then show ?case
  proof cases
    case dep
    then show ?thesis using 2(1) by (auto split: prod.split)
  next
    case cond
    then show ?thesis using 2(2) by (auto split: prod.split)
  next
    case go
    obtain db1 res where r: "registry_execute env (ws_provider st) (ws_action st) (ws_arguments st) ctx db = (db1, res)"
      by fastforce
    with go 2(3) show ?thesis by (cases res) (auto split: prod.split)
  next
    case w
    then show ?thesis by auto
  qed
qed simp

text \<open>
  The event stream of a workflow is well formed: every step is announced and followed by exactly
  one outcome, steps come in order and none is left out unless an earlier one failed, and the
  completion event comes last and once.
\<close>

theorem workflow_stream: "stream_of (wf_steps body) (snd (execute_workflow env body u db))"
  unfolding execute_workflow_def by (simp add: run_steps_stream split: prod.split)

section \<open>Single actions and confirmations\<close>

lemma execute_request_cases:
  assumes "execute_action_request env body u pid db = (db', r)"
  shows "confirmations db' = confirmations db \<and> tenants db' = tenants db \<and>
    (calls db' = calls db \<or> (\<exists>cr. calls db' = calls db @ [\<lparr>call_provider = rq_provider body, call_action = rq_action body,
       call_arguments = rq_arguments body, call_credentials = cr\<rparr>]))"
proof -
  obtain db1 db2 res ctx where e: "registry_execute env (rq_provider body) (rq_action body) (rq_arguments body) ctx db1 = (db2, res)"
    and d: "confirmations db1 = confirmations db" "tenants db1 = tenants db" "calls db1 = calls db" "db' = db2"
    using assms by (fastforce simp: execute_action_request_def Let_def split: prod.splits sum.splits)
  from registry_execute_cases [OF e] d show ?thesis by simp
qed

text \<open>
  No unconfirmed write by a single action: a request that does not confirm makes at most one
  call, and that call is not a write.
\<close>

theorem action_asks_first:
  assumes "execute_action env body auth db = (db', res)" and "\<not> rq_confirm body"
  shows "\<exists>cs. calls db' = calls db @ cs \<and> length cs \<le> 1 \<and> (\<forall>c \<in> set cs. \<not> writes (env_registry env) c)"
proof (cases "\<exists>pid r. execute_action_request env body (usr_id (auth_user auth)) pid db = (db', r) \<and>
    \<not> requires_action_confirmation (rq_action body) (definition_of (env_registry env) (rq_provider body) (rq_action body))")
  case True
  then show ?thesis using execute_request_cases by (fastforce simp: writes_def)
next
  case False
  then have "calls db' = calls db" using assms
    by (auto simp: execute_action_def request_confirmation_def Let_def split: if_splits prod.splits bool.splits option.splits sum.splits)
  then show ?thesis by simp
qed

definition sample_auth :: auth_context where
  "sample_auth = \<lparr>auth_user = sample_member, auth_project = None, auth_key = None\<rparr>"

definition sample_delete :: action_request where
  "sample_delete = \<lparr>rq_project = ''A'', rq_provider = ''drive'', rq_action = ''delete_file'', rq_arguments = [], rq_confirm = False\<rparr>"

definition sample_asked :: action_db where
  "sample_asked = fst (execute_action sample_env sample_delete sample_auth sample_actions)"

theorem action_asks_first_witness:
  "snd (execute_action sample_env sample_delete sample_auth sample_actions) =
     Inr \<lparr>rsp_success = False, rsp_result = JNull, rsp_error = Some ''Confirmation required'', rsp_execution = Some ''0''\<rparr> \<and>
   (\<exists>cs. calls sample_asked = calls sample_actions @ cs \<and> length cs \<le> 1 \<and> (\<forall>c \<in> set cs. \<not> writes (env_registry sample_env) c))"
proof
  show "snd (execute_action sample_env sample_delete sample_auth sample_actions) =
     Inr \<lparr>rsp_success = False, rsp_result = JNull, rsp_error = Some ''Confirmation required'', rsp_execution = Some ''0''\<rparr>"
    by code_simp
  obtain res where "execute_action sample_env sample_delete sample_auth sample_actions = (sample_asked, res)"
    unfolding sample_asked_def by (metis prod.collapse)
  then show "\<exists>cs. calls sample_asked = calls sample_actions @ cs \<and> length cs \<le> 1 \<and> (\<forall>c \<in> set cs. \<not> writes (env_registry sample_env) c)"
    by (rule action_asks_first) (simp add: sample_delete_def)
qed

lemma resolved_stays:
  assumes "confirmation_by_id db i = Some c" and "ac_status c \<noteq> PENDING"
  shows "fst (approve_confirmation env (Some i) auth db) = db \<and> fst (reject_confirmation env (Some i) auth db) = db"
  using assms
  by (auto simp: approve_confirmation_def reject_confirmation_def confirmation_guard_def approve_def reject_def
      resolve_confirmation_def split: option.splits sum.splits if_splits)

text \<open>
  C17. A confirmation is executed at most once: an approval that went through was of a pending,
  unexpired confirmation, made at most the one call that was confirmed (same provider, action
  and arguments), and afterwards every approval or rejection of it, by anyone, changes nothing.
\<close>

theorem approval_once:
  assumes "approve_confirmation env (Some i) auth db = (db', Inr r)"
  shows "(\<exists>c. confirmation_by_id db i = Some c \<and> ac_status c = PENDING \<and> env_now env < ac_expires c \<and>
       (calls db' = calls db \<or> (\<exists>cr. calls db' = calls db @ [\<lparr>call_provider = ac_provider c, call_action = ac_action c,
          call_arguments = ac_arguments c, call_credentials = cr\<rparr>]))) \<and>
    fst (approve_confirmation env2 (Some i) auth2 db') = db' \<and> fst (reject_confirmation env2 (Some i) auth2 db') = db'"
proof -
  from assms have g: "confirmation_guard (Some i) auth db = Inr i"
    by (auto simp: approve_confirmation_def confirmation_guard_def split: sum.splits option.splits if_splits)
  obtain db1 c' where a: "approve i (env_now env) db = (db1, Inr c')"
    and e: "fst (execute_action_request env \<lparr>rq_project = nat_text (ac_project c'), rq_provider = ac_provider c', rq_action = ac_action c',
                     rq_arguments = ac_arguments c', rq_confirm = True\<rparr> (usr_id (auth_user auth)) (ac_project c') db1) = db'"
    using assms by (fastforce simp: approve_confirmation_def g Let_def split: prod.splits sum.splits)
  from a obtain c where c: "confirmation_by_id db i = Some c" "ac_status c = PENDING" "env_now env < ac_expires c"
    and c': "c' = c\<lparr>ac_status := SUCCEEDED\<rparr>" and db1: "db1 = save_confirmation c' db"
    by (auto simp: approve_def resolve_confirmation_def split: option.splits if_splits)
  have i: "ac_id c = i" using c(1) by (rule confirmation_repo.get_ident)
  note x = execute_request_cases [OF prod.collapse [symmetric], of env _ "usr_id (auth_user auth)" "ac_project c'" db1]
  have "calls db1 = calls db" by (simp add: db1 save_confirmation_def)
  with x e c' have calls: "calls db' = calls db \<or> (\<exists>cr. calls db' = calls db @ [\<lparr>call_provider = ac_provider c, call_action = ac_action c,
          call_arguments = ac_arguments c, call_credentials = cr\<rparr>])" by fastforce
  have "confirmations db' = confirmations db1" using x e by blast
  then have "confirmation_by_id db' i = Some c'"
    using confirmation_repo.get_save_same [of db c' c] c(1) c' i db1 by (simp add: confirmation_by_id_def)
  then have "fst (approve_confirmation env2 (Some i) auth2 db') = db' \<and> fst (reject_confirmation env2 (Some i) auth2 db') = db'"
    by (rule resolved_stays) (simp add: c')
  with c calls show ?thesis by blast
qed

definition sample_approved :: action_db where
  "sample_approved = fst (approve_confirmation sample_env (Some 0) sample_auth sample_asked)"

theorem approval_once_witness:
  "map call_action (calls sample_approved) = [''delete_file''] \<and>
   fst (approve_confirmation sample_env (Some 0) sample_auth sample_approved) = sample_approved"
proof
  show "map call_action (calls sample_approved) = [''delete_file'']" by code_simp
  have "snd (approve_confirmation sample_env (Some 0) sample_auth sample_asked) =
      Inr \<lparr>rsp_success = True, rsp_result = JStr ''ok'', rsp_error = None, rsp_execution = Some ''None''\<rparr>"
    by code_simp
  then have "approve_confirmation sample_env (Some 0) sample_auth sample_asked =
      (sample_approved, Inr \<lparr>rsp_success = True, rsp_result = JStr ''ok'', rsp_error = None, rsp_execution = Some ''None''\<rparr>)"
    unfolding sample_approved_def by (metis prod.collapse)
  from approval_once [OF this] show "fst (approve_confirmation sample_env (Some 0) sample_auth sample_approved) = sample_approved"
    by blast
qed

section \<open>Shortcomings\<close>

text \<open>
  An execution never finishes in the books: whether the provider succeeds or fails, the stored
  row of an executed action stays \<open>running\<close> with no result and no error, and the response names
  the execution \<open>None\<close>.
\<close>

theorem execution_row_stuck:
  "\<exists>row. executions (fst (execute_action_request env body u pid db)) = executions db @ [row] \<and>
     ax_status row = RUNNING \<and> ax_result row = JNull \<and> ax_error row = None \<and>
     rsp_execution (snd (execute_action_request env body u pid db)) = Some ''None''"
  unfolding execute_action_request_def Let_def
  by (simp split: prod.split sum.split) (auto dest!: registry_execute_cases)

definition sample_bound_key :: api_key where
  "sample_bound_key = \<lparr>key_id = 1, key_name = [], hashed_key = [], key_prefix = [], key_organization = Some 7, key_user = Some 1,
     key_project = Some 11, key_runtime = None, key_environment = ''production'', allowed_origins = [], revoked = False,
     key_expires = None, scopes = [''read'', ''write''], last_used_at = None, usage_count = 1, usage_stats = []\<rparr>"

text \<open>
  A workflow can use another project's tokens: with an API key bound to one project, the handler
  checks membership of that project only and the workflow resolves the tokens of the project the
  request names, so a caller who is refused the project still acts with its connection.
\<close>

theorem cross_project_tokens:
  "(let auth = \<lparr>auth_user = sample_member, auth_project = Some 11, auth_key = Some sample_bound_key\<rparr>;
        body = sample_workflow [sample_step ''list_files''];
        (db', res) = execute_workflow_handler sample_env body auth sample_actions
    in require_project_membership (env_uuid sample_env (wf_project body)) sample_member (tenants sample_actions) =
         Inl (HTTP 403 ''Not a member of this project'') \<and>
       res = Inr [Step_Start (sample_step ''list_files''), Step_Complete (sample_step ''list_files'') (JStr ''ok''), Workflow_Complete] \<and>
       map call_credentials (calls db') = [Some (JObj [(''access_token'', JStr ''token of B'')])])"
  by code_simp

text \<open>
  A refreshed token is not used by the request that refreshed it: when the connection came from
  the cache, loaded by an earlier session, an expired token is refreshed in the row, but the
  credentials are read from the old object, so the provider is called with the expired token.
\<close>

theorem expired_token_used:
  assumes "objects db x = Some c" and "oc_access c \<noteq> []" and "overdue (env_now env) c" and "fst x \<noteq> env_session env"
    and "connection_credentials env x db = (db', Inr creds)"
  shows "creds = JObj [(''access_token'', JStr (env_dec env (oc_access c)))]"
proof -
  obtain db1 res where r: "refresh_token (env_enc env) (env_dec env) (env_post env) (env_session env) (oc_id c) (env_now env) db = (db1, res)"
    by fastforce
  have "objects db1 x = Some c" using refresh_other_objects [OF r assms(4)] assms(1) by simp
  with assms(1-3,5) r show ?thesis
    by (auto simp: connection_credentials_def split: sum.splits oauth_error.splits)
qed

theorem expired_token_used_witness:
  "snd (connection_credentials (sample_env\<lparr>env_post := sample_post, env_session := 2, env_now := 4000000000\<rparr>) (1, 6) sample_looked_up) =
     Inr (JObj [(''access_token'', JStr ''acc'')])"
proof -
  let ?env = "sample_env\<lparr>env_post := sample_post, env_session := 2, env_now := 4000000000\<rparr>"
  have o': "objects sample_looked_up (1, 6) = Some sample_connection" by code_simp
  obtain db' res where c: "connection_credentials ?env (1, 6) sample_looked_up = (db', res)" by fastforce
  have "(case snd (connection_credentials ?env (1, 6) sample_looked_up) of Inl _ \<Rightarrow> False | Inr _ \<Rightarrow> True)" by code_simp
  with c obtain creds where "res = Inr creds" by (auto split: sum.splits)
  moreover have "oc_access sample_connection \<noteq> []" "overdue (env_now ?env) sample_connection" "fst (1 :: nat, 6 :: uuid) \<noteq> env_session ?env"
    by code_simp+
  moreover have "env_dec ?env (oc_access sample_connection) = ''acc''" by code_simp
  ultimately show ?thesis using expired_token_used [OF o', of ?env db' creds] c by simp
qed

end
