(* ===== verification/Purse.thy ===== *)
theory Purse
  imports Billing_Machine
begin

text \<open>
  The abstract specification of both billing services: a purse with an available, a held and a
  spent amount, and the six things that can be done with it. The services are shown to be a
  refinement: the purses read off the wallet rows before and after any call are related by
  steps of the specification. Rows, keys, ledger, reservations, budgets and limits do not appear
  in it, so what holds of the specification holds of every implementation state.
\<close>

named_theorems purse_simps \<open>purses read from changed databases\<close>

section \<open>The specification\<close>

record purse =
  available :: decimal
  held :: decimal
  spent :: decimal

definition no_purse :: purse where
  "no_purse = \<lparr>available = 0, held = 0, spent = 0\<rparr>"

text \<open>\<open>Capture h x\<close> closes a hold of \<open>h\<close> at the actual cost \<open>x\<close>.\<close>

datatype purse_op = Hold decimal | Capture decimal decimal | Void decimal | Deposit decimal | Spend decimal | Give_Back decimal

fun purse_apply :: "purse_op \<Rightarrow> purse \<Rightarrow> purse option" where
  "purse_apply (Hold x) p =
     (if 0 < x \<and> x \<le> available p then Some (p\<lparr>available := available p - x, held := held p + x\<rparr>) else None)"
| "purse_apply (Capture h x) p =
     (if 0 < h \<and> h \<le> held p \<and> 0 \<le> x \<and> x - h \<le> available p
      then Some (p\<lparr>available := available p + h - x, held := held p - h, spent := spent p + x\<rparr>) else None)"
| "purse_apply (Void h) p =
     (if 0 < h \<and> h \<le> held p then Some (p\<lparr>available := available p + h, held := held p - h\<rparr>) else None)"
| "purse_apply (Deposit x) p = (if 0 < x then Some (p\<lparr>available := available p + x\<rparr>) else None)"
| "purse_apply (Spend x) p =
     (if 0 < x \<and> x \<le> available p then Some (p\<lparr>available := available p - x, spent := spent p + x\<rparr>) else None)"
| "purse_apply (Give_Back x) p =
     (if 0 < x \<and> x \<le> spent p then Some (p\<lparr>available := available p + x, spent := spent p - x\<rparr>) else None)"

type_synonym purses = "uuid \<Rightarrow> purse"

inductive purse_step :: "purses \<Rightarrow> purses \<Rightarrow> bool" where
  purse_apply: "purse_apply op (ps u) = Some p \<Longrightarrow> purse_step ps (ps(u := p))"

abbreviation purse_steps :: "purses \<Rightarrow> purses \<Rightarrow> bool" where
  "purse_steps \<equiv> purse_step\<^sup>*\<^sup>*"

lemma purse_one: "purse_apply op (ps u) = Some p \<Longrightarrow> ps' = ps(u := p) \<Longrightarrow> purse_steps ps ps'"
  by (auto intro: purse_step.intros)

definition solvent :: "purses \<Rightarrow> bool" where
  "solvent ps = (\<forall>u. 0 \<le> available (ps u) \<and> 0 \<le> held (ps u) \<and> 0 \<le> spent (ps u))"

lemma purse_apply_solvent:
  "purse_apply op p = Some q \<Longrightarrow> 0 \<le> available p \<and> 0 \<le> held p \<and> 0 \<le> spent p \<Longrightarrow>
     0 \<le> available q \<and> 0 \<le> held q \<and> 0 \<le> spent q"
  by (cases op) (auto split: if_splits)

interpretation purse_machine: invariant_system purse_step "\<lambda>ps. \<forall>u. ps u = no_purse" solvent
proof
  show "solvent ps" if "\<forall>u. ps u = no_purse" for ps
    using that by (simp add: solvent_def no_purse_def)
  show "solvent qs" if "solvent ps" and "purse_step ps qs" for ps qs
    using that(2,1) by cases (auto simp: solvent_def dest!: purse_apply_solvent)
qed

section \<open>The abstraction\<close>

definition purse_row :: "wallet \<Rightarrow> purse" where
  "purse_row w = \<lparr>available = balance w, held = reserved_balance w, spent = total_spent w\<rparr>"

definition purses_of :: "billing_db \<Rightarrow> purses" where
  "purses_of db u = (case wallet_by_user u db of None \<Rightarrow> no_purse | Some w \<Rightarrow> purse_row w)"

lemma purse_row_sel [simp]:
  "available (purse_row w) = balance w" "held (purse_row w) = reserved_balance w" "spent (purse_row w) = total_spent w"
  by (simp_all add: purse_row_def)

lemma purses_wallets: "wallets db' = wallets db \<Longrightarrow> purses_of db' = purses_of db"
  by (rule ext) (simp add: purses_of_def wallet_by_user_def)

lemma purses_put:
  assumes "rows_ok db" and "w \<in> set (wallets db)" and "wal_id w' = wal_id w" and "wal_user w' = wal_user w"
    and "wallets db' = put_row wal_id w' (wallets db)"
  shows "purses_of db' = (purses_of db)(wal_user w := purse_row w')"
proof
  fix u
  have U: "wal_user x = wal_user w'" if "x \<in> set (wallets db)" "wal_id x = wal_id w'" for x
  proof -
    have "row_by wal_id (wal_id x) (wallets db) = Some x" "row_by wal_id (wal_id w) (wallets db) = Some w"
      using assms(1,2) that(1) by (simp_all add: rows_ok_def row_by_distinct)
    with that(2) assms(3) have "x = w" by (metis option.inject)
    with assms(4) show ?thesis by simp
  qed
  show "purses_of db' u = ((purses_of db)(wal_user w := purse_row w')) u"
  proof (cases "u = wal_user w")
    case True
    have d: "distinct (map wal_user (wallets db'))"
      using assms(1) map_other_put_row [of "wallets db" wal_id w' wal_user] U unfolding assms(5)
      by (auto simp: rows_ok_def)
    have m: "w' \<in> set (wallets db')" using assms(2,3) unfolding assms(5) put_row_def by force
    have "row_by wal_user (wal_user w') (wallets db') = Some w'" by (rule row_by_distinct [OF d m])
    with True assms(4) show ?thesis by (simp add: purses_of_def wallet_by_user_def)
  next
    case False
    with U assms(4) have "row_by wal_user u (put_row wal_id w' (wallets db)) = row_by wal_user u (wallets db)"
      by (intro row_by_put_other) auto
    with False show ?thesis by (simp add: purses_of_def wallet_by_user_def assms(5))
  qed
qed

lemma purses_at:
  assumes "rows_ok db" and "w \<in> set (wallets db)"
  shows "purses_of db (wal_user w) = purse_row w"
  using assms row_by_distinct [of wal_user "wallets db" w]
  by (simp add: purses_of_def wallet_by_user_def rows_ok_def)

lemma purses_new_wallet:
  assumes "wallet_by_user u db = None" and "wallets db' = wallets db @ [w]" and "wal_user w = u" and "purse_row w = no_purse"
  shows "purses_of db' = purses_of db"
proof
  fix v
  show "purses_of db' v = purses_of db v"
  proof (cases "v = u")
    case True
    have "wallet_by_user v db' = Some w"
      using assms(1-3) True unfolding wallet_by_user_def by (simp add: row_by_append)
    with True assms(1,4) show ?thesis by (simp add: purses_of_def)
  next
    case False
    have "wallet_by_user v db' = wallet_by_user v db"
      using assms(2,3) False unfolding wallet_by_user_def by (simp add: row_by_append split: option.split)
    then show ?thesis by (simp add: purses_of_def)
  qed
qed

lemma new_wallet_purse: "wal_user ((new_wallet u cur)\<lparr>wal_id := i\<rparr>) = u" "purse_row ((new_wallet u cur)\<lparr>wal_id := i\<rparr>) = no_purse"
  by (simp_all add: new_wallet_def purse_row_def no_purse_def)

lemma purses_get_wallet:
  assumes "get_wallet u db = (db0, w)"
  shows "purses_of db0 = purses_of db"
  using assms
proof (cases rule: get_wallet_cases)
  case 2
  show ?thesis by (rule purses_new_wallet [OF 2(1), of _ w]) (simp_all add: 2 new_wallet_purse)
qed simp

lemma wallet_for_update_get: "wallet_for_update u db = get_wallet u db"
  by (simp add: wallet_for_update_def get_wallet_def)

section \<open>Each operation is a step\<close>

lemma purses_reserve:
  assumes "books db" and "reserve a x rq k rt md ttl now db = (db', Inr r)" and "reservation_by_key k db = None"
  shows "purses_of db' = (purses_of db)(att_user a := (purses_of db (att_user a))
      \<lparr>available := available (purses_of db (att_user a)) - money x, held := held (purses_of db (att_user a)) + money x\<rparr>)"
    and "purse_apply (Hold (money x)) (purses_of db (att_user a)) \<noteq> None"
proof -
  from assms(2,3) obtain db1 w where *: "0 < money x" "wallet_for_update (att_user a) db = (db1, w)" "money x \<le> balance w"
    "wallets db' = put_row wal_id (w\<lparr>balance := balance w - money x,
       reserved_balance := reserved_balance w + money x\<rparr>) (wallets db1)"
    by (rule reserve_new)
  from *(2) have g: "get_wallet (att_user a) db = (db1, w)" by (simp add: wallet_for_update_get)
  have B: "books db1" and w: "w \<in> set (wallets db1)" and u: "wal_user w = att_user a"
    using books_get_wallet [OF assms(1) g] get_wallet_owner [OF g] by auto
  have P: "purses_of db (att_user a) = purse_row w"
    using purses_at [OF books_rows [OF B] w] purses_get_wallet [OF g] u by simp
  show "purses_of db' = (purses_of db)(att_user a := (purses_of db (att_user a))
      \<lparr>available := available (purses_of db (att_user a)) - money x, held := held (purses_of db (att_user a)) + money x\<rparr>)"
    using purses_put [OF books_rows [OF B] w _ _ *(4)] u P purses_get_wallet [OF g]
    by (simp add: purse_row_def)
  show "purse_apply (Hold (money x)) (purses_of db (att_user a)) \<noteq> None"
    using *(1,3) P by simp
qed

lemma steps_reserve:
  assumes "books db" and "reserve a x rq k rt md ttl now db = (db', res)"
  shows "purse_steps (purses_of db) (purses_of db')"
proof (cases "reservation_by_key k db = None \<and> (\<exists>r. res = Inr r)")
  case True
  with assms(2) obtain r where s: "reserve a x rq k rt md ttl now db = (db', Inr r)" and k: "reservation_by_key k db = None" by auto
  note R = purses_reserve [OF assms(1) s k]
  show ?thesis
    by (rule purse_one [of "Hold (money x)" _ "att_user a"]) (use R in \<open>auto split: if_splits\<close>)
next
  case False
  have "db' = db"
  proof (cases res)
    case (Inl e)
    with assms(2) show ?thesis by (auto dest: reserve_error)
  next
    case (Inr r)
    with False obtain r0 where "reservation_by_key k db = Some r0" by auto
    with assms(2) show ?thesis by (auto simp: reserve_def Let_def split: if_splits)
  qed
  then show ?thesis by simp
qed

text \<open>An open reservation is held by its wallet.\<close>

lemma open_is_held:
  assumes "books db" and "reservation_by_id db i = Some r" and "res_status r = Reserved"
    and "wallet_by_id db (res_wallet r) = Some w"
  shows "0 < estimated_amount r" "estimated_amount r \<le> reserved_balance w" "w \<in> set (wallets db)"
proof -
  note rD = reservation_by_idD [OF assms(2)] and wD = wallet_by_idD [OF assms(4)]
  have R: "0 < estimated_amount x" if "x \<in> set (reservations db)" for x
    using books_rows [OF assms(1)] that by (auto simp: rows_ok_def)
  show "0 < estimated_amount r" "w \<in> set (wallets db)" using R rD wD by auto
  have "estimated_amount r \<le> open_reserved (res_wallet r) db"
    unfolding open_reserved_def by (rule sum_where_member) (use R rD assms(3) in \<open>auto intro: less_imp_le\<close>)
  with wD books_wallet [OF assms(1)] show "estimated_amount r \<le> reserved_balance w"
    by (auto simp: wallet_ok_def)
qed

lemma purses_settle:
  assumes "books db" and "settle i x pc md ty now db = (db', Inr r')"
    and "reservation_by_id db i = Some r" and "res_status r = Reserved"
  obtains w where "wallet_by_id db (res_wallet r) = Some w" "0 \<le> money x"
    "purses_of db (wal_user w) = purse_row w"
    "purses_of db' = (purses_of db)(wal_user w := \<lparr>available = balance w + estimated_amount r - money x,
       held = reserved_balance w - estimated_amount r, spent = total_spent w + money x\<rparr>)"
    "purse_apply (Capture (estimated_amount r) (money x)) (purses_of db (wal_user w)) =
       Some \<lparr>available = balance w + estimated_amount r - money x,
         held = reserved_balance w - estimated_amount r, spent = total_spent w + money x\<rparr>"
proof -
  from assms(2-4) obtain w where *: "wallet_by_id db (res_wallet r) = Some w" "0 \<le> money x"
    "max 0 (money x - estimated_amount r) \<le> max 0 (balance w)"
    "wallets db' = put_row wal_id (settled_wallet r (money x) w) (wallets db)"
    by (rule settle_open)
  note H = open_is_held [OF assms(1,3,4) *(1)]
  have n: "0 \<le> balance w" using books_nonneg [OF assms(1) H(3)] by simp
  have P: "purses_of db (wal_user w) = purse_row w" by (rule purses_at [OF books_rows [OF assms(1)] H(3)])
  have "purses_of db' = (purses_of db)(wal_user w := purse_row (settled_wallet r (money x) w))"
    by (rule purses_put [OF books_rows [OF assms(1)] H(3) _ _ *(4)]) (simp_all add: settled_wallet_def)
  then show ?thesis
    by (intro that [of w]) (use * H n P in \<open>auto simp: settled_wallet_def purse_row_def max_def split: if_splits\<close>)
qed

lemma steps_settle:
  assumes "books db" and "settle i x pc md ty now db = (db', res)"
  shows "purse_steps (purses_of db) (purses_of db')"
proof (cases "\<exists>r r'. reservation_by_id db i = Some r \<and> res_status r = Reserved \<and> res = Inr r'")
  case True
  then obtain r r' where r: "reservation_by_id db i = Some r" "res_status r = Reserved" "res = Inr r'" by blast
  from assms(2) r(3) have s: "settle i x pc md ty now db = (db', Inr r')" by simp
  show ?thesis by (rule purses_settle [OF assms(1) s r(1,2)]) (rule purse_one)
next
  case False
  have "db' = db"
  proof (cases res)
    case (Inl e)
    with assms(2) show ?thesis by (auto dest: settle_error)
  next
    case (Inr r')
    with False assms(2) show ?thesis
      by (cases "reservation_by_id db i") (auto simp: settle_def)
  qed
  then show ?thesis by simp
qed

lemma purses_release:
  assumes "books db" and "release i why now db = (db', Inr r')"
    and "reservation_by_id db i = Some r" and "res_status r = Reserved"
  obtains w where "wallet_by_id db (res_wallet r) = Some w"
    "purses_of db (wal_user w) = purse_row w"
    "purses_of db' = (purses_of db)(wal_user w := (purse_row w)\<lparr>available := balance w + estimated_amount r,
       held := reserved_balance w - estimated_amount r\<rparr>)"
    "purse_apply (Void (estimated_amount r)) (purses_of db (wal_user w)) =
       Some ((purse_row w)\<lparr>available := balance w + estimated_amount r, held := reserved_balance w - estimated_amount r\<rparr>)"
proof -
  from assms(2-4) obtain w where *: "wallet_by_id db (res_wallet r) = Some w"
    "wallets db' = put_row wal_id (released_wallet r w) (wallets db)"
    by (rule release_open)
  note H = open_is_held [OF assms(1,3,4) *(1)]
  have P: "purses_of db (wal_user w) = purse_row w" by (rule purses_at [OF books_rows [OF assms(1)] H(3)])
  have "purses_of db' = (purses_of db)(wal_user w := purse_row (released_wallet r w))"
    by (rule purses_put [OF books_rows [OF assms(1)] H(3) _ _ *(2)]) (simp_all add: released_wallet_def)
  then show ?thesis
    by (intro that [of w]) (use * H P in \<open>auto simp: released_wallet_def purse_row_def\<close>)
qed

lemma release_same:
  assumes "release i why now db = (db', res)"
    and "\<not> (\<exists>r r'. reservation_by_id db i = Some r \<and> res_status r = Reserved \<and> res = Inr r')"
  shows "db' = db"
proof (cases res)
  case (Inl e)
  with assms(1) show ?thesis by (auto dest: release_error)
next
  case (Inr r')
  with assms show ?thesis
    by (cases "reservation_by_id db i") (auto simp: release_def)
qed

lemma steps_release:
  assumes "books db" and "release i why now db = (db', res)"
  shows "purse_steps (purses_of db) (purses_of db')"
proof (cases "\<exists>r r'. reservation_by_id db i = Some r \<and> res_status r = Reserved \<and> res = Inr r'")
  case True
  then obtain r r' where r: "reservation_by_id db i = Some r" "res_status r = Reserved" "res = Inr r'" by blast
  from assms(2) r(3) have s: "release i why now db = (db', Inr r')" by simp
  show ?thesis by (rule purses_release [OF assms(1) s r(1,2)]) (rule purse_one)
next
  case False
  with release_same [OF assms(2)] show ?thesis by blast
qed

lemma steps_release_each: "books db \<Longrightarrow> purse_steps (purses_of db) (purses_of (fst (release_each is n now db)))"
proof (induction "is" arbitrary: n db)
  case (Cons i "is")
  obtain db1 res where r: "release i ''reservation_expired'' now db = (db1, res)" by fastforce
  note B = books_release [OF Cons.prems r] and S = steps_release [OF Cons.prems r]
  show ?case
  proof (cases res)
    case (Inl e)
    with r S show ?thesis by simp
  next
    case (Inr x)
    with r S Cons.IH [OF B, of "Suc n"] show ?thesis by (auto intro: rtranclp_trans)
  qed
qed simp

lemma steps_bill:
  assumes "books db" and "bill_operation a est act rq k pc rt ty md now db = (db', res)"
  shows "purse_steps (purses_of db) (purses_of db')"
proof -
  obtain db1 r1 where r: "reserve a est rq k rt md 900 now db = (db1, r1)" by fastforce
  note B = books_reserve [OF assms(1) r] and S = steps_reserve [OF assms(1) r]
  show ?thesis
  proof (cases r1)
    case (Inl e)
    with assms(2) r S show ?thesis by (auto simp: bill_operation_def)
  next
    case (Inr x)
    with assms(2) r have "settle (res_id x) act pc md ty now db1 = (db', res)" by (simp add: bill_operation_def)
    from steps_settle [OF B this] S show ?thesis by (auto intro: rtranclp_trans)
  qed
qed

text \<open>A posting writes one wallet.\<close>

lemma purses_posting:
  assumes "books db" and "posting db w' t db'" and "w \<in> set (wallets db)"
    and "wal_id w' = wal_id w" and "wal_user w' = wal_user w"
  shows "purses_of db' = (purses_of db)(wal_user w := purse_row w')" "purses_of db (wal_user w) = purse_row w"
  using purses_put [OF books_rows [OF assms(1)] assms(3-5), of db'] assms(2) purses_at [OF books_rows [OF assms(1)] assms(3)]
  by (auto simp: posting_def)

lemma steps_add_credit:
  assumes "books db" and "add_credit u amt reason ref md now db = (db', res)"
  shows "purse_steps (purses_of db) (purses_of db')"
  using assms(2)
proof (cases rule: add_credit_cases)
  case (3 db0 w t)
  note B = books_get_wallet [OF assms(1) 3(1)]
  note P = purses_posting [OF B [THEN conjunct1] 3(4) B [THEN conjunct2]]
  show ?thesis
    by (rule purse_one [of "Deposit amt" _ "wal_user w"])
      (use 3(2) P purses_get_wallet [OF 3(1)] in \<open>auto simp: purse_row_def\<close>)
qed (auto simp: purses_get_wallet)

lemma steps_deduct_credit:
  assumes "books db" and "deduct_credit u amt reason ref md now db = (db', res)"
  shows "purse_steps (purses_of db) (purses_of db')"
  using assms(2)
proof (cases rule: deduct_credit_cases)
  case (3 db0 w t)
  note B = books_get_wallet [OF assms(1) 3(1)]
  note P = purses_posting [OF B [THEN conjunct1] 3(5) B [THEN conjunct2]]
  show ?thesis
    by (rule purse_one [of "Spend amt" _ "wal_user w"])
      (use 3(2,3) P purses_get_wallet [OF 3(1)] in \<open>auto simp: purse_row_def\<close>)
qed (auto simp: purses_get_wallet)

text \<open>A refund gives back no more than was spent: what may still be refunded has been spent.\<close>

lemma steps_refund:
  assumes "books db" and "refund_transaction u tid reason now db = (db', res)"
  shows "purse_steps (purses_of db) (purses_of db')"
  using assms(2)
proof (cases rule: refund_cases)
  case (2 orig w t)
  have w: "w \<in> set (wallets db)" using 2(4) by (auto dest: wallet_by_userD)
  have o: "orig \<in> set (wallet_transactions db)" using 2(1) by (auto dest: transaction_by_idD)
  have pos: "0 < txn_amount orig" using books_rows [OF assms(1)] o 2(2) by (auto simp: rows_ok_def)
  have "txn_amount orig \<le> refundable (wal_id w) db"
    unfolding refundable_def
    by (rule sum_where_member) (use books_rows [OF assms(1)] o 2(2,3,5) in \<open>auto simp: rows_ok_def intro: less_imp_le\<close>)
  with books_wallet [OF assms(1) w] have le: "txn_amount orig \<le> total_spent w" by (simp add: wallet_ok_def)
  note P = purses_posting [OF assms(1) 2(6) w]
  show ?thesis
    by (rule purse_one [of "Give_Back (txn_amount orig)" _ "wal_user w"])
      (use pos le P in \<open>auto simp: purse_row_def\<close>)
qed simp

lemma steps_create: "purses_of (fst (create_wallet u cur db)) = purses_of db"
proof (cases "wallet_by_user u db")
  case None
  then show ?thesis
    by (intro purses_new_wallet [of u db _ "(new_wallet u cur)\<lparr>wal_id := next_id db\<rparr>"])
      (simp_all add: create_wallet_def insert_wallet_def Let_def new_wallet_purse)
qed (simp add: create_wallet_def)

lemma steps_auto_top_up: "purses_of (fst (check_auto_top_up u db)) = purses_of db"
proof -
  obtain db1 w where g: "get_wallet u db = (db1, w)" by fastforce
  then show ?thesis
    using purses_get_wallet [OF g] by (auto simp: check_auto_top_up_def split: option.split)
qed

lemma fst_steps: "(\<And>db' res. f = (db', res) \<Longrightarrow> purse_steps ps (purses_of db')) \<Longrightarrow> purse_steps ps (purses_of (fst f))"
  by (cases f) simp

lemma same_purses: "wallets db' = wallets db \<Longrightarrow> purse_steps (purses_of db) (purses_of db')"
  by (drule purses_wallets) simp

lemma charge_steps: "charge_step db db' \<Longrightarrow> books db \<Longrightarrow> purse_steps (purses_of db) (purses_of db')"
proof (induction rule: charge_step.induct)
  case (do_expire db n now)
  then show ?case by (simp add: expire_reservations_def steps_release_each)
next
  case (do_set_budget db u bc)
  show ?case by (rule same_purses) (auto simp: create_or_update_budget_def Let_def split: option.split)
next
  case (do_update_budget db u bu)
  show ?case by (rule same_purses) (auto simp: update_budget_def Let_def split: option.split)
next
  case (do_reset db)
  show ?case by (rule same_purses) (simp add: reset_monthly_budgets_def)
next
  case (do_get_wallet db u)
  show ?case by (cases "get_wallet u db") (simp add: purses_get_wallet)
next
  case (do_reserve db a x rq k rt md ttl now)
  then show ?case by (intro fst_steps) (rule steps_reserve)
next
  case (do_settle db i x pc md ty now)
  then show ?case by (intro fst_steps) (rule steps_settle)
next
  case (do_release db i why now)
  then show ?case by (intro fst_steps) (rule steps_release)
next
  case (do_bill db a est act rq k pc rt ty md now)
  then show ?case by (intro fst_steps) (rule steps_bill)
next
  case (do_credit db u x why ref md now)
  then show ?case by (intro fst_steps) (rule steps_add_credit)
next
  case (do_deduct db u x why ref md now)
  then show ?case by (intro fst_steps) (rule steps_deduct_credit)
qed (simp_all add: same_purses steps_create steps_auto_top_up)

lemma billing_steps: "billing_step db db' \<Longrightarrow> books db \<Longrightarrow> purse_steps (purses_of db) (purses_of db')"
proof (induction rule: billing_step.induct)
  case (do_refund db u i why now)
  then show ?case by (intro fst_steps) (rule steps_refund)
qed (rule charge_steps)



text \<open>The specification reaches what the implementation reaches, so its invariant carries over.\<close>

lemma reachable_purses:
  "reachable db \<Longrightarrow> reached purse_step (\<lambda>ps. \<forall>u. ps u = no_purse) (purses_of db)"
proof (induction rule: reached.induct)
  case (reached_init db)
  then show ?case
    by (intro reached.reached_init) (simp add: fresh_db_def purses_of_def wallet_by_user_def)
next
  case (reached_step db db')
  from billing_steps [OF reached_step(2) billing.reached_inv [OF reached_step(1)]]
  show ?case using reached_step(3) by (induction rule: rtranclp_induct) (auto intro: reached.reached_step)
qed

lemma reachable_solvent: "reachable db \<Longrightarrow> solvent (purses_of db)"
  by (rule purse_machine.reached_inv [OF reachable_purses])

end
