(* ===== verification/Runtime_Access.thy ===== *)
theory Runtime_Access
  imports Tenancy Spending_Limits "HOL-Library.List_Lexorder" "HOL-Library.AList"
begin

text \<open>
  \<open>app/services/runtime_capabilities.py\<close>: the access policy of a runtime and the role a caller has
  in it, the usage budget of a runtime, and the join of records from several sources. Policies
  are read from the runtime's JSON configuration, so every value may have any JSON type.
  Python's \<open>str\<close> on a value that is not text is the argument \<open>str_of\<close>; the iteration order of a
  Python set is the order of the list passed for it. Floats are exact: the amounts compared
  have at most twelve digits, which a double distinguishes.
\<close>

section \<open>Roles and the access policy\<close>

record role_policy =
  can_invoke :: bool
  can_read_sources :: bool
  can_use_tools :: bool
  can_write :: bool
  allowed_sources :: "string list"

record access_policy =
  pol_enabled :: bool
  pol_default_role :: string
  pol_roles :: "(string \<times> role_policy) list"

definition rights :: "bool \<Rightarrow> bool \<Rightarrow> bool \<Rightarrow> role_policy" where
  "rights sources tools wr = \<lparr>can_invoke = True, can_read_sources = sources, can_use_tools = tools,
     can_write = wr, allowed_sources = []\<rparr>"

definition ROLE_DEFAULTS :: "(string \<times> role_policy) list" where
  "ROLE_DEFAULTS =
     [(''owner'', rights True True True),
      (''admin'', rights True True True),
      (''developer'', rights True True False),
      (''support'', rights True False False),
      (''instructor'', rights True True False),
      (''student'', rights True False False),
      (''readonly'', rights True False False)]"

definition default_access_policy :: access_policy where
  "default_access_policy = \<lparr>pol_enabled = True, pol_default_role = ''developer'', pol_roles = ROLE_DEFAULTS\<rparr>"

text \<open>\<open>d.get(k, default)\<close>, \<open>str(value)\<close>, and the loop \<open>for item in value\<close> over a JSON value (a text
  gives its characters, an object its keys; \<open>None\<close> is the TypeError).\<close>

definition json_default :: "string \<Rightarrow> (string \<times> json) list \<Rightarrow> json \<Rightarrow> json" where
  "json_default k kvs d = (case map_of kvs k of None \<Rightarrow> d | Some v \<Rightarrow> v)"

definition text_of :: "(json \<Rightarrow> string) \<Rightarrow> json \<Rightarrow> string" where
  "text_of str_of v = (case v of JStr s \<Rightarrow> s | _ \<Rightarrow> str_of v)"

definition items_of :: "json \<Rightarrow> json list option" where
  "items_of v = (case v of
      JList xs \<Rightarrow> Some xs
    | JStr s \<Rightarrow> Some (map (\<lambda>c. JStr [c]) s)
    | JObj kvs \<Rightarrow> Some (map (JStr \<circ> fst) kvs)
    | _ \<Rightarrow> None)"

definition clean_name :: "string \<Rightarrow> string" where
  "clean_name s = str_lower (str_strip s)"

definition configured_role :: "(json \<Rightarrow> string) \<Rightarrow> string \<Rightarrow> (string \<times> json) list \<Rightarrow> role_policy option" where
  "configured_role str_of name kvs =
     (let d = (case map_of ROLE_DEFAULTS name of Some r \<Rightarrow> r | None \<Rightarrow> rights True False False) in
      case items_of (json_default ''allowed_sources'' kvs (JList [])) of
        None \<Rightarrow> None
      | Some xs \<Rightarrow> Some
          \<lparr>can_invoke = json_true (json_default ''can_invoke'' kvs (JBool (can_invoke d))),
           can_read_sources = json_true (json_default ''can_read_sources'' kvs (JBool (can_read_sources d))),
           can_use_tools = json_true (json_default ''can_use_tools'' kvs (JBool (can_use_tools d))),
           can_write = json_true (json_default ''can_write'' kvs (JBool (can_write d))),
           allowed_sources = sort (remdups (map clean_name (filter (\<lambda>s. str_strip s \<noteq> []) (map (text_of str_of) xs))))\<rparr>)"

fun configure_roles ::
  "(json \<Rightarrow> string) \<Rightarrow> (string \<times> json) list \<Rightarrow> (string \<times> role_policy) list \<Rightarrow> (string \<times> role_policy) list option" where
  "configure_roles str_of [] roles = Some roles"
| "configure_roles str_of ((name0, v) # rest) roles =
     (case v of
        JObj kvs \<Rightarrow>
          (let name = clean_name name0 in
           if name = [] then configure_roles str_of rest roles
           else case configured_role str_of name kvs of
             None \<Rightarrow> None
           | Some r \<Rightarrow> configure_roles str_of rest (AList.update name r roles))
      | _ \<Rightarrow> configure_roles str_of rest roles)"

definition with_default_role :: "access_policy \<Rightarrow> access_policy" where
  "with_default_role p =
     (if map_of (pol_roles p) (pol_default_role p) = None then p\<lparr>pol_default_role := ''developer''\<rparr> else p)"

definition normalize_access_policy :: "(json \<Rightarrow> string) \<Rightarrow> json \<Rightarrow> access_policy option" where
  "normalize_access_policy str_of raw =
     (let v = default_access_policy in
      case raw of
        JObj kvs \<Rightarrow>
          (case (case json_get ''roles'' kvs of
                   JObj rs \<Rightarrow> configure_roles str_of rs (pol_roles v) | _ \<Rightarrow> Some (pol_roles v)) of
             None \<Rightarrow> None
           | Some roles \<Rightarrow> Some (with_default_role
               \<lparr>pol_enabled = json_true (json_default ''enabled'' kvs (JBool (pol_enabled v))),
                pol_default_role = clean_name (text_of str_of
                  (json_or (json_get ''default_role'' kvs) (JStr (pol_default_role v)))),
                pol_roles = roles\<rparr>))
      | _ \<Rightarrow> Some (with_default_role v))"

section \<open>The role of a caller\<close>

definition RANK :: "(string \<times> int) list" where
  "RANK = [(''readonly'', 0), (''student'', 0), (''support'', 1), (''developer'', 2),
     (''instructor'', 2), (''admin'', 3), (''owner'', 4)]"

definition rank_of :: "string \<Rightarrow> int \<Rightarrow> int" where
  "rank_of r d = (case map_of RANK r of None \<Rightarrow> d | Some n \<Rightarrow> n)"

text \<open>The user's own role, from the settings of the account.\<close>

definition own_role :: "(json \<Rightarrow> string) \<Rightarrow> user \<Rightarrow> string" where
  "own_role str_of u =
     (let settings = (case usr_settings u of Some kvs \<Rightarrow> kvs | None \<Rightarrow> []);
          role = json_or (json_get ''role'' settings) (json_get ''organization_role'' settings)
      in if json_true role then clean_name (text_of str_of role) else ''developer'')"

definition role_scope :: "string list \<Rightarrow> string option" where
  "role_scope key_scopes =
     map_option (\<lambda>s. clean_name (drop 5 s))
       (find (\<lambda>s. prefix ''role:'' s \<and> str_strip (drop 5 s) \<noteq> []) key_scopes)"

definition resolve_role :: "(json \<Rightarrow> string) \<Rightarrow> user \<Rightarrow> string list \<Rightarrow> string" where
  "resolve_role str_of u key_scopes =
     (if is_superuser u then ''owner''
      else (let resolved = own_role str_of u in
        case role_scope key_scopes of
          None \<Rightarrow> resolved
        | Some r \<Rightarrow> if rank_of r (-1) \<le> rank_of resolved 2 then r else resolved))"

section \<open>Authorization\<close>

datatype access_error = PermissionError string | Access_TypeError

definition role_rights :: "access_policy \<Rightarrow> string \<Rightarrow> role_policy" where
  "role_rights p r =
     (case map_of (pol_roles p) r of
        Some x \<Rightarrow> x | None \<Rightarrow> the (map_of (pol_roles p) (pol_default_role p)))"

definition quoted :: "string \<Rightarrow> string" where
  "quoted s = CHR 0x27 # s @ [CHR 0x27]"

definition caller_role :: "(json \<Rightarrow> string) \<Rightarrow> runtime \<Rightarrow> user \<Rightarrow> string list \<Rightarrow> string" where
  "caller_role str_of r u key_scopes = (if rt_user r = usr_id u then ''owner'' else resolve_role str_of u key_scopes)"

definition authorize_runtime_request ::
  "(json \<Rightarrow> string) \<Rightarrow> runtime \<Rightarrow> user \<Rightarrow> string list \<Rightarrow> bool \<Rightarrow> string list \<Rightarrow> access_error + string \<times> access_policy" where
  "authorize_runtime_request str_of r u key_scopes requires_write sources =
     (let raw = json_get ''access_control'' (rt_config r) in
      case normalize_access_policy str_of raw of
        None \<Rightarrow> Inl Access_TypeError
      | Some policy \<Rightarrow>
         (let role = caller_role str_of r u key_scopes; rp = role_rights policy role in
          if \<not> json_true raw \<or> \<not> pol_enabled policy then Inr (role, policy)
          else if \<not> can_invoke rp then Inl (PermissionError (''Role '' @ quoted role @ '' cannot invoke this runtime''))
          else if requires_write \<and> \<not> can_write rp
          then Inl (PermissionError (''Role '' @ quoted role @ '' cannot perform write operations''))
          else if sources \<noteq> [] \<and> \<not> can_read_sources rp
          then Inl (PermissionError (''Role '' @ quoted role @ '' cannot read runtime sources''))
          else if sources \<noteq> [] \<and> allowed_sources rp \<noteq> [] \<and> \<not> set (map str_lower sources) \<subseteq> set (allowed_sources rp)
          then Inl (PermissionError ''One or more requested sources are not allowed for this role'')
          else Inr (role, policy)))"

section \<open>The usage budget of a runtime\<close>

text \<open>A limit read by \<open>float(Decimal(str(item)))\<close>: decimal texts, and the two infinities and NaN that
  \<open>Decimal\<close> accepts.\<close>

datatype limit_value = Amount rat | Infinite bool | Not_A_Number   \<comment> \<open>\<open>Infinite True\<close> is negative\<close>

record budget_policy =
  bp_enabled :: bool
  max_request_usd :: "limit_value option"
  monthly_limit_usd :: "limit_value option"
  requests_per_minute :: "int option"

text \<open>The digits of a number: the value so far, how many digits follow the point, the rest.\<close>

fun digits :: "rat \<Rightarrow> nat \<Rightarrow> string \<Rightarrow> rat \<times> nat \<times> string" where
  "digits acc n [] = (acc, n, [])"
| "digits acc n (c # cs) =
     (case digit_value c of None \<Rightarrow> (acc, n, c # cs) | Some d \<Rightarrow> digits (acc * 10 + of_int d) (Suc n) cs)"

definition exponent_of :: "string \<Rightarrow> int option" where
  "exponent_of s = (case s of
      [] \<Rightarrow> Some 0
    | c # cs \<Rightarrow> if lower_char c \<noteq> CHR ''e'' then None
        else (case cs of
            [] \<Rightarrow> None
          | d # ds \<Rightarrow> if d = CHR ''-'' then map_option uminus (parse_digits False 0 ds)
                      else if d = CHR ''+'' then parse_digits False 0 ds else parse_digits False 0 (d # ds)))"

definition ten_power :: "int \<Rightarrow> rat" where
  "ten_power e = (if 0 \<le> e then 10 ^ nat e else 1 / 10 ^ nat (- e))"

definition unsigned_decimal :: "string \<Rightarrow> rat option" where
  "unsigned_decimal s =
     (let (whole, n, rest) = digits 0 0 s;
          (value, m, rest2) = (case rest of c # cs \<Rightarrow> if c = CHR ''.'' then digits whole 0 cs else (whole, 0, rest)
                               | [] \<Rightarrow> (whole, 0, []))
      in if n + m = 0 then None
         else map_option (\<lambda>e. value * ten_power (e - int m)) (exponent_of rest2))"

definition unsigned_limit :: "string \<Rightarrow> limit_value option" where
  "unsigned_limit s =
     (if str_lower s \<in> {''inf'', ''infinity''} then Some (Infinite False)
      else if str_lower s = ''nan'' then Some Not_A_Number
      else map_option Amount (unsigned_decimal s))"

definition negated :: "limit_value \<Rightarrow> limit_value" where
  "negated v = (case v of Amount r \<Rightarrow> Amount (- r) | Infinite b \<Rightarrow> Infinite (\<not> b) | Not_A_Number \<Rightarrow> Not_A_Number)"

definition decimal_text :: "string \<Rightarrow> limit_value option" where
  "decimal_text s = (case filter (\<lambda>c. c \<noteq> CHR ''_'') (str_strip s) of
      c # cs \<Rightarrow> if c = CHR ''-'' then map_option negated (unsigned_limit cs)
                else if c = CHR ''+'' then unsigned_limit cs else unsigned_limit (c # cs)
    | [] \<Rightarrow> None)"

definition limit_of :: "json \<Rightarrow> limit_value option" where
  "limit_of v = (case v of
      JInt i \<Rightarrow> Some (Amount (of_int i)) | JFloat r \<Rightarrow> Some (Amount r) | JStr s \<Rightarrow> decimal_text s | _ \<Rightarrow> None)"

definition rpm_of :: "json \<Rightarrow> int option" where
  "rpm_of v = (case v of
      JBool b \<Rightarrow> if b then Some 1 else None
    | JInt i \<Rightarrow> if 0 < i then Some i else None
    | JFloat r \<Rightarrow> if 0 < r then Some \<lfloor>r\<rfloor> else None
    | _ \<Rightarrow> None)"

definition normalize_budget_policy :: "json \<Rightarrow> budget_policy" where
  "normalize_budget_policy raw0 =
     (let raw = (case raw0 of JObj kvs \<Rightarrow> kvs | _ \<Rightarrow> []) in
      \<lparr>bp_enabled = json_true (json_default ''enabled'' raw (JBool False)),
       max_request_usd = limit_of (json_get ''max_request_usd'' raw),
       monthly_limit_usd = limit_of (json_get ''monthly_limit_usd'' raw),
       requests_per_minute = rpm_of (json_get ''requests_per_minute'' raw)\<rparr>)"

text \<open>\<open>amount > limit\<close>; with NaN the comparison of decimals raises, the one of floats is false.\<close>

definition above :: "rat \<Rightarrow> limit_value \<Rightarrow> bool" where
  "above x l = (case l of Amount r \<Rightarrow> r < x | Infinite negative \<Rightarrow> negative | Not_A_Number \<Rightarrow> False)"

definition MINUTE :: int where "MINUTE = 60000000"

definition requests_since :: "uuid \<Rightarrow> instant \<Rightarrow> billing_db \<Rightarrow> int" where
  "requests_since r start db =
     (\<Sum>l \<leftarrow> filter (\<lambda>l. att_runtime (log_scope l) = Some r \<and> start \<le> log_created_at l) (usage_logs db). log_requests l)"

definition cost_since :: "uuid \<Rightarrow> instant \<Rightarrow> billing_db \<Rightarrow> decimal" where
  "cost_since r start db =
     sum_where (\<lambda>l. att_runtime (log_scope l) = Some r \<and> start \<le> log_created_at l) log_cost (usage_logs db)"

datatype budget_verdict = Within_Budget | Over_Budget string | Budget_Crash

definition check_runtime_budget :: "runtime \<Rightarrow> decimal \<Rightarrow> instant \<Rightarrow> billing_db \<Rightarrow> budget_verdict \<times> budget_policy" where
  "check_runtime_budget r estimated now db =
     (let raw = json_get ''budgets'' (rt_config r); policy = normalize_budget_policy raw in
      (if \<not> json_true raw \<or> \<not> bp_enabled policy then Within_Budget
       else if (case max_request_usd policy of None \<Rightarrow> False | Some l \<Rightarrow> above estimated l)
       then Over_Budget ''request_budget_exceeded''
       else if (case requests_per_minute policy of None \<Rightarrow> False | Some n \<Rightarrow> n \<le> requests_since (rt_id r) (now - MINUTE) db)
       then Over_Budget ''request_rate_limit_exceeded''
       else (case monthly_limit_usd policy of
          None \<Rightarrow> Within_Budget
        | Some Not_A_Number \<Rightarrow> Budget_Crash
        | Some l \<Rightarrow> if above (cost_since (rt_id r) (period_start Monthly now) db + estimated) l
                    then Over_Budget ''monthly_budget_exceeded'' else Within_Budget), policy))"

section \<open>Joining records of several sources\<close>

type_synonym json_record = "(string \<times> json) list"

record source_set =
  src_name :: string
  src_records :: "json_record list"

record joined =
  jn_sources :: "string list"
  jn_rows :: "json_record list"
  jn_matched :: nat
  jn_on :: "string option"
  jn_provenance :: "(string \<times> nat) list"

text \<open>Equality of dictionary keys: booleans and numbers compare by value. Lists and objects cannot
  be keys (the TypeError).\<close>

definition key_number :: "json \<Rightarrow> rat option" where
  "key_number v = (case v of JBool b \<Rightarrow> Some (if b then 1 else 0) | JInt i \<Rightarrow> Some (of_int i) | JFloat r \<Rightarrow> Some r | _ \<Rightarrow> None)"

definition same_key :: "json \<Rightarrow> json \<Rightarrow> bool" where
  "same_key a b = (a = b \<or> (key_number a \<noteq> None \<and> key_number a = key_number b))"

definition hashable :: "json \<Rightarrow> bool" where
  "hashable v = (case v of JList _ \<Rightarrow> False | JObj _ \<Rightarrow> False | _ \<Rightarrow> True)"

type_synonym groups = "(json \<times> (string \<times> json_record) list) list"

text \<open>\<open>grouped[key][source] = record\<close>: the last record of a source under a key stays.\<close>

fun put_group :: "json \<Rightarrow> string \<Rightarrow> json_record \<Rightarrow> groups \<Rightarrow> groups" where
  "put_group k s r [] = [(k, [(s, r)])]"
| "put_group k s r ((k', by) # gs) =
     (if same_key k k' then (k', AList.update s r by) # gs else (k', by) # put_group k s r gs)"

fun group_records :: "string \<Rightarrow> string \<Rightarrow> json_record list \<Rightarrow> groups \<Rightarrow> groups option" where
  "group_records on s [] gs = Some gs"
| "group_records on s (r # rs) gs =
     (let k = json_get on r in
      if k = JNull then group_records on s rs gs
      else if \<not> hashable k then None
      else group_records on s rs (put_group k s r gs))"

fun group_sets :: "string \<Rightarrow> source_set list \<Rightarrow> groups \<Rightarrow> groups option" where
  "group_sets on [] gs = Some gs"
| "group_sets on (x # xs) gs =
     (case group_records on (clean_name (src_name x)) (src_records x) gs of
        None \<Rightarrow> None | Some gs' \<Rightarrow> group_sets on xs gs')"

definition merged_row :: "string \<Rightarrow> json \<times> (string \<times> json_record) list \<Rightarrow> json_record" where
  "merged_row on g = fold (\<lambda>(s, r) row. AList.update s (JObj r) row) (snd g) [(on, fst g)]"

definition tagged_records :: "source_set \<Rightarrow> json_record list" where
  "tagged_records x = map (\<lambda>r. [(''source'', JStr (clean_name (src_name x))), (''record'', JObj r)]) (src_records x)"

text \<open>The request's \<open>limit\<close> is at least 1, so stopping at the limit is taking so many rows.\<close>

definition join_source_records :: "source_set list \<Rightarrow> string option \<Rightarrow> nat \<Rightarrow> joined option" where
  "join_source_records sets on limit =
     (let finish_join = (\<lambda>rows. \<lparr>jn_sources = map (clean_name \<circ> src_name) sets, jn_rows = rows, jn_matched = length rows,
            jn_on = on, jn_provenance = map (\<lambda>x. (src_name x, length (src_records x))) sets\<rparr>) in
      case on of
        Some f \<Rightarrow>
          if f = [] then Some (finish_join (take limit (concat (map tagged_records sets))))
          else map_option (\<lambda>gs. finish_join (take limit (map (merged_row f)
                 (filter (\<lambda>g. length (snd g) = length sets) gs)))) (group_sets f sets [])
      | None \<Rightarrow> Some (finish_join (take limit (concat (map tagged_records sets)))))"

section \<open>Roles\<close>

lemma default_role_defined:
  assumes "normalize_access_policy str_of raw = Some p"
  shows "map_of (pol_roles p) (pol_default_role p) \<noteq> None"
proof -
  have keeps: "map_of rs ''developer'' \<noteq> None"
    if "configure_roles str_of cs rs0 = Some rs" "map_of rs0 ''developer'' \<noteq> None" for cs rs0 rs
    using that
  proof (induction str_of cs rs0 rule: configure_roles.induct)
    case (2 str_of name0 v rest roles)
    then show ?case
      by (cases v) (auto simp: Let_def update_conv' split: if_splits option.splits)
  qed simp
  have d: "map_of ROLE_DEFAULTS ''developer'' \<noteq> None" by (simp add: ROLE_DEFAULTS_def)
  obtain q where "p = with_default_role q" and "map_of (pol_roles q) ''developer'' \<noteq> None"
  proof (cases "\<exists>kvs rs. raw = JObj kvs \<and> json_get ''roles'' kvs = JObj rs")
    case True
    then obtain kvs rs where r: "raw = JObj kvs" "json_get ''roles'' kvs = JObj rs" by blast
    then obtain roles where "configure_roles str_of rs ROLE_DEFAULTS = Some roles"
      using assms by (auto simp: normalize_access_policy_def default_access_policy_def Let_def split: option.splits)
    from keeps [OF this d] this show ?thesis
      using assms r that by (auto simp: normalize_access_policy_def default_access_policy_def Let_def)
  next
    case False
    then have "\<exists>q. p = with_default_role q \<and> pol_roles q = ROLE_DEFAULTS"
      using assms by (auto simp: normalize_access_policy_def default_access_policy_def Let_def split: json.splits)
    with d that show ?thesis by auto
  qed
  then show ?thesis by (auto simp: with_default_role_def)
qed

lemma rank_default: "rank_of r (-1) \<le> rank_of r 2"
  by (simp add: rank_of_def split: option.split)

text \<open>Under the default rights a higher rank never has fewer: what may write has rank three.\<close>

lemma default_rights_write:
  "can_write (role_rights p r) = (3 \<le> rank_of r 2)" if "pol_roles p = ROLE_DEFAULTS" "pol_default_role p = ''developer''"
  using that by (auto simp: role_rights_def ROLE_DEFAULTS_def RANK_def rank_of_def rights_def)

text \<open>
  A role hint in the scopes of a key only narrows: with the default rights, a key whose scopes
  name one of the known roles gives its holder no write access that the holder's own role lacks.
\<close>

theorem role_hint_narrows:
  assumes "pol_roles p = ROLE_DEFAULTS" and "pol_default_role p = ''developer''" and "\<not> is_superuser u"
    and "can_write (role_rights p (resolve_role str_of u key_scopes))"
  shows "can_write (role_rights p (own_role str_of u))"
proof -
  have "rank_of (resolve_role str_of u key_scopes) 2 \<le> rank_of (own_role str_of u) 2 \<or>
      rank_of (resolve_role str_of u key_scopes) 2 = 2"
  proof (cases "role_scope key_scopes")
    case (Some r)
    then show ?thesis using assms(3)
      by (cases "map_of RANK r") (auto simp: resolve_role_def Let_def rank_of_def)
  qed (use assms(3) in \<open>simp add: resolve_role_def\<close>)
  moreover have "3 \<le> rank_of (resolve_role str_of u key_scopes) 2"
    using assms(4) default_rights_write [OF assms(1,2)] by simp
  ultimately show ?thesis using default_rights_write [OF assms(1,2)] by auto
qed

definition sample_caller :: user where
  "sample_caller = \<lparr>usr_id = 5, usr_email = ''a@b.c'', usr_name = None, hashed_password = None, usr_active = True,
     is_superuser = False, email_verified = True, usr_organization = Some 3, two_factor_enabled = False,
     two_factor_secret = None, usr_settings = Some [(''role'', JStr ''Admin'')]\<rparr>"

theorem role_hint_narrows_witness:
  "can_write (role_rights default_access_policy (resolve_role (\<lambda>_. []) sample_caller [''role:admin''])) \<and>
   can_write (role_rights default_access_policy (own_role (\<lambda>_. []) sample_caller))"
proof -
  have a: "can_write (role_rights default_access_policy (resolve_role (\<lambda>_. []) sample_caller [''role:admin'']))"
    by code_simp
  show ?thesis
    using a role_hint_narrows [of default_access_policy sample_caller "\<lambda>_. []" "[''role:admin'']"]
    by (simp add: default_access_policy_def sample_caller_def)
qed

definition sample_runtime :: "json \<Rightarrow> runtime" where
  "sample_runtime policy = \<lparr>rt_id = 9, rt_name = ''r'', rt_user = 1, rt_project = Some 7, rt_organization = Some 3,
     rt_status = ''active'', rt_version = ''1'', rt_environment = ''development'', rt_provider = ''openai'',
     rt_model = ''gpt-4o'', rt_fallback_models = [], rt_routing_strategy = ''balanced'', rt_embedding_model = [],
     rt_vector_store = [], rt_chunk_size = 0, rt_chunk_overlap = 0, rt_documents = 0, rt_chunks = 0, rt_embeddings = 0,
     rt_index_size = 0, rt_build_started = None, rt_build_completed = None, rt_last_propagated = None, rt_health = 0,
     rt_error = None, rt_api_key = None, rt_instructions = None, rt_policies = [],
     rt_config = [(''access_control'', policy)], rt_metadata = []\<rparr>"

text \<open>
  A role hint can also elevate: a role that only the runtime's policy defines has no rank, so a
  developer's key with the scope \<open>role:editor\<close> passes the write check of a runtime whose policy
  lets editors write, while without the scope the same developer is refused.
\<close>

theorem custom_role_elevates:
  "(let r = sample_runtime (JObj [(''roles'', JObj [(''editor'', JObj [(''can_write'', JBool True)])])]);
        u = sample_caller\<lparr>usr_settings := Some []\<rparr>
    in own_role (\<lambda>_. []) u = ''developer'' \<and>
       authorize_runtime_request (\<lambda>_. []) r u [''read'', ''write''] True [] =
         Inl (PermissionError (''Role '' @ quoted ''developer'' @ '' cannot perform write operations'')) \<and>
       (case authorize_runtime_request (\<lambda>_. []) r u [''read'', ''write'', ''role:editor''] True [] of
          Inr (rl, _) \<Rightarrow> rl = ''editor'' | Inl _ \<Rightarrow> False))"
  by code_simp

text \<open>
  Access is granted exactly as the policy says: a caller is let in with the resolved role when
  the runtime has no policy or a disabled one, and otherwise exactly when the rights of the role
  (those of the default role for an unknown one) cover invoking, the write if one is asked for,
  and the sources if any are named, all of them allowed.
\<close>

theorem access_granted_exactly:
  assumes "normalize_access_policy str_of (json_get ''access_control'' (rt_config r)) = Some p"
  shows "(authorize_runtime_request str_of r u key_scopes requires_write sources = Inr (caller_role str_of r u key_scopes, p)) =
    (\<not> json_true (json_get ''access_control'' (rt_config r)) \<or> \<not> pol_enabled p \<or>
     (let rp = role_rights p (caller_role str_of r u key_scopes) in
        can_invoke rp \<and> \<not> (requires_write \<and> \<not> can_write rp) \<and>
        (sources = [] \<or> (can_read_sources rp \<and>
           (allowed_sources rp = [] \<or> set (map str_lower sources) \<subseteq> set (allowed_sources rp))))))"
  using assms by (auto simp: authorize_runtime_request_def Let_def)

theorem access_granted_exactly_witness:
  "authorize_runtime_request (\<lambda>_. []) (sample_runtime JNull) sample_caller [] True [] = Inr (''admin'', default_access_policy)"
proof -
  have "normalize_access_policy (\<lambda>_. []) (json_get ''access_control'' (rt_config (sample_runtime JNull))) = Some default_access_policy"
    by code_simp
  from access_granted_exactly [OF this, of sample_caller "[]" True "[]"]
  have "authorize_runtime_request (\<lambda>_. []) (sample_runtime JNull) sample_caller [] True [] =
      Inr (caller_role (\<lambda>_. []) (sample_runtime JNull) sample_caller [], default_access_policy)"
    by (simp add: sample_runtime_def json_get_def)
  moreover have "caller_role (\<lambda>_. []) (sample_runtime JNull) sample_caller [] = ''admin''" by code_simp
  ultimately show ?thesis by simp
qed

section \<open>Joins\<close>

definition named_by :: "string set \<Rightarrow> groups \<Rightarrow> bool" where
  "named_by N gs = (\<forall>g \<in> set gs. distinct (map fst (snd g)) \<and> fst ` set (snd g) \<subseteq> N)"

lemma put_group_names: "named_by N gs \<Longrightarrow> s \<in> N \<Longrightarrow> named_by N (put_group k s r gs)"
  by (induction k s r gs rule: put_group.induct) (simp_all add: named_by_def distinct_update dom_update)

lemma group_records_names:
  "group_records on s rs gs = Some gs' \<Longrightarrow> named_by N gs \<Longrightarrow> s \<in> N \<Longrightarrow> named_by N gs'"
proof (induction on s rs gs rule: group_records.induct)
  case (2 on s r rs gs)
  have "named_by N (put_group k s r gs)" for k
    using 2(4,5) by (rule put_group_names)
  with 2 show ?case by (auto simp: Let_def split: if_splits)
qed simp

lemma group_sets_names:
  "group_sets on xs gs = Some gs' \<Longrightarrow> named_by N gs \<Longrightarrow> (clean_name \<circ> src_name) ` set xs \<subseteq> N \<Longrightarrow> named_by N gs'"
  by (induction on xs gs rule: group_sets.induct) (auto split: option.splits dest: group_records_names)

text \<open>
  Joining sources that share a name finds nothing: a joined row needs one record per source set,
  but the records are kept per source name, so as soon as two of the sets have the same name
  (two connections of the same kind) the join is empty whatever they contain.
\<close>

theorem same_source_join_empty:
  assumes "join_source_records sets (Some f) limit = Some j" and "f \<noteq> []"
    and "\<not> distinct (map (clean_name \<circ> src_name) sets)"
  shows "jn_rows j = [] \<and> jn_matched j = 0"
proof -
  obtain gs where g: "group_sets f sets [] = Some gs"
    and j: "jn_rows j = take limit (map (merged_row f) (filter (\<lambda>g. length (snd g) = length sets) gs))"
      "jn_matched j = length (jn_rows j)"
    using assms(1,2) by (auto simp: join_source_records_def Let_def)
  define N where "N = set (map (clean_name \<circ> src_name) sets)"
  have "card N < length sets"
    using assms(3) card_distinct card_length unfolding N_def
    by (metis le_neq_implies_less length_map)
  moreover have "length (snd g) \<le> card N" if "g \<in> set gs" for g
  proof -
    have n: "distinct (map fst (snd g))" "fst ` set (snd g) \<subseteq> N"
      using group_sets_names [OF g, of N] that by (auto simp: named_by_def N_def)
    then have "length (snd g) = card (fst ` set (snd g))"
      by (metis distinct_card length_map list.set_map)
    also have "\<dots> \<le> card N" using n(2) by (intro card_mono) (simp_all add: N_def)
    finally show ?thesis .
  qed
  ultimately have "filter (\<lambda>g. length (snd g) = length sets) gs = []"
    by (fastforce simp: filter_empty_conv)
  with j show ?thesis by simp
qed

definition sample_sets :: "source_set list" where
  "sample_sets = [\<lparr>src_name = ''postgres'', src_records = [[(''id'', JInt 1)]]\<rparr>,
     \<lparr>src_name = ''Postgres'', src_records = [[(''id'', JInt 1)]]\<rparr>]"

theorem same_source_join_empty_witness:
  "\<exists>j. join_source_records sample_sets (Some ''id'') 100 = Some j \<and> jn_rows j = []"
proof -
  have "(join_source_records sample_sets (Some ''id'') 100 \<noteq> None) \<and> \<not> distinct (map (clean_name \<circ> src_name) sample_sets)"
    by code_simp
  then show ?thesis using same_source_join_empty [of sample_sets "''id''" 100] by fastforce
qed

end
