(* ===== verification/Invoke_Support.thy ===== *)
theory Invoke_Support
  imports Pricing Runtime_Access Wallet_Service Provider_Funding Model_Router Secrets
begin

text \<open>
  What an invocation uses of \<open>app/services/invoke_support.py\<close> and
  \<open>app/services/provider_credentials.py\<close>: conversation history, tools, the catalog price, provider
  keys; and \<open>BillingService.record_usage\<close>. The HTTP client with its URL validation (DNS), the
  platform settings and the decryption of stored keys are arguments.
\<close>

section \<open>Rows\<close>

record tool_row =
  tl_name :: string
  tl_schema :: json
  tl_implementation :: "string option"
  tl_project :: "uuid option"

record conversation =
  cv_id :: uuid
  cv_project :: uuid
  cv_user :: "uuid option"

record chat_message =
  cm_conversation :: uuid
  cm_role :: string
  cm_content :: string
  cm_created :: instant

record provider_connection =
  pv_organization :: "uuid option"
  pv_project :: "uuid option"
  pv_name :: string
  pv_key :: "string option"
  pv_status :: string
  pv_active :: bool

section \<open>Runtime status\<close>

definition normalize_runtime_status :: "string option \<Rightarrow> string option" where
  "normalize_runtime_status = map_option clean_name"

definition is_runtime_ready :: "string option \<Rightarrow> bool" where
  "is_runtime_ready st = (case normalize_runtime_status st of None \<Rightarrow> True | Some n \<Rightarrow> n \<notin> {''failed'', ''cancelled''})"

section \<open>Prices of the catalog\<close>

definition catalog_token_cost :: "candidate option \<Rightarrow> int \<Rightarrow> int \<Rightarrow> decimal" where
  "catalog_token_cost c inp out =
     (case c of
        None \<Rightarrow> 0
      | Some x \<Rightarrow>
         (let rate = (\<lambda>r. case r of Some q \<Rightarrow> q | None \<Rightarrow> 0);
               cost = rate (info_input_price (cand_info x)) * of_int inp / 1000 + rate (info_output_price (cand_info x)) * of_int out / 1000
          in if 0 < cost then max cost (1 / 10000) else 0))"

section \<open>Conversation history\<close>

text \<open>The conversation must belong to the project and, if it has a user, to the caller. The last
  twenty messages, oldest first; \<open>sort_key\<close> is stable where \<open>ORDER BY created_at DESC\<close> leaves ties open.\<close>

definition load_recent_conversation_messages ::
  "(string \<Rightarrow> uuid option) \<Rightarrow> conversation list \<Rightarrow> chat_message list \<Rightarrow> string option \<Rightarrow> uuid \<Rightarrow> uuid \<Rightarrow> nat \<Rightarrow> message list" where
  "load_recent_conversation_messages parse convs msgs cid pid u limit =
     (case (case cid of None \<Rightarrow> None | Some t \<Rightarrow> if t = [] then None else parse t) of
        None \<Rightarrow> []
      | Some i \<Rightarrow>
         (case find (\<lambda>c. cv_id c = i \<and> cv_project c = pid \<and> (cv_user c = None \<or> cv_user c = Some u)) convs of
            None \<Rightarrow> []
          | Some c \<Rightarrow>
              map (\<lambda>m. \<lparr>role = cm_role m, content = cm_content m\<rparr>)
                (filter (\<lambda>m. cm_content m \<noteq> [])
                  (rev (take (min (max limit 1) 50)
                    (sort_key (\<lambda>m. - cm_created m) (filter (\<lambda>m. cm_conversation m = cv_id c) msgs)))))))"

section \<open>Tools\<close>

datatype tool_outcome = Skipped string | Success json int | Failed_Call

record tool_result =
  tr_name :: string
  tr_outcome :: tool_outcome

text \<open>\<open>send url arguments\<close> is the client's POST behind \<open>validate_outbound_url\<close>: the decoded answer and
  its status, or an exception. The second result is the URL that was asked.\<close>

definition tool_url :: "tool_row \<Rightarrow> string option \<times> string" where
  "tool_url t =
     (let impl = str_strip (case tl_implementation t of Some s \<Rightarrow> s | None \<Rightarrow> []) in
      if impl = [] then (None, ''no_implementation'')
      else if prefix ''http://'' impl \<or> prefix ''https://'' impl then (Some impl, [])
      else if prefix ''webhook://'' impl then (Some (drop 10 impl), [])
      else (None, ''unsupported_implementation''))"

definition execute_tool :: "(string \<Rightarrow> json \<Rightarrow> (json \<times> int) option) \<Rightarrow> tool_row \<Rightarrow> json \<Rightarrow> tool_result" where
  "execute_tool send t arguments =
     \<lparr>tr_name = tl_name t,
      tr_outcome = (case tool_url t of
         (None, reason) \<Rightarrow> Skipped reason
       | (Some url, _) \<Rightarrow> (case send url arguments of Some (r, st) \<Rightarrow> Success r st | None \<Rightarrow> Failed_Call))\<rparr>"

definition tool_is_read_only :: "tool_row \<Rightarrow> bool" where
  "tool_is_read_only t =
     (let schema = (case tl_schema t of JObj kvs \<Rightarrow> kvs | _ \<Rightarrow> []);
          custom = (case json_get ''_zyntry_custom'' schema of JObj kvs \<Rightarrow> kvs | _ \<Rightarrow> [])
      in json_default ''read_only'' custom (json_default ''read_only'' schema (JBool True)) \<noteq> JBool False)"

definition tool_status :: "tool_result \<Rightarrow> string" where
  "tool_status r = (case tr_outcome r of Skipped _ \<Rightarrow> ''skipped'' | Success _ _ \<Rightarrow> ''success'' | Failed_Call \<Rightarrow> ''error'')"

section \<open>Provider keys\<close>

definition PROVIDER_ENV_KEYS :: "(string \<times> string) list" where
  "PROVIDER_ENV_KEYS =
     [(''openai'', ''OPENAI_API_KEY''), (''anthropic'', ''ANTHROPIC_API_KEY''), (''google'', ''GOOGLE_API_KEY''),
      (''deepseek'', ''DEEPSEEK_API_KEY''), (''openrouter'', ''OPENROUTER_API_KEY''), (''groq'', ''GROQ_API_KEY''),
      (''mistral'', ''MISTRAL_API_KEY''), (''meta'', ''META_API_KEY''), (''bedrock'', ''AWS_ACCESS_KEY_ID'')]"

text \<open>\<open>open_secret\<close> is the secret manager's \<open>decrypt\<close> under the platform key.\<close>

definition decrypt_provider_key :: "(string \<Rightarrow> string option) \<Rightarrow> string option \<Rightarrow> string option" where
  "decrypt_provider_key open_secret v =
     (case v of None \<Rightarrow> None
      | Some s \<Rightarrow> if s = [] then None else if prefix ''ENCV1:'' s then open_secret s else Some s)"

definition environment_provider_key :: "(string \<Rightarrow> string option) \<Rightarrow> string \<Rightarrow> string option" where
  "environment_provider_key settings p =
     (case map_of PROVIDER_ENV_KEYS (clean_name p) of None \<Rightarrow> None | Some k \<Rightarrow> settings k)"

definition usable :: "string \<Rightarrow> provider_connection \<Rightarrow> bool" where
  "usable p c = (clean_name (pv_name c) = p \<and> pv_active c \<and> pv_status c = ''active'')"

definition database_connection :: "provider_connection list \<Rightarrow> string \<Rightarrow> uuid option \<Rightarrow> uuid option \<Rightarrow> provider_connection option" where
  "database_connection rows p project org =
     (let name = clean_name p;
          first = (\<lambda>owned. find (usable name) (filter owned rows))
      in case (case project of None \<Rightarrow> None | Some i \<Rightarrow> first (\<lambda>c. pv_project c = Some i)) of
           Some c \<Rightarrow> Some c
         | None \<Rightarrow> (case org of None \<Rightarrow> None | Some i \<Rightarrow> first (\<lambda>c. pv_organization c = Some i)))"

definition resolve_provider_key ::
  "(string \<Rightarrow> string option) \<Rightarrow> (string \<Rightarrow> string option) \<Rightarrow> provider_connection list \<Rightarrow> string \<Rightarrow> uuid option \<Rightarrow> uuid option \<Rightarrow> string option \<times> string" where
  "resolve_provider_key open_secret settings rows p project org =
     (let name = clean_name p;
          fallback = (case environment_provider_key settings name of
             Some k \<Rightarrow> if k = [] then (None, []) else (Some k, ''environment'') | None \<Rightarrow> (None, []))
      in case database_connection rows name project org of
           None \<Rightarrow> fallback
         | Some c \<Rightarrow>
            (case decrypt_provider_key open_secret (pv_key c) of
               Some k \<Rightarrow> if k = [] then fallback
                         else (Some k, if pv_project c \<noteq> None then ''project'' else ''organization'')
             | None \<Rightarrow> fallback))"

section \<open>Recording usage\<close>

text \<open>\<open>entry\<close> is the row to insert. A request already recorded for the user is returned as it is, and
  the provider's cost is then not recorded again. What the funding tracker raises is swallowed.
  The analytics row and its event are left out. The log's metadata is not stored (see
  \<open>new_transaction\<close>).\<close>

definition usage_by_request :: "uuid \<Rightarrow> string \<Rightarrow> billing_db \<Rightarrow> usage_log option" where
  "usage_by_request u request db =
     find (\<lambda>l. att_user (log_scope l) = u \<and> log_request l = Some request) (usage_logs db)"

definition record_usage :: "string \<Rightarrow> usage_log \<Rightarrow> billing_db \<times> funding_db \<Rightarrow> (billing_db \<times> funding_db) \<times> usage_log" where
  "record_usage fresh entry dbs =
     (let (db, fdb) = dbs;
          known = (if truthy (log_request entry) then usage_by_request (att_user (log_scope entry)) (the (log_request entry)) db else None)
      in case known of
           Some l \<Rightarrow> (dbs, l)
         | None \<Rightarrow>
            (let l = entry\<lparr>log_id := next_id db, log_metadata := []\<rparr>;
                 db1 = db\<lparr>usage_logs := usage_logs db @ [l], next_id := Suc (next_id db)\<rparr>;
                 fdb1 = (if 0 < log_provider_cost entry
                         then (case record_provider_cost (log_provider entry) (log_provider_cost entry) (log_request entry) (log_model entry)
                                      [(''operation'', log_operation entry)] fresh fdb of
                                 (f, Inr _) \<Rightarrow> f | (_, Inl _) \<Rightarrow> fdb)
                         else fdb)
             in ((db1, fdb1), l)))"

end
