(* ===== verification/Ip_Rules.thy ===== *)
theory Ip_Rules
  imports Token_Engine
begin

text \<open>
  The client-address rules of \<open>app/services/runtime_security.py\<close>, with what they use of Python's
  \<open>ipaddress\<close>: reading addresses and networks (\<open>strict=False\<close>) and membership. The canonical text
  that \<open>_normalize_ip_rules\<close> stores is modelled by the value it names; two texts are equal exactly
  when the values are. A zone identifier is kept with an address and dropped from a network.
\<close>

section \<open>Reading addresses\<close>

datatype ip = V4 int | V6 int

definition all_digits :: "string \<Rightarrow> bool" where
  "all_digits s = (s \<noteq> [] \<and> list_all (\<lambda>c. digit_value c \<noteq> None) s)"

definition digits_value :: "string \<Rightarrow> int" where
  "digits_value s = foldl (\<lambda>n c. n * 10 + the (digit_value c)) 0 s"

definition octet :: "string \<Rightarrow> int option" where
  "octet s =
     (if all_digits s \<and> length s \<le> 3 \<and> (s = ''0'' \<or> hd s \<noteq> CHR ''0'') \<and> digits_value s \<le> 255
      then Some (digits_value s) else None)"

definition parse_v4 :: "string \<Rightarrow> int option" where
  "parse_v4 s = (case map octet (split_on CHR ''.'' s) of
      [Some a, Some b, Some c, Some d] \<Rightarrow> Some (((a * 256 + b) * 256 + c) * 256 + d)
    | _ \<Rightarrow> None)"

definition hex_value :: "char \<Rightarrow> int option" where
  "hex_value c = (let n = of_char (lower_char c) :: nat in
     case digit_value c of Some d \<Rightarrow> Some d
     | None \<Rightarrow> if 97 \<le> n \<and> n \<le> 102 then Some (int n - 87) else None)"

definition hextet :: "string \<Rightarrow> int option" where
  "hextet s =
     (if s \<noteq> [] \<and> length s \<le> 4 \<and> list_all (\<lambda>c. hex_value c \<noteq> None) s
      then Some (foldl (\<lambda>n c. n * 16 + the (hex_value c)) 0 s) else None)"

definition hextets :: "string list \<Rightarrow> int list option" where
  "hextets ps = (if list_all (\<lambda>p. hextet p \<noteq> None) ps then Some (map (the \<circ> hextet) ps) else None)"

definition v6_value :: "int list \<Rightarrow> int" where
  "v6_value gs = foldl (\<lambda>n g. n * 65536 + g) 0 gs"

text \<open>An embedded IPv4 address is the last two groups.\<close>

definition hex_text :: "int \<Rightarrow> string" where
  "hex_text n = map (\<lambda>k. let d = (nat n div 16 ^ k) mod 16 in char_of (if d < 10 then 48 + d else 87 + d)) [3, 2, 1, 0]"

definition v6_parts :: "string \<Rightarrow> string list option" where
  "v6_parts s =
     (let ps = split_on CHR '':'' s in
      if length ps < 3 then None
      else if CHR ''.'' \<in> set (last ps) then
        (case parse_v4 (last ps) of
           None \<Rightarrow> None
         | Some v \<Rightarrow> Some (butlast ps @ [hex_text (v div 65536), hex_text (v mod 65536)]))
      else Some ps)"

definition parse_v6_body :: "string \<Rightarrow> int option" where
  "parse_v6_body s =
     (case v6_parts s of
        None \<Rightarrow> None
      | Some ps \<Rightarrow>
         (let n = length ps; gaps = filter (\<lambda>i. ps ! i = []) [1 ..< n - 1] in
          if 9 < n then None
          else (case gaps of
            [] \<Rightarrow> (if n \<noteq> 8 then None else map_option v6_value (hextets ps))
          | [k] \<Rightarrow>
             (let hi = take k ps; lo = drop (Suc k) ps;
                  hi' = (if hd ps = [] then tl hi else hi);
                  lo' = (if last ps = [] then butlast lo else lo)
              in if (hd ps = [] \<and> hi' \<noteq> []) \<or> (last ps = [] \<and> lo' \<noteq> []) then None
                 else if 8 \<le> length hi' + length lo' then None
                 else (case (hextets hi', hextets lo') of
                   (Some hs, Some ls) \<Rightarrow> Some (v6_value (hs @ replicate (8 - length hs - length ls) 0 @ ls))
                 | _ \<Rightarrow> None))
          | _ \<Rightarrow> None)))"

text \<open>\<open>addr%zone\<close>: the zone is not empty and has no second percent sign.\<close>

definition parse_v6 :: "string \<Rightarrow> (int \<times> string) option" where
  "parse_v6 s =
     (case split_on CHR ''%'' s of
        [a] \<Rightarrow> map_option (\<lambda>v. (v, [])) (parse_v6_body a)
      | [a, z] \<Rightarrow> if z = [] then None else map_option (\<lambda>v. (v, z)) (parse_v6_body a)
      | _ \<Rightarrow> None)"

definition ip_address :: "string \<Rightarrow> (ip \<times> string) option" where
  "ip_address s =
     (if CHR ''/'' \<in> set s then None
      else case parse_v4 s of
        Some v \<Rightarrow> Some (V4 v, [])
      | None \<Rightarrow> map_option (\<lambda>(v, z). (V6 v, z)) (parse_v6 s))"

section \<open>Networks\<close>

definition prefix_text :: "int \<Rightarrow> string \<Rightarrow> int option" where
  "prefix_text width s = (if all_digits s \<and> digits_value s \<le> width then Some (digits_value s) else None)"

text \<open>A dotted mask: a netmask (ones, then zeros) or else a host mask (zeros, then ones).\<close>

definition mask_prefix :: "int \<Rightarrow> int option" where
  "mask_prefix m =
     (case find (\<lambda>k. m = 2 ^ 32 - 2 ^ (32 - k)) [0 ..< 33] of
        Some k \<Rightarrow> Some (int k)
      | None \<Rightarrow> map_option int (find (\<lambda>k. m = 2 ^ (32 - k) - 1) [0 ..< 33]))"

definition v4_prefix :: "string \<Rightarrow> int option" where
  "v4_prefix s =
     (case prefix_text 32 s of
        Some p \<Rightarrow> Some p
      | None \<Rightarrow> (case parse_v4 s of None \<Rightarrow> None | Some m \<Rightarrow> mask_prefix m))"

definition network_base :: "int \<Rightarrow> int \<Rightarrow> int \<Rightarrow> int" where
  "network_base width p v = v div 2 ^ nat (width - p) * 2 ^ nat (width - p)"

definition v4_network :: "string \<Rightarrow> (ip \<times> int) option" where
  "v4_network s =
     (case (case split_on CHR ''/'' s of
              [a] \<Rightarrow> (parse_v4 a, Some 32) | [a, m] \<Rightarrow> (parse_v4 a, v4_prefix m) | _ \<Rightarrow> (None, None)) of
        (Some v, Some p) \<Rightarrow> Some (V4 (network_base 32 p v), p)
      | _ \<Rightarrow> None)"

definition v6_network :: "string \<Rightarrow> (ip \<times> int) option" where
  "v6_network s =
     (case (case split_on CHR ''/'' s of
              [a] \<Rightarrow> (parse_v6 a, Some 128) | [a, m] \<Rightarrow> (parse_v6 a, prefix_text 128 m) | _ \<Rightarrow> (None, None)) of
        (Some (v, _), Some p) \<Rightarrow> Some (V6 (network_base 128 p v), p)
      | _ \<Rightarrow> None)"

definition ip_network :: "string \<Rightarrow> (ip \<times> int) option" where
  "ip_network s = (case v4_network s of Some n \<Rightarrow> Some n | None \<Rightarrow> v6_network s)"

text \<open>\<open>address in network\<close>\<close>

definition in_network :: "ip \<Rightarrow> ip \<times> int \<Rightarrow> bool" where
  "in_network a n =
     (case (a, n) of
        (V4 v, (V4 b, p)) \<Rightarrow> network_base 32 p v = b
      | (V6 v, (V6 b, p)) \<Rightarrow> network_base 128 p v = b
      | _ \<Rightarrow> False)"

section \<open>Rules\<close>

datatype ip_rule = Rule_Address ip string | Rule_Network ip int

definition parse_rule :: "string \<Rightarrow> ip_rule option" where
  "parse_rule s =
     (if CHR ''/'' \<in> set s then map_option (\<lambda>(b, p). Rule_Network b p) (ip_network s)
      else map_option (\<lambda>(a, z). Rule_Address a z) (ip_address s))"

fun normalize_each :: "(json \<Rightarrow> string) \<Rightarrow> json list \<Rightarrow> ip_rule list \<Rightarrow> ip_rule list option" where
  "normalize_each str_of [] acc = Some acc"
| "normalize_each str_of (v # vs) acc =
     (let item = str_strip (case v of JStr s \<Rightarrow> s | _ \<Rightarrow> str_of v) in
      if item = [] then normalize_each str_of vs acc
      else case parse_rule item of
        None \<Rightarrow> None
      | Some r \<Rightarrow> normalize_each str_of vs (if r \<in> set acc then acc else acc @ [r]))"

text \<open>\<open>_normalize_ip_rules\<close>; \<open>None\<close> is the ValueError.\<close>

definition normalize_ip_rules :: "(json \<Rightarrow> string) \<Rightarrow> json \<Rightarrow> ip_rule list option" where
  "normalize_ip_rules str_of v = (case v of
      JNull \<Rightarrow> Some [] | JList vs \<Rightarrow> normalize_each str_of vs [] | _ \<Rightarrow> None)"

definition rule_network :: "ip_rule \<Rightarrow> ip \<times> int" where
  "rule_network r = (case r of
      Rule_Address (V4 v) _ \<Rightarrow> (V4 v, 32) | Rule_Address (V6 v) _ \<Rightarrow> (V6 v, 128) | Rule_Network b p \<Rightarrow> (b, p))"

definition ip_matches_rules :: "string \<Rightarrow> ip_rule list \<Rightarrow> bool" where
  "ip_matches_rules client rules =
     (case ip_address client of
        None \<Rightarrow> False
      | Some (a, _) \<Rightarrow> list_ex (\<lambda>r. in_network a (rule_network r)) rules)"

section \<open>Checks\<close>

lemma network_base_same: "network_base width p v = network_base width p v' \<longleftrightarrow>
    v div 2 ^ nat (width - p) = v' div 2 ^ nat (width - p)"
  by (simp add: network_base_def)

lemma network_base_idem: "network_base width p (network_base width p v) = network_base width p v"
  by (simp add: network_base_def)

lemma normalized_distinct: "normalize_each str_of vs acc = Some rs \<Longrightarrow> distinct acc \<Longrightarrow> distinct rs"
  by (induction str_of vs acc rule: normalize_each.induct) (auto simp: Let_def split: if_splits option.splits)

lemma no_rules [simp]: "\<not> ip_matches_rules client []"
  by (simp add: ip_matches_rules_def split: option.split)

text \<open>An address rule matches its own address only.\<close>

lemma address_rule_exact:
  "ip_matches_rules client [Rule_Address (V4 v) z] = (\<exists>z'. ip_address client = Some (V4 v, z'))"
  by (auto simp: ip_matches_rules_def rule_network_def in_network_def network_base_def split: option.splits ip.splits)

end
