(* ===== verification/Runtime_Security.thy ===== *)
theory Runtime_Security
  imports Ip_Rules Action_Guardrails
begin

text \<open>
  \<open>RuntimeSecurityService\<close> of \<open>app/services/runtime_security.py\<close>: the normalised policy of a
  runtime and the checks of a request before it is served. The Redis client is an argument, a
  record of operations on the server's state; \<open>None\<close> is an exception of the client.
\<close>

section \<open>The policy\<close>

record security_policy =
  sp_enabled :: bool
  sp_block_suspicious :: bool
  sp_injection_protection :: bool
  sp_pii_redaction :: bool
  sp_max_input_chars :: int
  sp_rate_limit :: int
  sp_ip_ban :: bool
  sp_threshold :: int
  sp_ban_seconds :: int
  sp_allowed_ips :: "ip_rule list"
  sp_blocked_ips :: "ip_rule list"
  sp_fail_closed :: bool

definition DEFAULT_POLICY :: "(string \<times> json) list" where
  "DEFAULT_POLICY =
     [(''enabled'', JBool True), (''block_suspicious_requests'', JBool True),
      (''prompt_injection_protection'', JBool True), (''pii_redaction'', JBool True),
      (''max_input_chars'', JInt 10000), (''rate_limit_per_minute'', JInt 120), (''ip_ban_enabled'', JBool True),
      (''violation_threshold'', JInt 3), (''ban_duration_seconds'', JInt 900), (''allowed_ips'', JList []),
      (''blocked_ips'', JList []), (''redis_failure_mode'', JStr ''fail_closed'')]"

text \<open>\<open>{**DEFAULT, **value}\<close>, and the clamped integers: a value that is no integer is the default.\<close>

definition merged :: "(string \<times> json) list \<Rightarrow> string \<Rightarrow> json" where
  "merged kvs k = (case map_of kvs k of Some v \<Rightarrow> v | None \<Rightarrow> json_get k DEFAULT_POLICY)"

definition clamped :: "int \<Rightarrow> int \<Rightarrow> (string \<times> json) list \<Rightarrow> string \<Rightarrow> int" where
  "clamped lo hi kvs k =
     (case int_of_json (merged kvs k) of
        Some n \<Rightarrow> max lo (min hi n)
      | None \<Rightarrow> the (int_of_json (json_get k DEFAULT_POLICY)))"

definition failure_mode_closed :: "(json \<Rightarrow> string) \<Rightarrow> json \<Rightarrow> bool" where
  "failure_mode_closed str_of v =
     (let text = (case json_or v (JStr ''fail_closed'') of JStr s \<Rightarrow> s | w \<Rightarrow> str_of w)
      in str_lower (str_strip text) \<noteq> ''fail_open'')"

text \<open>\<open>None\<close> is the ValueError of a malformed address list.\<close>

definition normalize_runtime_security_policy :: "(json \<Rightarrow> string) \<Rightarrow> (string \<times> json) list \<Rightarrow> security_policy option" where
  "normalize_runtime_security_policy str_of kvs =
     (let flag = (\<lambda>k. json_true (merged kvs k)) in
      case (normalize_ip_rules str_of (merged kvs ''allowed_ips''), normalize_ip_rules str_of (merged kvs ''blocked_ips'')) of
        (Some allowed, Some blocked) \<Rightarrow> Some
          \<lparr>sp_enabled = flag ''enabled'',
           sp_block_suspicious = (if map_of kvs ''prompt_injection_protection'' \<noteq> None
              then flag ''prompt_injection_protection'' else flag ''block_suspicious_requests''),
           sp_injection_protection = flag ''prompt_injection_protection'',
           sp_pii_redaction = flag ''pii_redaction'',
           sp_max_input_chars = clamped 1000 1000000 kvs ''max_input_chars'',
           sp_rate_limit = clamped 1 100000 kvs ''rate_limit_per_minute'',
           sp_ip_ban = flag ''ip_ban_enabled'',
           sp_threshold = clamped 1 100 kvs ''violation_threshold'',
           sp_ban_seconds = clamped 60 86400 kvs ''ban_duration_seconds'',
           sp_allowed_ips = allowed, sp_blocked_ips = blocked,
           sp_fail_closed = failure_mode_closed str_of (merged kvs ''redis_failure_mode'')\<rparr>
      | _ \<Rightarrow> None)"

section \<open>Enforcement\<close>

text \<open>The calls of the Redis client: \<open>get\<close> (is there a non-empty value), \<open>incr\<close>, \<open>expire\<close>, \<open>set\<close> with
  an expiry, \<open>delete\<close>. Keys are the runtime and the client address; the prefixes are constructors.\<close>

datatype redis_key = Block string string | Violations string string | Rate string string

record 's redis =
  rd_get :: "redis_key \<Rightarrow> 's \<Rightarrow> bool option"
  rd_incr :: "redis_key \<Rightarrow> 's \<Rightarrow> 's \<times> int option"
  rd_expire :: "redis_key \<Rightarrow> int \<Rightarrow> 's \<Rightarrow> 's \<times> bool"
  rd_set :: "redis_key \<Rightarrow> int \<Rightarrow> 's \<Rightarrow> 's \<times> bool"
  rd_delete :: "redis_key list \<Rightarrow> 's \<Rightarrow> 's"

datatype violation = Violation nat string string     \<comment> \<open>status, code, message\<close>

record security_check =
  chk_enabled :: bool
  chk_client :: string
  chk_suspicious :: bool

definition UNAVAILABLE :: violation where
  "UNAVAILABLE = Violation 503 ''security_unavailable''
     ''Runtime security controls are temporarily unavailable. Please retry shortly.''"

definition is_blocked :: "'s redis \<Rightarrow> security_policy \<Rightarrow> string \<Rightarrow> string \<Rightarrow> 's \<Rightarrow> violation + bool" where
  "is_blocked red policy rid client s =
     (case rd_get red (Block rid client) s of
        Some b \<Rightarrow> Inr b
      | None \<Rightarrow> if sp_fail_closed policy then Inl UNAVAILABLE else Inr False)"

text \<open>The first increment starts the minute; an exception in either call is one outcome.\<close>

definition counted :: "'s redis \<Rightarrow> redis_key \<Rightarrow> int \<Rightarrow> 's \<Rightarrow> 's \<times> int option" where
  "counted red k ttl s =
     (case rd_incr red k s of
        (s1, None) \<Rightarrow> (s1, None)
      | (s1, Some n) \<Rightarrow>
          if n = 1 then (let (s2, ok) = rd_expire red k ttl s1 in (s2, if ok then Some n else None))
          else (s1, Some n))"

definition enforce_rate_limit :: "'s redis \<Rightarrow> security_policy \<Rightarrow> string \<Rightarrow> string \<Rightarrow> 's \<Rightarrow> 's \<times> violation option" where
  "enforce_rate_limit red policy rid client s =
     (case counted red (Rate rid client) 60 s of
        (s1, None) \<Rightarrow> (s1, if sp_fail_closed policy then Some UNAVAILABLE else None)
      | (s1, Some n) \<Rightarrow> (s1, if sp_rate_limit policy < n
          then Some (Violation 429 ''runtime_rate_limited'' ''This runtime has reached its request rate limit. Try again shortly.'')
          else None))"

text \<open>The failure of a ban is the exception that replaces the violation when failing closed.\<close>

definition record_violation :: "'s redis \<Rightarrow> security_policy \<Rightarrow> string \<Rightarrow> string \<Rightarrow> 's \<Rightarrow> 's \<times> violation option" where
  "record_violation red policy rid client s =
     (let failed = (if sp_fail_closed policy then Some UNAVAILABLE else None) in
      if \<not> sp_ip_ban policy then (s, None)
      else case counted red (Violations rid client) (sp_ban_seconds policy) s of
        (s1, None) \<Rightarrow> (s1, failed)
      | (s1, Some n) \<Rightarrow>
          if sp_threshold policy \<le> n then
            (let (s2, ok) = rd_set red (Block rid client) (sp_ban_seconds policy) s1 in (s2, if ok then None else failed))
          else (s1, None))"

definition with_violation :: "'s redis \<Rightarrow> security_policy \<Rightarrow> string \<Rightarrow> string \<Rightarrow> violation \<Rightarrow> 's \<Rightarrow> 's \<times> (violation + 'a)" where
  "with_violation red policy rid client v s =
     (case record_violation red policy rid client s of
        (s1, Some e) \<Rightarrow> (s1, Inl e) | (s1, None) \<Rightarrow> (s1, Inl v))"

definition enforce :: "'s redis \<Rightarrow> security_policy \<Rightarrow> string \<Rightarrow> string option \<Rightarrow> string \<Rightarrow> 's \<Rightarrow> 's \<times> (violation + security_check)" where
  "enforce red policy rid host prompt s =
     (if \<not> sp_enabled policy then (s, Inr \<lparr>chk_enabled = False, chk_client = [], chk_suspicious = False\<rparr>)
      else (let client = (case host of Some h \<Rightarrow> h | None \<Rightarrow> ''unknown'') in
       if ip_matches_rules client (sp_blocked_ips policy)
       then (s, Inl (Violation 403 ''ip_blocked'' ''This client IP is blocked by the runtime security policy.''))
       else if sp_allowed_ips policy \<noteq> [] \<and> \<not> ip_matches_rules client (sp_allowed_ips policy)
       then (s, Inl (Violation 403 ''ip_not_allowlisted'' ''This client IP is not on the runtime allowlist.''))
       else case is_blocked red policy rid client s of
         Inl e \<Rightarrow> (s, Inl e)
       | Inr True \<Rightarrow> (s, Inl (Violation 403 ''ip_blocked'' ''This client is temporarily blocked by the runtime security policy.''))
       | Inr False \<Rightarrow>
          (case enforce_rate_limit red policy rid client s of
             (s1, Some e) \<Rightarrow> (s1, Inl e)
           | (s1, None) \<Rightarrow>
              if sp_max_input_chars policy < int (length prompt)
              then with_violation red policy rid client (Violation 413 ''input_too_large''
                     (''Input exceeds this runtime'' @ [CHR 0x27] @ ''s security limit of '' @
                      int_text (sp_max_input_chars policy) @ '' characters.'')) s1
              else (case validate_prompt prompt of
                 (ok, reason) \<Rightarrow>
                   if \<not> ok \<and> sp_block_suspicious policy
                   then with_violation red policy rid client (Violation 403 ''suspicious_request''
                          (case reason of Some m \<Rightarrow> if m = [] then ''Potentially unsafe prompt detected.'' else m
                           | None \<Rightarrow> ''Potentially unsafe prompt detected.'')) s1
                   else (s1, Inr \<lparr>chk_enabled = True, chk_client = client, chk_suspicious = \<not> ok\<rparr>)))))"

definition clear_ip_block :: "'s redis \<Rightarrow> string \<Rightarrow> string \<Rightarrow> 's \<Rightarrow> 's" where
  "clear_ip_block red rid client = rd_delete red [Block rid client, Violations rid client]"

section \<open>Contracts\<close>

text \<open>
  A normalised policy is always usable: every limit is within its documented range, whatever the
  stored values are, and the address rules are free of duplicates.
\<close>

theorem policy_in_range:
  assumes "normalize_runtime_security_policy str_of kvs = Some p"
  shows "1000 \<le> sp_max_input_chars p \<and> sp_max_input_chars p \<le> 1000000 \<and> 1 \<le> sp_rate_limit p \<and> sp_rate_limit p \<le> 100000 \<and>
    1 \<le> sp_threshold p \<and> sp_threshold p \<le> 100 \<and> 60 \<le> sp_ban_seconds p \<and> sp_ban_seconds p \<le> 86400 \<and>
    distinct (sp_allowed_ips p) \<and> distinct (sp_blocked_ips p)"
proof -
  have r: "lo \<le> clamped lo hi kvs k \<and> clamped lo hi kvs k \<le> hi"
    if "int_of_json (json_get k DEFAULT_POLICY) = Some d" "lo \<le> d" "d \<le> hi" for lo hi k d
    using that by (auto simp: clamped_def split: option.split)
  have d: "distinct rs" if "normalize_ip_rules str_of v = Some rs" for v rs
    using that normalized_distinct by (auto simp: normalize_ip_rules_def split: json.splits)
  note bounds = r [of "''max_input_chars''" 10000 1000 1000000] r [of "''rate_limit_per_minute''" 120 1 100000]
    r [of "''violation_threshold''" 3 1 100] r [of "''ban_duration_seconds''" 900 60 86400]
  have "int_of_json (json_get ''max_input_chars'' DEFAULT_POLICY) = Some 10000"
    "int_of_json (json_get ''rate_limit_per_minute'' DEFAULT_POLICY) = Some 120"
    "int_of_json (json_get ''violation_threshold'' DEFAULT_POLICY) = Some 3"
    "int_of_json (json_get ''ban_duration_seconds'' DEFAULT_POLICY) = Some 900"
    by (simp_all add: DEFAULT_POLICY_def json_get_def)
  note b = bounds(1) [OF this(1)] bounds(2) [OF this(2)] bounds(3) [OF this(3)] bounds(4) [OF this(4)]
  from assms d b show ?thesis
    by (auto simp: normalize_runtime_security_policy_def Let_def split: option.splits)
qed

definition sample_policy :: security_policy where
  "sample_policy = the (normalize_runtime_security_policy (\<lambda>_. []) [(''max_input_chars'', JInt 50000)])"

lemma sample_policy_made:
  "map_option (\<lambda>p. (sp_enabled p, sp_blocked_ips p, sp_allowed_ips p, sp_rate_limit p, sp_max_input_chars p, sp_fail_closed p))
     (normalize_runtime_security_policy (\<lambda>_. []) [(''max_input_chars'', JInt 50000)]) = Some (True, [], [], 120, 50000, True)"
  by code_simp

lemma sample_policy_eq: "normalize_runtime_security_policy (\<lambda>_. []) [(''max_input_chars'', JInt 50000)] = Some sample_policy"
  using sample_policy_made by (auto simp: sample_policy_def)

lemma sample_policy_fields:
  "sp_enabled sample_policy" "sp_blocked_ips sample_policy = []" "sp_allowed_ips sample_policy = []"
  "sp_rate_limit sample_policy = 120" "sp_max_input_chars sample_policy = 50000" "sp_fail_closed sample_policy"
  using sample_policy_made by (auto simp: sample_policy_def)

theorem policy_in_range_witness: "1000 \<le> sp_max_input_chars sample_policy \<and> sp_max_input_chars sample_policy \<le> 1000000"
  using policy_in_range [OF sample_policy_eq] by blast

text \<open>
  C21. A request passes an enabled policy only if its client is on no block list, on the allow list
  when there is one, not temporarily banned (unless Redis is down and the policy fails open),
  its prompt within the configured size, and, when suspicious requests are blocked, within ten
  thousand characters and free of the injection patterns. So a limit above ten thousand has no
  effect then.
\<close>

theorem passed_checks:
  assumes "enforce red policy rid host prompt s = (s', Inr r)" and "sp_enabled policy"
  shows "\<not> ip_matches_rules (chk_client r) (sp_blocked_ips policy) \<and>
    (sp_allowed_ips policy = [] \<or> ip_matches_rules (chk_client r) (sp_allowed_ips policy)) \<and>
    (rd_get red (Block rid (chk_client r)) s = Some False \<or>
       (rd_get red (Block rid (chk_client r)) s = None \<and> \<not> sp_fail_closed policy)) \<and>
    int (length prompt) \<le> sp_max_input_chars policy \<and>
    (chk_suspicious r \<longleftrightarrow> \<not> fst (validate_prompt prompt)) \<and>
    (\<not> sp_block_suspicious policy \<or> (length prompt \<le> 10000 \<and> \<not> list_ex (\<lambda>p. search p prompt) INJECTION_PATTERNS))"
proof -
  have v: "length prompt \<le> 10000 \<and> \<not> list_ex (\<lambda>p. search p prompt) INJECTION_PATTERNS" if "fst (validate_prompt prompt)"
    using that by (auto simp: validate_prompt_def split: if_splits)
  define client where "client = (case host of Some h \<Rightarrow> h | None \<Rightarrow> ''unknown'')"
  note e = assms(1) [unfolded enforce_def Let_def, folded client_def]
  have 1: "\<not> ip_matches_rules client (sp_blocked_ips policy)"
    using e assms(2) by (cases "ip_matches_rules client (sp_blocked_ips policy)") simp_all
  have 2: "\<not> (sp_allowed_ips policy \<noteq> [] \<and> \<not> ip_matches_rules client (sp_allowed_ips policy))"
    using e assms(2) 1 by (cases "sp_allowed_ips policy \<noteq> [] \<and> \<not> ip_matches_rules client (sp_allowed_ips policy)") simp_all
  have 3: "is_blocked red policy rid client s = Inr False"
    using e assms(2) 1 2 by (simp split: sum.splits bool.splits)
  obtain s1 where 4: "enforce_rate_limit red policy rid client s = (s1, None)"
    using e assms(2) 1 2 3 by (cases "enforce_rate_limit red policy rid client s") (auto split: option.splits)
  have fails: "with_violation red policy rid client w s1 \<noteq> (s', Inr r)" for w
    by (auto simp: with_violation_def split: prod.splits option.splits)
  have 5: "int (length prompt) \<le> sp_max_input_chars policy"
    using e assms(2) 1 2 3 4 fails by (cases "sp_max_input_chars policy < int (length prompt)") simp_all
  obtain ok reason where o: "validate_prompt prompt = (ok, reason)" by fastforce
  have 6: "ok \<or> \<not> sp_block_suspicious policy"
    using e assms(2) 1 2 3 4 5 o fails by (cases "\<not> ok \<and> sp_block_suspicious policy") simp_all
  have 7: "chk_client r = client \<and> chk_suspicious r = (\<not> ok)"
    using e assms(2) 1 2 3 4 5 6 o by auto
  have 8: "rd_get red (Block rid client) s = Some False \<or> (rd_get red (Block rid client) s = None \<and> \<not> sp_fail_closed policy)"
    using 3 by (auto simp: is_blocked_def split: option.splits if_splits)
  show ?thesis using 1 2 5 6 7 8 v o by auto
qed

text \<open>A client that answers: no key is set, every count is the first.\<close>

definition quiet_redis :: "unit redis" where
  "quiet_redis = \<lparr>rd_get = \<lambda>_ _. Some False, rd_incr = \<lambda>_ s. (s, Some 1), rd_expire = \<lambda>_ _ s. (s, True),
     rd_set = \<lambda>_ _ s. (s, True), rd_delete = \<lambda>_ s. s\<rparr>"

lemma sample_enforced:
  "enforce quiet_redis sample_policy ''9'' (Some ''10.0.0.1'') ''?'' () =
     ((), Inr \<lparr>chk_enabled = True, chk_client = ''10.0.0.1'', chk_suspicious = False\<rparr>)"
proof -
  have v: "validate_prompt ''?'' = (True, None)" by code_simp
  show ?thesis
    by (simp add: enforce_def Let_def sample_policy_fields v is_blocked_def enforce_rate_limit_def counted_def quiet_redis_def)
qed

theorem passed_checks_witness: "int (length ''?'') \<le> sp_max_input_chars sample_policy"
  using passed_checks [OF sample_enforced sample_policy_fields(1)] by blast

text \<open>
  Failing closed: when the Redis client raises on the ban look-up and the policy fails closed, no
  request of a client that the address rules let through is served; the answer is 503, whatever
  the prompt.
\<close>

theorem outage_fails_closed:
  assumes "sp_enabled policy" and "sp_fail_closed policy" and "rd_get red (Block rid client) s = None"
    and "\<not> ip_matches_rules client (sp_blocked_ips policy)"
    and "sp_allowed_ips policy = [] \<or> ip_matches_rules client (sp_allowed_ips policy)"
  shows "enforce red policy rid (Some client) prompt s = (s, Inl UNAVAILABLE)"
  using assms by (auto simp: enforce_def is_blocked_def)

definition dead_redis :: "unit redis" where
  "dead_redis = quiet_redis\<lparr>rd_get := \<lambda>_ _. None\<rparr>"

theorem outage_fails_closed_witness:
  "enforce dead_redis sample_policy ''9'' (Some ''x'') ''?'' () = ((), Inl UNAVAILABLE)"
proof -
  have "\<not> ip_matches_rules ''x'' []" by (simp add: ip_matches_rules_def split: option.split)
  then show ?thesis
    using outage_fails_closed [of sample_policy dead_redis "''9''" "''x''" "()" "''?''"] sample_policy_fields
    by (simp add: dead_redis_def)
qed

end
