(* ===== verification/Live_Redaction.thy ===== *)
theory Live_Redaction
  imports Token_Engine
begin

text \<open>
  \<open>redact_pii\<close> of \<open>app/services/runtime_security.py\<close>. Its four patterns are sequences of character
  classes with greedy repetition, options and look-arounds, so \<open>re.sub\<close> is modelled by the
  backtracking matcher such patterns have in Python: the first alternative that lets the rest of
  the pattern match wins. Characters are code points below 256.
\<close>

section \<open>Patterns\<close>

datatype item =
    One "char \<Rightarrow> bool"            \<comment> \<open>one character of a class\<close>
  | Many "char \<Rightarrow> bool"           \<comment> \<open>any number of them, greedy\<close>
  | Maybe "item list"             \<comment> \<open>a group or nothing, greedy\<close>
  | Boundary                      \<comment> \<open>\<open>\b\<close>\<close>
  | Not_After "char \<Rightarrow> bool"      \<comment> \<open>\<open>(?<!c)\<close>\<close>
  | Not_Before "char \<Rightarrow> bool"     \<comment> \<open>\<open>(?!c)\<close>\<close>

definition is_digit :: "char \<Rightarrow> bool" where
  "is_digit c = (digit_value c \<noteq> None)"

text \<open>\<open>\w\<close>: letters, the underscore and everything numeric.\<close>

definition is_word :: "char \<Rightarrow> bool" where
  "is_word c = (let n = of_char c :: nat in
     (48 \<le> n \<and> n \<le> 57) \<or> (65 \<le> n \<and> n \<le> 90) \<or> n = 95 \<or> (97 \<le> n \<and> n \<le> 122) \<or>
     n \<in> set [170, 178, 179, 181, 185, 186, 188, 189, 190] \<or> (192 \<le> n \<and> n \<noteq> 215 \<and> n \<noteq> 247))"

definition starts :: "(char \<Rightarrow> bool) \<Rightarrow> string \<Rightarrow> bool" where
  "starts P s = (case s of c # _ \<Rightarrow> P c | [] \<Rightarrow> False)"

definition after :: "(char \<Rightarrow> bool) \<Rightarrow> char option \<Rightarrow> bool" where
  "after P p = (case p of Some c \<Rightarrow> P c | None \<Rightarrow> False)"

fun weight :: "item \<Rightarrow> nat" and weights :: "item list \<Rightarrow> nat" where
  "weight (Maybe is) = Suc (weights is)"
| "weight _ = 1"
| "weights [] = 0"
| "weights (i # is) = weight i + weights is"

lemma weights_append [simp]: "weights (is @ js) = weights is + weights js"
  by (induction "is") auto

text \<open>\<open>run is p s\<close>: the text before \<open>s\<close> ends with \<open>p\<close>; the result is the first character before the
  rest, and the rest, of the first match of \<open>is\<close> at the start of \<open>s\<close>.\<close>

function run :: "item list \<Rightarrow> char option \<Rightarrow> string \<Rightarrow> (char option \<times> string) option" where
  "run [] p s = Some (p, s)"
| "run (One P # is) p s = (case s of c # cs \<Rightarrow> if P c then run is (Some c) cs else None | [] \<Rightarrow> None)"
| "run (Many P # is) p s =
     (case s of
        c # cs \<Rightarrow> if P c then (case run (Many P # is) (Some c) cs of Some r \<Rightarrow> Some r | None \<Rightarrow> run is p s)
                  else run is p s
      | [] \<Rightarrow> run is p s)"
| "run (Maybe js # is) p s = (case run (js @ is) p s of Some r \<Rightarrow> Some r | None \<Rightarrow> run is p s)"
| "run (Boundary # is) p s = (if after is_word p \<noteq> starts is_word s then run is p s else None)"
| "run (Not_After P # is) p s = (if after P p then None else run is p s)"
| "run (Not_Before P # is) p s = (if starts P s then None else run is p s)"
  by pat_completeness auto
termination
  by (relation "measures [\<lambda>(is, p, s). weights is + length s, \<lambda>(is, p, s). weights is]") auto

definition exact :: "char \<Rightarrow> item" where
  "exact c = One (\<lambda>x. x = c)"

fun upto :: "nat \<Rightarrow> item list \<Rightarrow> item list" where
  "upto 0 is = []"
| "upto (Suc n) is = [Maybe (is @ upto n is)]"

text \<open>\<open>(...){m,n}\<close>\<close>

definition times :: "nat \<Rightarrow> nat \<Rightarrow> item list \<Rightarrow> item list" where
  "times m n is = concat (replicate m is) @ upto (n - m) is"

definition one_of :: "string \<Rightarrow> char \<Rightarrow> bool" where
  "one_of cs c = (c \<in> set cs)"

definition is_letter :: "char \<Rightarrow> bool" where
  "is_letter c = (let n = of_char (lower_char c) :: nat in 97 \<le> n \<and> n \<le> 122)"

definition separator :: "char \<Rightarrow> bool" where
  "separator c = (is_space c \<or> c = CHR ''.'' \<or> c = CHR ''-'')"

definition EMAIL_PATTERN :: "item list" where
  "EMAIL_PATTERN =
     (let name = (\<lambda>c. is_letter c \<or> is_digit c \<or> one_of ''._%+-'' c);
          host = (\<lambda>c. is_letter c \<or> is_digit c \<or> one_of ''.-'' c)
      in [Boundary, One name, Many name, exact CHR ''@'', One host, Many host, exact CHR ''.'',
          One is_letter, One is_letter, Many is_letter, Boundary])"

definition PHONE_PATTERN :: "item list" where
  "PHONE_PATTERN =
     [Not_After is_word, Maybe (exact CHR ''+'' # times 1 3 [One is_digit] @ [One separator]),
      Maybe [exact CHR ''('']] @ times 2 4 [One is_digit] @ [Maybe [exact CHR '')''], One separator] @
     times 3 4 [One is_digit] @ [One separator] @ times 3 4 [One is_digit] @ [Not_Before is_word]"

definition SSN_PATTERN :: "item list" where
  "SSN_PATTERN = [Boundary] @ times 3 3 [One is_digit] @ [exact CHR ''-''] @ times 2 2 [One is_digit] @
     [exact CHR ''-''] @ times 4 4 [One is_digit] @ [Boundary]"

definition CARD_PATTERN :: "item list" where
  "CARD_PATTERN = [Not_After is_digit] @ times 13 19 [One is_digit, Maybe [One (one_of '' -'')]] @ [Not_Before is_digit]"

section \<open>Substitution\<close>

text \<open>\<open>re.sub\<close>: scan from the left, replace a match by what \<open>f\<close> makes of it and go on behind it.
  None of the patterns matches the empty text; the guard is where the model would stop.\<close>

function sub_from :: "item list \<Rightarrow> (string \<Rightarrow> string) \<Rightarrow> char option \<Rightarrow> string \<Rightarrow> string" where
  "sub_from pat f p s =
     (case s of
        [] \<Rightarrow> []
      | c # cs \<Rightarrow>
         (case run pat p s of
            Some (q, rest) \<Rightarrow>
              if length rest < length s
              then f (take (length s - length rest) s) @ sub_from pat f q rest
              else c # sub_from pat f (Some c) cs
          | None \<Rightarrow> c # sub_from pat f (Some c) cs))"
  by pat_completeness auto
termination by (relation "measure (\<lambda>(pat, f, p, s). length s)") auto

declare run.simps [simp del]
declare sub_from.simps [simp del]

definition re_sub :: "item list \<Rightarrow> (string \<Rightarrow> string) \<Rightarrow> string \<Rightarrow> string" where
  "re_sub pat f s = sub_from pat f None s"

section \<open>Card numbers\<close>

text \<open>The Luhn sum over the digits from the right: \<open>dbl\<close> says whether the next one is doubled.\<close>

fun luhn :: "bool \<Rightarrow> int list \<Rightarrow> int" where
  "luhn dbl [] = 0"
| "luhn dbl (d # ds) =
     (let e = (if dbl then (if 9 < d * 2 then d * 2 - 9 else d * 2) else d) in e + luhn (\<not> dbl) ds)"

definition replace_card :: "string \<Rightarrow> string" where
  "replace_card m =
     (let candidate = filter (\<lambda>c. \<not> one_of '' -'' c) m in
      if length candidate < 13 \<or> 19 < length candidate then m
      else if luhn False (map (the \<circ> digit_value) (rev candidate)) mod 10 = 0 then ''[REDACTED_CARD]'' else m)"

section \<open>Redaction\<close>

definition redact_text :: "string \<Rightarrow> string" where
  "redact_text s =
     re_sub CARD_PATTERN replace_card
      (re_sub SSN_PATTERN (\<lambda>_. ''[REDACTED_SSN]'')
       (re_sub PHONE_PATTERN (\<lambda>_. ''[REDACTED_PHONE]'')
        (re_sub EMAIL_PATTERN (\<lambda>_. ''[REDACTED_EMAIL]'') s)))"

fun redact_pii :: "json \<Rightarrow> json" where
  "redact_pii (JObj kvs) = JObj (map (\<lambda>(k, v). (k, redact_pii v)) kvs)"
| "redact_pii (JList xs) = JList (map redact_pii xs)"
| "redact_pii (JStr s) = JStr (redact_text s)"
| "redact_pii v = v"

section \<open>What substitution guarantees\<close>

text \<open>The rest of a match is a suffix, and the character before it is the last one consumed.\<close>

definition leads :: "char option \<Rightarrow> string \<Rightarrow> char option \<times> string \<Rightarrow> bool" where
  "leads p s r = (\<exists>m. s = m @ snd r \<and> fst r = (if m = [] then p else Some (last m)))"

lemma leads_refl: "leads p s (p, s)"
  by (simp add: leads_def)

lemma leads_Cons: "leads (Some c) cs r \<Longrightarrow> leads p (c # cs) r"
  unfolding leads_def by (elim exE, rule_tac x = "c # m" in exI) auto

lemma run_leads: "run pat p s = Some r \<Longrightarrow> leads p s r"
proof (induction pat p s arbitrary: r rule: run.induct)
  case (1 p s)
  then show ?case by (auto simp: run.simps(1) leads_refl)
next
  case (2 P "is" p s)
  then obtain c cs where "s = c # cs" "P c" "run is (Some c) cs = Some r"
    by (simp add: run.simps(2) split: list.splits if_splits)
  with 2(1) show ?case by (metis leads_Cons)
next
  case (3 P "is" p s)
  show ?case
  proof (cases s)
    case (Cons c cs)
    show ?thesis
    proof (cases "P c \<and> run (Many P # is) (Some c) cs = Some r")
      case True
      then show ?thesis using 3(2) [OF Cons] Cons by (auto intro: leads_Cons)
    next
      case False
      have r: "run is p s = Some r"
        using 3(5) Cons False run.simps(3) [of P "is" p s] by (simp split: if_splits option.splits)
      show ?thesis
      proof (cases "P c")
        case True
        then have "run (Many P # is) (Some c) cs = None"
          using 3(5) Cons False run.simps(3) [of P "is" p s] by (simp split: option.splits)
        with 3(3) [OF Cons True this] r show ?thesis by simp
      next
        case False
        with 3(4) [OF Cons] r show ?thesis by simp
      qed
    qed
  next
    case Nil
    then show ?thesis using 3(1) 3(5) run.simps(3) [of P "is" p s] by simp
  qed
next
  case (4 js "is" p s)
  then show ?case using run.simps(4) [of js "is" p s] by (cases "run (js @ is) p s") auto
qed (auto simp: run.simps split: if_splits)

text \<open>Every card number that leaves the filter unchanged fails the checksum or has the wrong
  length, and what is replaced is a match of the pattern.\<close>

lemma replace_card_keeps:
  "replace_card m = m \<or> replace_card m = ''[REDACTED_CARD]''"
  by (auto simp: replace_card_def Let_def)

text \<open>A text cut into what is kept and what is replaced: no match starts inside a kept piece, and
  every replaced piece is a match at its place.\<close>

inductive cuts :: "item list \<Rightarrow> (string \<Rightarrow> string) \<Rightarrow> char option \<Rightarrow> string \<Rightarrow> string \<Rightarrow> bool" for pat f where
  cut_end: "cuts pat f p [] []"
| cut_keep: "run pat p (c # cs) = None \<Longrightarrow> cuts pat f (Some c) cs out \<Longrightarrow> cuts pat f p (c # cs) (c # out)"
| cut_replace: "m \<noteq> [] \<Longrightarrow> run pat p (m @ rest) = Some (Some (last m), rest) \<Longrightarrow> cuts pat f (Some (last m)) rest out \<Longrightarrow>
    cuts pat f p (m @ rest) (f m @ out)"

definition consumes :: "item list \<Rightarrow> bool" where
  "consumes pat = (\<forall>p s q rest. run pat p s = Some (q, rest) \<longrightarrow> length rest < length s)"

lemma sub_from_cuts: "consumes pat \<Longrightarrow> cuts pat f p s (sub_from pat f p s)"
proof (induction pat f p s rule: sub_from.induct)
  case (1 pat f p s)
  show ?case
  proof (cases s)
    case Nil
    then show ?thesis by (simp add: sub_from.simps cut_end)
  next
    case (Cons c cs)
    show ?thesis
    proof (cases "run pat p s")
      case None
      then show ?thesis using 1 Cons by (auto simp: sub_from.simps [of pat f p "c # cs"] intro: cut_keep)
    next
      case (Some x)
      obtain q rest where x: "x = (q, rest)" by (cases x)
      with Some 1(4) have less: "length rest < length s" by (auto simp: consumes_def)
      obtain m where m: "s = m @ rest" "q = (if m = [] then p else Some (last m))"
        using run_leads [OF Some] x by (auto simp: leads_def)
      with less have ne: "m \<noteq> []" by auto
      have "cuts pat f q rest (sub_from pat f q rest)"
        using 1(2) [OF Cons Some x [symmetric] less 1(4)] .
      then have "cuts pat f p (m @ rest) (f m @ sub_from pat f q rest)"
        using Some x m ne by (intro cut_replace) auto
      moreover have taken: "take (length s - length rest) s = m" using m(1) by simp
      have "sub_from pat f p s = f m @ sub_from pat f q rest"
        using Some x less Cons sub_from.simps [of pat f p s] taken by auto
      ultimately show ?thesis using m(1) by simp
    qed
  qed
qed

fun needed :: "item list \<Rightarrow> nat" where
  "needed [] = 0"
| "needed (One P # is) = Suc (needed is)"
| "needed (_ # is) = needed is"

lemma needed_append: "needed (is @ js) = needed is + needed js"
  by (induction "is" rule: needed.induct) auto

lemma run_needs: "run pat p s = Some (q, rest) \<Longrightarrow> needed pat + length rest \<le> length s"
proof (induction pat p s arbitrary: q rest rule: run.induct)
  case (2 P "is" p s)
  then show ?case by (force simp: run.simps(2) split: list.splits if_splits)
next
  case (3 P "is" p s)
  note r = 3(5)
  show ?case
  proof (cases s)
    case (Cons c cs)
    show ?thesis
    proof (cases "P c \<and> run (Many P # is) (Some c) cs \<noteq> None")
      case True
      then have "run (Many P # is) (Some c) cs = Some (q, rest)"
        using r Cons run.simps(3) [of P "is" p s] by auto
      with 3(2) [OF Cons] True Cons show ?thesis by fastforce
    next
      case False
      then have "run is p s = Some (q, rest)"
        using r Cons run.simps(3) [of P "is" p s] by (cases "run (Many P # is) (Some c) cs") (auto split: if_splits)
      with 3(3,4) [OF Cons] False show ?thesis by (cases "P c"; fastforce)
    qed
  next
    case Nil
    then have "run is p s = Some (q, rest)" using r run.simps(3) [of P "is" p s] by simp
    with 3(1) [OF Nil] show ?thesis by simp
  qed
next
  case (4 js "is" p s)
  then show ?case using run.simps(4) [of js "is" p s]
    by (cases "run (js @ is) p s") (auto simp: needed_append dest: add_leD2)
qed (auto simp: run.simps split: if_splits)

lemma consumesI: "0 < needed pat \<Longrightarrow> consumes pat"
  unfolding consumes_def using run_needs by fastforce

lemma patterns_consume: "consumes EMAIL_PATTERN" "consumes PHONE_PATTERN" "consumes SSN_PATTERN" "consumes CARD_PATTERN"
  by (rule consumesI; code_simp)+

text \<open>
  Redaction cuts every text along the matches of the four patterns in turn, email addresses
  first and card numbers last: what is kept between two cuts contains no start of a match of the
  pattern, each match is replaced by the pattern's marker, and a card number by its own only if
  the checksum holds.
\<close>

theorem redaction_cuts:
  "\<exists>a b c. cuts EMAIL_PATTERN (\<lambda>_. ''[REDACTED_EMAIL]'') None s a \<and> cuts PHONE_PATTERN (\<lambda>_. ''[REDACTED_PHONE]'') None a b \<and>
     cuts SSN_PATTERN (\<lambda>_. ''[REDACTED_SSN]'') None b c \<and> cuts CARD_PATTERN replace_card None c (redact_text s)"
  unfolding redact_text_def re_sub_def using patterns_consume by (blast intro: sub_from_cuts)

lemma run_contains: "run pat p s = Some r \<Longrightarrow> One (\<lambda>x. x = c) \<in> set pat \<Longrightarrow> c \<in> set s"
proof (induction pat p s arbitrary: r rule: run.induct)
  case (2 P "is" p s)
  then obtain d ds where "s = d # ds" "P d" "run is (Some d) ds = Some r"
    by (simp add: run.simps(2) split: list.splits if_splits)
  with 2(1) [of d ds r] 2(3) show ?case by auto
next
  case (3 P "is" p s)
  have c: "One (\<lambda>x. x = c) \<in> set is" using 3(6) by auto
  show ?case
  proof (cases s)
    case (Cons d ds)
    show ?thesis
    proof (cases "P d \<and> run (Many P # is) (Some d) ds \<noteq> None")
      case True
      with 3(2) [OF Cons] 3(6) Cons show ?thesis by auto
    next
      case False
      then have "run is p s = Some r"
        using 3(5) Cons run.simps(3) [of P "is" p s]
        by (cases "run (Many P # is) (Some d) ds") (auto split: if_splits)
      with 3(3,4) [OF Cons] False c show ?thesis by (cases "P d"; fastforce)
    qed
  next
    case Nil
    then have "run is p s = Some r" using 3(5) run.simps(3) [of P "is" p s] by simp
    with 3(1) [OF Nil] c show ?thesis by simp
  qed
next
  case (4 js "is" p s)
  then show ?case using run.simps(4) [of js "is" p s] by (cases "run (js @ is) p s") auto
qed (auto simp: run.simps split: if_splits)

text \<open>A pattern that needs a character leaves a text without it alone.\<close>

lemma sub_without: "One (\<lambda>x. x = c) \<in> set pat \<Longrightarrow> c \<notin> set s \<Longrightarrow> sub_from pat f p s = s"
proof (induction s arbitrary: p)
  case (Cons d ds)
  then have "run pat p (d # ds) = None" using run_contains [of pat p "d # ds" _ c] by (metis not_None_eq)
  with Cons show ?case by (simp add: sub_from.simps)
qed (simp add: sub_from.simps)

lemma no_email: "CHR ''@'' \<notin> set s \<Longrightarrow> re_sub EMAIL_PATTERN f s = s"
  unfolding re_sub_def by (rule sub_without) (auto simp: EMAIL_PATTERN_def exact_def Let_def)

text \<open>
  A card number in its usual form is not recognised: its first twelve digits look like a phone
  number, which is replaced first, so the card pattern finds nothing and the last four digits
  stay; written without separators the same number is replaced as a card.
\<close>

theorem grouped_card_leaks_tail:
  "redact_text ''4111 1111 1111 1111'' = ''[REDACTED_PHONE] 1111'' \<and>
   redact_text ''4111111111111111'' = ''[REDACTED_CARD]''"
proof -
  have a: "re_sub PHONE_PATTERN (\<lambda>_. ''[REDACTED_PHONE]'') ''4111 1111 1111 1111'' = ''[REDACTED_PHONE] 1111''"
    "re_sub SSN_PATTERN (\<lambda>_. ''[REDACTED_SSN]'') ''[REDACTED_PHONE] 1111'' = ''[REDACTED_PHONE] 1111''"
    "re_sub CARD_PATTERN replace_card ''[REDACTED_PHONE] 1111'' = ''[REDACTED_PHONE] 1111''"
    by code_simp+
  have b: "re_sub PHONE_PATTERN (\<lambda>_. ''[REDACTED_PHONE]'') ''4111111111111111'' = ''4111111111111111''"
    "re_sub SSN_PATTERN (\<lambda>_. ''[REDACTED_SSN]'') ''4111111111111111'' = ''4111111111111111''"
    "re_sub CARD_PATTERN replace_card ''4111111111111111'' = ''[REDACTED_CARD]''"
    by code_simp+
  show ?thesis
    unfolding redact_text_def by (simp add: no_email a b)
qed

text \<open>Identifiers are hit too: a UUID whose middle groups have only digits contains a phone number.\<close>

lemma identifier_redacted:
  "redact_text ''a1b2c3d4-1234-4123-8123-a1b2c3d4e5f6'' = ''a1b2c3d4-[REDACTED_PHONE]-a1b2c3d4e5f6''"
proof -
  have "re_sub PHONE_PATTERN (\<lambda>_. ''[REDACTED_PHONE]'') ''a1b2c3d4-1234-4123-8123-a1b2c3d4e5f6'' = ''a1b2c3d4-[REDACTED_PHONE]-a1b2c3d4e5f6''"
    "re_sub SSN_PATTERN (\<lambda>_. ''[REDACTED_SSN]'') ''a1b2c3d4-[REDACTED_PHONE]-a1b2c3d4e5f6'' = ''a1b2c3d4-[REDACTED_PHONE]-a1b2c3d4e5f6''"
    "re_sub CARD_PATTERN replace_card ''a1b2c3d4-[REDACTED_PHONE]-a1b2c3d4e5f6'' = ''a1b2c3d4-[REDACTED_PHONE]-a1b2c3d4e5f6''"
    by code_simp+
  then show ?thesis unfolding redact_text_def by (simp add: no_email)
qed

end
