(* ===== verification/Output_Guardrails.thy ===== *)
theory Output_Guardrails
  imports Runtime_Access
begin

text \<open>
  \<open>app/services/guardrails.py\<close>: size limits, the check of a text against a JSON schema and the
  markdown check, for inputs and for what a model answers. \<open>json.loads\<close> is the argument \<open>loads\<close>
  (\<open>Inl\<close> is the decode error's text). \<open>None\<close> is an exception that a malformed schema raises.
\<close>

section \<open>Schemas\<close>

fun required_missing :: "(json \<Rightarrow> string) \<Rightarrow> (string \<times> json) list \<Rightarrow> json list \<Rightarrow> string option" where
  "required_missing str_of parsed [] = None"
| "required_missing str_of parsed (f # fs) =
     (case f of
        JStr k \<Rightarrow> if map_of parsed k = None then Some (''Missing required field: '' @ k) else required_missing str_of parsed fs
      | _ \<Rightarrow> Some (''Missing required field: '' @ str_of f))"

definition type_error :: "string \<Rightarrow> json \<Rightarrow> json \<Rightarrow> string option" where
  "type_error k expected v =
     (let wrong = (\<lambda>t. Some (''Field '' @ k @ '' must be '' @ t)) in
      if expected = JStr ''string'' \<and> \<not> (case v of JStr _ \<Rightarrow> True | _ \<Rightarrow> False) then wrong ''string''
      else if expected = JStr ''integer'' \<and> \<not> (case v of JInt _ \<Rightarrow> True | JBool _ \<Rightarrow> True | _ \<Rightarrow> False) then wrong ''integer''
      else if expected = JStr ''number'' \<and> \<not> (case v of JInt _ \<Rightarrow> True | JFloat _ \<Rightarrow> True | JBool _ \<Rightarrow> True | _ \<Rightarrow> False) then wrong ''number''
      else if expected = JStr ''array'' \<and> \<not> (case v of JList _ \<Rightarrow> True | _ \<Rightarrow> False) then wrong ''array''
      else if expected = JStr ''object'' \<and> \<not> (case v of JObj _ \<Rightarrow> True | _ \<Rightarrow> False) then wrong ''object''
      else None)"

fun properties_error :: "(string \<times> json) list \<Rightarrow> (string \<times> json) list \<Rightarrow> string option option" where
  "properties_error parsed [] = Some None"
| "properties_error parsed ((k, sch) # rest) =
     (case map_of parsed k of
        None \<Rightarrow> properties_error parsed rest
      | Some v \<Rightarrow>
         (case sch of
            JObj kvs \<Rightarrow> (case type_error k (json_get ''type'' kvs) v of
                Some e \<Rightarrow> Some (Some e) | None \<Rightarrow> properties_error parsed rest)
          | _ \<Rightarrow> None))"

definition schema_error ::
  "(string \<Rightarrow> string + json) \<Rightarrow> (json \<Rightarrow> string) \<Rightarrow> (string \<times> json) list \<Rightarrow> string \<Rightarrow> string option option" where
  "schema_error loads str_of schema text =
     (if json_get ''type'' schema \<noteq> JStr ''object'' then Some None
      else case loads text of
        Inl e \<Rightarrow> Some (Some e)
      | Inr (JObj parsed) \<Rightarrow>
         (case items_of (json_default ''required'' schema (JList [])) of
            None \<Rightarrow> None
          | Some fs \<Rightarrow>
             (case required_missing str_of parsed fs of
                Some e \<Rightarrow> Some (Some e)
              | None \<Rightarrow>
                 (case json_default ''properties'' schema (JObj []) of
                    JObj props \<Rightarrow> properties_error parsed props
                  | _ \<Rightarrow> None)))
      | Inr _ \<Rightarrow> Some (Some ''Expected object''))"

section \<open>Sizes and markdown\<close>

definition MAX_INPUT_TOKENS :: int where "MAX_INPUT_TOKENS = 128000"
definition MAX_OUTPUT_TOKENS :: int where "MAX_OUTPUT_TOKENS = 8192"

definition guardrail_tokens :: "string \<Rightarrow> int" where
  "guardrail_tokens s = max 1 (int (length s) div 4)"

definition size_error :: "string \<Rightarrow> int \<Rightarrow> string \<Rightarrow> string list" where
  "size_error what limit s =
     (if limit < guardrail_tokens s
      then [what @ '' exceeds max tokens: '' @ int_text (guardrail_tokens s) @ '' > '' @ int_text limit] else [])"

definition fence :: string where "fence = replicate 3 CHR 0x60"

text \<open>The pattern of three backquotes with \<open>(?!.*\n)\<close>: a fence in the last line, with no newline after it.\<close>

fun unterminated_fence :: "string \<Rightarrow> bool" where
  "unterminated_fence [] = False"
| "unterminated_fence (c # cs) =
     ((prefix fence (c # cs) \<and> CHR 0x0A \<notin> set (drop 3 (c # cs))) \<or> unterminated_fence cs)"

definition markdown_check :: "string \<Rightarrow> string list" where
  "markdown_check s = (if unterminated_fence s then [''Malformed markdown code block''] else [])"

definition schema_violations ::
  "(string \<Rightarrow> string + json) \<Rightarrow> (json \<Rightarrow> string) \<Rightarrow> (string \<times> json) list option \<Rightarrow> string \<Rightarrow> string list option" where
  "schema_violations loads str_of schema text =
     (case schema of
        None \<Rightarrow> Some []
      | Some [] \<Rightarrow> Some []
      | Some kvs \<Rightarrow>
         (case schema_error loads str_of kvs text of
            None \<Rightarrow> None
          | Some None \<Rightarrow> Some []
          | Some (Some e) \<Rightarrow> Some (if e = [] then [] else [''Schema validation failed: '' @ e])))"

definition validate_input ::
  "(string \<Rightarrow> string + json) \<Rightarrow> (json \<Rightarrow> string) \<Rightarrow> string \<Rightarrow> (string \<times> json) list option \<Rightarrow> string list option" where
  "validate_input loads str_of text schema =
     map_option (\<lambda>vs. size_error ''Input'' MAX_INPUT_TOKENS text @ vs) (schema_violations loads str_of schema text)"

definition validate_output ::
  "(string \<Rightarrow> string + json) \<Rightarrow> (json \<Rightarrow> string) \<Rightarrow> string \<Rightarrow> (string \<times> json) list option \<Rightarrow> string list option" where
  "validate_output loads str_of text schema =
     map_option (\<lambda>vs. size_error ''Output'' MAX_OUTPUT_TOKENS text @ markdown_check text @ vs)
       (schema_violations loads str_of schema text)"

fun comma_join :: "string list \<Rightarrow> string" where
  "comma_join [] = []"
| "comma_join [s] = s"
| "comma_join (s # t # ss) = s @ '', '' @ comma_join (t # ss)"

definition enforce_output ::
  "(string \<Rightarrow> string + json) \<Rightarrow> (json \<Rightarrow> string) \<Rightarrow> string \<Rightarrow> (string \<times> json) list option \<Rightarrow> (string \<times> string list) option" where
  "enforce_output loads str_of text schema =
     map_option (\<lambda>vs. (if vs = [] then text
         else ''[GUARDRAIL VIOLATIONS: '' @ comma_join vs @ '']'' @ [CHR 0x0A, CHR 0x0A] @ text, vs))
       (validate_output loads str_of text schema)"

section \<open>What the checks decide\<close>

lemma drop_fence [simp]: "drop 3 (fence @ b) = b"
  by (simp add: fence_def eval_nat_numeral)

lemma unterminated_fence_iff:
  "unterminated_fence s = (\<exists>a b. s = a @ fence @ b \<and> CHR 0x0A \<notin> set b)"
proof (induction s)
  case (Cons c cs)
  have "(\<exists>a b. c # cs = a @ fence @ b \<and> CHR 0x0A \<notin> set b) =
      ((prefix fence (c # cs) \<and> CHR 0x0A \<notin> set (drop 3 (c # cs))) \<or> (\<exists>a b. cs = a @ fence @ b \<and> CHR 0x0A \<notin> set b))" (is "?L = ?R")
  proof
    assume ?L
    then obtain a b where ab: "c # cs = a @ fence @ b" "CHR 0x0A \<notin> set b" by blast
    show ?R
    proof (cases a)
      case Nil
      then have "c # cs = fence @ b" using ab(1) by simp
      then show ?thesis using ab(2) by (metis drop_fence prefixI)
    qed (use ab in auto)
  next
    assume ?R
    then show ?L
    proof
      assume p: "prefix fence (c # cs) \<and> CHR 0x0A \<notin> set (drop 3 (c # cs))"
      then obtain b where b: "c # cs = fence @ b" by (auto simp: prefix_def)
      then show ?thesis using p by (metis append_Nil drop_fence)
    next
      assume "\<exists>a b. cs = a @ fence @ b \<and> CHR 0x0A \<notin> set b"
      then show ?thesis by (metis append_Cons)
    qed
  qed
  with Cons show ?case by simp
qed (simp add: fence_def)

text \<open>
  A well-formed answer is flagged: whatever a model answers, if it ends with the closing fence of
  a code block it is reported as malformed markdown and the report is put in front of the answer.
\<close>

theorem closing_fence_flagged:
  "\<exists>vs. enforce_output loads str_of (answer @ fence) None =
     Some (''[GUARDRAIL VIOLATIONS: '' @ comma_join vs @ '']'' @ [CHR 0x0A, CHR 0x0A] @ answer @ fence, vs) \<and>
     ''Malformed markdown code block'' \<in> set vs"
proof -
  have "unterminated_fence (answer @ fence)" unfolding unterminated_fence_iff by force
  then show ?thesis
    by (simp add: enforce_output_def validate_output_def schema_violations_def markdown_check_def)
qed

text \<open>Without a schema and a fence in its last line a text of at most 32,771 characters passes.\<close>

lemma plain_text_passes:
  assumes "\<not> unterminated_fence s" and "length s \<le> 32771"
  shows "enforce_output loads str_of s None = Some (s, [])"
proof -
  have "guardrail_tokens s \<le> MAX_OUTPUT_TOKENS"
    using assms(2) by (simp add: guardrail_tokens_def MAX_OUTPUT_TOKENS_def)
  with assms(1) show ?thesis
    by (simp add: enforce_output_def validate_output_def schema_violations_def markdown_check_def size_error_def)
qed

end
