(* ===== verification/Invoke_Data.thy ===== *)
theory Invoke_Data
  imports Invoke_Support Runtime_Security Live_Redaction Output_Guardrails Context_Manager Actions
begin

text \<open>
  The data of one invocation (\<open>app/api/v1/invoke/router.py\<close>): the request, the state it reads and
  writes (the tables of all components, the router's memory, Redis, the requests sent to tools,
  the trace of events), the outside world as arguments, and how a stage ends. Timestamps of the
  trace, log records and telemetry rows are left out.
\<close>

section \<open>Requests and outcomes\<close>

record invoke_request =
  iq_project :: "string option"
  iq_input :: string
  iq_runtime :: "string option"
  iq_model :: "string option"
  iq_provider :: "string option"
  iq_max_tokens :: "int option"
  iq_goal :: string
  iq_conversation :: "string option"
  iq_key :: "string option"
  iq_schema :: "(string \<times> json) list option"
  iq_actions :: "action_request list"
  iq_sources :: "string list"
  iq_join :: "string option"

text \<open>\<open>Refused\<close> is an HTTPException with its status and detail (the code, for a structured one);
  \<open>Crash\<close> any other exception, which the application answers with 500.\<close>

datatype invoke_error = Refused int string | Crash string

text \<open>\<open>Hang\<close>: the stage never returns (the trimming loop of the context assembly).\<close>

datatype 'a step = Done 'a | Raise invoke_error | Hang

datatype trace_event =
    Request_Received
  | Project_Loaded uuid
  | Runtime_Loaded "uuid option"
  | Runtime_Security_Checked bool
  | Runtime_Security_Blocked string
  | Runtime_Access_Evaluated string
  | Routing_Mode bool string string
  | Runtime_Budget_Checked bool bool
  | Source_Retrieved string string
  | Cross_Source_Context_Assembled nat
  | Context_Budgeted int
  | Token_Stream_Buffered
  | Model_Selected string string
  | Tool_Skipped string
  | Tool_Executed string string nat
  | Tool_Loop_Synthesis nat string
  | Action_Executed string string bool
  | Runtime_PII_Redacted
  | Wallet_Deducted decimal
  | Completed_Request

datatype action_outcome = Invalid_Arguments string | Confirmation_Required string | Action_Result action_response

record invoke_response =
  ir_text :: string
  ir_model :: string
  ir_provider :: string
  ir_cost :: decimal
  ir_estimate :: decimal
  ir_balance :: decimal
  ir_tools :: "tool_result list"
  ir_actions :: "action_outcome list"
  ir_violations :: "string list"
  ir_usage :: completion_usage
  ir_steps :: nat

section \<open>State and world\<close>

record 's invoke_db =
  iv_billing :: billing_db
  iv_funding :: funding_db
  iv_actions :: action_db
  iv_tools :: "tool_row list"
  iv_conversations :: "conversation list"
  iv_messages :: "chat_message list"
  iv_connections :: "provider_connection list"
  iv_router :: router_state
  iv_redis :: 's
  iv_posts :: "(string \<times> json) list"      \<comment> \<open>requests sent to tools\<close>
  iv_model_calls :: nat                     \<comment> \<open>router invocations so far\<close>
  iv_trace :: "trace_event list"

text \<open>\<open>w_adapter n\<close> answers the \<open>n\<close>-th router invocation; \<open>w_order\<close> is the iteration order of a set
  of texts; \<open>w_now\<close> and \<open>w_end\<close> are the instants before and after the model calls.\<close>

record 's world =
  w_env :: environment
  w_str :: "json \<Rightarrow> string"
  w_dumps :: "json \<Rightarrow> string"
  w_loads :: "string \<Rightarrow> string + json"
  w_red :: "'s redis"
  w_host :: "string option"
  w_catalog :: catalog
  w_adapter :: "nat \<Rightarrow> adapter"
  w_has_redis :: bool
  w_blocked :: "string \<Rightarrow> bool option"
  w_clock :: "rat \<times> rat"
  w_send :: "string \<Rightarrow> json \<Rightarrow> (json \<times> int) option"
  w_settings :: "string \<Rightarrow> string option"
  w_open :: "string \<Rightarrow> string option"
  w_order :: "string list \<Rightarrow> string list"
  w_now :: instant
  w_end :: instant
  w_latency :: int
  w_request :: string
  w_fresh :: string
  w_streaming :: bool

definition tenants_of :: "'s invoke_db \<Rightarrow> tenant_db" where
  "tenants_of st = tenants (iv_actions st)"

definition note_event :: "trace_event \<Rightarrow> 's invoke_db \<Rightarrow> 's invoke_db" where
  "note_event e st = st\<lparr>iv_trace := iv_trace st @ [e]\<rparr>"

definition proceed :: "'s invoke_db \<times> 'a step \<Rightarrow> ('s invoke_db \<Rightarrow> 'a \<Rightarrow> 's invoke_db \<times> 'b step) \<Rightarrow> 's invoke_db \<times> 'b step" where
  "proceed r f = (case r of
      (st, Done x) \<Rightarrow> f st x
    | (st, Raise e) \<Rightarrow> (st, Raise e)
    | (st, Hang) \<Rightarrow> (st, Hang))"

lemma proceed_simps [simp, code]:
  "proceed (st, Done x) f = f st x" "proceed (st, Raise e) f = (st, Raise e)" "proceed (st, Hang) f = (st, Hang)"
  by (simp_all add: proceed_def)

lemma proceed_Done:
  "proceed r f = (st', Done y) \<longleftrightarrow> (\<exists>st x. r = (st, Done x) \<and> f st x = (st', Done y))"
  by (auto simp: proceed_def split: prod.splits step.splits)

lemma proceed_Raise:
  "proceed r f = (st', Raise e) \<longleftrightarrow> r = (st', Raise e) \<or> (\<exists>st x. r = (st, Done x) \<and> f st x = (st', Raise e))"
  by (auto simp: proceed_def split: prod.splits step.splits)

lemma note_event_frames [simp]:
  "iv_billing (note_event e st) = iv_billing st" "iv_funding (note_event e st) = iv_funding st"
  "iv_actions (note_event e st) = iv_actions st" "iv_tools (note_event e st) = iv_tools st"
  "iv_router (note_event e st) = iv_router st" "iv_posts (note_event e st) = iv_posts st"
  "iv_connections (note_event e st) = iv_connections st" "iv_redis (note_event e st) = iv_redis st"
  "iv_conversations (note_event e st) = iv_conversations st" "iv_messages (note_event e st) = iv_messages st"
  "iv_model_calls (note_event e st) = iv_model_calls st" "tenants_of (note_event e st) = tenants_of st"
  by (simp_all add: note_event_def tenants_of_def)

end
