(* ===== verification/Invoke_Admission.thy ===== *)
theory Invoke_Admission
  imports Invoke_Data
begin

text \<open>
  The first half of \<open>invoke\<close> in \<open>app/api/v1/invoke/router.py\<close>: everything that is decided before a
  model is asked. Which project and runtime the request is for, whether the key may use them, the
  runtime's access policy, its security controls and status, the wallet, the routing plan, and
  the reservation of the estimated cost.
\<close>

section \<open>Project and runtime\<close>

definition parse_target :: "(string \<Rightarrow> uuid option) \<Rightarrow> string option \<Rightarrow> uuid option \<Rightarrow> string \<Rightarrow> invoke_error + uuid option" where
  "parse_target parse text scoped what =
     (if given text then (case parse (the text) of
         None \<Rightarrow> Inl (Refused 422 (''Invalid '' @ what @ '' ID'')) | Some i \<Rightarrow> Inr (Some i))
      else Inr scoped)"

definition runtime_by_project :: "tenant_db \<Rightarrow> uuid \<Rightarrow> runtime option" where
  "runtime_by_project db pid = find (\<lambda>r. rt_project r = Some pid) (runtimes db)"

definition has_scope :: "string \<Rightarrow> api_key \<Rightarrow> bool" where
  "has_scope s k = (s \<in> set (scopes k) \<or> ''*'' \<in> set (scopes k))"

text \<open>The runtime that serves the project: the requested (or scoped) one, else, also when that one
  does not exist, the first runtime of the project.\<close>

definition serving_runtime :: "tenant_db \<Rightarrow> uuid option \<Rightarrow> uuid \<Rightarrow> runtime option" where
  "serving_runtime db rid pid =
     (case (case rid of None \<Rightarrow> None | Some i \<Rightarrow> runtime_by_id db i) of
        Some r \<Rightarrow> Some r
      | None \<Rightarrow> runtime_by_project db pid)"

definition key_refusal :: "invoke_request \<Rightarrow> api_key \<Rightarrow> project \<Rightarrow> runtime option \<Rightarrow> string option" where
  "key_refusal body k p r =
     (if \<not> has_scope ''read'' k then Some ''API key lacks read scope''
      else if iq_actions body \<noteq> [] \<and> \<not> has_scope ''write'' k then Some ''API key lacks write scope''
      else if key_project k \<noteq> None \<and> key_project k \<noteq> Some (prj_id p) then Some ''API key is not authorized for this project''
      else if key_runtime k \<noteq> None \<and> key_runtime k \<noteq> map_option rt_id r then Some ''API key is not authorized for this runtime''
      else None)"

definition resolve_target ::
  "(string \<Rightarrow> uuid option) \<Rightarrow> invoke_request \<Rightarrow> user \<Rightarrow> api_key \<Rightarrow> tenant_db \<Rightarrow> invoke_error + project \<times> runtime option" where
  "resolve_target parse body u k db =
     (case parse_target parse (iq_project body) (key_project k) ''project'' of
        Inl e \<Rightarrow> Inl e
      | Inr pid0 \<Rightarrow>
       (case parse_target parse (iq_runtime body) (key_runtime k) ''runtime'' of
          Inl e \<Rightarrow> Inl e
        | Inr rid \<Rightarrow>
         (let inferred = (case rid of None \<Rightarrow> None | Some i \<Rightarrow> runtime_by_id db i) in
          case (case pid0 of Some i \<Rightarrow> Some i | None \<Rightarrow> (case inferred of None \<Rightarrow> None | Some r \<Rightarrow> rt_project r)) of
            None \<Rightarrow> Inl (Refused 422 ''API key is not scoped to a project; provide project in the request'')
          | Some pid \<Rightarrow>
             (case project_by_id db pid of
                None \<Rightarrow> Inl (Refused 404 ''Project not found'')
              | Some p \<Rightarrow>
                  if Some (prj_organization p) \<noteq> usr_organization u then Inl (Refused 404 ''Project not found'')
                  else (let r = serving_runtime db rid (prj_id p) in
                    if r \<noteq> None \<and> rt_project (the r) \<noteq> Some (prj_id p)
                    then Inl (Refused 404 ''Runtime not found for this project'')
                    else (case key_refusal body k p r of
                       Some m \<Rightarrow> Inl (Refused 403 m)
                     | None \<Rightarrow> Inr (p, r)))))))"

section \<open>Policy and environment\<close>

definition actions_write :: "registry \<Rightarrow> action_request list \<Rightarrow> bool" where
  "actions_write reg as =
     list_ex (\<lambda>a. requires_action_confirmation (rq_action a) (definition_of reg (rq_provider a) (rq_action a))) as"

definition project_environment :: "(json \<Rightarrow> string) \<Rightarrow> project \<Rightarrow> string" where
  "project_environment str_of p =
     (let v = json_get ''environment'' (prj_settings p) in if json_true v then clean_name (text_of str_of v) else [])"

definition or_development :: "string \<Rightarrow> string" where
  "or_development s = (if s = [] then ''development'' else s)"

definition runtime_environment :: "string \<Rightarrow> runtime option \<Rightarrow> string" where
  "runtime_environment project_env r = (case r of
      Some x \<Rightarrow> clean_name (rt_environment x) | None \<Rightarrow> or_development project_env)"

definition check_access :: "'s world \<Rightarrow> invoke_request \<Rightarrow> user \<Rightarrow> api_key \<Rightarrow> project \<Rightarrow> runtime option \<Rightarrow> invoke_error + string" where
  "check_access w body u k p r =
     (case (case r of
              None \<Rightarrow> Inr ''developer''
            | Some x \<Rightarrow>
               (case authorize_runtime_request (w_str w) x u (w_order w (scopes k))
                       (actions_write (env_registry (w_env w)) (iq_actions body)) (iq_sources body) of
                  Inl (PermissionError m) \<Rightarrow> Inl (Refused 403 m)
                | Inl Access_TypeError \<Rightarrow> Inl (Crash ''TypeError'')
                | Inr (rl, _) \<Rightarrow> Inr rl)) of
        Inl e \<Rightarrow> Inl e
      | Inr rl \<Rightarrow>
         (let penv = project_environment (w_str w) p; renv = runtime_environment penv r in
          if penv \<noteq> [] \<and> penv \<noteq> renv then Inl (Refused 409 ''Project and runtime environments do not match'')
          else if clean_name (or_development (key_environment k)) \<noteq> renv
          then Inl (Refused 403 ''API key environment does not match this runtime'')
          else Inr rl))"

section \<open>Security controls and status\<close>

definition security_stage :: "'s world \<Rightarrow> invoke_request \<Rightarrow> runtime option \<Rightarrow> 's invoke_db \<Rightarrow> 's invoke_db \<times> unit step" where
  "security_stage w body r st =
     (let st1 = note_event (Runtime_Loaded (map_option rt_id r)) st in
      case r of
        None \<Rightarrow> (st1, Done ())
      | Some x \<Rightarrow>
         (case normalize_runtime_security_policy (w_str w) (rt_policies x) of
            None \<Rightarrow> (st1, Raise (Crash ''ValueError''))
          | Some policy \<Rightarrow>
             (case enforce (w_red w) policy (nat_text (rt_id x)) (w_host w) (iq_input body) (iv_redis st1) of
                (s, Inl (Violation status code m)) \<Rightarrow>
                  (note_event (Runtime_Security_Blocked code) (st1\<lparr>iv_redis := s\<rparr>), Raise (Refused (int status) code))
              | (s, Inr chk) \<Rightarrow>
                  (note_event (Runtime_Security_Checked (chk_enabled chk)) (st1\<lparr>iv_redis := s\<rparr>), Done ()))))"

definition INSUFFICIENT :: invoke_error where
  "INSUFFICIENT = Refused 402 ''Insufficient credits''"

definition status_stage :: "user \<Rightarrow> string \<Rightarrow> runtime option \<Rightarrow> 's invoke_db \<Rightarrow> 's invoke_db \<times> wallet step" where
  "status_stage u rl r st =
     (let st1 = note_event (Runtime_Access_Evaluated rl) st in
      if \<not> is_runtime_ready (map_option rt_status r) then (st1, Raise (Refused 404 ''Runtime not ready''))
      else (let (b, wal) = get_wallet (usr_id u) (iv_billing st1); st2 = st1\<lparr>iv_billing := b\<rparr> in
        if wal_status wal \<noteq> ACTIVE then (st2, Raise INSUFFICIENT) else (st2, Done wal)))"

section \<open>The plan of the request\<close>

record plan =
  pl_provider :: string
  pl_model :: string
  pl_automatic :: bool
  pl_output :: int
  pl_messages :: "message list"
  pl_preference :: preference
  pl_keys :: credentials
  pl_config :: "(string \<times> json) list"
  pl_estimate :: decimal

definition first_text :: "string option \<Rightarrow> string option \<Rightarrow> string \<Rightarrow> string" where
  "first_text a b d = (if given a then the a else if given b then the b else d)"

text \<open>\<open>runtime_data["config"]\<close> is the redacted configuration.\<close>

definition shown_config :: "runtime option \<Rightarrow> (string \<times> json) list" where
  "shown_config r = (case r of
      None \<Rightarrow> []
    | Some x \<Rightarrow> (case redact (JObj (rt_config x)) of JObj kvs \<Rightarrow> kvs | _ \<Rightarrow> []))"

definition requested_output :: "invoke_request \<Rightarrow> (string \<times> json) list \<Rightarrow> int option" where
  "requested_output body config =
     int_of_json (json_or (case iq_max_tokens body of Some n \<Rightarrow> JInt n | None \<Rightarrow> JNull)
       (json_or (json_get ''max_tokens'' config) (JInt 2048)))"

definition GOALS :: "routing_goal list" where
  "GOALS = [FASTEST, CHEAPEST, BALANCED, REASONING, CODING, VISION, LONG_CONTEXT]"

definition strategy_goal :: "runtime option \<Rightarrow> routing_goal option" where
  "strategy_goal r =
     map_of [(''latency_optimized'', FASTEST), (''quality_optimized'', REASONING), (''balanced'', BALANCED)]
       (clean_name (case r of Some x \<Rightarrow> rt_routing_strategy x | None \<Rightarrow> []))"

definition request_goal :: "string \<Rightarrow> runtime option \<Rightarrow> routing_goal" where
  "request_goal text r =
     (let fallback = (case strategy_goal r of Some g \<Rightarrow> g | None \<Rightarrow> BALANCED) in
      if text = ''balanced'' then fallback
      else case find (\<lambda>g. goal_text g = text) GOALS of Some g \<Rightarrow> g | None \<Rightarrow> fallback)"

definition preference_for :: "routing_goal \<Rightarrow> preference" where
  "preference_for g = \<lparr>goal = g, preferred_providers = [], excluded_providers = [], max_latency = None,
     max_cost_per_1k = None, min_context = None, required_context_tokens = None, requires_vision = False,
     requires_tools = False, requires_streaming = False, failover_enabled = True\<rparr>"

definition nonempty :: "string option \<Rightarrow> string option" where
  "nonempty t = (if given t then t else None)"

definition provider_keys :: "'s world \<Rightarrow> provider_connection list \<Rightarrow> project \<Rightarrow> runtime option \<Rightarrow> credentials" where
  "provider_keys w rows p r =
     concat (map (\<lambda>(name, setting).
       case (case r of
               None \<Rightarrow> None
             | Some _ \<Rightarrow> fst (resolve_provider_key (w_open w) (w_settings w) rows name (Some (prj_id p)) (Some (prj_organization p)))) of
         Some k \<Rightarrow> [(name, k)]
       | None \<Rightarrow> (case nonempty (w_settings w setting) of Some k \<Rightarrow> [(name, k)] | None \<Rightarrow> []))
     PROVIDER_ENV_KEYS)"

definition token_quantities :: "int \<Rightarrow> int \<Rightarrow> int \<Rightarrow> int \<Rightarrow> usage_quantities" where
  "token_quantities inp out cached requests =
     \<lparr>q_input_tokens = inp, q_output_tokens = out, q_cached_tokens = cached, q_embedding_tokens = 0,
      q_vector_searches = 0, q_reranks = 0, q_storage_bytes = 0, q_requests = requests\<rparr>"

definition invoke_estimate :: "'s world \<Rightarrow> string \<Rightarrow> string \<Rightarrow> int \<Rightarrow> int \<Rightarrow> billing_db \<Rightarrow> decimal" where
  "invoke_estimate w prov mdl inp out b =
     calculate_cost b prov mdl ''invoke'' (token_quantities inp out 0 1) [] (w_now w)"

definition plan_stage :: "'s world \<Rightarrow> invoke_request \<Rightarrow> user \<Rightarrow> project \<Rightarrow> runtime option \<Rightarrow> 's invoke_db \<Rightarrow> 's invoke_db \<times> plan step" where
  "plan_stage w body u p r st =
     (let config = shown_config r;
          prov = first_text (iq_provider body) (map_option rt_provider r) ''openai'';
          mdl = first_text (iq_model body) (map_option rt_model r) ''gpt-4o'';
          automatic = (json_true (json_get ''dynamic_routing_enabled'' config) \<and> \<not> given (iq_provider body) \<and> \<not> given (iq_model body))
      in case requested_output body config of
           None \<Rightarrow> (st, Raise (Crash ''ValueError''))
         | Some out \<Rightarrow>
            (let history = load_recent_conversation_messages (env_uuid (w_env w)) (iv_conversations st) (iv_messages st)
                   (iq_conversation body) (prj_id p) (usr_id u) 20;
                 msgs = history @ [\<lparr>role = ''user'', content = iq_input body\<rparr>]
             in case validate_input (w_loads w) (w_str w) (iq_input body) (iq_schema body) of
                  None \<Rightarrow> (st, Raise (Crash ''AttributeError''))
                | Some (v # vs) \<Rightarrow> (st, Raise (Refused 400 ''guardrail_violations''))
                | Some [] \<Rightarrow>
                   (note_event (Routing_Mode automatic prov mdl) st, Done
                     \<lparr>pl_provider = prov, pl_model = mdl, pl_automatic = automatic, pl_output = out,
                      pl_messages = msgs, pl_preference = preference_for (request_goal (iq_goal body) r),
                      pl_keys = provider_keys w (iv_connections st) p r, pl_config = config,
                      pl_estimate = invoke_estimate w prov mdl (estimate_messages msgs) out (iv_billing st)\<rparr>)))"

section \<open>Budget and reservation\<close>

definition budget_stage :: "'s world \<Rightarrow> runtime option \<Rightarrow> decimal \<Rightarrow> 's invoke_db \<Rightarrow> 's invoke_db \<times> unit step" where
  "budget_stage w r estimate st =
     (case r of
        None \<Rightarrow> (st, Done ())
      | Some x \<Rightarrow>
         (case check_runtime_budget x estimate (w_now w) (iv_billing st) of
            (Budget_Crash, _) \<Rightarrow> (st, Raise (Crash ''InvalidOperation''))
          | (Within_Budget, policy) \<Rightarrow> (note_event (Runtime_Budget_Checked (bp_enabled policy) True) st, Done ())
          | (Over_Budget code, policy) \<Rightarrow>
              (note_event (Runtime_Budget_Checked (bp_enabled policy) False) st,
               Raise (Refused (if code = ''request_rate_limit_exceeded'' then 429 else 402) code))))"

definition attribution_of :: "user \<Rightarrow> api_key \<Rightarrow> project \<Rightarrow> runtime option \<Rightarrow> attribution" where
  "attribution_of u k p r = \<lparr>att_user = usr_id u, att_organization = usr_organization u, att_project = Some (prj_id p),
     att_runtime = map_option rt_id r, att_api_key = Some (key_id k)\<rparr>"

definition billing_key :: "'s world \<Rightarrow> invoke_request \<Rightarrow> string" where
  "billing_key w body = (if given (iq_key body) then the (iq_key body) else w_request w)"

text \<open>Only InsufficientBalanceError is caught: a spending limit, a replay on a suspended wallet and
  every other failure of \<open>reserve\<close> is a server error.\<close>

definition reserve_stage ::
  "'s world \<Rightarrow> invoke_request \<Rightarrow> attribution \<Rightarrow> wallet \<Rightarrow> plan \<Rightarrow> 's invoke_db \<Rightarrow> 's invoke_db \<times> reservation option step" where
  "reserve_stage w body att wal pl st =
     (let estimate = pl_estimate pl in
      if estimate \<le> 0 then (st, Done None)
      else if balance wal < estimate then (st, Raise INSUFFICIENT)
      else (let (b1, ok) = check_budget (att_user att) estimate (iv_billing st); st1 = st\<lparr>iv_billing := b1\<rparr> in
        if \<not> ok then (st1, Raise (Refused 402 ''Budget limit reached''))
        else (case reserve att estimate (w_request w) (billing_key w body) ''ai_inference''
                     [(''model'', pl_model pl), (''provider'', pl_provider pl)] 900 (w_now w) b1 of
            (b2, Inr res) \<Rightarrow> (st1\<lparr>iv_billing := b2\<rparr>, Done (Some res))
          | (b2, Inl (InsufficientBalanceError _ _)) \<Rightarrow> (st1\<lparr>iv_billing := b2\<rparr>, Raise INSUFFICIENT)
          | (b2, Inl _) \<Rightarrow> (st1\<lparr>iv_billing := b2\<rparr>, Raise (Crash ''reserve'')))))"

end
