(* ===== verification/Invoke.thy ===== *)
theory Invoke
  imports Invoke_Admission
begin

text \<open>
  The second half of \<open>invoke\<close> in \<open>app/api/v1/invoke/router.py\<close>: connected sources, the assembly of
  the context, the model call, the loop over read-only tools, the requested actions, the output
  checks, and the settlement; and the whole handler as the composition of its stages, in the
  order of the code and with its exits. A stage that raises leaves what it has committed; only
  the provider stage and the settlement release the reservation.
\<close>

section \<open>Connected sources\<close>

text \<open>The connector recorded in a tool's schema; \<open>None\<close> is the AttributeError of an entry that is no
  object.\<close>

definition connector_of :: "(json \<Rightarrow> string) \<Rightarrow> tool_row \<Rightarrow> string option" where
  "connector_of str_of t =
     (case tl_schema t of
        JObj kvs \<Rightarrow>
          (case json_default ''_zyntry_connection'' kvs (JObj []) of
             JObj c \<Rightarrow> (let v = json_get ''connector'' c in Some (if json_true v then text_of str_of v else []))
           | _ \<Rightarrow> None)
      | _ \<Rightarrow> Some [])"

definition underscored :: "string \<Rightarrow> string" where
  "underscored s = map (\<lambda>c. if c = CHR '' '' then CHR ''_'' else c) (clean_name s)"

definition wanted_sources :: "invoke_request \<Rightarrow> string list" where
  "wanted_sources body = map clean_name (filter (\<lambda>s. str_strip s \<noteq> []) (iq_sources body))"

definition selects :: "(json \<Rightarrow> string) \<Rightarrow> invoke_request \<Rightarrow> tool_row \<Rightarrow> bool" where
  "selects str_of body t =
     (case connector_of str_of t of
        None \<Rightarrow> False
      | Some c \<Rightarrow> clean_name c \<in> set (wanted_sources body) \<or> underscored (tl_name t) \<in> set (wanted_sources body))"

definition source_name :: "(json \<Rightarrow> string) \<Rightarrow> tool_row \<Rightarrow> string" where
  "source_name str_of t =
     (case connector_of str_of t of
        Some (c # cs) \<Rightarrow> clean_name (c # cs) | _ \<Rightarrow> clean_name (tl_name t))"

definition tool_arguments :: "invoke_request \<Rightarrow> project \<Rightarrow> user \<Rightarrow> json" where
  "tool_arguments body p u = JObj [(''input'', JStr (iq_input body)), (''project_id'', JStr (nat_text (prj_id p))),
     (''user_id'', JStr (nat_text (usr_id u)))]"

definition call_tool :: "'s world \<Rightarrow> json \<Rightarrow> tool_row \<Rightarrow> 's invoke_db \<Rightarrow> 's invoke_db \<times> tool_result" where
  "call_tool w args t st =
     (st\<lparr>iv_posts := iv_posts st @ (case tool_url t of (Some url, _) \<Rightarrow> [(url, args)] | _ \<Rightarrow> [])\<rparr>,
      execute_tool (w_send w) t args)"

definition result_records :: "tool_result \<Rightarrow> json_record list" where
  "result_records r =
     (let raw = (case tr_outcome r of
            Success (JList xs) _ \<Rightarrow> xs
          | Success (JObj kvs) _ \<Rightarrow> (case json_default ''records'' kvs (JList []) of JList xs \<Rightarrow> xs | _ \<Rightarrow> [])
          | _ \<Rightarrow> [])
      in concat (map (\<lambda>v. case v of JObj kvs \<Rightarrow> [kvs] | _ \<Rightarrow> []) raw))"

text \<open>A source name that \<open>SourceRecordSet\<close> rejects raises.\<close>

fun retrieve ::
  "'s world \<Rightarrow> json \<Rightarrow> tool_row list \<Rightarrow> 's invoke_db \<Rightarrow> 's invoke_db \<times> (tool_result \<times> source_set) list step" where
  "retrieve w args [] st = (st, Done [])"
| "retrieve w args (t # ts) st =
     (let (st1, r) = call_tool w args t st; name = source_name (w_str w) t in
      if name = [] \<or> 128 < length name then (st1, Raise (Crash ''ValidationError''))
      else proceed (retrieve w args ts (note_event (Source_Retrieved name (tool_status r)) st1))
             (\<lambda>st2 rs. (st2, Done ((r, \<lparr>src_name = name, src_records = result_records r\<rparr>) # rs))))"

definition joined_json :: "joined \<Rightarrow> json" where
  "joined_json j = JObj [(''sources'', JList (map JStr (jn_sources j))), (''records'', JList (map JObj (jn_rows j))),
     (''matched_records'', JInt (int (jn_matched j))), (''join_on'', case jn_on j of Some t \<Rightarrow> JStr t | None \<Rightarrow> JNull),
     (''provenance'', JList (map (\<lambda>(s, n). JObj [(''source'', JStr s), (''records'', JInt (int n)),
        (''join_key'', case jn_on j of Some t \<Rightarrow> JStr t | None \<Rightarrow> JNull)]) (jn_provenance j)))]"

definition listed_json :: "source_set list \<Rightarrow> json" where
  "listed_json sets = JObj [(''sources'', JList (map (JStr \<circ> src_name) sets)),
     (''records'', JList (map (\<lambda>x. JObj [(''source'', JStr (src_name x)), (''records'', JList (map JObj (src_records x)))]) sets)),
     (''matched_records'', JInt (int (sum_list (map (length \<circ> src_records) sets)))), (''join_on'', JNull)]"

definition matched_count :: "source_set list \<Rightarrow> joined option \<Rightarrow> nat" where
  "matched_count sets j = (case j of Some x \<Rightarrow> jn_matched x | None \<Rightarrow> sum_list (map (length \<circ> src_records) sets))"

text \<open>The source context, its tool results, and the number of matched records; the request model
  bounds the join to 20 sources and a key of 128 characters.\<close>

definition source_stage ::
  "'s world \<Rightarrow> invoke_request \<Rightarrow> user \<Rightarrow> project \<Rightarrow> 's invoke_db \<Rightarrow> 's invoke_db \<times> (tool_result list \<times> json option) step" where
  "source_stage w body u p st =
     (let tools = filter (\<lambda>t. tl_project t = Some (prj_id p)) (iv_tools st) in
      if iq_sources body = [] then (st, Done ([], None))
      else if list_ex (\<lambda>t. connector_of (w_str w) t = None) tools then (st, Raise (Crash ''AttributeError''))
      else (let chosen = filter (selects (w_str w) body) tools in
        if chosen = [] then (st, Raise (Refused 404 ''sources_not_connected''))
        else proceed (retrieve w (tool_arguments body p u) chosen st)
          (\<lambda>st1 rs. let sets = map snd rs in
             if given (iq_join body) then
               (if 20 < length sets \<or> 128 < length (the (iq_join body)) then (st1, Raise (Crash ''ValidationError''))
                else case join_source_records sets (iq_join body) 100 of
                  None \<Rightarrow> (st1, Raise (Crash ''TypeError''))
                | Some j \<Rightarrow> (note_event (Cross_Source_Context_Assembled (jn_matched j)) st1, Done (map fst rs, Some (joined_json j))))
             else (note_event (Cross_Source_Context_Assembled (matched_count sets None)) st1,
                   Done (map fst rs, Some (listed_json sets))))))"

section \<open>Context\<close>

definition SOURCE_INSTRUCTION :: string where
  "SOURCE_INSTRUCTION = ''Use the following connected internal source context first. Preserve source names and do not infer records that are not present.'' @ [CHR 0x0A]"

definition as_raw :: "message \<Rightarrow> raw_message" where
  "as_raw m = \<lparr>raw_role = Some (role m), raw_content = Some (content m)\<rparr>"

definition with_sources :: "'s world \<Rightarrow> json option \<Rightarrow> message list \<Rightarrow> message list" where
  "with_sources w ctx msgs = (case ctx of
      None \<Rightarrow> msgs
    | Some j \<Rightarrow> \<lparr>role = ''system'', content = SOURCE_INSTRUCTION @ w_dumps w j\<rparr> # msgs)"

text \<open>Automatic routing must find a model that holds the whole request, the output and a margin.\<close>

definition with_requirement :: "message list \<Rightarrow> plan \<Rightarrow> plan" where
  "with_requirement msgs pl = pl\<lparr>pl_preference := (pl_preference pl)\<lparr>required_context_tokens :=
     Some (estimate_messages msgs + pl_output pl + 4096)\<rparr>\<rparr>"

definition context_stage :: "plan \<Rightarrow> message list \<Rightarrow> 's invoke_db \<Rightarrow> 's invoke_db \<times> context_assembly step" where
  "context_stage pl msgs st =
     (case assemble default_manager (map as_raw msgs) (Some (pl_provider pl)) (Some (pl_model pl)) (Some (pl_output pl)) None of
        None \<Rightarrow> (st, Hang)
      | Some a \<Rightarrow> (note_event (Context_Budgeted (ca_estimated a)) st, Done a))"

definition redacts_pii :: "'s world \<Rightarrow> runtime option \<Rightarrow> bool" where
  "redacts_pii w r = (case r of
      None \<Rightarrow> False
    | Some x \<Rightarrow> (case normalize_runtime_security_policy (w_str w) (rt_policies x) of
        Some policy \<Rightarrow> sp_pii_redaction policy | None \<Rightarrow> False))"

section \<open>The model\<close>

record loop_plan =
  lp_loop :: bool
  lp_steps :: int

definition loop_plan_of :: "invoke_request \<Rightarrow> (string \<times> json) list \<Rightarrow> loop_plan" where
  "loop_plan_of body config =
     \<lparr>lp_loop = (json_true (json_default ''autonomous_tool_loop'' config (JBool True)) \<and> iq_actions body = []),
      lp_steps = (case int_of_json (json_default ''max_tool_steps'' config (JInt 3)) of
         Some n \<Rightarrow> min 3 (max 0 n) | None \<Rightarrow> 1)\<rparr>"

definition project_tools :: "project \<Rightarrow> 's invoke_db \<Rightarrow> tool_row list" where
  "project_tools p st = filter (\<lambda>t. tl_project t = Some (prj_id p)) (iv_tools st)"

definition potential_loop :: "invoke_request \<Rightarrow> loop_plan \<Rightarrow> tool_row list \<Rightarrow> bool" where
  "potential_loop body lp tools = (lp_loop lp \<and> 0 < lp_steps lp \<and> iq_sources body = [] \<and> list_ex tool_is_read_only tools)"

record answer =
  an_text :: string
  an_model :: string
  an_provider :: string
  an_attempts :: "attempt list"

definition with_router :: "router_state \<Rightarrow> 's invoke_db \<Rightarrow> 's invoke_db" where
  "with_router s st = st\<lparr>iv_router := s, iv_model_calls := Suc (iv_model_calls st)\<rparr>"

definition call_model ::
  "'s world \<Rightarrow> bool \<Rightarrow> plan \<Rightarrow> string list \<Rightarrow> context_assembly \<Rightarrow> bool \<Rightarrow> 's invoke_db \<Rightarrow> 's invoke_db \<times> (string option \<times> string \<times> string \<times> string)" where
  "call_model w automatic pl models a streaming st =
     (let ad = w_adapter w (iv_model_calls st); tokens = reserved_output (ca_budget a) in
      case (if automatic
            then invoke_with_fallback (w_catalog w) ad (w_has_redis w) (w_blocked w) (w_str w) streaming (pl_preference pl)
                   (pl_keys pl) (ca_messages a) tokens (w_clock w) (iv_router st)
            else invoke_fixed ad (w_str w) streaming (pl_provider pl) models (pl_keys pl) (ca_messages a) tokens (w_clock w) (iv_router st)) of
        (s, text, m, p, err) \<Rightarrow> (with_router s st, (text, m, p, err)))"

definition no_answer :: "string option \<Rightarrow> bool" where
  "no_answer t = (\<not> given t)"

definition or_else :: "string \<Rightarrow> string \<Rightarrow> string" where
  "or_else a b = (if a = [] then b else a)"

definition release_reservation :: "'s world \<Rightarrow> reservation option \<Rightarrow> string \<Rightarrow> 's invoke_db \<Rightarrow> 's invoke_db \<times> unit step" where
  "release_reservation w res reason st =
     (case res of
        None \<Rightarrow> (st, Done ())
      | Some x \<Rightarrow> (case release (res_id x) reason (w_end w) (iv_billing st) of
          (b, Inr _) \<Rightarrow> (st\<lparr>iv_billing := b\<rparr>, Done ())
        | (b, Inl _) \<Rightarrow> (st\<lparr>iv_billing := b\<rparr>, Raise (Crash ''release''))))"

definition model_stage ::
  "'s world \<Rightarrow> runtime option \<Rightarrow> plan \<Rightarrow> context_assembly \<Rightarrow> bool \<Rightarrow> reservation option \<Rightarrow> 's invoke_db \<Rightarrow> 's invoke_db \<times> answer step" where
  "model_stage w r pl a streaming res st =
     (let models = pl_model pl # (case r of Some x \<Rightarrow> rt_fallback_models x | None \<Rightarrow> []);
          (st1, (text, m, p, err)) = call_model w (pl_automatic pl) pl models a streaming st
      in if no_answer text
         then proceed (release_reservation w res ''provider_failed'' st1)
                (\<lambda>st2 _. (st2, Raise (Refused 502 ''All configured providers failed. Check the execution log for details.'')))
         else (let mdl = or_else m (pl_model pl); prov = or_else p (pl_provider pl) in
           (note_event (Model_Selected mdl prov) st1,
            Done \<lparr>an_text = the text, an_model = mdl, an_provider = prov, an_attempts = attempts (iv_router st1)\<rparr>)))"

section \<open>The loop over read-only tools\<close>

definition tool_json :: "tool_result \<Rightarrow> json" where
  "tool_json r = JObj [(''name'', JStr (tr_name r)), (''status'', JStr (tool_status r)),
     (''result'', case tr_outcome r of Success v _ \<Rightarrow> v | _ \<Rightarrow> JNull),
     (''error'', case tr_outcome r of Failed_Call \<Rightarrow> JStr ''Tool execution failed.'' | _ \<Rightarrow> JNull)]"

definition TOOL_INSTRUCTION :: string where
  "TOOL_INSTRUCTION = ''Use only these verified tool results. If they are empty or failed, say so plainly; do not invent records.''"

definition TOOL_REQUEST :: string where
  "TOOL_REQUEST = ''Produce the best current answer using the verified tool results and the original request. More verified sources may be added in a later step.''"

definition followup_messages :: "'s world \<Rightarrow> message list \<Rightarrow> string \<Rightarrow> tool_result list \<Rightarrow> message list" where
  "followup_messages w msgs text results =
     msgs @ [\<lparr>role = ''assistant'', content = text\<rparr>,
       \<lparr>role = ''system'', content = ''Verified read-only tool results:'' @ [CHR 0x0A] @
          w_dumps w (JObj [(''tool_results'', JList (map tool_json results)), (''instruction'', JStr TOOL_INSTRUCTION)])\<rparr>,
       \<lparr>role = ''user'', content = TOOL_REQUEST\<rparr>]"

record loop_state =
  ls_answer :: answer
  ls_results :: "tool_result list"
  ls_steps :: nat

definition loop_allowed :: "'s world \<Rightarrow> runtime option \<Rightarrow> answer \<Rightarrow> context_assembly \<Rightarrow> 's invoke_db \<Rightarrow> bool option" where
  "loop_allowed w r an fa st =
     (let estimate = invoke_estimate w (an_provider an) (an_model an) (ca_estimated fa) (reserved_output (ca_budget fa)) (iv_billing st)
      in case r of
           None \<Rightarrow> Some True
         | Some x \<Rightarrow> (case fst (check_runtime_budget x estimate (w_end w) (iv_billing st)) of
             Budget_Crash \<Rightarrow> None | Within_Budget \<Rightarrow> Some True | Over_Budget _ \<Rightarrow> Some False))"

text \<open>One round: the \<open>i\<close>-th tool, and the model with its result. \<open>final\<close> is the number of the last
  planned round, the only one that streams. \<open>Stop\<close> is \<open>break\<close>.\<close>

datatype 'a round = Next 'a | Stop 'a

definition tool_round ::
  "'s world \<Rightarrow> runtime option \<Rightarrow> plan \<Rightarrow> context_assembly \<Rightarrow> bool \<Rightarrow> json \<Rightarrow> nat \<Rightarrow> nat \<Rightarrow> tool_row \<Rightarrow>
   loop_state \<Rightarrow> 's invoke_db \<Rightarrow> 's invoke_db \<times> loop_state round step" where
  "tool_round w r pl a streaming args final i t ls st =
     (let (st1, res) = call_tool w args t st;
          st2 = note_event (Tool_Executed (tl_name t) (tool_status res) i) st1;
          ls1 = ls\<lparr>ls_results := ls_results ls @ [res], ls_steps := i\<rparr>;
          an = ls_answer ls;
          msgs = followup_messages w (ca_messages a) (an_text an) (ls_results ls1)
      in case assemble default_manager (map as_raw msgs) (Some (an_provider an)) (Some (an_model an)) (Some (reserved_output (ca_budget a))) None of
           None \<Rightarrow> (st2, Hang)
         | Some fa \<Rightarrow>
            (case loop_allowed w r an fa st2 of
               None \<Rightarrow> (st2, Raise (Crash ''InvalidOperation''))
             | Some False \<Rightarrow> (st2, Done (Stop ls1))
             | Some True \<Rightarrow>
                (let (st3, (text, m, p, err)) = call_model w False (pl\<lparr>pl_provider := an_provider an\<rparr>) [an_model an] fa
                        (streaming \<and> final \<le> i) (note_event (Tool_Loop_Synthesis i (tl_name t)) st2);
                     tried = an_attempts an @ attempts (iv_router st3);
                     kept = ls1\<lparr>ls_answer := an\<lparr>an_attempts := tried\<rparr>\<rparr>
                 in (st3, Done (if given text
                      then Next (ls1\<lparr>ls_answer := \<lparr>an_text = the text, an_model = or_else m (an_model an),
                             an_provider = or_else p (an_provider an), an_attempts = tried\<rparr>\<rparr>)
                      else if err \<noteq> [] then Stop kept else Next kept)))))"

fun tool_rounds ::
  "'s world \<Rightarrow> runtime option \<Rightarrow> plan \<Rightarrow> context_assembly \<Rightarrow> bool \<Rightarrow> json \<Rightarrow> nat \<Rightarrow> (nat \<times> tool_row) list \<Rightarrow>
   loop_state \<Rightarrow> 's invoke_db \<Rightarrow> 's invoke_db \<times> loop_state step" where
  "tool_rounds w r pl a streaming args final [] ls st = (st, Done ls)"
| "tool_rounds w r pl a streaming args final ((i, t) # rounds) ls st =
     proceed (tool_round w r pl a streaming args final i t ls st) (\<lambda>st1 x. case x of
         Stop ls1 \<Rightarrow> (st1, Done ls1)
       | Next ls1 \<Rightarrow> tool_rounds w r pl a streaming args final rounds ls1 st1)"

definition skipped_write :: "tool_row \<Rightarrow> tool_result" where
  "skipped_write t = \<lparr>tr_name = tl_name t, tr_outcome = Skipped ''write_tool_requires_explicit_action''\<rparr>"

definition loop_stage ::
  "'s world \<Rightarrow> invoke_request \<Rightarrow> user \<Rightarrow> project \<Rightarrow> runtime option \<Rightarrow> plan \<Rightarrow> context_assembly \<Rightarrow> bool \<Rightarrow> answer \<Rightarrow>
   's invoke_db \<Rightarrow> 's invoke_db \<times> (loop_state \<times> tool_result list) step" where
  "loop_stage w body u p r pl a streaming an st =
     (let tools = project_tools p st; lp = loop_plan_of body (pl_config pl); start = \<lparr>ls_answer = an, ls_results = [], ls_steps = 0\<rparr> in
      if \<not> lp_loop lp \<or> lp_steps lp \<le> 0 \<or> tools = [] \<or> iq_sources body \<noteq> [] then (st, Done (start, []))
      else (let readers = filter tool_is_read_only tools; writers = filter (\<lambda>t. \<not> tool_is_read_only t) tools;
                chosen = take (nat (lp_steps lp)) readers;
                st1 = fold (\<lambda>t. note_event (Tool_Skipped (tl_name t))) writers st
            in proceed (tool_rounds w r pl a streaming (tool_arguments body p u) (length chosen)
                   (zip [1 ..< Suc (length chosen)] chosen) start st1)
                 (\<lambda>st2 ls. (st2, Done (ls, map skipped_write writers @ ls_results ls)))))"

section \<open>Actions\<close>

fun run_actions :: "environment \<Rightarrow> user \<Rightarrow> project \<Rightarrow> action_request list \<Rightarrow> action_db \<Rightarrow> action_db \<times> action_outcome list" where
  "run_actions env u p [] db = (db, [])"
| "run_actions env u p (a # as) db =
     (let (db1, r) =
        (case validate_action_arguments (rq_arguments a) of
           (False, e) \<Rightarrow> (db, Invalid_Arguments (case e of Some m \<Rightarrow> m | None \<Rightarrow> []))
         | (True, _) \<Rightarrow>
             if requires_action_confirmation (rq_action a) (definition_of (env_registry env) (rq_provider a) (rq_action a)) \<and> \<not> rq_confirm a
             then (let (d, c) = request_confirmation (usr_id u) (prj_id p) (rq_provider a) (rq_action a) (rq_arguments a)
                          (if high_risk (rq_action a) then ''high'' else ''medium'') (env_now env) db
                   in (d, Confirmation_Required (nat_text (ac_id c))))
             else (let (d, x) = execute_action_request env (a\<lparr>rq_project := nat_text (prj_id p)\<rparr>) (usr_id u) (prj_id p) db
                   in (d, Action_Result x)));
          (db2, rs) = run_actions env u p as db1
      in (db2, r # rs))"

definition action_stage :: "'s world \<Rightarrow> invoke_request \<Rightarrow> user \<Rightarrow> project \<Rightarrow> 's invoke_db \<Rightarrow> 's invoke_db \<times> action_outcome list" where
  "action_stage w body u p st =
     (if iq_actions body = [] then (st, [])
      else (let env = w_env w; db = iv_actions st;
                (o1, ts) = pre_resolve_project_tokens (env_enc env) (env_dec env) (env_post env) (env_session env) (prj_id p) (env_now env) (oauth db);
                (db1, rs) = run_actions env u p (iq_actions body) (db\<lparr>oauth := o1\<rparr>)
            in (st\<lparr>iv_actions := db1\<rparr>, rs)))"

section \<open>Output\<close>

definition redact_tool :: "tool_result \<Rightarrow> tool_result" where
  "redact_tool r = r\<lparr>tr_name := redact_text (tr_name r),
     tr_outcome := (case tr_outcome r of Skipped m \<Rightarrow> Skipped (redact_text m) | Success v n \<Rightarrow> Success (redact_pii v) n | Failed_Call \<Rightarrow> Failed_Call)\<rparr>"

definition redact_response :: "action_response \<Rightarrow> action_response" where
  "redact_response x = x\<lparr>rsp_result := redact_pii (rsp_result x), rsp_error := map_option redact_text (rsp_error x),
     rsp_execution := map_option redact_text (rsp_execution x)\<rparr>"

definition redact_action :: "action_outcome \<Rightarrow> action_outcome" where
  "redact_action x = (case x of
      Invalid_Arguments m \<Rightarrow> Invalid_Arguments (redact_text m)
    | Confirmation_Required i \<Rightarrow> Confirmation_Required (redact_text i)
    | Action_Result y \<Rightarrow> Action_Result (redact_response y))"

definition output_stage ::
  "'s world \<Rightarrow> invoke_request \<Rightarrow> bool \<Rightarrow> string \<Rightarrow> tool_result list \<Rightarrow> action_outcome list \<Rightarrow> 's invoke_db \<Rightarrow>
   's invoke_db \<times> (string \<times> string list \<times> tool_result list \<times> action_outcome list) step" where
  "output_stage w body pii text tools acts st =
     (case enforce_output (w_loads w) (w_str w) text (iq_schema body) of
        None \<Rightarrow> (st, Raise (Crash ''AttributeError''))
      | Some (shown_text, vs) \<Rightarrow>
          if pii then
            (let red = redact_text shown_text in
             ((if red \<noteq> shown_text then note_event Runtime_PII_Redacted st else st),
              Done (red, vs, map redact_tool tools, map redact_action acts)))
          else (st, Done (shown_text, vs, tools, acts)))"

section \<open>Settlement\<close>

definition call_usages :: "attempt list \<Rightarrow> completion_usage list" where
  "call_usages as = concat (map (\<lambda>a. case att_status a of Completed u \<Rightarrow> [u] | _ \<Rightarrow> []) as)"

definition usage_of :: "attempt list \<Rightarrow> router_state \<Rightarrow> context_assembly \<Rightarrow> string \<Rightarrow> completion_usage" where
  "usage_of as s a text =
     (let us = call_usages (if as \<noteq> [] then as else attempts s) in
      if us \<noteq> [] then aggregate us
      else case last_usage s of
        Some u \<Rightarrow> u
      | None \<Rightarrow> \<lparr>input_tokens = ca_estimated a, output_tokens = estimate_text text, cached_tokens = 0, source = Estimated\<rparr>)"

text \<open>The metered price, or the catalog's when no rule applies: the cost, the provider's part and the
  markup.\<close>

definition actual_price :: "'s world \<Rightarrow> string \<Rightarrow> string \<Rightarrow> completion_usage \<Rightarrow> router_state \<Rightarrow> billing_db \<Rightarrow> decimal \<times> decimal \<times> decimal" where
  "actual_price w prov mdl usage s b =
     (let inp = max 0 (input_tokens usage); out = max 0 (output_tokens usage); cached = max 0 (cached_tokens usage);
          q = calculate b prov (Some mdl) (token_quantities inp out cached 0) [] (w_end w)
      in if amount q \<le> 0
         then (let c = catalog_token_cost (last_invoked s) inp out in (c, c, 0))
         else (amount q, provider_cost q, quote_markup q))"

definition usage_entry :: "'s world \<Rightarrow> attribution \<Rightarrow> string \<Rightarrow> string \<Rightarrow> completion_usage \<Rightarrow> decimal \<times> decimal \<times> decimal \<Rightarrow> usage_log" where
  "usage_entry w att prov mdl usage bill =
     \<lparr>log_id = 0, log_scope = att, log_request = Some (w_request w), log_provider = prov, log_model = mdl,
      log_operation = ''invoke'', log_input_tokens = max 0 (input_tokens usage), log_output_tokens = max 0 (output_tokens usage),
      log_cached_tokens = max 0 (cached_tokens usage), log_embedding_tokens = 0, log_vector_searches = 0, log_storage_bytes = 0,
      log_requests = 1, log_latency_ms = Some (w_latency w), log_cost = fst bill, log_provider_cost = fst (snd bill),
      log_platform_markup = snd (snd bill), log_metadata = [], log_created_at = w_end w\<rparr>"

text \<open>The two exception handlers: a shortage is 402, anything else is raised again; both release.\<close>

definition settle_failed :: "'s world \<Rightarrow> reservation option \<Rightarrow> billing_error \<Rightarrow> 's invoke_db \<Rightarrow> 's invoke_db \<times> 'a step" where
  "settle_failed w res e st =
     (let short = (case e of InsufficientBalanceError _ _ \<Rightarrow> True | InsufficientCredits _ _ \<Rightarrow> True | _ \<Rightarrow> False) in
      proceed (release_reservation w res (if short then ''settlement_failed'' else ''billing_failed'') st)
        (\<lambda>st1 _. (st1, Raise (if short then INSUFFICIENT else Crash ''billing''))))"

definition settle_stage ::
  "'s world \<Rightarrow> invoke_request \<Rightarrow> attribution \<Rightarrow> reservation option \<Rightarrow> string \<Rightarrow> string \<Rightarrow> completion_usage \<Rightarrow>
   's invoke_db \<Rightarrow> 's invoke_db \<times> decimal step" where
  "settle_stage w body att pre prov mdl usage st =
     (let bill = actual_price w prov mdl usage (iv_router st) (iv_billing st); cost = fst bill;
          opened = (case pre of
             Some x \<Rightarrow> (iv_billing st, Inr (Some x))
           | None \<Rightarrow>
               if 0 < cost
               then (case reserve att cost (w_request w) (billing_key w body) ''ai_inference''
                            [(''model'', mdl), (''provider'', prov)] 900 (w_end w) (iv_billing st) of
                       (b, Inr x) \<Rightarrow> (b, Inr (Some x)) | (b, Inl e) \<Rightarrow> (b, Inl e))
               else (iv_billing st, Inr None))
      in case opened of
           (b, Inl e) \<Rightarrow> settle_failed w None e (st\<lparr>iv_billing := b\<rparr>)
         | (b, Inr res) \<Rightarrow>
            (case (case res of
                     None \<Rightarrow> (b, Inr ())
                   | Some x \<Rightarrow>
                      (case settle (res_id x) cost (fst (snd bill)) [(''model'', mdl), (''provider'', prov)] AI_INFERENCE (w_end w) b of
                         (b', Inr _) \<Rightarrow> (b', Inr ()) | (b', Inl e) \<Rightarrow> (b', Inl e))) of
               (b1, Inl e) \<Rightarrow> settle_failed w res e (st\<lparr>iv_billing := b1\<rparr>)
             | (b1, Inr _) \<Rightarrow>
                (let ((b2, f2), entry) = record_usage (w_fresh w) (usage_entry w att prov mdl usage bill) (b1, iv_funding st)
                 in (st\<lparr>iv_billing := b2, iv_funding := f2\<rparr>, Done cost))))"

section \<open>The handler\<close>

text \<open>From the reservation on, the steps in reverse order: each takes the state and the result of the
  stage before it. What an exit leaves reserved stays so.\<close>

definition respond ::
  "user \<Rightarrow> plan \<Rightarrow> loop_state \<Rightarrow> string \<times> string list \<times> tool_result list \<times> action_outcome list \<Rightarrow> completion_usage \<Rightarrow>
   's invoke_db \<Rightarrow> decimal \<Rightarrow> 's invoke_db \<times> invoke_response step" where
  "respond u pl ls out usage st cost =
     (let (text, vs, tools, acts) = out; an = ls_answer ls; (b, wal) = get_wallet (usr_id u) (iv_billing st) in
      (note_event Completed_Request (note_event (Wallet_Deducted cost) (st\<lparr>iv_billing := b\<rparr>)),
       Done \<lparr>ir_text = text, ir_model = an_model an, ir_provider = an_provider an, ir_cost = cost,
             ir_estimate = pl_estimate pl, ir_balance = balance wal, ir_tools = tools, ir_actions = acts,
             ir_violations = vs, ir_usage = usage, ir_steps = ls_steps ls\<rparr>))"

definition after_output ::
  "'s world \<Rightarrow> invoke_request \<Rightarrow> user \<Rightarrow> attribution \<Rightarrow> plan \<Rightarrow> reservation option \<Rightarrow> context_assembly \<Rightarrow> loop_state \<Rightarrow>
   's invoke_db \<Rightarrow> string \<times> string list \<times> tool_result list \<times> action_outcome list \<Rightarrow> 's invoke_db \<times> invoke_response step" where
  "after_output w body u att pl res a ls st out =
     (let an = ls_answer ls; usage = usage_of (an_attempts an) (iv_router st) a (fst out) in
      proceed (settle_stage w body att res (an_provider an) (an_model an) usage st) (respond u pl ls out usage))"

definition after_loop ::
  "'s world \<Rightarrow> invoke_request \<Rightarrow> user \<Rightarrow> project \<Rightarrow> runtime option \<Rightarrow> attribution \<Rightarrow> plan \<Rightarrow> reservation option \<Rightarrow> context_assembly \<Rightarrow>
   tool_result list \<Rightarrow> 's invoke_db \<Rightarrow> loop_state \<times> tool_result list \<Rightarrow> 's invoke_db \<times> invoke_response step" where
  "after_loop w body u p r att pl res a sourced st looped =
     (let (st1, acts) = action_stage w body u p st; ls = fst looped in
      proceed (output_stage w body (redacts_pii w r) (an_text (ls_answer ls)) (sourced @ snd looped) acts st1)
        (after_output w body u att pl res a ls))"

definition after_model ::
  "'s world \<Rightarrow> invoke_request \<Rightarrow> user \<Rightarrow> project \<Rightarrow> runtime option \<Rightarrow> attribution \<Rightarrow> plan \<Rightarrow> reservation option \<Rightarrow> context_assembly \<Rightarrow>
   tool_result list \<Rightarrow> 's invoke_db \<Rightarrow> answer \<Rightarrow> 's invoke_db \<times> invoke_response step" where
  "after_model w body u p r att pl res a sourced st an =
     proceed (loop_stage w body u p r pl a (w_streaming w \<and> \<not> redacts_pii w r) an st)
       (after_loop w body u p r att pl res a sourced)"

text \<open>\<open>tools\<close> are the project's, read before the sources are retrieved.\<close>

definition after_context ::
  "'s world \<Rightarrow> invoke_request \<Rightarrow> user \<Rightarrow> project \<Rightarrow> runtime option \<Rightarrow> attribution \<Rightarrow> plan \<Rightarrow> reservation option \<Rightarrow> tool_row list \<Rightarrow>
   tool_result list \<Rightarrow> 's invoke_db \<Rightarrow> context_assembly \<Rightarrow> 's invoke_db \<times> invoke_response step" where
  "after_context w body u p r att pl res tools sourced st a =
     (let pii = redacts_pii w r; st1 = (if w_streaming w \<and> pii then note_event Token_Stream_Buffered st else st);
          streaming = (w_streaming w \<and> \<not> pii \<and> \<not> potential_loop body (loop_plan_of body (pl_config pl)) tools)
      in proceed (model_stage w r pl a streaming res st1) (after_model w body u p r att pl res a sourced))"

definition after_source ::
  "'s world \<Rightarrow> invoke_request \<Rightarrow> user \<Rightarrow> project \<Rightarrow> runtime option \<Rightarrow> attribution \<Rightarrow> plan \<Rightarrow> reservation option \<Rightarrow> tool_row list \<Rightarrow>
   's invoke_db \<Rightarrow> tool_result list \<times> json option \<Rightarrow> 's invoke_db \<times> invoke_response step" where
  "after_source w body u p r att pl res tools st found =
     (let msgs = with_sources w (snd found) (pl_messages pl); pl1 = with_requirement msgs pl in
      proceed (context_stage pl1 msgs st) (after_context w body u p r att pl1 res tools (fst found)))"

definition serve ::
  "'s world \<Rightarrow> invoke_request \<Rightarrow> user \<Rightarrow> project \<Rightarrow> runtime option \<Rightarrow> attribution \<Rightarrow> plan \<Rightarrow>
   's invoke_db \<Rightarrow> reservation option \<Rightarrow> 's invoke_db \<times> invoke_response step" where
  "serve w body u p r att pl st res =
     proceed (source_stage w body u p st) (after_source w body u p r att pl res (project_tools p st))"

text \<open>Before the reservation.\<close>

definition after_budget ::
  "'s world \<Rightarrow> invoke_request \<Rightarrow> user \<Rightarrow> project \<Rightarrow> runtime option \<Rightarrow> attribution \<Rightarrow> wallet \<Rightarrow> plan \<Rightarrow>
   's invoke_db \<Rightarrow> unit \<Rightarrow> 's invoke_db \<times> invoke_response step" where
  "after_budget w body u p r att wal pl st x =
     proceed (reserve_stage w body att wal pl st) (serve w body u p r att pl)"

definition after_plan ::
  "'s world \<Rightarrow> invoke_request \<Rightarrow> user \<Rightarrow> project \<Rightarrow> runtime option \<Rightarrow> attribution \<Rightarrow> wallet \<Rightarrow>
   's invoke_db \<Rightarrow> plan \<Rightarrow> 's invoke_db \<times> invoke_response step" where
  "after_plan w body u p r att wal st pl =
     proceed (budget_stage w r (pl_estimate pl) st) (after_budget w body u p r att wal pl)"

definition after_status ::
  "'s world \<Rightarrow> invoke_request \<Rightarrow> user \<Rightarrow> project \<Rightarrow> runtime option \<Rightarrow> attribution \<Rightarrow>
   's invoke_db \<Rightarrow> wallet \<Rightarrow> 's invoke_db \<times> invoke_response step" where
  "after_status w body u p r att st wal =
     proceed (plan_stage w body u p r st) (after_plan w body u p r att wal)"

definition after_security ::
  "'s world \<Rightarrow> invoke_request \<Rightarrow> user \<Rightarrow> project \<Rightarrow> runtime option \<Rightarrow> attribution \<Rightarrow> string \<Rightarrow>
   's invoke_db \<Rightarrow> unit \<Rightarrow> 's invoke_db \<times> invoke_response step" where
  "after_security w body u p r att rl st x =
     proceed (status_stage u rl r st) (after_status w body u p r att)"

definition invoke :: "'s world \<Rightarrow> invoke_request \<Rightarrow> user \<Rightarrow> uuid option \<Rightarrow> 's invoke_db \<Rightarrow> 's invoke_db \<times> invoke_response step" where
  "invoke w body u kid st =
     (let st0 = note_event Request_Received st in
      case (case kid of None \<Rightarrow> None | Some i \<Rightarrow> key_by_id (tenants_of st) i) of
        None \<Rightarrow> (st0, Raise (Refused 401 ''Invalid API key''))
      | Some k \<Rightarrow>
         (case resolve_target (env_uuid (w_env w)) body u k (tenants_of st) of
            Inl e \<Rightarrow> (st0, Raise e)
          | Inr (p, r) \<Rightarrow>
             (let st1 = note_event (Project_Loaded (prj_id p)) st0 in
              case check_access w body u k p r of
                Inl e \<Rightarrow> (st1, Raise e)
              | Inr rl \<Rightarrow>
                 proceed (security_stage w body r st1) (after_security w body u p r (attribution_of u k p r) rl))))"

lemmas handler_defs = invoke_def after_security_def after_status_def after_plan_def after_budget_def
lemmas serve_defs = serve_def after_source_def after_context_def after_model_def after_loop_def after_output_def respond_def

end
