(* ===== verification/Invoke_Laws.thy ===== *)
theory Invoke_Laws
  imports Invoke Purse
begin

text \<open>
  What the stages of an invocation may change. Only four of them touch the billing tables: the
  status stage may create the wallet, the reservation stage, the model stage when no model
  answers, and the settlement; the rest of the request leaves them as they are.
\<close>

section \<open>Stages that leave billing alone\<close>

lemma call_tool_frames:
  assumes "call_tool w args t st = (st', r)"
  shows "iv_billing st' = iv_billing st" "iv_actions st' = iv_actions st" "iv_tools st' = iv_tools st" "iv_router st' = iv_router st"
  using assms by (auto simp: call_tool_def)

lemma call_model_frames:
  "call_model w auto pl ms a streaming st = (st', x) \<Longrightarrow>
     iv_billing st' = iv_billing st \<and> iv_actions st' = iv_actions st \<and> iv_tools st' = iv_tools st \<and> iv_posts st' = iv_posts st"
  by (auto simp: call_model_def with_router_def Let_def split: prod.splits)

lemma security_billing: "security_stage w body r st = (st', x) \<Longrightarrow> iv_billing st' = iv_billing st"
  by (auto simp: security_stage_def Let_def split: option.splits prod.splits sum.splits violation.splits)

lemma plan_billing: "plan_stage w body u p r st = (st', x) \<Longrightarrow> iv_billing st' = iv_billing st"
  by (auto simp: plan_stage_def Let_def split: option.splits list.splits)

lemma budget_billing: "budget_stage w r x st = (st', y) \<Longrightarrow> iv_billing st' = iv_billing st"
  by (auto simp: budget_stage_def split: option.splits prod.splits budget_verdict.splits)

lemma retrieve_billing: "retrieve w args ts st = (st', x) \<Longrightarrow> iv_billing st' = iv_billing st"
proof (induction w args ts st arbitrary: st' x rule: retrieve.induct)
  case (2 w args t ts st)
  obtain st1 r where c: "call_tool w args t st = (st1, r)" by fastforce
  obtain st2 y where r: "retrieve w args ts (note_event (Source_Retrieved (source_name (w_str w) t) (tool_status r)) st1) = (st2, y)" by fastforce
  show ?case
  proof (cases "source_name (w_str w) t = [] \<or> 128 < length (source_name (w_str w) t)")
    case True
    then show ?thesis using 2(2) c call_tool_frames [OF c] by (auto simp: Let_def)
  next
    case False
    then have "iv_billing st2 = iv_billing st1" using 2(1) [OF c [symmetric] refl refl False r] by simp
    then show ?thesis using 2(2) c r False call_tool_frames [OF c]
      by (cases y) (auto simp: Let_def)
  qed
qed simp

lemma source_billing: "source_stage w body u p st = (st', x) \<Longrightarrow> iv_billing st' = iv_billing st"
  unfolding source_stage_def Let_def proceed_def
  by (auto split: if_splits prod.splits step.splits option.splits dest: retrieve_billing)

lemma context_billing: "context_stage pl msgs st = (st', x) \<Longrightarrow> iv_billing st' = iv_billing st"
  by (auto simp: context_stage_def split: option.splits)

lemma model_done_billing: "model_stage w r pl a streaming res st = (st', Done x) \<Longrightarrow> iv_billing st' = iv_billing st"
  unfolding model_stage_def Let_def
  by (auto simp: proceed_Done split: prod.splits if_splits dest: call_model_frames)

lemma round_frames:
  assumes "tool_round w r pl a streaming args final i t ls st = (st', x)"
  shows "iv_billing st' = iv_billing st" "iv_actions st' = iv_actions st" "iv_tools st' = iv_tools st"
    "iv_posts st' = iv_posts st @ (case tool_url t of (Some url, _) \<Rightarrow> [(url, args)] | _ \<Rightarrow> [])"
proof -
  obtain st1 res where c: "call_tool w args t st = (st1, res)" by fastforce
  have p: "iv_posts st1 = iv_posts st @ (case tool_url t of (Some url, _) \<Rightarrow> [(url, args)] | _ \<Rightarrow> [])"
    using c by (auto simp: call_tool_def)
  have "iv_billing st' = iv_billing st1 \<and> iv_actions st' = iv_actions st1 \<and> iv_tools st' = iv_tools st1 \<and> iv_posts st' = iv_posts st1"
    using assms unfolding tool_round_def c Let_def prod.case
    by (simp split: option.splits bool.splits prod.splits; (auto dest!: call_model_frames)?)
  then show "iv_billing st' = iv_billing st" "iv_actions st' = iv_actions st" "iv_tools st' = iv_tools st"
    "iv_posts st' = iv_posts st @ (case tool_url t of (Some url, _) \<Rightarrow> [(url, args)] | _ \<Rightarrow> [])"
    using call_tool_frames [OF c] p by auto
qed

lemma rounds_frames:
  assumes "tool_rounds w r pl a streaming args final rounds ls st = (st', x)"
  shows "iv_billing st' = iv_billing st \<and> iv_actions st' = iv_actions st"
  using assms
proof (induction rounds arbitrary: ls st)
  case (Cons it rounds)
  obtain i t where it: "it = (i, t)" by fastforce
  obtain st1 y where r: "tool_round w r pl a streaming args final i t ls st = (st1, y)" by fastforce
  note F = round_frames [OF r]
  show ?case
  proof (cases "\<exists>ls1. y = Done (Next ls1)")
    case True
    then obtain ls1 where "y = Done (Next ls1)" by blast
    with Cons(2) r it have "tool_rounds w r pl a streaming args final rounds ls1 st1 = (st', x)" by simp
    from Cons(1) [OF this] F show ?thesis by simp
  next
    case False
    then have "st' = st1" using Cons(2) r it
      by (cases y) (auto split: round.splits)
    with F show ?thesis by simp
  qed
qed simp

lemma notes_frames [simp]:
  "iv_billing (fold (\<lambda>t. note_event (f t)) ts st) = iv_billing st"
  "iv_actions (fold (\<lambda>t. note_event (f t)) ts st) = iv_actions st"
  "iv_posts (fold (\<lambda>t. note_event (f t)) ts st) = iv_posts st"
  by (induction ts arbitrary: st) simp_all

lemma loop_frames:
  "loop_stage w body u p r pl a streaming an st = (st', x) \<Longrightarrow> iv_billing st' = iv_billing st \<and> iv_actions st' = iv_actions st"
  unfolding loop_stage_def Let_def proceed_def
  by (auto split: if_splits prod.splits step.splits dest: rounds_frames)

lemma action_billing: "action_stage w body u p st = (st', x) \<Longrightarrow> iv_billing st' = iv_billing st"
  by (auto simp: action_stage_def Let_def split: if_splits prod.splits)

lemma output_billing: "output_stage w body pii text ts acts st = (st', x) \<Longrightarrow> iv_billing st' = iv_billing st"
  by (auto simp: output_stage_def Let_def split: option.splits prod.splits if_splits)

lemmas billing_frames = security_billing plan_billing budget_billing source_billing context_billing
  model_done_billing loop_frames action_billing output_billing


section \<open>The handler, stage by stage\<close>

lemma proceed_DoneE:
  assumes "proceed r f = (st', Done y)"
  obtains st x where "r = (st, Done x)" "f st x = (st', Done y)"
  using assms by (auto simp: proceed_Done)

lemma serve_Done:
  assumes "serve w body u p r att pl st res = (st', Done rsp)"
  obtains st7 st8 prov mdl usage wal cost b where
    "settle_stage w body att res prov mdl usage st7 = (st8, Done cost)" "iv_billing st7 = iv_billing st"
    "get_wallet (usr_id u) (iv_billing st8) = (b, wal)" "iv_billing st' = b"
    "ir_cost rsp = cost" "ir_balance rsp = balance wal" "ir_estimate rsp = pl_estimate pl"
proof -
  from assms obtain st1 found where 1: "source_stage w body u p st = (st1, Done found)"
    "after_source w body u p r att pl res (project_tools p st) st1 found = (st', Done rsp)"
    unfolding serve_def by (rule proceed_DoneE)
  define pl1 where "pl1 = with_requirement (with_sources w (snd found) (pl_messages pl)) pl"
  from 1(2) obtain st2 a where 2: "context_stage pl1 (with_sources w (snd found) (pl_messages pl)) st1 = (st2, Done a)"
    "after_context w body u p r att pl1 res (project_tools p st) (fst found) st2 a = (st', Done rsp)"
    unfolding after_source_def Let_def pl1_def by (rule proceed_DoneE)
  from 2(2) obtain st3 an where 3: "iv_billing st3 = iv_billing st2"
    "after_model w body u p r att pl1 res a (fst found) st3 an = (st', Done rsp)"
    unfolding after_context_def Let_def by (rule proceed_DoneE) (auto dest!: model_done_billing split: if_splits)
  from 3(2) obtain st4 looped where 4: "iv_billing st4 = iv_billing st3"
    "after_loop w body u p r att pl1 res a (fst found) st4 looped = (st', Done rsp)"
    unfolding after_model_def by (rule proceed_DoneE) (auto dest!: loop_frames)
  obtain st5 acts where a: "action_stage w body u p st4 = (st5, acts)" by fastforce
  from 4(2) obtain st6 out where 5: "iv_billing st6 = iv_billing st5"
    "after_output w body u att pl1 res a (fst looped) st6 out = (st', Done rsp)"
    unfolding after_loop_def Let_def a prod.case by (rule proceed_DoneE) (auto dest!: output_billing)
  from 5(2) obtain st7 cost usage where 6: "settle_stage w body att res (an_provider (ls_answer (fst looped)))
      (an_model (ls_answer (fst looped))) usage st6 = (st7, Done cost)"
    "respond u pl1 (fst looped) out usage st7 cost = (st', Done rsp)"
    unfolding after_output_def Let_def by (rule proceed_DoneE)
  obtain b wal where g: "get_wallet (usr_id u) (iv_billing st7) = (b, wal)" by fastforce
  have b: "iv_billing st6 = iv_billing st"
    using source_billing [OF 1(1)] context_billing [OF 2(1)] 3(1) 4(1) action_billing [OF a] 5(1) by simp
  have e: "pl_estimate pl1 = pl_estimate pl" by (simp add: pl1_def with_requirement_def)
  from 6(2) have "iv_billing st' = b \<and> ir_cost rsp = cost \<and> ir_balance rsp = balance wal \<and> ir_estimate rsp = pl_estimate pl"
    unfolding respond_def g Let_def by (auto simp: e split: prod.splits)
  then show ?thesis by (intro that [OF 6(1) b g]) simp_all
qed

lemma reserve_stage_Done:
  assumes "reserve_stage w body att wal pl st = (st', Done res)"
  obtains "pl_estimate pl \<le> 0" "res = None" "st' = st"
  | b1 b2 x where "0 < pl_estimate pl" "pl_estimate pl \<le> balance wal"
    "check_budget (att_user att) (pl_estimate pl) (iv_billing st) = (b1, True)"
    "reserve att (pl_estimate pl) (w_request w) (billing_key w body) ''ai_inference''
       [(''model'', pl_model pl), (''provider'', pl_provider pl)] 900 (w_now w) b1 = (b2, Inr x)"
    "res = Some x" "iv_billing st' = b2"
  using assms unfolding reserve_stage_def Let_def
  by (auto split: if_splits prod.splits sum.splits billing_error.splits)

lemma status_stage_Done:
  assumes "status_stage u rl r st = (st', Done wal)"
  shows "is_runtime_ready (map_option rt_status r)" "get_wallet (usr_id u) (iv_billing st) = (iv_billing st', wal)" "wal_status wal = ACTIVE"
  using assms unfolding status_stage_def Let_def by (auto split: if_splits prod.splits)

lemma invoke_Done:
  assumes "invoke w body u kid st = (st', Done rsp)"
  obtains k p r rl b0 wal pl st5 st6 res where
    "kid \<noteq> None" "key_by_id (tenants_of st) (the kid) = Some k"
    "resolve_target (env_uuid (w_env w)) body u k (tenants_of st) = Inr (p, r)"
    "check_access w body u k p r = Inr rl" "is_runtime_ready (map_option rt_status r)"
    "get_wallet (usr_id u) (iv_billing st) = (b0, wal)" "wal_status wal = ACTIVE"
    "iv_billing st5 = b0"
    "reserve_stage w body (attribution_of u k p r) wal pl st5 = (st6, Done res)"
    "serve w body u p r (attribution_of u k p r) pl st6 res = (st', Done rsp)"
proof -
  from assms obtain k p r rl where *: "kid \<noteq> None" "key_by_id (tenants_of st) (the kid) = Some k"
    "resolve_target (env_uuid (w_env w)) body u k (tenants_of st) = Inr (p, r)"
    "check_access w body u k p r = Inr rl"
    unfolding invoke_def Let_def by (auto split: option.splits sum.splits)
  from assms * obtain st1 st2 st3 st4 st5 st6 wal pl res where S: "security_stage w body r st1 = (st2, Done ())" "iv_billing st1 = iv_billing st"
    "status_stage u rl r st2 = (st3, Done wal)" "plan_stage w body u p r st3 = (st4, Done pl)"
    "budget_stage w r (pl_estimate pl) st4 = (st5, Done ())"
    "reserve_stage w body (attribution_of u k p r) wal pl st5 = (st6, Done res)"
    "serve w body u p r (attribution_of u k p r) pl st6 res = (st', Done rsp)"
    unfolding handler_defs Let_def by (auto elim!: proceed_DoneE)
  then have "iv_billing st5 = iv_billing st3" "iv_billing st2 = iv_billing st"
    by (auto dest!: security_billing plan_billing budget_billing)
  with * S(6,7) status_stage_Done [OF S(3)] show ?thesis
    by (intro that [of k p r rl "iv_billing st3" wal st5 pl st6 res]) auto
qed

lemma record_usage_wallets [simp]:
  "wallets (fst (fst (record_usage fresh entry (b, f)))) = wallets b"
  "reservations (fst (fst (record_usage fresh entry (b, f)))) = reservations b"
  by (auto simp: record_usage_def Let_def split: option.splits sum.splits prod.splits)

lemma release_reservation_raises: "release_reservation w res why st = (st', Done x) \<Longrightarrow> x = ()"
  by simp

lemma settle_failed_not_Done: "settle_failed w res e st \<noteq> (st', Done x)"
  by (auto simp: settle_failed_def Let_def proceed_def split: prod.splits step.splits)

lemma settle_stage_Done:
  assumes "settle_stage w body att pre prov mdl usage st = (st', Done cost)"
  obtains "pre = None" "cost \<le> 0" "wallets (iv_billing st') = wallets (iv_billing st)"
  | b x y b' pc md where "pre = None" "0 < cost"
    "reserve att cost (w_request w) (billing_key w body) ''ai_inference'' md 900 (w_end w) (iv_billing st) = (b, Inr x)"
    "settle (res_id x) cost pc md AI_INFERENCE (w_end w) b = (b', Inr y)" "wallets (iv_billing st') = wallets b'"
  | x y b' pc md where "pre = Some x" "settle (res_id x) cost pc md AI_INFERENCE (w_end w) (iv_billing st) = (b', Inr y)"
    "wallets (iv_billing st') = wallets b'"
proof -
  let ?bill = "actual_price w prov mdl usage (iv_router st) (iv_billing st)"
  let ?md = "[(''model'', mdl), (''provider'', prov)]"
  have rec: "wallets b2 = wallets b1" if "record_usage f e (b1, g) = ((b2, f2), l)" for f e b1 g b2 f2 l
    using that record_usage_wallets(1) [of f e b1 g] by simp
  consider "pre = None" "fst ?bill \<le> 0" | "pre = None" "0 < fst ?bill" | x where "pre = Some x" by (cases pre) fastforce+
  then show ?thesis
  proof cases
    case 1
    then show ?thesis using assms that(1) rec unfolding settle_stage_def Let_def
      by (auto split: prod.splits)
  next
    case 2
    then show ?thesis using assms that(2) rec unfolding settle_stage_def Let_def
      by (auto simp: settle_failed_not_Done split: prod.splits sum.splits)
  next
    case 3
    then show ?thesis using assms that(3) rec unfolding settle_stage_def Let_def
      by (auto simp: settle_failed_not_Done split: prod.splits sum.splits)
  qed
qed

end
