(* ===== verification/Invoke_Sample.thy ===== *)
theory Invoke_Sample
  imports Invoke Action_Laws Purse
begin

text \<open>A small platform on which the properties of invocations are evaluated.\<close>

declare trim_loop.simps [code]

definition caller :: user where
  "caller = sample_member\<lparr>usr_id := 7\<rparr>"

definition caller_key :: api_key where
  "caller_key = sample_bound_key\<lparr>key_user := Some 7, key_project := Some 11, key_runtime := None, revoked := False, scopes := [''read'', ''write''],
     key_environment := ''development''\<rparr>"

definition start_tenants :: tenant_db where
  "start_tenants = (tenants sample_actions)\<lparr>users := [caller], api_keys := [caller_key]\<rparr>"

definition funded_billing :: billing_db where
  "funded_billing = sample_funded\<lparr>pricing_rules := [sample_rule 1 None (1/1000)]\<rparr>"

definition start :: "unit invoke_db" where
  "start = \<lparr>iv_billing = funded_billing, iv_funding = \<lparr>accounts = [], events = [], next_account = 0\<rparr>,
     iv_actions = sample_actions\<lparr>tenants := start_tenants\<rparr>, iv_tools = [], iv_conversations = [], iv_messages = [],
     iv_connections = [], iv_router = idle_router, iv_redis = (), iv_posts = [], iv_model_calls = 0, iv_trace = []\<rparr>"

definition quiet_redis :: "unit redis" where
  "quiet_redis = \<lparr>rd_get = (\<lambda>_ _. Some False), rd_incr = (\<lambda>_ s. (s, Some 1)), rd_expire = (\<lambda>_ _ s. (s, True)),
     rd_set = (\<lambda>_ _ s. (s, True)), rd_delete = (\<lambda>_ s. s)\<rparr>"

definition plain_world :: "unit world" where
  "plain_world = \<lparr>w_env = sample_env, w_str = (\<lambda>_. []), w_dumps = (\<lambda>_. ''{}''), w_loads = (\<lambda>_. Inl []), w_red = quiet_redis,
     w_host = None, w_catalog = (\<lambda>_. Inr []), w_adapter = (\<lambda>_. sample_adapter), w_has_redis = False, w_blocked = (\<lambda>_. None),
     w_clock = (0, 0), w_send = (\<lambda>_ _. Some (JList [], 200)), w_settings = (\<lambda>k. if k = ''OPENAI_API_KEY'' then Some ''k'' else None),
     w_open = (\<lambda>_. None), w_order = (\<lambda>xs. xs), w_now = 5, w_end = 6, w_latency = 1, w_request = ''r1'', w_fresh = ''f'', w_streaming = False\<rparr>"

definition plain_request :: invoke_request where
  "plain_request = \<lparr>iq_project = None, iq_input = ''hello'', iq_runtime = None, iq_model = None, iq_provider = None, iq_max_tokens = Some 10,
     iq_goal = ''balanced'', iq_conversation = None, iq_key = None, iq_schema = None, iq_actions = [], iq_sources = [], iq_join = None\<rparr>"

definition keyed_request :: invoke_request where
  "keyed_request = plain_request\<lparr>iq_key := Some ''k''\<rparr>"

text \<open>A first request under a key, the same again, one that names a source that is not connected, and
  one of user 9 under the key of user 7's open reservation.\<close>

definition first_run :: "unit invoke_db \<times> invoke_response step" where
  "first_run = invoke plain_world keyed_request caller (Some 1) start"

definition second_run :: "unit invoke_db \<times> invoke_response step" where
  "second_run = invoke plain_world keyed_request caller (Some 1) (fst first_run)"

definition refused_run :: "unit invoke_db \<times> invoke_response step" where
  "refused_run = invoke plain_world (keyed_request\<lparr>iq_sources := [''crm'']\<rparr>) caller (Some 1) start"

definition rival_billing :: billing_db where
  "rival_billing = fst (add_credit 9 20 ''top up'' (Some ''t9'') [] 0 (sample_reserved\<lparr>pricing_rules := [sample_rule 1 None (1/1000)]\<rparr>))"

definition rival_run :: "unit invoke_db \<times> invoke_response step" where
  "rival_run = invoke plain_world keyed_request (caller\<lparr>usr_id := 9\<rparr>) (Some 1) (start\<lparr>iv_billing := rival_billing\<rparr>)"

fun charged_of :: "'s invoke_db \<times> invoke_response step \<Rightarrow> (decimal \<times> decimal) option" where
  "charged_of (st, Done rsp) = Some (ir_cost rsp, ir_estimate rsp)"
| "charged_of (st, _) = None"

fun refusal_of :: "'s invoke_db \<times> 'a step \<Rightarrow> invoke_error option" where
  "refusal_of (st, Raise e) = Some e"
| "refusal_of (st, _) = None"

lemma sample_first:
  "(case first_run of (st, z) \<Rightarrow>
      (charged_of (st, z), map_option res_status (reservation_by_key ''k'' (iv_billing st)),
       charged_of (invoke plain_world keyed_request caller (Some 1) st))) =
   (Some (9/1250, 9/1250), Some Settled, Some (9/1250, 9/1250))"
  by code_simp

lemma start_purse: "purses_of (iv_billing start) 7 = \<lparr>available = 20, held = 0, spent = 0\<rparr>"
  by code_simp

lemma sample_refused:
  "(case refused_run of (st, z) \<Rightarrow> (refusal_of (st, z), purses_of (iv_billing st) 7)) =
   (Some (Refused 404 ''sources_not_connected''), \<lparr>available = 20 - 9/1250, held = 9/1250, spent = 0\<rparr>)"
  by code_simp

lemma sample_rival: "charged_of rival_run = Some (9/1250, 9/1250)"
  by code_simp

lemma sample_runs:
  "charged_of first_run = Some (9/1250, 9/1250) \<and>
   map_option res_status (reservation_by_key ''k'' (iv_billing (fst first_run))) = Some Settled \<and>
   charged_of second_run = Some (9/1250, 9/1250) \<and>
   refusal_of refused_run = Some (Refused 404 ''sources_not_connected'') \<and>
   charged_of rival_run = Some (9/1250, 9/1250)"
  using sample_first sample_refused sample_rival
  unfolding second_run_def case_prod_beta prod.collapse prod.inject by simp

lemma charged_ofD: "charged_of r = Some (c, e) \<Longrightarrow> \<exists>st rsp. r = (st, Done rsp) \<and> ir_cost rsp = c \<and> ir_estimate rsp = e"
  by (cases r rule: charged_of.cases) auto

lemma refusal_ofD: "refusal_of r = Some e \<Longrightarrow> \<exists>st. r = (st, Raise e)"
  by (cases r rule: refusal_of.cases) auto

lemma priced_reachable: "reachable b \<Longrightarrow> reachable (b\<lparr>pricing_rules := ps\<rparr>)"
proof -
  assume b: "reachable b"
  have "billing_step b (b\<lparr>spending_limits := spending_limits b, pricing_rules := ps, usage_logs := usage_logs b\<rparr>)"
    by (rule charge) (rule do_admin)
  with b show ?thesis by (auto intro: reached_step)
qed

lemma start_reachable: "reachable (iv_billing start)"
  using priced_reachable [OF sample_funded_reachable] by (simp add: start_def funded_billing_def)

lemma rival_reachable: "reachable rival_billing"
  unfolding rival_billing_def
  by (rule reached_step [OF priced_reachable [OF sample_reserved_reachable]]) (rule charge, rule do_credit)

end
