(* ===== verification/Invoke_Billing.thy ===== *)
theory Invoke_Billing
  imports Invoke_Laws Invoke_Sample
begin

text \<open>
  What an invocation costs: the charge of an answered request, the free replay of a used key,
  the settlement of another user's reservation, the reservation that is never released, and the
  refinement of the purse specification by whole invocations, however they end.
\<close>

section \<open>Reserve and settle\<close>

definition charged :: "uuid \<Rightarrow> decimal \<Rightarrow> purses \<Rightarrow> purses" where
  "charged u c ps = ps(u := (ps u)\<lparr>available := available (ps u) - c, spent := spent (ps u) + c\<rparr>)"

lemma reserve_opens:
  assumes "books b" and "reserve a x rq k rt md ttl now b = (b', Inr r)" and "reservation_by_key k b = None"
  obtains w where "reservation_by_id b' (res_id r) = Some r" "res_status r = Reserved" "estimated_amount r = money x"
    "wallet_by_id b' (res_wallet r) = Some w" "wal_user w = att_user a" "books b'"
proof -
  from assms(2,3) obtain b1 w where *: "wallet_for_update (att_user a) b = (b1, w)"
    "r = new_reservation w a rq k (money x) rt md ttl now (next_id b1)"
    "wallets b' = put_row wal_id (w\<lparr>balance := balance w - money x, reserved_balance := reserved_balance w + money x\<rparr>) (wallets b1)"
    "reservations b' = reservations b1 @ [r]"
    by (rule reserve_new)
  let ?w = "w\<lparr>balance := balance w - money x, reserved_balance := reserved_balance w + money x\<rparr>"
  have g: "get_wallet (att_user a) b = (b1, w)" using *(1) by (simp add: wallet_for_update_get)
  have B: "books b'" by (rule books_reserve [OF assms(1,2)])
  note R = books_rows [OF B]
  have "w \<in> set (wallets b1)" using books_get_wallet [OF assms(1) g] by simp
  then have "?w \<in> set (wallets b')" unfolding *(3) put_row_def by force
  then have "wallet_by_id b' (wal_id ?w) = Some ?w"
    using R unfolding wallet_by_id_def rows_ok_def by (intro row_by_distinct) auto
  moreover have "reservation_by_id b' (res_id r) = Some r"
    using R *(4) unfolding reservation_by_id_def rows_ok_def by (intro row_by_distinct) auto
  ultimately show ?thesis
    using *(2) get_wallet_owner [OF g] B by (intro that [of ?w]) (simp_all add: new_reservation_def)
qed

lemma purse_update: "p\<lparr>available := a, spent := s\<rparr> = \<lparr>available = a, held = held p, spent = s\<rparr>"
  by (cases p) simp

lemma purses_charge:
  assumes "books b" and "reserve a x rq k rt md ttl now b = (b1, Inr r)" and "reservation_by_key k b = None"
    and "settle (res_id r) c pc md' ty now' b1 = (b2, Inr y)"
  shows "purses_of b2 = charged (att_user a) (money c) (purses_of b) \<and> 0 \<le> money c"
proof -
  obtain w where O: "reservation_by_id b1 (res_id r) = Some r" "res_status r = Reserved" "estimated_amount r = money x"
    "wallet_by_id b1 (res_wallet r) = Some w" "wal_user w = att_user a" "books b1"
    by (rule reserve_opens [OF assms(1-3)])
  from purses_settle [OF O(6) assms(4) O(1,2)] obtain w' where S: "wallet_by_id b1 (res_wallet r) = Some w'" "0 \<le> money c"
    "purses_of b1 (wal_user w') = purse_row w'"
    "purses_of b2 = (purses_of b1)(wal_user w' := \<lparr>available = balance w' + estimated_amount r - money c,
       held = reserved_balance w' - estimated_amount r, spent = total_spent w' + money c\<rparr>)"
    by metis
  have w: "w' = w" using S(1) O(4) by simp
  let ?q = "purses_of b (att_user a)"
  note P = purses_reserve(1) [OF assms(1-3)]
  have "purse_row w = ?q\<lparr>available := available ?q - money x, held := held ?q + money x\<rparr>"
    using S(3) P w O(5) by simp
  then have "balance w = available ?q - money x" "reserved_balance w = held ?q + money x" "total_spent w = spent ?q"
    by (metis purse_row_sel(1) purse.select_convs(1) purse.surjective purse.update_convs(1,2),
        metis purse_row_sel(2) purse.select_convs(2) purse.surjective purse.update_convs(1,2),
        metis purse_row_sel(3) purse.select_convs(3) purse.surjective purse.update_convs(1,2))
  with S(2,4) w O(3,5) P show ?thesis by (simp add: charged_def purse_update)
qed

lemma check_budget_purses: "check_budget u x b = (b', ok) \<Longrightarrow> purses_of b' = purses_of b \<and> reservations b' = reservations b \<and> wallets b' = wallets b"
  using check_budget_frames [of u x b] purses_wallets [of b' b] by simp

lemma check_budget_books: "check_budget u x b = (b', ok) \<Longrightarrow> books b \<Longrightarrow> books b'"
  using charge_step_books [OF do_check_budget [of b u x]] by simp

lemma get_wallet_reservations: "get_wallet u b = (b', w) \<Longrightarrow> reservations b' = reservations b"
  by (erule get_wallet_cases) simp_all

lemma money_nonpos: "c \<le> 0 \<Longrightarrow> max 0 (money c) = 0"
  using money_nonneg_iff [of c] by (cases "c = 0") (auto simp: money_def quantize_up_def)

lemma purses_charge_max:
  assumes "books b" and "reserve a x rq k rt md ttl now b = (b1, Inr r)" and "reservation_by_key k b = None"
    and "settle (res_id r) c pc md' ty now' b1 = (b2, Inr y)" and "wallets b3 = wallets b2"
  shows "purses_of b3 = charged (att_user a) (max 0 (money c)) (purses_of b)"
  using purses_charge [OF assms(1-4)] purses_wallets [OF assms(5)] by (simp add: max_def)

section \<open>What a whole invocation does to billing\<close>

text \<open>A relation between billing databases that every call an invocation makes satisfies. With
  \<open>charging = False\<close> nothing is asked of \<open>settle\<close>, and only the requests that were not answered
  are related.\<close>

locale billing_effect =
  fixes R :: "billing_db \<Rightarrow> billing_db \<Rightarrow> bool" and charging :: bool
  assumes same: "R b b" and then_step: "R b c \<Longrightarrow> R c d \<Longrightarrow> R b d"
    and wallet_step: "R b (fst (get_wallet u b))"
    and budget_step: "R b (fst (check_budget u x b))"
    and reserve_step: "R b (fst (reserve a x rq k rt md ttl now b))"
    and release_step: "R b (fst (release i why now b))"
    and settle_step: "charging \<Longrightarrow> R b (fst (settle i x pc md ty now b))"
    and usage_step: "R b (b\<lparr>usage_logs := us, next_id := Suc (next_id b)\<rparr>)"
begin

lemma of_wallet: "get_wallet u b = (b', wal) \<Longrightarrow> R b b'"
  using wallet_step [of b u] by simp

lemma of_budget: "check_budget u x b = (b', ok) \<Longrightarrow> R b b'"
  using budget_step [of b u x] by simp

lemma of_reserve: "reserve a x rq k rt md ttl now b = (b', res) \<Longrightarrow> R b b'"
  using reserve_step [of b a x rq k rt md ttl now] by simp

lemma of_release: "release i why now b = (b', res) \<Longrightarrow> R b b'"
  using release_step [of b i why now] by simp

lemma of_settle: "settle i x pc md ty now b = (b', res) \<Longrightarrow> charging \<or> (\<exists>e. res = Inl e) \<Longrightarrow> R b b'"
  using settle_step [of b i x pc md ty now] settle_error [of i x pc md ty now b b'] same [of b] by auto

lemma of_usage: "record_usage fresh entry (b, f) = ((b', f'), l) \<Longrightarrow> R b b'"
  using usage_step same by (auto simp: record_usage_def Let_def split: option.splits if_splits prod.splits)

lemma proceed_rel:
  assumes "proceed r f = (st', z)" and "\<And>s x. r = (s, x) \<Longrightarrow> R b (iv_billing s)"
    and "\<And>s x. r = (s, Done x) \<Longrightarrow> f s x = (st', z) \<Longrightarrow> R (iv_billing s) (iv_billing st')"
  shows "R b (iv_billing st')"
  using assms by (auto simp: proceed_def split: prod.splits step.splits intro: then_step)

lemma release_reservation_rel: "release_reservation w res why st = (st', z) \<Longrightarrow> R (iv_billing st) (iv_billing st')"
  by (auto simp: release_reservation_def same split: option.splits prod.splits sum.splits dest: of_release)

lemma settle_failed_rel: "settle_failed w res e st = (st', z) \<Longrightarrow> R (iv_billing st) (iv_billing st')"
  unfolding settle_failed_def Let_def
  by (auto simp: proceed_def split: prod.splits step.splits dest: release_reservation_rel)

lemma opened_rel:
  assumes "(case pre of Some x \<Rightarrow> (b, Inr (Some x))
     | None \<Rightarrow> if 0 < cost then (case reserve a cost rq k rt md 900 now b of (c, Inr x) \<Rightarrow> (c, Inr (Some x)) | (c, Inl e) \<Rightarrow> (c, Inl e))
               else (b, Inr None)) = (b', res)"
  shows "R b b'"
  using assms same by (auto split: option.splits if_splits prod.splits sum.splits dest: of_reserve)

lemma settled_rel:
  assumes "(case res of None \<Rightarrow> (b, Inr ())
     | Some x \<Rightarrow> (case settle (res_id x) cost pc md ty now b of (c, Inr y) \<Rightarrow> (c, Inr ()) | (c, Inl e) \<Rightarrow> (c, Inl e))) = (b', out)"
    and "charging \<or> (\<exists>e. out = Inl e)"
  shows "R b b'"
  using assms same by (auto split: option.splits prod.splits sum.splits dest: of_settle)

lemma settle_stage_rel:
  assumes "settle_stage w body att pre prov mdl usage st = (st', z)" and "charging \<or> (\<forall>y. z \<noteq> Done y)"
  shows "R (iv_billing st) (iv_billing st')"
proof -
  let ?bill = "actual_price w prov mdl usage (iv_router st) (iv_billing st)"
  let ?md = "[(''model'', mdl), (''provider'', prov)]"
  obtain b res where o: "(case pre of Some x \<Rightarrow> (iv_billing st, Inr (Some x))
     | None \<Rightarrow> if 0 < fst ?bill then (case reserve att (fst ?bill) (w_request w) (billing_key w body) ''ai_inference'' ?md 900 (w_end w) (iv_billing st)
                 of (c, Inr x) \<Rightarrow> (c, Inr (Some x)) | (c, Inl e) \<Rightarrow> (c, Inl e))
               else (iv_billing st, Inr None)) = (b, res)" by fastforce
  note O = opened_rel [OF o]
  show ?thesis
  proof (cases res)
    case (Inl e)
    with assms(1) o have "settle_failed w None e (st\<lparr>iv_billing := b\<rparr>) = (st', z)"
      unfolding settle_stage_def Let_def by simp
    from settle_failed_rel [OF this] O show ?thesis by (auto intro: then_step)
  next
    case (Inr pre1)
    obtain b1 out where s: "(case pre1 of None \<Rightarrow> (b, Inr ())
       | Some x \<Rightarrow> (case settle (res_id x) (fst ?bill) (fst (snd ?bill)) ?md AI_INFERENCE (w_end w) b of
             (c, Inr y) \<Rightarrow> (c, Inr ()) | (c, Inl e) \<Rightarrow> (c, Inl e))) = (b1, out)" by fastforce
    show ?thesis
    proof (cases out)
      case (Inl e)
      with s have S: "R b b1" by (intro settled_rel) auto
      from assms(1) o \<open>res = Inr pre1\<close> s Inl have "settle_failed w pre1 e (st\<lparr>iv_billing := b1\<rparr>) = (st', z)"
        unfolding settle_stage_def Let_def by simp
      from settle_failed_rel [OF this] O S show ?thesis by (auto intro: then_step)
    next
      case r: (Inr x)
      obtain b2 f2 l where u: "record_usage (w_fresh w) (usage_entry w att prov mdl usage ?bill) (b1, iv_funding st) = ((b2, f2), l)"
        by (metis prod.collapse)
      with assms(1) o \<open>res = Inr pre1\<close> s r have e: "iv_billing st' = b2" "z = Done (fst ?bill)"
        unfolding settle_stage_def Let_def by auto
      with assms(2) have charging by simp
      with s have "R b b1" by (intro settled_rel) auto
      with O of_usage [OF u] e show ?thesis by (auto intro: then_step)
    qed
  qed
qed

lemma status_rel: "status_stage u rl r st = (st', z) \<Longrightarrow> R (iv_billing st) (iv_billing st')"
  unfolding status_stage_def Let_def by (auto simp: same split: if_splits prod.splits dest: of_wallet)

lemma reserve_stage_rel: "reserve_stage w body att wal pl st = (st', z) \<Longrightarrow> R (iv_billing st) (iv_billing st')"
  unfolding reserve_stage_def Let_def
  by (auto simp: same split: if_splits prod.splits sum.splits billing_error.splits dest!: of_budget of_reserve intro: then_step)

lemma model_rel:
  assumes "model_stage w r pl a streaming res st = (st', z)"
  shows "R (iv_billing st) (iv_billing st')"
proof -
  obtain st1 said m p err where c: "call_model w (pl_automatic pl) pl (pl_model pl # (case r of Some x \<Rightarrow> rt_fallback_models x | None \<Rightarrow> [])) a streaming st
      = (st1, said, m, p, err)" by (metis prod.collapse)
  note b = call_model_frames [OF c, THEN conjunct1]
  show ?thesis
  proof (cases "no_answer said")
    case True
    with assms c have "proceed (release_reservation w res ''provider_failed'' st1)
        (\<lambda>st2 _. (st2, Raise (Refused 502 ''All configured providers failed. Check the execution log for details.''))) = (st', z)"
      unfolding model_stage_def Let_def by simp
    then show ?thesis
      by (rule proceed_rel) (auto simp: same b [symmetric] dest: release_reservation_rel)
  next
    case False
    with assms c b show ?thesis unfolding model_stage_def Let_def by (auto simp: same)
  qed
qed

lemma after_output_rel:
  assumes "after_output w body u att pl res a ls st out = (st', z)" and "charging \<or> (\<forall>y. z \<noteq> Done y)"
  shows "R (iv_billing st) (iv_billing st')"
proof -
  have answer: "R (iv_billing s) (iv_billing st') \<and> (\<exists>y. z = Done y)" if "respond u pl ls out usage s x = (st', z)" for usage s x
    using that unfolding respond_def Let_def by (auto split: prod.splits dest: of_wallet)
  let ?an = "ls_answer ls"
  obtain s y where t: "settle_stage w body att res (an_provider ?an) (an_model ?an) (usage_of (an_attempts ?an) (iv_router st) a (fst out)) st = (s, y)"
    by fastforce
  show ?thesis
  proof (cases y)
    case (Done c)
    with assms(1) t have r: "respond u pl ls out (usage_of (an_attempts ?an) (iv_router st) a (fst out)) s c = (st', z)"
      by (simp add: after_output_def Let_def)
    with answer [OF r] assms(2) have charging by blast
    with settle_stage_rel [OF t] answer [OF r] show ?thesis by (auto intro: then_step)
  qed (use assms(1) t settle_stage_rel [OF t] in \<open>auto simp: after_output_def Let_def\<close>)
qed

lemma serve_rel:
  assumes "serve w body u p r att pl st res = (st', z)" and "charging \<or> (\<forall>y. z \<noteq> Done y)"
  shows "R (iv_billing st) (iv_billing st')"
  using assms(1) unfolding serve_def
proof (rule proceed_rel)
  fix st1 and found :: "tool_result list \<times> json option"
  let ?pl = "with_requirement (with_sources w (snd found) (pl_messages pl)) pl"
  assume "after_source w body u p r att pl res (project_tools p st) st1 found = (st', z)"
  then show "R (iv_billing st1) (iv_billing st')" unfolding after_source_def Let_def
  proof (rule proceed_rel)
    fix st2 a
    assume "after_context w body u p r att ?pl res (project_tools p st) (fst found) st2 a = (st', z)"
    then show "R (iv_billing st2) (iv_billing st')" unfolding after_context_def Let_def
    proof (rule proceed_rel)
      fix st3 an
      assume "after_model w body u p r att ?pl res a (fst found) st3 an = (st', z)"
      then show "R (iv_billing st3) (iv_billing st')" unfolding after_model_def
      proof (rule proceed_rel)
        fix st4 looped
        obtain st5 acts where a: "action_stage w body u p st4 = (st5, acts)" by fastforce
        assume "after_loop w body u p r att ?pl res a (fst found) st4 looped = (st', z)"
        then have "R (iv_billing st5) (iv_billing st')" unfolding after_loop_def Let_def a prod.case
          by (rule proceed_rel) (auto simp: same dest: output_billing after_output_rel [OF _ assms(2)])
        with action_billing [OF a] show "R (iv_billing st4) (iv_billing st')" by simp
      qed (auto simp: same dest: loop_frames)
    qed (auto dest!: model_rel split: if_splits)
  qed (auto simp: same dest: context_billing)
qed (auto simp: same dest: source_billing)

lemma invoke_rel:
  assumes "invoke w body u kid st = (st', z)" and "charging \<or> (\<forall>y. z \<noteq> Done y)"
  shows "R (iv_billing st) (iv_billing st')"
proof -
  let ?st0 = "note_event Request_Received st"
  consider "iv_billing st' = iv_billing st"
  | k p r rl where "proceed (security_stage w body r (note_event (Project_Loaded (prj_id p)) ?st0))
      (after_security w body u p r (attribution_of u k p r) rl) = (st', z)"
    using assms(1) unfolding invoke_def Let_def by (auto split: option.splits sum.splits prod.splits)
  then show ?thesis
  proof cases
    case 1
    then show ?thesis by (simp add: same)
  next
    case (2 k p r rl)
    let ?att = "attribution_of u k p r"
    have "R (iv_billing ?st0) (iv_billing st')" using 2
    proof (rule proceed_rel)
      fix st1 x
      assume "after_security w body u p r ?att rl st1 x = (st', z)"
      then show "R (iv_billing st1) (iv_billing st')" unfolding after_security_def
      proof (rule proceed_rel)
        fix st2 wal
        assume "after_status w body u p r ?att st2 wal = (st', z)"
        then show "R (iv_billing st2) (iv_billing st')" unfolding after_status_def
        proof (rule proceed_rel)
          fix st3 pl
          assume "after_plan w body u p r ?att wal st3 pl = (st', z)"
          then show "R (iv_billing st3) (iv_billing st')" unfolding after_plan_def
          proof (rule proceed_rel)
            fix st4 y
            assume "after_budget w body u p r ?att wal pl st4 y = (st', z)"
            then show "R (iv_billing st4) (iv_billing st')" unfolding after_budget_def
              by (rule proceed_rel) (auto dest: reserve_stage_rel serve_rel [OF _ assms(2)])
          qed (auto simp: same dest: budget_billing)
        qed (auto simp: same dest: plan_billing)
      qed (auto dest: status_rel)
    qed (auto simp: same dest: security_billing)
    then show ?thesis by simp
  qed
qed

end

definition uncharged :: "billing_db \<Rightarrow> billing_db \<Rightarrow> bool" where
  "uncharged b b' = (books b \<longrightarrow> books b' \<and>
     (\<forall>v. spent (purses_of b' v) = spent (purses_of b v) \<and>
        available (purses_of b' v) + held (purses_of b' v) = available (purses_of b v) + held (purses_of b v)))"

lemma uncharged_wallets: "wallets b' = wallets b \<Longrightarrow> (books b \<Longrightarrow> books b') \<Longrightarrow> uncharged b b'"
  by (drule purses_wallets) (simp add: uncharged_def)

lemma uncharged_reserve: "uncharged b (fst (reserve a x rq k rt md ttl now b))"
proof -
  obtain b' res where r: "reserve a x rq k rt md ttl now b = (b', res)" by fastforce
  have "uncharged b b'"
  proof (cases "reservation_by_key k b = None \<and> (\<exists>y. res = Inr y)")
    case True
    with r obtain y where y: "reserve a x rq k rt md ttl now b = (b', Inr y)" "reservation_by_key k b = None" by auto
    show ?thesis
      unfolding uncharged_def using purses_reserve(1) [OF _ y] books_reserve [OF _ r] by auto
  next
    case False
    then have "b' = b"
    proof (cases res)
      case (Inl e)
      with r show ?thesis by (auto dest: reserve_error)
    next
      case (Inr y)
      with False obtain z where "reservation_by_key k b = Some z" by auto
      with r show ?thesis by (auto simp: reserve_def Let_def split: if_splits)
    qed
    then show ?thesis by (simp add: uncharged_def)
  qed
  with r show ?thesis by simp
qed

lemma uncharged_release: "uncharged b (fst (release i why now b))"
proof -
  obtain b' res where r: "release i why now b = (b', res)" by fastforce
  have "uncharged b b'"
  proof (cases "\<exists>x y. reservation_by_id b i = Some x \<and> res_status x = Reserved \<and> res = Inr y")
    case True
    then obtain x y where x: "reservation_by_id b i = Some x" "res_status x = Reserved" "release i why now b = (b', Inr y)"
      using r by blast
    have "\<forall>v. spent (purses_of b' v) = spent (purses_of b v) \<and>
        available (purses_of b' v) + held (purses_of b' v) = available (purses_of b v) + held (purses_of b v)" if "books b"
      by (rule purses_release [OF that x(3,1,2)]) simp
    with books_release [OF _ r] show ?thesis unfolding uncharged_def by blast
  next
    case False
    with release_same [OF r] show ?thesis by (simp add: uncharged_def)
  qed
  with r show ?thesis by simp
qed

interpretation invoke_run: billing_effect "billing_step\<^sup>*\<^sup>*" True
proof
  show "billing_step\<^sup>*\<^sup>* b b" for b by simp
  show "billing_step\<^sup>*\<^sup>* b c \<Longrightarrow> billing_step\<^sup>*\<^sup>* c d \<Longrightarrow> billing_step\<^sup>*\<^sup>* b d" for b c d by (rule rtranclp_trans)
qed (intro r_into_rtranclp charge; rule charge_step.intros)+

interpretation uncharged: billing_effect uncharged False
proof
  show "uncharged b b" for b by (simp add: uncharged_def)
  show "uncharged b c \<Longrightarrow> uncharged c d \<Longrightarrow> uncharged b d" for b c d by (simp add: uncharged_def)
  show "uncharged b (fst (get_wallet u b))" for b u
    using purses_get_wallet [of u b] books_get_wallet [of b u] by (cases "get_wallet u b") (simp add: uncharged_def)
  show "uncharged b (fst (check_budget u x b))" for b u x
    by (rule uncharged_wallets) (auto intro: charge_step_books [OF do_check_budget])
  show "uncharged b (b\<lparr>usage_logs := us, next_id := Suc (next_id b)\<rparr>)" for b us
    by (rule uncharged_wallets) (auto intro: charge_step_books [OF do_usage])
qed (rule uncharged_reserve uncharged_release | simp)+

section \<open>Used keys\<close>

lemma reserve_used: "reserve a x rq k rt md ttl now b = (b', Inr y) \<Longrightarrow> reservation_by_key k b = Some r \<Longrightarrow> b' = b \<and> y = r"
  by (auto simp: reserve_def Let_def split: if_splits)

lemma key_row: "books b \<Longrightarrow> reservation_by_key k b = Some r \<Longrightarrow> reservation_by_id b (res_id r) = Some r"
  using books_rows [of b] unfolding reservation_by_key_def reservation_by_id_def rows_ok_def
  by (auto dest!: row_by_SomeD intro: row_by_distinct)

text \<open>With a used key, the request is settled on the reservation that has the key.\<close>

lemma invoke_used_key:
  assumes "books (iv_billing st)" and "reservation_by_key (billing_key w body) (iv_billing st) = Some r"
    and "invoke w body u kid st = (st', Done rsp)"
  obtains b b' pc md y where "purses_of b = purses_of (iv_billing st)" "books b" "reservation_by_id b (res_id r) = Some r"
    "wallets b = wallets (iv_billing st) \<or> (\<exists>v. wallets b = wallets (iv_billing st) @ [v] \<and> wal_id v = next_id (iv_billing st))"
    "settle (res_id r) (ir_cost rsp) pc md AI_INFERENCE (w_end w) b = (b', Inr y)" "purses_of (iv_billing st') = purses_of b'"
  | "ir_cost rsp \<le> 0" "ir_estimate rsp \<le> 0" "purses_of (iv_billing st') = purses_of (iv_billing st)"
  using assms(3)
proof (rule invoke_Done)
  fix k p rt rl b0 wal pl st5 st6 res
  assume g: "get_wallet (usr_id u) (iv_billing st) = (b0, wal)" and b5: "iv_billing st5 = b0"
    and R: "reserve_stage w body (attribution_of u k p rt) wal pl st5 = (st6, Done res)"
    and V: "serve w body u p rt (attribution_of u k p rt) pl st6 res = (st', Done rsp)"
  let ?att = "attribution_of u k p rt" and ?key = "billing_key w body"
  have B0: "books b0" "purses_of b0 = purses_of (iv_billing st)" "reservation_by_key ?key b0 = Some r"
    "wallets b0 = wallets (iv_billing st) \<or> (\<exists>v. wallets b0 = wallets (iv_billing st) @ [v] \<and> wal_id v = next_id (iv_billing st))"
    using assms(1,2) books_get_wallet [OF assms(1) g] purses_get_wallet [OF g] get_wallet_reservations [OF g]
      get_wallet_cases [OF g, of "wallets b0 = wallets (iv_billing st) \<or> (\<exists>v. wallets b0 = wallets (iv_billing st) @ [v] \<and> wal_id v = next_id (iv_billing st))"]
    by (auto simp: reservation_by_key_def)
  from V show thesis
  proof (rule serve_Done)
    fix st7 st8 prov mdl usage wal2 cost b
    assume S: "settle_stage w body ?att res prov mdl usage st7 = (st8, Done cost)" and b7: "iv_billing st7 = iv_billing st6"
      and g2: "get_wallet (usr_id u) (iv_billing st8) = (b, wal2)" "iv_billing st' = b" and c: "ir_cost rsp = cost"
      and e: "ir_estimate rsp = pl_estimate pl"
    have fin: "purses_of (iv_billing st') = purses_of (iv_billing st8)" using g2 purses_get_wallet by auto
    from R show thesis
    proof (cases rule: reserve_stage_Done)
      case 1
      with b7 b5 have b: "iv_billing st7 = b0" by simp
      from S show thesis
      proof (cases rule: settle_stage_Done)
        case free: 1
        with purses_wallets [OF free(3)] b c e 1 fin B0(2) show thesis by (intro that(2)) simp_all
      next
        case (2 b1 x y b' pc md)
        with reserve_used [OF 2(3) [unfolded b] B0(3)] have "b1 = b0" "x = r" by auto
        with 2 purses_wallets [OF 2(5)] fin B0 key_row [OF B0(1,3)] c show thesis by (intro that(1) [of b0]) simp_all
      qed (use 1 in simp)
    next
      case (2 b1 b2 x)
      have B1: "books b1" "purses_of b1 = purses_of b0" "reservation_by_key ?key b1 = Some r" "wallets b1 = wallets b0"
        using B0 b5 check_budget_purses [OF 2(3)] check_budget_books [OF 2(3)]
        by (auto simp: reservation_by_key_def)
      with reserve_used [OF 2(4) B1(3)] 2(6) b7 have X: "x = r" "iv_billing st7 = b1" by auto
      from S 2(5) obtain y b' pc md where T: "settle (res_id x) cost pc md AI_INFERENCE (w_end w) (iv_billing st7) = (b', Inr y)"
        "wallets (iv_billing st8) = wallets b'"
        by (cases rule: settle_stage_Done) auto
      with X B1 B0 key_row [OF B1(1,3)] purses_wallets [OF T(2)] fin c show thesis by (intro that(1) [of b1]) simp_all
    qed
  qed
qed

section \<open>Properties\<close>

lemma steps_reachable: "reachable b \<Longrightarrow> billing_step\<^sup>*\<^sup>* b c \<Longrightarrow> reachable c"
  by (rotate_tac) (induction rule: rtranclp_induct, auto intro: reached_step)

text \<open>
  C3. What an answered request costs. When the billing key (the caller's idempotency key, else
  the request id) has no reservation yet, the answer moves exactly the actual cost from the
  caller's available to the caller's spent money; nothing stays held, and no other wallet
  changes.
\<close>

theorem invoke_charges_cost:
  assumes "reachable (iv_billing st)" and "reservation_by_key (billing_key w body) (iv_billing st) = None"
    and "invoke w body u kid st = (st', Done rsp)"
  shows "purses_of (iv_billing st') = charged (usr_id u) (max 0 (money (ir_cost rsp))) (purses_of (iv_billing st))"
proof -
  from assms(3) show ?thesis
  proof (rule invoke_Done)
    fix k p r rl b0 wal pl st5 st6 res
    assume g: "get_wallet (usr_id u) (iv_billing st) = (b0, wal)" and b5: "iv_billing st5 = b0"
      and R: "reserve_stage w body (attribution_of u k p r) wal pl st5 = (st6, Done res)"
      and V: "serve w body u p r (attribution_of u k p r) pl st6 res = (st', Done rsp)"
    let ?att = "attribution_of u k p r"
    have u: "att_user ?att = usr_id u" by (simp add: attribution_of_def)
    have B0: "books b0" "purses_of b0 = purses_of (iv_billing st)" "reservation_by_key (billing_key w body) b0 = None"
      using billing.reached_inv [OF assms(1)] g books_get_wallet purses_get_wallet [OF g] assms(2) get_wallet_reservations [OF g]
      by (auto simp: reservation_by_key_def)
    from V show ?thesis
    proof (rule serve_Done)
      fix st7 st8 prov mdl usage wal2 cost b
      assume S: "settle_stage w body ?att res prov mdl usage st7 = (st8, Done cost)" and b7: "iv_billing st7 = iv_billing st6"
        and g2: "get_wallet (usr_id u) (iv_billing st8) = (b, wal2)" "iv_billing st' = b" and c: "ir_cost rsp = cost"
      have fin: "purses_of (iv_billing st') = purses_of (iv_billing st8)" using g2 purses_get_wallet by auto
      from R have "purses_of (iv_billing st8) = charged (usr_id u) (max 0 (money cost)) (purses_of b0)"
      proof (cases rule: reserve_stage_Done)
        case 1
        with b7 b5 have b: "iv_billing st7 = b0" by simp
        from S show ?thesis
        proof (cases rule: settle_stage_Done)
          case free: 1
          with purses_wallets [OF free(3)] b show ?thesis by (simp add: money_nonpos charged_def)
        next
          case (2 b1 x y b' pc md)
          show ?thesis using purses_charge_max [OF B0(1) 2(3) [unfolded b] B0(3) 2(4,5)] u by simp
        qed (use 1 in simp)
      next
        case (2 b1 b2 x)
        then have B1: "books b1" "purses_of b1 = purses_of b0" "reservation_by_key (billing_key w body) b1 = None"
          using B0 b5 check_budget_purses [OF 2(3)] check_budget_books [OF 2(3)] by (auto simp: reservation_by_key_def)
        from S 2(5) obtain y b' pc md where T: "settle (res_id x) cost pc md AI_INFERENCE (w_end w) (iv_billing st7) = (b', Inr y)"
          "wallets (iv_billing st8) = wallets b'"
          by (cases rule: settle_stage_Done) auto
        show ?thesis using purses_charge_max [OF B1(1) 2(4) B1(3) T(1) [unfolded b7 2(6)] T(2)] u B1(2) by simp
      qed
      with fin c B0(2) show ?thesis by simp
    qed
  qed
qed

theorem invoke_charges_cost_witness:
  "\<exists>st' rsp. first_run = (st', Done rsp) \<and> ir_cost rsp = 9/1250 \<and>
     purses_of (iv_billing st') 7 = \<lparr>available = 20 - 9/1250, held = 0, spent = 9/1250\<rparr>"
proof -
  obtain st' rsp where r: "first_run = (st', Done rsp)" "ir_cost rsp = 9/1250"
    using charged_ofD sample_runs by blast
  have k: "reservation_by_key (billing_key plain_world keyed_request) (iv_billing start) = None" by code_simp
  have m: "max 0 (money (9/1250)) = 9/1250" by code_simp
  from invoke_charges_cost [OF start_reachable k, of caller "Some 1" st' rsp] r
  have "purses_of (iv_billing st') = charged 7 (max 0 (money (9/1250))) (purses_of (iv_billing start))"
    by (simp add: first_run_def caller_def)
  then show ?thesis unfolding m
    by (intro exI [of _ st'] exI [of _ rsp] conjI r) (simp add: charged_def start_purse)
qed



text \<open>
  C10. An invocation is a run of the billing services: whatever it does and however it ends, the
  billing database it leaves is reachable by calls of the services, so the accounting invariant
  holds in it, and the purses move by steps of the specification.
\<close>

theorem invoke_refines_purses:
  assumes "reachable (iv_billing st)" and "invoke w body u kid st = (st', z)"
  shows "reachable (iv_billing st') \<and> purse_steps (purses_of (iv_billing st)) (purses_of (iv_billing st'))"
proof -
  have "billing_step\<^sup>*\<^sup>* (iv_billing st) (iv_billing st')" by (rule invoke_run.invoke_rel [OF assms(2)]) simp
  then show ?thesis
  proof (induction rule: rtranclp_induct)
    case (step b c)
    with billing_steps [OF step(2) billing.reached_inv] show ?case
      by (auto intro: reached_step rtranclp_trans)
  qed (simp add: assms(1))
qed

theorem invoke_refines_purses_witness:
  "reachable (iv_billing (fst first_run)) \<and> purse_steps (purses_of (iv_billing start)) (purses_of (iv_billing (fst first_run)))"
proof -
  obtain st' z where r: "first_run = (st', z)" by fastforce
  from invoke_refines_purses [OF start_reachable r [unfolded first_run_def]] show ?thesis unfolding r fst_conv .
qed

text \<open>
  A used idempotency key is a free answer: when the key's reservation has been settled or
  released, a new invocation under that key is answered by the provider, and no purse changes.
\<close>

theorem used_key_free:
  assumes "reachable (iv_billing st)" and "reservation_by_key (billing_key w body) (iv_billing st) = Some r"
    and "res_status r \<noteq> Reserved" and "invoke w body u kid st = (st', Done rsp)"
  shows "purses_of (iv_billing st') = purses_of (iv_billing st)"
  using invoke_used_key [OF billing.reached_inv [OF assms(1)] assms(2,4)]
proof cases
  case (1 b b' pc md y)
  with settle_closed [OF 1(3) assms(3), of "ir_cost rsp" pc md AI_INFERENCE "w_end w"] show ?thesis by simp
qed simp

theorem used_key_free_witness:
  "\<exists>st' rsp. second_run = (st', Done rsp) \<and> ir_cost rsp = 9/1250 \<and> purses_of (iv_billing st') = purses_of (iv_billing (fst first_run))"
proof -
  have R: "reachable (iv_billing (fst first_run))"
    using invoke_run.invoke_rel [of plain_world keyed_request caller "Some 1" start "fst first_run" "snd first_run"]
      steps_reachable [OF start_reachable] by (simp add: first_run_def)
  obtain r where k: "reservation_by_key (billing_key plain_world keyed_request) (iv_billing (fst first_run)) = Some r" "res_status r = Settled"
    using sample_runs by (auto simp: billing_key_def keyed_request_def given_def)
  obtain st' rsp where s: "second_run = (st', Done rsp)" "ir_cost rsp = 9/1250"
    using charged_ofD sample_runs by blast
  from used_key_free [OF R k(1) _ s(1) [unfolded second_run_def]] k(2) show ?thesis
    by (intro exI [of _ st'] exI [of _ rsp] conjI s) simp_all
qed

text \<open>
  C36. Keys are shared by all users: an invocation under a key whose open reservation belongs to
  another user settles that reservation. The other user pays the caller's actual cost, and the
  caller pays nothing.
\<close>

theorem foreign_reservation_charged:
  assumes "reachable (iv_billing st)" and "reservation_by_key (billing_key w body) (iv_billing st) = Some r"
    and "res_status r = Reserved" and "wallet_by_id (iv_billing st) (res_wallet r) = Some v" and "wal_user v \<noteq> usr_id u"
    and "0 < ir_estimate rsp" and "invoke w body u kid st = (st', Done rsp)"
  shows "purses_of (iv_billing st') (usr_id u) = purses_of (iv_billing st) (usr_id u) \<and>
    spent (purses_of (iv_billing st') (wal_user v)) = spent (purses_of (iv_billing st) (wal_user v)) + money (ir_cost rsp)"
  using invoke_used_key [OF billing.reached_inv [OF assms(1)] assms(2,7)]
proof cases
  case (1 b b' pc md y)
  have "wallet_by_id b (res_wallet r) = Some v"
    using 1(4) assms(4) unfolding wallet_by_id_def by (auto simp: row_by_append)
  with purses_settle [OF 1(2,5,3) assms(3)] have p: "purses_of b (wal_user v) = purse_row v"
    "purses_of b' = (purses_of b)(wal_user v := \<lparr>available = balance v + estimated_amount r - money (ir_cost rsp),
       held = reserved_balance v - estimated_amount r, spent = total_spent v + money (ir_cost rsp)\<rparr>)"
    by (metis option.inject)+
  then have "spent (purses_of b (wal_user v)) = total_spent v" by simp
  with p(2) 1(1,6) assms(5) show ?thesis by simp
qed (use assms(6) in simp)

theorem foreign_reservation_charged_witness:
  "\<exists>st' rsp. rival_run = (st', Done rsp) \<and> purses_of (iv_billing st') 9 = purses_of rival_billing 9 \<and>
     spent (purses_of (iv_billing st') 7) = spent (purses_of rival_billing 7) + 9/1250"
proof -
  let ?st = "start\<lparr>iv_billing := rival_billing\<rparr>"
  obtain st' rsp where r: "rival_run = (st', Done rsp)" "ir_cost rsp = 9/1250" "ir_estimate rsp = 9/1250"
    using charged_ofD sample_runs by blast
  have "map_option res_status (reservation_by_key (billing_key plain_world keyed_request) rival_billing) = Some Reserved \<and>
    (case reservation_by_key (billing_key plain_world keyed_request) rival_billing of None \<Rightarrow> False
     | Some x \<Rightarrow> map_option wal_user (wallet_by_id rival_billing (res_wallet x)) = Some 7)" by code_simp
  then obtain x v where x: "reservation_by_key (billing_key plain_world keyed_request) (iv_billing ?st) = Some x"
    "res_status x = Reserved" "wallet_by_id (iv_billing ?st) (res_wallet x) = Some v" "wal_user v = 7"
    by (auto split: option.splits)
  have m: "money (9/1250) = 9/1250" by code_simp
  have "reachable (iv_billing ?st)" using rival_reachable by simp
  from foreign_reservation_charged [OF this x(1-3) _ _ r(1) [unfolded rival_run_def]] x(4) r(2,3) m show ?thesis
    by (intro exI [of _ st'] exI [of _ rsp] conjI r(1)) (simp_all add: caller_def)
qed

end
