(* ===== verification/Invoke_Access.thy ===== *)
theory Invoke_Access
  imports Invoke_Laws Invoke_Sample
begin

text \<open>
  Who is served, which tools a request may reach, and two behaviours of the handler that its
  comments exclude: a write tool reached as a context source, and a configured \<open>max_tokens\<close> that
  makes every request fail.
\<close>

section \<open>Admission\<close>




lemma invoke_cases:
  assumes "invoke w body u kid st = (st', z)"
  obtains (trace) es where "st' = st\<lparr>iv_trace := iv_trace st @ es\<rparr>" "\<nexists>rsp. z = Done rsp"
  | (run) k p r rl where "kid \<noteq> None" "key_by_id (tenants_of st) (the kid) = Some k"
    "resolve_target (env_uuid (w_env w)) body u k (tenants_of st) = Inr (p, r)" "check_access w body u k p r = Inr rl"
    "proceed (security_stage w body r (note_event (Project_Loaded (prj_id p)) (note_event Request_Received st)))
       (after_security w body u p r (attribution_of u k p r) rl) = (st', z)"
proof (cases "case kid of None \<Rightarrow> None | Some i \<Rightarrow> key_by_id (tenants_of st) i")
  case None
  with assms show ?thesis by (intro trace [of "[Request_Received]"]) (auto simp: invoke_def note_event_def Let_def)
next
  case key: (Some k)
  show ?thesis
  proof (cases "resolve_target (env_uuid (w_env w)) body u k (tenants_of st)")
    case (Inl e)
    with assms key show ?thesis by (intro trace [of "[Request_Received]"]) (auto simp: invoke_def note_event_def Let_def)
  next
    case target: (Inr pr)
    obtain p r where pr: "pr = (p, r)" by fastforce
    show ?thesis
    proof (cases "check_access w body u k p r")
      case (Inl e)
      with assms key target pr show ?thesis
        by (intro trace [of "[Request_Received, Project_Loaded (prj_id p)]"]) (auto simp: invoke_def note_event_def Let_def)
    next
      case (Inr rl)
      from assms have "proceed (security_stage w body r (note_event (Project_Loaded (prj_id p)) (note_event Request_Received st)))
         (after_security w body u p r (attribution_of u k p r) rl) = (st', z)"
        unfolding invoke_def Let_def key target pr Inr option.case sum.case prod.case .
      with key target pr Inr show ?thesis by (intro run [of k p r rl]) (auto split: option.splits)
    qed
  qed
qed


section \<open>Tools\<close>


definition posted :: "(string \<Rightarrow> bool) \<Rightarrow> 's invoke_db \<Rightarrow> 's invoke_db \<Rightarrow> bool" where
  "posted ok st st' =
     (iv_tools st' = iv_tools st \<and> (\<exists>ps. iv_posts st' = iv_posts st @ ps \<and> (\<forall>x \<in> set ps. ok (fst x))))"

lemma posted_same [intro]: "iv_tools st' = iv_tools st \<Longrightarrow> iv_posts st' = iv_posts st \<Longrightarrow> posted ok st st'"
  by (simp add: posted_def)


lemma posted_note [simp]: "posted ok (note_event e s) t = posted ok s t" "posted ok s (note_event e t) = posted ok s t"
  by (simp_all add: posted_def)



























section \<open>Sample requests\<close>

text \<open>A tool of project 11 that writes, and a key that may only read.\<close>

definition writing_tool :: tool_row where
  "writing_tool = \<lparr>tl_name = ''ledger'', tl_schema = JObj [(''read_only'', JBool False)],
     tl_implementation = Some ''https://t'', tl_project = Some 11\<rparr>"

definition reading_tool :: tool_row where
  "reading_tool = writing_tool\<lparr>tl_name := ''crm'', tl_schema := JObj [], tl_implementation := Some ''https://r''\<rparr>"

definition tool_start :: "unit invoke_db" where
  "tool_start = start\<lparr>iv_tools := [writing_tool, reading_tool],
     iv_actions := (iv_actions start)\<lparr>tenants := start_tenants\<lparr>api_keys := [caller_key\<lparr>scopes := [''read'']\<rparr>]\<rparr>\<rparr>\<rparr>"

definition looped_run :: "unit invoke_db \<times> invoke_response step" where
  "looped_run = invoke plain_world plain_request caller (Some 1) tool_start"

definition sourced_run :: "unit invoke_db \<times> invoke_response step" where
  "sourced_run = invoke plain_world (plain_request\<lparr>iq_sources := [''ledger'']\<rparr>) caller (Some 1) tool_start"

lemma sample_looped:
  "(case looped_run of (st, z) \<Rightarrow> (map fst (iv_posts st), charged_of (st, z) = None)) = ([''https://r''], False)"
  by code_simp

lemma sample_sourced:
  "(case sourced_run of (st, z) \<Rightarrow> (map fst (iv_posts st), charged_of (st, z) = None)) = ([''https://t''], False)"
  by code_simp

lemma sample_posts:
  "map fst (iv_posts (fst looped_run)) = [''https://r''] \<and> charged_of looped_run \<noteq> None \<and>
   map fst (iv_posts (fst sourced_run)) = [''https://t''] \<and> charged_of sourced_run \<noteq> None"
  using sample_looped sample_sourced unfolding case_prod_beta prod.collapse prod.inject by simp



text \<open>
  A write tool is reached as a context source: the loop over tools skips the tool that is not
  read-only, but the same tool named in \<open>context_sources\<close> is called, with a key that has only the
  read scope and no action in the request.
\<close>

theorem write_tool_as_source:
  "\<not> tool_is_read_only writing_tool \<and> scopes (hd (api_keys (tenants_of tool_start))) = [''read''] \<and>
   iq_actions plain_request = [] \<and>
   map fst (iv_posts (fst looped_run)) = [''https://r''] \<and> charged_of looped_run \<noteq> None \<and>
   map fst (iv_posts (fst sourced_run)) = [''https://t''] \<and> charged_of sourced_run \<noteq> None"
proof (intro conjI)
  show "\<not> tool_is_read_only writing_tool" by code_simp
  show "scopes (hd (api_keys (tenants_of tool_start))) = [''read'']" by code_simp
  show "iq_actions plain_request = []" by code_simp
qed (use sample_posts in blast)+

text \<open>
  A refused source keeps the money: the request for a source that is not connected is refused
  with 404 after the estimated cost was reserved, and the reservation stays open. The caller's
  available money is reduced until the reservation expires.
\<close>

theorem missing_source_strands:
  "refusal_of refused_run = Some (Refused 404 ''sources_not_connected'') \<and>
   purses_of (iv_billing start) 7 = \<lparr>available = 20, held = 0, spent = 0\<rparr> \<and>
   purses_of (iv_billing (fst refused_run)) 7 = \<lparr>available = 20 - 9/1250, held = 9/1250, spent = 0\<rparr>"
  using sample_refused start_purse unfolding case_prod_beta prod.collapse prod.inject by simp

section \<open>A configured output limit\<close>

lemma map_of_redacted:
  "map_of (map (\<lambda>(k, v). (k, f k v)) kvs) j = map_option (f j) (map_of kvs j)"
  by (induction kvs) auto

lemma redacted_limit:
  assumes "''max_tokens'' \<in> fst ` set (rt_config x)" and "iq_max_tokens body = None"
  shows "requested_output body (shown_config (Some x)) = None"
proof -
  have s: "sensitive ''max_tokens''" and i: "int_of_json (JStr REDACTED) = None" and t: "json_true (JStr REDACTED)" by code_simp+
  obtain v where "map_of (rt_config x) ''max_tokens'' = Some v"
    using assms(1) by (metis map_of_eq_None_iff not_None_eq)
  then have "json_get ''max_tokens'' (shown_config (Some x)) = JStr REDACTED"
    using s by (simp add: shown_config_def json_get_def map_of_redacted [of "\<lambda>k v. if sensitive k then JStr REDACTED else redact v"])
  then show ?thesis using assms(2) i t by (simp add: requested_output_def json_or_def)
qed

text \<open>
  A runtime whose configuration has \<open>max_tokens\<close> cannot be invoked without a limit in the
  request: the configuration is redacted first, the word \<open>token\<close> makes the limit a secret, and
  the placeholder is not a number. The request fails with a server error.
\<close>

theorem configured_max_tokens_crash:
  assumes "invoke w body u kid st = (st', z)" and "iq_max_tokens body = None"
    and "key_by_id (tenants_of st) (the kid) = Some k"
    and "resolve_target (env_uuid (w_env w)) body u k (tenants_of st) = Inr (p, Some x)"
    and "''max_tokens'' \<in> fst ` set (rt_config x)"
  shows "\<nexists>rsp. z = Done rsp"
proof
  assume "\<exists>rsp. z = Done rsp"
  then obtain rsp where "invoke w body u kid st = (st', Done rsp)" using assms(1) by blast
  then show False
  proof (cases rule: invoke_cases)
    case (trace es)
    then show False by blast
  next
    case (run k' p' r rl)
    with assms(3,4) have "r = Some x" by simp
    from run(5) obtain s1 a where "after_security w body u p' r (attribution_of u k' p' r) rl s1 a = (st', Done rsp)"
      by (rule proceed_DoneE)
    then obtain s2 wal where "after_status w body u p' r (attribution_of u k' p' r) s2 wal = (st', Done rsp)"
      unfolding after_security_def by (rule proceed_DoneE)
    then obtain s3 pl where "plan_stage w body u p' r s2 = (s3, Done pl)"
      unfolding after_status_def by (rule proceed_DoneE)
    then have "requested_output body (shown_config (Some x)) \<noteq> None"
      using \<open>r = Some x\<close> by (auto simp: plan_stage_def Let_def split: option.splits)
    with redacted_limit [OF assms(5)] assms(2) show False by simp
  qed
qed

definition limited_runtime :: runtime where
  "limited_runtime = \<lparr>rt_id = 3, rt_name = [], rt_user = 7, rt_project = Some 11, rt_organization = Some 7, rt_status = ''active'',
     rt_version = [], rt_environment = ''development'', rt_provider = ''openai'', rt_model = ''gpt-4o'', rt_fallback_models = [],
     rt_routing_strategy = [], rt_embedding_model = [], rt_vector_store = [], rt_chunk_size = 0, rt_chunk_overlap = 0, rt_documents = 0,
     rt_chunks = 0, rt_embeddings = 0, rt_index_size = 0, rt_build_started = None, rt_build_completed = None, rt_last_propagated = None,
     rt_health = 0, rt_error = None, rt_api_key = None, rt_instructions = None, rt_policies = [], rt_config = [(''max_tokens'', JInt 100)],
     rt_metadata = []\<rparr>"

definition limited_start :: "unit invoke_db" where
  "limited_start = start\<lparr>iv_actions := (iv_actions start)\<lparr>tenants := start_tenants\<lparr>runtimes := [limited_runtime]\<rparr>\<rparr>\<rparr>"

theorem configured_max_tokens_crash_witness:
  "iq_max_tokens (plain_request\<lparr>iq_max_tokens := None\<rparr>) = None \<and>
   (\<nexists>rsp. snd (invoke plain_world (plain_request\<lparr>iq_max_tokens := None\<rparr>) caller (Some 1) limited_start) = Done rsp)"
proof -
  let ?body = "plain_request\<lparr>iq_max_tokens := None\<rparr>"
  obtain st' z where r: "invoke plain_world ?body caller (Some 1) limited_start = (st', z)" by fastforce
  have k: "key_by_id (tenants_of limited_start) (the (Some 1)) = Some caller_key" by code_simp
  have t: "resolve_target (env_uuid (w_env plain_world)) ?body caller caller_key (tenants_of limited_start) =
      Inr (hd (projects start_tenants), Some limited_runtime)" by code_simp
  from configured_max_tokens_crash [OF r _ k t] show ?thesis
    unfolding r snd_conv by (simp add: limited_runtime_def)
qed

end
