(* ===== verification/Chunking.thy ===== *)
theory Chunking
  imports Regex
begin

text \<open>
  \<open>app/services/chunking.py\<close>: the chunks of a document for retrieval. Sentences are grouped up to
  a token limit with an overlap, Markdown is cut at headings and code fences, code at
  definitions, and the sliding window moves by characters. The hash is an argument. The window
  is a \<open>partial_function\<close>, since
  with a chunk size below one it never ends.
\<close>

section \<open>Sizes\<close>

definition est :: "string \<Rightarrow> int" where
  "est s = max 1 (int (length s) div 4)"

definition estimate_page :: "int \<Rightarrow> int" where
  "estimate_page offset = max 1 (offset div 2000 + 1)"

definition blank :: "string \<Rightarrow> bool" where
  "blank s = list_all is_space s"

definition NL :: char where "NL = CHR 0x0A"

abbreviation lines_of :: "string \<Rightarrow> string list" where
  "lines_of s \<equiv> split_on NL s"

section \<open>Sentences\<close>

definition terminator :: "char \<Rightarrow> bool" where
  "terminator c = (c = CHR ''.'' \<or> c = CHR ''!'' \<or> c = CHR ''?'')"

text \<open>\<open>re.split\<close> at \<open>(?<=[.!?])\s+\<close>: the whitespace after a terminator is dropped.\<close>

function split_after :: "string \<Rightarrow> string list" where
  "split_after [] = [[]]"
| "split_after (c # cs) =
     (if terminator c \<and> cs \<noteq> [] \<and> is_space (hd cs) then [c] # split_after (dropWhile is_space cs)
      else case split_after cs of p # ps \<Rightarrow> (c # p) # ps | [] \<Rightarrow> [[c]])"
  by pat_completeness auto
termination by (relation "measure length") (auto intro: le_imp_less_Suc length_dropWhile_le)

definition split_sentences :: "string \<Rightarrow> string list" where
  "split_sentences s = filter (\<lambda>p. p \<noteq> []) (split_after (str_strip s))"

text \<open>The last sentences of a chunk that fit the overlap, in order.\<close>

fun keep_last :: "int \<Rightarrow> int \<Rightarrow> string list \<Rightarrow> string list \<Rightarrow> string list" where
  "keep_last room used [] kept = kept"
| "keep_last room used (s # earlier) kept =
     (if used + est s \<le> room then keep_last room (used + est s) earlier (s # kept) else kept)"

definition overlap_of :: "int \<Rightarrow> string list \<Rightarrow> string list" where
  "overlap_of overlap current = (if 0 < overlap then keep_last (overlap div 4) 0 (rev current) [] else [])"

definition tokens :: "string list \<Rightarrow> int" where
  "tokens ss = sum_list (map est ss)"

text \<open>The groups of sentences, each joined by a space into one chunk.\<close>

fun group :: "int \<Rightarrow> int \<Rightarrow> string list \<Rightarrow> int \<Rightarrow> string list \<Rightarrow> string list list" where
  "group limit overlap current len [] = (if current = [] then [] else [current])"
| "group limit overlap current len (s # ss) =
     (if current \<noteq> [] \<and> limit < len + est s
      then (let kept = overlap_of overlap current in
            current # group limit overlap (kept @ [s]) (tokens kept + est s) ss)
      else group limit overlap (current @ [s]) (len + est s) ss)"

definition not_blank :: "string list \<Rightarrow> string list" where
  "not_blank cs = filter (\<lambda>c. \<not> blank c) cs"

definition semantic :: "string \<Rightarrow> int \<Rightarrow> int \<Rightarrow> string list" where
  "semantic s width overlap =
     (let sentences = split_sentences s in
      if sentences = [] then (if blank s then [] else [s])
      else not_blank (map (glue '' '') (group (width div 4) overlap [] 0 sentences)))"

definition chunk_semantic :: "string \<Rightarrow> int \<Rightarrow> int \<Rightarrow> string list" where
  "chunk_semantic s width overlap = (if blank s then [] else semantic s width overlap)"

section \<open>Lines\<close>

definition hashes :: "string \<Rightarrow> nat" where
  "hashes l = length (takeWhile (\<lambda>c. c = CHR ''#'') l)"

text \<open>\<open>^#{1,6}\s+.*$\<close> at the start of a text: what it matches, with \<open>\s+\<close> as long as it can be.\<close>

definition heading_at :: "string \<Rightarrow> string option" where
  "heading_at l =
     (let n = hashes l; rest = drop n l; gap = takeWhile is_space rest in
      if 1 \<le> n \<and> n \<le> 6 \<and> gap \<noteq> []
      then Some (take n l @ gap @ takeWhile (\<lambda>c. c \<noteq> NL) (drop (length gap) rest)) else None)"

definition fence :: "string \<Rightarrow> bool" where
  "fence l = prefix ''```'' (str_strip l)"

text \<open>The sections so far, the lines of the current one, and those of an open code fence.\<close>

record sectioning =
  sn_done :: "string list"
  sn_lines :: "string list"
  sn_code :: "string list"
  sn_fenced :: bool

definition close_section :: "sectioning \<Rightarrow> string list" where
  "close_section st = sn_done st @ (if sn_lines st = [] then [] else [glue [NL] (sn_lines st)])"

definition markdown_line :: "sectioning \<Rightarrow> string \<Rightarrow> sectioning" where
  "markdown_line st l =
     (if fence l then
        (if sn_fenced st then st\<lparr>sn_lines := sn_lines st @ sn_code st @ [l], sn_code := [], sn_fenced := False\<rparr>
         else \<lparr>sn_done = close_section st, sn_lines = [], sn_code = [l], sn_fenced = True\<rparr>)
      else if sn_fenced st then st\<lparr>sn_code := sn_code st @ [l]\<rparr>
      else if heading_at l \<noteq> None then st\<lparr>sn_done := close_section st, sn_lines := [l]\<rparr>
      else st\<lparr>sn_lines := sn_lines st @ [l]\<rparr>)"

definition no_section :: sectioning where
  "no_section = \<lparr>sn_done = [], sn_lines = [], sn_code = [], sn_fenced = False\<rparr>"

definition markdown_sections :: "string \<Rightarrow> string list" where
  "markdown_sections s =
     (let st = foldl markdown_line no_section (lines_of s) in
      sn_done st @ (if sn_lines st = [] \<and> sn_code st = [] then [] else [glue [NL] (sn_lines st @ sn_code st)]))"

definition heading_line :: "sectioning \<Rightarrow> string \<Rightarrow> sectioning" where
  "heading_line st l =
     (if heading_at l \<noteq> None then st\<lparr>sn_done := close_section st, sn_lines := [l]\<rparr>
      else st\<lparr>sn_lines := sn_lines st @ [l]\<rparr>)"

definition heading_sections :: "string \<Rightarrow> string list" where
  "heading_sections s = close_section (foldl heading_line no_section (lines_of s))"

text \<open>A part that fits is one chunk; another is cut into sentences.\<close>

definition fit :: "int \<Rightarrow> int \<Rightarrow> string \<Rightarrow> string list" where
  "fit width overlap part =
     (if blank part then [] else if est part \<le> width div 4 then [part] else semantic part width overlap)"

definition chunk_markdown :: "string \<Rightarrow> int \<Rightarrow> int \<Rightarrow> string list" where
  "chunk_markdown s width overlap =
     (if blank s then [] else not_blank (concat (map (fit width overlap) (markdown_sections s))))"

definition chunk_heading :: "string \<Rightarrow> int \<Rightarrow> int \<Rightarrow> string list" where
  "chunk_heading s width overlap =
     (if blank s then [] else not_blank (concat (map (fit width overlap) (heading_sections s))))"

section \<open>Code\<close>

definition DEFINITION_RX :: rx where
  "DEFINITION_RX = anyof [exactly ''def '', exactly ''async def '', exactly ''class '', exactly ''function '']"

definition BOUNDARY :: "rx list" where
  "BOUNDARY =
     [anyof [DEFINITION_RX, seqs [exactly ''export'', spaces, maybe (seqs [exactly ''default'', spaces]), exactly ''function''],
        seqs [exactly ''const'', spaces, word_chars, spaces0, exactly ''='', spaces0, maybe (seqs [exactly ''async'', spaces]), exactly ''('']],
      seqs [spaces0, DEFINITION_RX]]"

definition is_code_boundary :: "string \<Rightarrow> bool" where
  "is_code_boundary l = list_ex (\<lambda>r. match_prefix r l) BOUNDARY"

definition IMPORT_RX :: rx where
  "IMPORT_RX = anyof [exactly ''import '',
     seqs [exactly ''from '', Cls (\<lambda>c. c \<noteq> NL), line_part, exactly '' import ''], exactly ''require('', exactly ''#include '']"

text \<open>The scan for boundaries: the import lines seen and whether they have ended.\<close>

record boundary_scan =
  bs_imports :: nat
  bs_done :: bool
  bs_bounds :: "nat list"

definition scan_line :: "boundary_scan \<Rightarrow> nat \<times> string \<Rightarrow> boundary_scan" where
  "scan_line st il =
     (let (i, l) = il; import = match_prefix IMPORT_RX l in
      if \<not> bs_done st \<and> import then st\<lparr>bs_imports := Suc (bs_imports st)\<rparr>
      else if \<not> bs_done st \<and> bs_imports st \<noteq> 0 \<and> blank l then st\<lparr>bs_done := True\<rparr>
      else (let st1 = (if \<not> bs_done st \<and> bs_imports st \<noteq> 0 then st\<lparr>bs_done := True\<rparr> else st) in
        if is_code_boundary l \<and> 0 < i \<and> last (bs_bounds st1) \<noteq> i
        then st1\<lparr>bs_bounds := bs_bounds st1 @ [i]\<rparr> else st1))"

definition boundaries :: "string list \<Rightarrow> nat list" where
  "boundaries ls = bs_bounds (foldl scan_line \<lparr>bs_imports = 0, bs_done = False, bs_bounds = [0]\<rparr> (enumerate 0 ls)) @ [length ls]"

fun blocks :: "string list \<Rightarrow> nat list \<Rightarrow> string list" where
  "blocks ls (a # b # bs) = glue [NL] (take (b - a) (drop a ls)) # blocks ls (b # bs)"
| "blocks ls bs = []"

definition chunk_code :: "string \<Rightarrow> int \<Rightarrow> int \<Rightarrow> string list" where
  "chunk_code s width overlap =
     (if blank s then []
      else (let cs = concat (map (fit width overlap) (blocks (lines_of s) (boundaries (lines_of s))))
            in not_blank (if cs = [] then semantic s width overlap else cs)))"

section \<open>The sliding window\<close>

text \<open>\<open>text[a:b]\<close>: negative indices count from the end.\<close>

definition slice :: "string \<Rightarrow> int \<Rightarrow> int \<Rightarrow> string" where
  "slice s a b =
     (let n = int (length s); lo = (if a < 0 then max 0 (a + n) else min a n); hi = (if b < 0 then max 0 (b + n) else min b n)
      in take (nat (hi - lo)) (drop (nat lo) s))"

partial_function (option) windows :: "string \<Rightarrow> int \<Rightarrow> int \<Rightarrow> int \<Rightarrow> string list \<Rightarrow> string list option" where
  "windows s width overlap start chunks =
     (if \<not> start < int (length s) then Some chunks
      else (let stop = start + width; piece = slice s start stop;
                chunks1 = (if blank piece then chunks else chunks @ [piece]) in
        if int (length s) \<le> stop then Some chunks1
        else windows s width overlap (stop - overlap) chunks1))"

definition window_overlap :: "int \<Rightarrow> int \<Rightarrow> int" where
  "window_overlap width overlap = (if width \<le> overlap then max 0 (width - 1) else overlap)"

definition chunk_sliding_window :: "string \<Rightarrow> int \<Rightarrow> int \<Rightarrow> string list option" where
  "chunk_sliding_window s width overlap =
     (if blank s then Some [] else windows s width (window_overlap width overlap) 0 [])"

section \<open>Documents\<close>

definition lang_map :: "(string \<times> string) list" where
  "lang_map =
     [(''py'', ''python''), (''js'', ''javascript''), (''ts'', ''typescript''), (''java'', ''java''), (''go'', ''go''), (''rs'', ''rust''),
      (''rb'', ''ruby''), (''cpp'', ''cpp''), (''c'', ''c''), (''h'', ''c''), (''cs'', ''csharp''), (''php'', ''php''), (''swift'', ''swift''),
      (''kt'', ''kotlin''), (''scala'', ''scala''), (''sql'', ''sql''), (''sh'', ''bash''), (''yaml'', ''yaml''), (''yml'', ''yaml''),
      (''json'', ''json''), (''html'', ''html''), (''css'', ''css''), (''xml'', ''xml''), (''md'', ''markdown'')]"

definition extension :: "string \<Rightarrow> string" where
  "extension source = (if CHR ''.'' \<in> set source then str_lower (last (split_on CHR ''.'' source)) else [])"

definition shebang_language :: "string \<Rightarrow> string option" where
  "shebang_language s =
     (if prefix ''#!'' s then
        (let l = hd (lines_of s) in
         if str_contains ''python'' l then Some ''python''
         else if str_contains ''node'' l \<or> str_contains ''javascript'' l then Some ''javascript''
         else if str_contains ''bash'' l \<or> str_contains ''sh'' l then Some ''bash'' else None)
      else None)"

definition some_text :: "string option \<Rightarrow> bool" where
  "some_text t = (case t of None \<Rightarrow> False | Some s \<Rightarrow> s \<noteq> [])"

definition detect_language :: "string \<Rightarrow> string option \<Rightarrow> string option \<Rightarrow> string option" where
  "detect_language s source language =
     (if some_text language then language
      else case (if some_text source then map_of lang_map (extension (the source)) else None) of
        Some l \<Rightarrow> Some l | None \<Rightarrow> shebang_language s)"

definition CODE_EXTS :: "string list" where
  "CODE_EXTS = [''py'', ''js'', ''ts'', ''java'', ''go'', ''rs'', ''rb'', ''cpp'', ''c'', ''h'', ''cs'', ''php'', ''swift'', ''kt'', ''scala'',
     ''sql'', ''sh'', ''yaml'', ''yml'', ''json'', ''html'', ''css'', ''xml'', ''toml'']"

definition CODE_STARTS :: "string list" where
  "CODE_STARTS = [''def '', ''class '', ''function '', ''import '', ''from '', ''#include'', ''package '']"

text \<open>The texts that begin at a line start of \<open>s\<close>, for \<open>re.MULTILINE\<close>.\<close>

fun line_starts :: "string \<Rightarrow> string list" where
  "line_starts [] = []"
| "line_starts (c # cs) = (if c = NL then cs # line_starts cs else line_starts cs)"

definition at_lines :: "string \<Rightarrow> string list" where
  "at_lines s = s # line_starts s"

datatype content_type = Code_Type | Markdown_Type | Text_Type

definition detect_content_type :: "string \<Rightarrow> string option \<Rightarrow> content_type" where
  "detect_content_type s source =
     (let ext = (if some_text source then extension (the source) else []) in
      if some_text source \<and> ext \<in> set CODE_EXTS then Code_Type
      else if some_text source \<and> ext = ''md'' then Markdown_Type
      else if prefix ''#'' (dropWhile is_space s) then Markdown_Type
      else if list_ex (\<lambda>l. list_ex (\<lambda>k. prefix k l) CODE_STARTS) (at_lines s) then Code_Type
      else if list_ex (\<lambda>l. heading_at l \<noteq> None) (at_lines s) then Markdown_Type
      else Text_Type)"

record chunk =
  ck_document :: "string option"
  ck_section :: string
  ck_heading :: string
  ck_page :: int
  ck_source :: "string option"
  ck_language :: "string option"
  ck_hash :: string
  ck_content :: string
  ck_index :: nat
  ck_strategy :: string
  ck_tokens :: int

definition chosen_strategy :: "string \<Rightarrow> string \<Rightarrow> string option \<Rightarrow> string" where
  "chosen_strategy strategy s source =
     (if strategy = ''auto'' then (case detect_content_type s source of
        Markdown_Type \<Rightarrow> ''markdown'' | Code_Type \<Rightarrow> ''code'' | Text_Type \<Rightarrow> ''semantic'') else strategy)"

definition raw_chunks :: "string \<Rightarrow> string \<Rightarrow> int \<Rightarrow> int \<Rightarrow> string list option" where
  "raw_chunks strategy s width overlap =
     (if strategy = ''semantic'' then Some (chunk_semantic s width overlap)
      else if strategy = ''markdown'' then Some (chunk_markdown s width overlap)
      else if strategy = ''code'' then Some (chunk_code s width overlap)
      else if strategy = ''heading'' then Some (chunk_heading s width overlap)
      else if strategy = ''sliding_window'' then chunk_sliding_window s width overlap
      else Some (chunk_semantic s width overlap))"

definition heading_of :: "string \<Rightarrow> string" where
  "heading_of s = (case List.find (\<lambda>h. h \<noteq> None) (map heading_at (at_lines s)) of
      Some (Some h) \<Rightarrow> str_strip h | _ \<Rightarrow> [])"

fun make_chunks ::
  "(string \<Rightarrow> string) \<Rightarrow> string option \<Rightarrow> string option \<Rightarrow> string option \<Rightarrow> string \<Rightarrow> nat \<Rightarrow> int \<Rightarrow> string list \<Rightarrow> chunk list" where
  "make_chunks hash doc source language strategy i offset [] = []"
| "make_chunks hash doc source language strategy i offset (c # cs) =
     \<lparr>ck_document = doc, ck_section = str_strip (dropWhile (\<lambda>x. x = CHR ''#'') (heading_of c)), ck_heading = heading_of c,
      ck_page = estimate_page offset, ck_source = source, ck_language = language, ck_hash = hash c, ck_content = c, ck_index = i,
      ck_strategy = strategy, ck_tokens = est c\<rparr> #
     make_chunks hash doc source language strategy (Suc i) (offset + int (length c)) cs"

definition chunk_document ::
  "(string \<Rightarrow> string) \<Rightarrow> string \<Rightarrow> int \<Rightarrow> int \<Rightarrow> string \<Rightarrow> string option \<Rightarrow> string option \<Rightarrow> string option \<Rightarrow> chunk list option" where
  "chunk_document hash s width overlap strategy language source doc =
     (if blank s then Some []
      else (let st = chosen_strategy strategy s source in
        map_option (make_chunks hash doc source (detect_language s source language) st 0 0) (raw_chunks st s width overlap)))"

record document_row =
  dr_id :: string
  dr_content :: string
  dr_source :: "string option"
  dr_language :: "string option"
  dr_strategy :: string

fun chunk_documents :: "(string \<Rightarrow> string) \<Rightarrow> document_row list \<Rightarrow> int \<Rightarrow> int \<Rightarrow> chunk list option" where
  "chunk_documents hash [] width overlap = Some []"
| "chunk_documents hash (d # ds) width overlap =
     (case chunk_document hash (dr_content d) width overlap (dr_strategy d) (dr_language d) (dr_source d)
             (if dr_id d = [] then None else Some (dr_id d)) of
        None \<Rightarrow> None
      | Some cs \<Rightarrow> map_option ((@) cs) (chunk_documents hash ds width overlap))"

end
