(* ===== verification/Chunk_Laws.thy ===== *)
theory Chunk_Laws
  imports Chunking
begin

text \<open>
  What the chunkers keep and how large their chunks are: sections and blocks put together again
  are the document, sentences are neither lost nor reordered, a group of sentences exceeds the
  limit only when it has a single new sentence, and the sliding window has a closed form
  and fails to end exactly for a size that is not positive.
\<close>

section \<open>Sections and blocks\<close>

text \<open>The lines a state of the scan holds, in order.\<close>

definition held_lines :: "sectioning \<Rightarrow> string list" where
  "held_lines st = sn_done st @ sn_lines st @ sn_code st"

definition held_text :: "sectioning \<Rightarrow> string list" where
  "held_text st = sn_done st @ (if sn_lines st @ sn_code st = [] then [] else [glue [NL] (sn_lines st @ sn_code st)])"

lemma glue_one: "xs \<noteq> [] \<Longrightarrow> glue sep (ys @ [glue sep xs]) = glue sep (ys @ xs)"
  by (cases "ys = []") (auto simp: glue_append)

lemma glue_snoc: "xs \<noteq> [] \<Longrightarrow> glue sep (ys @ [glue sep xs] @ zs) = glue sep (ys @ xs @ zs)"
proof (induction ys)
  case Nil
  then show ?case by (cases "zs = []") (auto simp: glue_append glue_Cons)
next
  case (Cons y ys)
  then show ?case by (simp add: glue_Cons)
qed

lemma glue_held: "glue [NL] (held_text st) = glue [NL] (held_lines st)"
  by (auto simp: held_text_def held_lines_def glue_one)

lemma close_section_lines:
  "xs \<noteq> [] \<Longrightarrow> glue [NL] (close_section st @ xs) = glue [NL] (sn_done st @ sn_lines st @ xs)"
  by (simp add: close_section_def glue_snoc [simplified])

lemma markdown_line_holds:
  assumes "sn_fenced st \<or> sn_code st = []"
  shows "glue [NL] (held_lines (markdown_line st l)) = glue [NL] (held_lines st @ [l])"
    and "sn_fenced (markdown_line st l) \<or> sn_code (markdown_line st l) = []"
  using assms by (auto simp: markdown_line_def held_lines_def close_section_lines)

lemma glue_same_append: "xs \<noteq> [] \<Longrightarrow> ys \<noteq> [] \<Longrightarrow> glue sep xs = glue sep ys \<Longrightarrow> zs \<noteq> [] \<Longrightarrow> glue sep (xs @ zs) = glue sep (ys @ zs)"
  by (simp add: glue_append)

lemma held_nonempty: "held_lines (markdown_line st l) \<noteq> []"
  by (auto simp: markdown_line_def held_lines_def close_section_def)

lemma foldl_markdown:
  assumes "sn_fenced st \<or> sn_code st = []" and "held_lines st \<noteq> []"
  shows "glue [NL] (held_lines (foldl markdown_line st ls)) = glue [NL] (held_lines st @ ls)"
  using assms
proof (induction ls arbitrary: st)
  case (Cons l ls)
  note step = markdown_line_holds [OF Cons.prems(1), of l]
  have "glue [NL] (held_lines (foldl markdown_line st (l # ls))) = glue [NL] (held_lines (markdown_line st l) @ ls)"
    using Cons.IH [OF step(2) held_nonempty] by simp
  also have "\<dots> = glue [NL] ((held_lines st @ [l]) @ ls)"
    using step(1) glue_same_append [OF held_nonempty _ step(1), of ls] by (cases "ls = []") simp_all
  finally show ?case by simp
qed simp

lemma markdown_sections_glue: "glue [NL] (markdown_sections s) = s"
proof -
  let ?st = "foldl markdown_line no_section (lines_of s)"
  obtain l ls where l: "lines_of s = l # ls" by (cases "lines_of s") auto
  have 0: "sn_fenced no_section \<or> sn_code no_section = []" "held_lines no_section = []"
    by (simp_all add: no_section_def held_lines_def)
  have first: "glue [NL] (held_lines (markdown_line no_section l)) = glue [NL] [l]"
    using markdown_line_holds(1) [OF 0(1), of l] 0(2) by simp
  have "glue [NL] (held_lines ?st) = glue [NL] (held_lines (markdown_line no_section l) @ ls)"
    unfolding l using foldl_markdown [OF markdown_line_holds(2) [OF 0(1)] held_nonempty] by simp
  also have "\<dots> = glue [NL] ([l] @ ls)"
    using first glue_same_append [OF held_nonempty _ first, of ls] by (cases "ls = []") simp_all
  also have "\<dots> = s" using glue_split_on [of NL s] l by simp
  finally show ?thesis using glue_held [of ?st] by (auto simp: markdown_sections_def held_text_def Let_def)
qed

lemma heading_line_code: "sn_code (heading_line st l) = sn_code st"
  by (simp add: heading_line_def)

lemma foldl_heading:
  assumes "sn_code st = []" and "held_lines st \<noteq> []"
  shows "glue [NL] (held_lines (foldl heading_line st ls)) = glue [NL] (held_lines st @ ls) \<and> sn_code (foldl heading_line st ls) = []"
  using assms
proof (induction ls arbitrary: st)
  case (Cons l ls)
  have step: "glue [NL] (held_lines (heading_line st l)) = glue [NL] (held_lines st @ [l])" "held_lines (heading_line st l) \<noteq> []"
    using Cons.prems by (auto simp: heading_line_def held_lines_def close_section_lines)
  have "glue [NL] (held_lines (heading_line st l) @ ls) = glue [NL] ((held_lines st @ [l]) @ ls)"
    using step(1) glue_same_append [OF step(2) _ step(1), of ls] by (cases "ls = []") simp_all
  with Cons.IH [of "heading_line st l"] Cons.prems step(2) show ?case by (simp add: heading_line_code)
qed simp

lemma heading_sections_glue: "glue [NL] (heading_sections s) = s"
proof -
  obtain l ls where l: "lines_of s = l # ls" by (cases "lines_of s") auto
  let ?st1 = "heading_line no_section l" and ?st = "foldl heading_line no_section (lines_of s)"
  have 1: "sn_code ?st1 = []" "held_lines ?st1 = [l]"
    by (simp_all add: heading_line_def no_section_def held_lines_def close_section_def)
  have "glue [NL] (held_lines ?st) = s" "sn_code ?st = []"
    using foldl_heading [OF 1(1), of ls] 1(2) glue_split_on [of NL s] l by simp_all
  then show ?thesis
    using glue_held [of ?st] by (auto simp: heading_sections_def close_section_def held_text_def)
qed

text \<open>The blocks between increasing boundaries.\<close>

lemma blocks_glue:
  assumes "sorted_wrt (<) (a # bs)" and "bs \<noteq> []" and "last bs \<le> length ls"
  shows "glue [NL] (blocks ls (a # bs)) = glue [NL] (take (last bs - a) (drop a ls))"
  using assms
proof (induction bs arbitrary: a)
  case (Cons b bs)
  show ?case
  proof (cases "bs = []")
    case False
    have ab: "a < b" "b < last bs" "last bs \<le> length ls" using Cons.prems False by auto
    have ne: "blocks ls (b # bs) \<noteq> []" using False by (cases bs) auto
    have whole: "(b - a) + (last bs - b) = last bs - a" and shift: "(b - a) + a = b" using ab by simp_all
    have cut: "take (last bs - a) (drop a ls) = take (b - a) (drop a ls) @ take (last bs - b) (drop b ls)"
      using take_add [of "b - a" "last bs - b" "drop a ls"] unfolding whole drop_drop shift .
    have "blocks ls (a # b # bs) = glue [NL] (take (b - a) (drop a ls)) # blocks ls (b # bs)" by simp
    moreover have "glue [NL] (blocks ls (b # bs)) = glue [NL] (take (last bs - b) (drop b ls))"
      using Cons.IH [of b] Cons.prems False by simp
    moreover have "take (b - a) (drop a ls) \<noteq> []" "take (last bs - b) (drop b ls) \<noteq> []" using ab by auto
    ultimately show ?thesis
      using ne False cut by (simp add: glue_append glue_Cons)
  qed simp
qed simp

lemma scan_line_bounds:
  "bs_bounds (scan_line st (i, l)) = bs_bounds st \<or> 0 < i \<and> bs_bounds (scan_line st (i, l)) = bs_bounds st @ [i]"
  by (simp add: scan_line_def Let_def)

lemma scan_bounds:
  assumes "sorted_wrt (<) (bs_bounds st)" and "bs_bounds st \<noteq> []" and "\<forall>b \<in> set (bs_bounds st). b < i \<or> i = 0 \<and> b = 0" and "hd (bs_bounds st) = 0"
  shows "sorted_wrt (<) (bs_bounds (scan_line st (i, l))) \<and> bs_bounds (scan_line st (i, l)) \<noteq> [] \<and>
    (\<forall>b \<in> set (bs_bounds (scan_line st (i, l))). b < Suc i) \<and> hd (bs_bounds (scan_line st (i, l))) = 0"
  using scan_line_bounds [of st i l]
proof
  assume "bs_bounds (scan_line st (i, l)) = bs_bounds st"
  moreover have "\<forall>b \<in> set (bs_bounds st). b < Suc i" using assms(3) by fastforce
  ultimately show ?thesis using assms by simp
next
  assume e: "0 < i \<and> bs_bounds (scan_line st (i, l)) = bs_bounds st @ [i]"
  then have "\<forall>b \<in> set (bs_bounds st). b < i" using assms(3) by fastforce
  then show ?thesis using e assms by (simp add: sorted_wrt_append less_Suc_eq)
qed

lemma foldl_scan:
  assumes "sorted_wrt (<) (bs_bounds st)" and "bs_bounds st \<noteq> []" and "\<forall>b \<in> set (bs_bounds st). b < i \<or> i = 0 \<and> b = 0" and "hd (bs_bounds st) = 0"
    and "ls \<noteq> []"
  shows "sorted_wrt (<) (bs_bounds (foldl scan_line st (enumerate i ls)) @ [i + length ls]) \<and>
    bs_bounds (foldl scan_line st (enumerate i ls)) \<noteq> [] \<and> hd (bs_bounds (foldl scan_line st (enumerate i ls))) = 0"
  using assms
proof (induction ls arbitrary: st i)
  case (Cons l ls)
  note s = scan_bounds [OF Cons.prems(1-4), of l]
  show ?case
  proof (cases "ls = []")
    case True
    with s show ?thesis by (simp add: sorted_wrt_append)
  next
    case False
    with Cons.IH [of "scan_line st (i, l)" "Suc i"] s show ?thesis by simp
  qed
qed simp

lemma code_blocks_glue: "glue [NL] (blocks (lines_of s) (boundaries (lines_of s))) = s"
proof -
  let ?ls = "lines_of s"
  let ?bs = "bs_bounds (foldl scan_line \<lparr>bs_imports = 0, bs_done = False, bs_bounds = [0]\<rparr> (enumerate 0 ?ls))"
  have ne: "?ls \<noteq> []" by simp
  have f: "sorted_wrt (<) (?bs @ [length ?ls])" "?bs \<noteq> []" "hd ?bs = 0"
    using foldl_scan [of "\<lparr>bs_imports = 0, bs_done = False, bs_bounds = [0]\<rparr>" 0 ?ls] by auto
  then obtain rest where r: "?bs = 0 # rest" by (cases ?bs) auto
  have "glue [NL] (blocks ?ls (0 # (rest @ [length ?ls]))) = glue [NL] (take (length ?ls - 0) (drop 0 ?ls))"
    using blocks_glue [of 0 "rest @ [length ?ls]" ?ls] f(1) r by simp
  then show ?thesis by (simp add: boundaries_def r glue_split_on)
qed

text \<open>
  C22. Cutting a document loses nothing: the Markdown sections, the heading sections and the code
  blocks, joined by newlines, are the document again.
\<close>

theorem sections_lossless:
  "glue [NL] (markdown_sections s) = s \<and> glue [NL] (heading_sections s) = s \<and>
   glue [NL] (blocks (lines_of s) (boundaries (lines_of s))) = s"
  by (simp add: markdown_sections_glue heading_sections_glue code_blocks_glue)

section \<open>Sentences\<close>

lemma terminator_visible: "terminator c \<Longrightarrow> \<not> is_space c"
  by (auto simp: terminator_def is_space_def Let_def)

lemma dropWhile_visible: "dropWhile is_space s = [] \<or> \<not> is_space (hd (dropWhile is_space s))"
  by (induction s) auto

lemma split_after_pieces:
  "\<exists>p ps. split_after s = p # ps \<and> (\<forall>q \<in> set ps. q \<noteq> [] \<longrightarrow> \<not> blank q) \<and> (s \<noteq> [] \<and> \<not> is_space (hd s) \<longrightarrow> \<not> blank p)"
proof (induction s rule: split_after.induct)
  case (2 c cs)
  show ?case
  proof (cases "terminator c \<and> cs \<noteq> [] \<and> is_space (hd cs)")
    case True
    with 2(1) obtain p ps where p: "split_after (dropWhile is_space cs) = p # ps" "\<forall>q \<in> set ps. q \<noteq> [] \<longrightarrow> \<not> blank q"
      "dropWhile is_space cs \<noteq> [] \<and> \<not> is_space (hd (dropWhile is_space cs)) \<longrightarrow> \<not> blank p" by blast
    have "p \<noteq> [] \<longrightarrow> \<not> blank p" using p(1,3) dropWhile_visible [of cs] by (cases "dropWhile is_space cs = []") auto
    with p True show ?thesis by (auto simp: blank_def dest: terminator_visible)
  next
    case False
    with 2(2) obtain p ps where "split_after cs = p # ps" "\<forall>q \<in> set ps. q \<noteq> [] \<longrightarrow> \<not> blank q" by blast
    with False show ?thesis by (auto simp: blank_def)
  qed
qed simp

lemma sentence_visible: "p \<in> set (split_sentences s) \<Longrightarrow> \<not> blank p"
proof -
  assume p: "p \<in> set (split_sentences s)"
  have "str_strip s = [] \<or> \<not> is_space (hd (str_strip s))"
    using dropWhile_visible [of s] unfolding str_strip_def
    by (metis dropWhile_rev_dropWhile dropWhile_visible rev.simps(1) dropWhile_eq_Nil_conv)
  with p split_after_pieces [of "str_strip s"] show ?thesis
    by (cases "str_strip s = []") (auto simp: split_sentences_def)
qed

lemma blank_glue: "xs \<noteq> [] \<Longrightarrow> \<forall>x \<in> set xs. \<not> blank x \<Longrightarrow> \<not> blank (glue sep xs)"
proof (cases xs)
  case (Cons x ys)
  then show "xs \<noteq> [] \<Longrightarrow> \<forall>x \<in> set xs. \<not> blank x \<Longrightarrow> \<not> blank (glue sep xs)" by (cases ys) (auto simp: blank_def)
qed simp



lemma tokens_append [simp]: "tokens (xs @ ys) = tokens xs + tokens ys"
  by (simp add: tokens_def)

lemma tokens_one [simp]: "tokens [x] = est x" "tokens [] = 0"
  by (simp_all add: tokens_def)







lemma est_pos: "0 < est s"
  by (simp add: est_def)

lemma tokens_nonneg: "0 \<le> tokens ss"
  by (induction ss) (auto simp: tokens_def less_imp_le [OF est_pos])

lemma keep_last_all: "used + tokens earlier \<le> room \<Longrightarrow> keep_last room used earlier kept = rev earlier @ kept"
proof (induction earlier arbitrary: used kept)
  case (Cons s earlier)
  from tokens_nonneg [of earlier] Cons show ?case by (simp add: tokens_def)
qed simp

lemma tokens_rev: "tokens (rev xs) = tokens xs"
  by (simp add: tokens_def rev_map [symmetric])

lemma group_last:
  "0 < overlap \<Longrightarrow> tokens (cur @ ss) \<le> overlap div 4 \<Longrightarrow> cur @ ss \<noteq> [] \<Longrightarrow>
   group limit overlap cur len ss \<noteq> [] \<and> last (group limit overlap cur len ss) = cur @ ss"
proof (induction ss arbitrary: cur len)
  case (Cons s ss)
  have "overlap_of overlap cur = cur"
    using tokens_nonneg [of "s # ss"] Cons.prems keep_last_all [of 0 "rev cur" "overlap div 4" "[]"] by (simp add: overlap_of_def tokens_rev)
  with Cons.IH [of "cur @ [s]"] Cons.prems show ?case by (simp add: Let_def)
qed simp

text \<open>
  An overlap that holds the whole text defeats the chunk size: the last chunk is the whole text
  again, whatever the size.
\<close>

theorem large_overlap_repeats_text:
  assumes "split_sentences s \<noteq> []" and "tokens (split_sentences s) \<le> overlap div 4"
  shows "last (chunk_semantic s width overlap) = glue '' '' (split_sentences s)"
proof -
  have "0 < tokens (split_sentences s)"
    using assms(1) tokens_nonneg [of "tl (split_sentences s)"] est_pos [of "hd (split_sentences s)"]
    by (cases "split_sentences s") (auto simp: tokens_def)
  then have "0 < overlap" using assms(2) by linarith
  with group_last [of overlap "[]" "split_sentences s"] assms
  have g: "group (width div 4) overlap [] 0 (split_sentences s) \<noteq> []"
    "last (group (width div 4) overlap [] 0 (split_sentences s)) = split_sentences s" by auto
  have v: "\<not> blank (glue '' '' (split_sentences s))" using assms(1) sentence_visible by (intro blank_glue) auto
  have "\<not> blank s"
  proof
    assume "blank s"
    then have "str_strip s = []" by (simp add: blank_def str_strip_def list_all_iff dropWhile_eq_Nil_conv [THEN iffD2])
    with assms(1) show False by (simp add: split_sentences_def)
  qed
  have keep: "last (not_blank xs) = last xs" if "xs \<noteq> []" "\<not> blank (last xs)" for xs
    using that by (induction xs rule: rev_induct) (auto simp: not_blank_def)
  show ?thesis
    using keep [of "map (glue '' '') (group (width div 4) overlap [] 0 (split_sentences s))"] g v assms(1) \<open>\<not> blank s\<close>
    by (simp add: chunk_semantic_def semantic_def last_map)
qed

theorem large_overlap_repeats_text_witness:
  "chunk_semantic ''Aaaa. Bbbb. Cccc. Dddd.'' 8 100 = [''Aaaa. Bbbb.'', ''Aaaa. Bbbb. Cccc.'', ''Aaaa. Bbbb. Cccc. Dddd.''] \<and>
   last (chunk_semantic ''Aaaa. Bbbb. Cccc. Dddd.'' 8 100) = ''Aaaa. Bbbb. Cccc. Dddd.''"
proof -
  have a: "split_sentences ''Aaaa. Bbbb. Cccc. Dddd.'' = [''Aaaa.'', ''Bbbb.'', ''Cccc.'', ''Dddd.'']"
    "tokens [''Aaaa.'', ''Bbbb.'', ''Cccc.'', ''Dddd.''] = 4"
    "glue '' '' [''Aaaa.'', ''Bbbb.'', ''Cccc.'', ''Dddd.''] = ''Aaaa. Bbbb. Cccc. Dddd.''"
    "chunk_semantic ''Aaaa. Bbbb. Cccc. Dddd.'' 8 100 = [''Aaaa. Bbbb.'', ''Aaaa. Bbbb. Cccc.'', ''Aaaa. Bbbb. Cccc. Dddd.'']"
    by code_simp+
  from large_overlap_repeats_text [of "''Aaaa. Bbbb. Cccc. Dddd.''" 100 8] a show ?thesis by simp
qed

section \<open>The sliding window\<close>

declare windows.simps [code]

text \<open>The window makes no progress: before the end of the text it only moves to the left.\<close>

lemma windows_stuck:
  assumes "width \<le> overlap" and "start \<le> 0" and "width \<le> 0" and "0 < int (length s)"
  shows "windows s width overlap start cs = None"
proof (rule ccontr)
  assume "windows s width overlap start cs \<noteq> None"
  then obtain r where r: "windows s width overlap start cs = Some r" by auto
  have "\<not> (width \<le> overlap \<and> start \<le> 0 \<and> width \<le> 0 \<and> 0 < int (length s))"
  proof (rule windows.raw_induct [OF _ r], goal_cases)
    case (1 loop s width overlap start cs r)
    show ?case
    proof
      assume a: "width \<le> overlap \<and> start \<le> 0 \<and> width \<le> 0 \<and> 0 < int (length s)"
      then have "start < int (length s)" "\<not> int (length s) \<le> start + width" by linarith+
      then have "loop s width overlap (start + width - overlap)
          (if blank (slice s start (start + width)) then cs else cs @ [slice s start (start + width)]) = Some r"
        using 1(2) by (simp add: Let_def split: if_splits)
      from 1(1) [OF this] a show False by simp
    qed
  qed
  with assms show False by simp
qed

lemma slice_window:
  assumes "a < length s"
  shows "slice s (int a) (int a + int w) = take w (drop a s)"
proof (cases "a + w \<le> length s")
  case True
  then have "min (int a + int w) (int (length s)) = int a + int w" by simp
  with assms show ?thesis by (simp add: slice_def Let_def)
next
  case False
  then have "min (int a + int w) (int (length s)) = int (length s)" by simp
  with assms False show ?thesis by (simp add: slice_def Let_def)
qed

text \<open>The windows start at the multiples of the step; \<open>m\<close> is the last one.\<close>

definition window_at :: "string \<Rightarrow> nat \<Rightarrow> nat \<Rightarrow> nat \<Rightarrow> string" where
  "window_at s w step k = take w (drop (k * step) s)"

definition last_window :: "nat \<Rightarrow> nat \<Rightarrow> nat \<Rightarrow> nat" where
  "last_window len w step = (len - w + step - 1) div step"

lemma last_window_bounds:
  assumes "0 < step" and "step \<le> w" and "0 < len"
  shows "k < last_window len w step \<Longrightarrow> k * step + w < len"
    and "len \<le> last_window len w step * step + w" and "last_window len w step * step < len"
proof -
  let ?m = "last_window len w step" and ?n = "len - w + step - 1"
  have m: "?m * step + ?n mod step = ?n" "?n mod step < step" using assms(1) by (simp_all add: last_window_def)
  show "len \<le> ?m * step + w" using m assms by linarith
  show "?m * step < len"
  proof (cases "len \<le> w")
    case True
    then have "?m = 0" using assms(1) by (simp add: last_window_def)
    with assms(3) show ?thesis by simp
  next
    case False
    with m assms show ?thesis by linarith
  qed
  show "k * step + w < len" if "k < ?m"
  proof -
    have "\<not> len \<le> w"
    proof
      assume "len \<le> w"
      then have "?m = 0" using assms(1) by (simp add: last_window_def)
      with that show False by simp
    qed
    moreover have "k * step + step \<le> ?m * step" using mult_le_mono1 [of "Suc k" ?m step] that by simp
    ultimately show ?thesis using m by linarith
  qed
qed

lemma windows_from:
  fixes s :: string
  assumes "step \<le> w" and "0 < step" and "s \<noteq> []" and "k \<le> last_window (length s) w step"
  shows "windows s (int w) (int w - int step) (int (k * step)) cs =
    Some (cs @ not_blank (map (window_at s w step) [k..<Suc (last_window (length s) w step)]))"
  using assms(4)
proof (induction "last_window (length s) w step - k" arbitrary: k cs)
  case (0 k cs)
  then have k: "k = last_window (length s) w step" by simp
  have b: "length s \<le> k * step + w" "k * step < length s"
    using last_window_bounds(2,3) [OF assms(2,1), of "length s"] assms(3) k by auto
  have "int (length s) \<le> int (k * step) + int w" "int (k * step) < int (length s)" using b by linarith+
  moreover have "slice s (int (k * step)) (int (k * step) + int w) = window_at s w step k"
    using slice_window [of "k * step" s w] b(2) by (simp add: window_at_def)
  moreover have "[k..<Suc (last_window (length s) w step)] = [k]" by (simp add: k)
  ultimately show ?case by (subst windows.simps) (simp add: Let_def not_blank_def)
next
  case (Suc n k cs)
  then have k: "k < last_window (length s) w step" by simp
  then have b: "k * step + w < length s" using last_window_bounds(1) [OF assms(2,1)] assms(3) by auto
  let ?ov = "int w - int step" and ?piece = "window_at s w step k"
  let ?cs = "if blank ?piece then cs else cs @ [?piece]"
  have nxt: "int (k * step) + int w - ?ov = int (Suc k * step)" by (simp add: algebra_simps)
  have "\<not> int (length s) \<le> int (k * step) + int w" "int (k * step) < int (length s)" using b by linarith+
  moreover have "slice s (int (k * step)) (int (k * step) + int w) = window_at s w step k"
    using slice_window [of "k * step" s w] b by (simp add: window_at_def)
  ultimately have "windows s (int w) ?ov (int (k * step)) cs = windows s (int w) ?ov (int (k * step) + int w - ?ov) ?cs"
    by (subst windows.simps) (simp add: Let_def)
  also have "\<dots> = windows s (int w) ?ov (int (Suc k * step)) ?cs" unfolding nxt ..
  also have "\<dots> = Some (?cs @ not_blank (map (window_at s w step) [Suc k..<Suc (last_window (length s) w step)]))"
    using Suc(1) [of "Suc k" ?cs] Suc(2) k by simp
  also have "?cs @ not_blank (map (window_at s w step) [Suc k..<Suc (last_window (length s) w step)]) =
      cs @ not_blank (map (window_at s w step) (k # [Suc k..<Suc (last_window (length s) w step)]))"
    by (simp add: not_blank_def)
  also have "k # [Suc k..<Suc (last_window (length s) w step)] = [k..<Suc (last_window (length s) w step)]"
    using k upt_conv_Cons [of k "Suc (last_window (length s) w step)"] by simp
  finally show ?case .
qed

text \<open>
  C24. The sliding window returns, for a positive size and an overlap that is not negative, the
  windows at the multiples of size less overlap (one, when the overlap is not smaller than the
  size), without the blank ones and up to the first that reaches the end.
\<close>

theorem sliding_window_closed_form:
  assumes "0 < width" and "0 \<le> overlap" and "\<not> blank s"
  shows "chunk_sliding_window s width overlap =
    (let step = nat (if width \<le> overlap then 1 else width - overlap)
     in Some (not_blank (map (window_at s (nat width) step) [0..<Suc (last_window (length s) (nat width) step)])))"
proof -
  define step where "step = nat (if width \<le> overlap then 1 else width - overlap)"
  have st: "0 < step" "step \<le> nat width" "window_overlap width overlap = int (nat width) - int step"
    using assms(1,2) by (auto simp: step_def window_overlap_def)
  have "s \<noteq> []" using assms(3) by (auto simp: blank_def)
  with windows_from [of step "nat width" s 0 "[]"] st assms(1,3)
  have "chunk_sliding_window s width overlap =
      Some (not_blank (map (window_at s (nat width) step) [0..<Suc (last_window (length s) (nat width) step)]))"
    by (simp add: chunk_sliding_window_def del: upt_Suc)
  then show ?thesis unfolding Let_def step_def .
qed

theorem sliding_window_closed_form_witness:
  "chunk_sliding_window ''abcdefghij'' 4 1 = Some [''abcd'', ''defg'', ''ghij'']"
  using sliding_window_closed_form [of 4 1 "''abcdefghij''"] by (simp; code_simp)

lemma windows_advance:
  assumes "overlap < width"
  shows "\<exists>r. windows s width overlap start cs = Some r"
proof (induction "nat (int (length s) - start)" arbitrary: start cs rule: less_induct)
  case less
  show ?case
  proof (cases "\<not> start < int (length s) \<or> int (length s) \<le> start + width")
    case True
    then show ?thesis by (subst windows.simps) (auto simp: Let_def)
  next
    case False
    then have "nat (int (length s) - (start + width - overlap)) < nat (int (length s) - start)" using assms by linarith
    from less [OF this] False show ?thesis by (subst windows.simps) (simp add: Let_def)
  qed
qed

text \<open>
  C40. The sliding window never returns exactly on a visible text with a size that is not positive and
  not above the overlap.
\<close>

theorem sliding_window_ends:
  "chunk_sliding_window s width overlap = None \<longleftrightarrow> \<not> blank s \<and> width \<le> 0 \<and> width \<le> overlap"
proof (cases "\<not> blank s \<and> width \<le> 0 \<and> width \<le> overlap")
  case True
  then have "s \<noteq> []" by (auto simp: blank_def)
  with True windows_stuck [of width 0 0 s "[]"] show ?thesis
    by (simp add: chunk_sliding_window_def window_overlap_def)
next
  case False
  have "blank s \<or> window_overlap width overlap < width" using False by (auto simp: window_overlap_def)
  with False windows_advance [of "window_overlap width overlap" width s 0 "[]"] show ?thesis
    by (auto simp: chunk_sliding_window_def)
qed

end
