(* ===== verification/Embeddings.thy ===== *)
theory Embeddings
  imports Prelude
begin

text \<open>
  \<open>app/services/embeddings.py\<close>, \<open>app/services/embedding_cache.py\<close> and
  \<open>app/repositories/embedding_cache.py\<close>: the choice of a provider, the cache of vectors and the
  embedding of texts through it. What a provider answers to a batch of texts is an argument
  (\<open>None\<close>: the request fails); vectors are lists of exact rationals.
\<close>

section \<open>The cache\<close>

type_synonym embedding = "rat list"

record cache_entry =
  ce_project :: uuid
  ce_hash :: string
  ce_version :: string
  ce_model :: string
  ce_provider :: string
  ce_dimensions :: nat
  ce_vector :: embedding
  ce_expires :: "instant option"

type_synonym cache_key = "uuid \<times> string \<times> string \<times> string \<times> string"

definition entry_key :: "cache_entry \<Rightarrow> cache_key" where
  "entry_key e = (ce_project e, ce_hash e, ce_version e, ce_model e, ce_provider e)"

definition unexpired :: "instant \<Rightarrow> cache_entry \<Rightarrow> bool" where
  "unexpired now e = (case ce_expires e of None \<Rightarrow> True | Some t \<Rightarrow> now < t)"

text \<open>The lookup columns have a unique index, so \<open>scalar_one_or_none\<close> sees at most one row.\<close>

definition find_active :: "cache_key \<Rightarrow> instant \<Rightarrow> cache_entry list \<Rightarrow> cache_entry option" where
  "find_active k now cache = find (\<lambda>e. entry_key e = k \<and> unexpired now e) cache"

definition cache_upsert :: "cache_entry \<Rightarrow> cache_entry list \<Rightarrow> cache_entry list" where
  "cache_upsert e cache = (if row_by entry_key (entry_key e) cache = None then cache @ [e] else put_row entry_key e cache)"

definition delete_expired :: "instant \<Rightarrow> cache_entry list \<Rightarrow> cache_entry list \<times> nat" where
  "delete_expired now cache =
     (filter (unexpired now) cache, length (filter (\<lambda>e. \<not> unexpired now e) cache))"

definition cache_get :: "cache_key \<Rightarrow> instant \<Rightarrow> cache_entry list \<Rightarrow> embedding option" where
  "cache_get k now cache = map_option ce_vector (find_active k now cache)"

definition DAY :: instant where "DAY = 24 * 3600 * 1000000"

definition cache_set :: "cache_key \<Rightarrow> embedding \<Rightarrow> int \<Rightarrow> instant \<Rightarrow> cache_entry list \<Rightarrow> cache_entry list" where
  "cache_set k v ttl_days now cache =
     (let (p, h, ver, m, prov) = k in
      cache_upsert \<lparr>ce_project = p, ce_hash = h, ce_version = ver, ce_model = m, ce_provider = prov, ce_dimensions = length v,
        ce_vector = v, ce_expires = (if 0 < ttl_days then Some (now + ttl_days * DAY) else None)\<rparr> cache)"

definition get_or_generate ::
  "cache_key \<Rightarrow> embedding option \<Rightarrow> instant \<Rightarrow> cache_entry list \<Rightarrow> cache_entry list \<times> embedding option" where
  "get_or_generate k generated now cache =
     (case cache_get k now cache of
        Some v \<Rightarrow> (cache, Some v)
      | None \<Rightarrow> (case generated of None \<Rightarrow> (cache, None) | Some v \<Rightarrow> (cache_set k v 30 now cache, Some v)))"

section \<open>Providers\<close>

record embedding_provider =
  ep_name :: string
  ep_model :: string
  ep_dimensions :: nat

text \<open>\<open>get_embedding_provider\<close> without keyword arguments, as the code calls it.\<close>

definition get_embedding_provider :: "string \<Rightarrow> string \<Rightarrow> embedding_provider option" where
  "get_embedding_provider name model =
     (let n = str_lower name; sized = (if str_contains ''small'' model then 1536 else 3072) in
      map_option (\<lambda>d. \<lparr>ep_name = n, ep_model = model, ep_dimensions = d\<rparr>)
        (map_of [(''openai'', sized), (''voyage'', 1024), (''cohere'', 1024), (''google'', 768), (''azure_openai'', 1536),
           (''bedrock'', 1536), (''openrouter'', sized)] n))"

section \<open>Embedding through the cache\<close>

fun batches :: "nat \<Rightarrow> nat \<Rightarrow> 'a list \<Rightarrow> 'a list list" where
  "batches 0 n xs = []"
| "batches (Suc k) n xs = (if xs = [] then [] else take n xs # batches k n (drop n xs))"

text \<open>\<open>range(0, len, n)\<close> as batches; a step of zero is a ValueError.\<close>

definition split_batches :: "nat \<Rightarrow> 'a list \<Rightarrow> 'a list list option" where
  "split_batches n xs = (if n = 0 then None else Some (batches (length xs) n xs))"

text \<open>The results of one batch are stored one by one; a batch of another length ends in the
  ValueError of the strict \<open>zip\<close>. All batches are requested before the first one is looked at.\<close>

fun store_results :: "(string \<Rightarrow> cache_key) \<Rightarrow> instant \<Rightarrow> (string \<times> string) list \<Rightarrow> embedding list \<Rightarrow> cache_entry list
    \<Rightarrow> cache_entry list \<times> embedding list option" where
  "store_results key now [] [] cache = (cache, Some [])"
| "store_results key now ((t, h) # ts) (v # vs) cache =
     (case store_results key now ts vs (cache_set (key h) v 30 now cache) of (c, r) \<Rightarrow> (c, map_option ((#) v) r))"
| "store_results key now ts vs cache = (cache, None)"

fun store_batches :: "(string list \<Rightarrow> embedding list option) \<Rightarrow> (string \<Rightarrow> cache_key) \<Rightarrow> instant \<Rightarrow> (string \<times> string) list list
    \<Rightarrow> cache_entry list \<Rightarrow> cache_entry list \<times> embedding list option" where
  "store_batches request key now [] cache = (cache, Some [])"
| "store_batches request key now (b # bs) cache =
     (case request (map fst b) of
        None \<Rightarrow> (cache, None)
      | Some vs \<Rightarrow>
         (case store_results key now b vs cache of
            (c, None) \<Rightarrow> (c, None)
          | (c, Some rs) \<Rightarrow> (case store_batches request key now bs c of (c', r) \<Rightarrow> (c', map_option ((@) rs) r))))"

fun fill :: "embedding option list \<Rightarrow> embedding list \<Rightarrow> embedding list" where
  "fill (Some v # hits) rs = v # fill hits rs"
| "fill (None # hits) (r # rs) = r # fill hits rs"
| "fill hits rs = []"

definition embed_with_cache ::
  "(string list \<Rightarrow> embedding list option) \<Rightarrow> (string \<Rightarrow> cache_key) \<Rightarrow> instant \<Rightarrow> nat \<Rightarrow> (string \<times> string) list \<Rightarrow> cache_entry list
   \<Rightarrow> cache_entry list \<times> embedding list option" where
  "embed_with_cache request key now batch_size texts cache =
     (if texts = [] then (cache, request [])
      else (let hits = map (\<lambda>(t, h). cache_get (key h) now cache) texts;
                misses = map fst (filter (\<lambda>(x, hit). hit = None) (zip texts hits))
            in if misses = [] then (cache, Some (fill hits []))
               else (case (if length misses \<le> batch_size then Some [misses] else split_batches batch_size misses) of
                   None \<Rightarrow> (cache, None)
                 | Some bs \<Rightarrow> (case store_batches request key now bs cache of (c, r) \<Rightarrow> (c, map_option (fill hits) r)))))"

section \<open>The cache is transparent\<close>

text \<open>The key of a chunk: all callers pass the version 1.\<close>

definition meta_key :: "uuid \<Rightarrow> embedding_provider \<Rightarrow> string \<Rightarrow> cache_key" where
  "meta_key p ep h = (p, h, ''1'', ep_model ep, ep_name ep)"

text \<open>What can be served for a text is what the provider answers for it.\<close>

definition coherent :: "(string \<Rightarrow> embedding) \<Rightarrow> (string \<Rightarrow> string) \<Rightarrow> (string \<Rightarrow> cache_key) \<Rightarrow> instant \<Rightarrow> cache_entry list \<Rightarrow> bool" where
  "coherent f hash key now cache = (\<forall>t v. cache_get (key (hash t)) now cache = Some v \<longrightarrow> v = f t)"

interpretation cache_rows: repository "\<lambda>db k. row_by entry_key k db" cache_upsert entry_key
  by unfold_locales (auto simp: cache_upsert_def row_by_put_row row_by_append row_by_Cons dest: row_by_SomeD split: option.splits)

lemma find_put_other:
  "\<not> P e \<Longrightarrow> (\<And>x. key x = key e \<Longrightarrow> \<not> P x) \<Longrightarrow> find P (put_row key e xs) = find P xs"
  by (induction xs) (auto simp: put_row_def)

lemma cache_get_set:
  "cache_get k' now (cache_set k v 30 now cache) = (if k' = k then Some v else cache_get k' now cache)"
proof -
  obtain p h ver m prov where k: "k = (p, h, ver, m, prov)" by (cases k)
  let ?e = "\<lparr>ce_project = p, ce_hash = h, ce_version = ver, ce_model = m, ce_provider = prov, ce_dimensions = length v,
        ce_vector = v, ce_expires = Some (now + 30 * DAY)\<rparr>"
  have e: "entry_key ?e = k" "unexpired now ?e" "ce_vector ?e = v" by (simp_all add: entry_key_def unexpired_def DAY_def k)
  have set: "cache_set k v 30 now cache = cache_upsert ?e cache" by (simp add: cache_set_def k)
  show ?thesis
  proof (cases "k' = k")
    case True
    have "find (\<lambda>x. entry_key x = k \<and> unexpired now x) (put_row entry_key ?e cache) = Some ?e"
      if "row_by entry_key k cache \<noteq> None"
      using that e by (induction cache) (auto simp: put_row_def row_by_Cons split: if_splits)
    moreover have "find (\<lambda>x. entry_key x = k \<and> unexpired now x) (cache @ [?e]) = Some ?e"
      if "row_by entry_key k cache = None"
      using that e by (induction cache) (auto simp: row_by_Cons split: if_splits)
    ultimately show ?thesis using True e by (simp add: set cache_get_def find_active_def cache_upsert_def)
  next
    case False
    have "find (\<lambda>x. entry_key x = k' \<and> unexpired now x) (cache @ [?e]) = find (\<lambda>x. entry_key x = k' \<and> unexpired now x) cache"
      using False e by (induction cache) auto
    with False e show ?thesis
      by (simp add: set cache_get_def find_active_def cache_upsert_def find_put_other)
  qed
qed

lemma coherent_set:
  assumes "coherent f hash (meta_key p ep) now cache" and "\<And>t t'. hash t = hash t' \<Longrightarrow> f t = f t'"
  shows "coherent f hash (meta_key p ep) now (cache_set (meta_key p ep (hash t)) (f t) 30 now cache)"
  unfolding coherent_def
proof (intro allI impI)
  fix t' v
  assume g: "cache_get (meta_key p ep (hash t')) now (cache_set (meta_key p ep (hash t)) (f t) 30 now cache) = Some v"
  show "v = f t'"
  proof (cases "hash t' = hash t")
    case True
    with g have "v = f t" by (simp add: cache_get_set)
    with assms(2) [OF True] show ?thesis by simp
  next
    case False
    then have "meta_key p ep (hash t') \<noteq> meta_key p ep (hash t)" by (simp add: meta_key_def)
    with g have "cache_get (meta_key p ep (hash t')) now cache = Some v" by (simp add: cache_get_set)
    with assms(1) show ?thesis by (simp add: coherent_def)
  qed
qed

lemma store_results_all:
  assumes "\<And>t t'. hash t = hash t' \<Longrightarrow> f t = f t'"
  shows "coherent f hash (meta_key p ep) now cache \<Longrightarrow>
    \<exists>c. store_results (meta_key p ep) now (map (\<lambda>t. (t, hash t)) ts) (map f ts) cache = (c, Some (map f ts)) \<and>
      coherent f hash (meta_key p ep) now c"
proof (induction ts arbitrary: cache)
  case (Cons t ts)
  from Cons.IH [OF coherent_set [OF Cons.prems assms, where t = t]] obtain c where
    "store_results (meta_key p ep) now (map (\<lambda>t. (t, hash t)) ts) (map f ts) (cache_set (meta_key p ep (hash t)) (f t) 30 now cache) =
      (c, Some (map f ts))" "coherent f hash (meta_key p ep) now c" by blast
  then show ?case by simp
qed simp

lemma store_batches_all:
  assumes "\<And>t t'. hash t = hash t' \<Longrightarrow> f t = f t'" and "\<And>ts. request ts = Some (map f ts)"
  shows "coherent f hash (meta_key p ep) now cache \<Longrightarrow>
    \<exists>c. store_batches request (meta_key p ep) now (map (map (\<lambda>t. (t, hash t))) bs) cache = (c, Some (map f (concat bs))) \<and>
      coherent f hash (meta_key p ep) now c"
proof (induction bs arbitrary: cache)
  case (Cons b bs)
  from store_results_all [OF assms(1) Cons.prems, of b] obtain c where
    c: "store_results (meta_key p ep) now (map (\<lambda>t. (t, hash t)) b) (map f b) cache = (c, Some (map f b))"
      "coherent f hash (meta_key p ep) now c" by auto
  from Cons.IH [OF c(2)] obtain c' where
    "store_batches request (meta_key p ep) now (map (map (\<lambda>t. (t, hash t))) bs) c = (c', Some (map f (concat bs)))"
    "coherent f hash (meta_key p ep) now c'" by auto
  with c assms(2) [of b] show ?case by (simp add: comp_def)
qed simp

lemma concat_batches: "length xs \<le> k \<Longrightarrow> 0 < n \<Longrightarrow> concat (batches k n xs) = xs"
proof (induction k n xs rule: batches.induct)
  case (2 k n xs)
  show ?case
  proof (cases "xs = []")
    case False
    then have "length (drop n xs) \<le> k" using 2(2,3) by simp
    with 2 False show ?thesis by simp
  qed simp
qed simp

lemma map_batches: "batches k n (map g xs) = map (map g) (batches k n xs)"
  by (induction k n xs rule: batches.induct) (auto simp: take_map drop_map)

lemma fill_hits:
  assumes "\<And>t v. hit t = Some v \<Longrightarrow> v = f t"
  shows "fill (map hit ts) (map f (filter (\<lambda>t. hit t = None) ts)) = map f ts"
proof (induction ts)
  case (Cons t ts)
  with assms [of t] show ?case by (cases "hit t") auto
qed simp

text \<open>
  C18. The embedding cache is transparent: with a coherent cache, a hash that tells texts of
  different vectors apart and a provider that answers every text of a batch by its vector, the
  vectors returned are those of a request without a cache, in order, whatever is cached and
  however the misses are cut into batches; and the cache stays coherent.
\<close>

theorem embedding_cache_transparent:
  assumes "coherent f hash (meta_key p ep) now cache"
    and "\<And>t t'. hash t = hash t' \<Longrightarrow> f t = f t'"
    and "\<And>ts. request ts = Some (map f ts)"
    and "0 < n"
  shows "\<exists>c. embed_with_cache request (meta_key p ep) now n (map (\<lambda>t. (t, hash t)) texts) cache = (c, Some (map f texts)) \<and>
    coherent f hash (meta_key p ep) now c"
proof -
  define hit where "hit t = cache_get (meta_key p ep (hash t)) now cache" for t
  let ?miss = "filter (\<lambda>t. hit t = None) texts"
  have hit: "hit t = Some v \<Longrightarrow> v = f t" for t v using assms(1) by (simp add: coherent_def hit_def)
  have hits: "map (\<lambda>(t, h). cache_get (meta_key p ep h) now cache) (map (\<lambda>t. (t, hash t)) texts) = map hit texts"
    by (simp add: hit_def)
  have misses: "map fst (filter (\<lambda>(x, h). h = None) (zip (map (\<lambda>t. (t, hash t)) texts) (map hit texts))) =
      map (\<lambda>t. (t, hash t)) ?miss"
    by (induction texts) auto
  define M where "M = map (\<lambda>t. (t, hash t)) ?miss"
  obtain bs where bs: "concat bs = ?miss"
    "(if length M \<le> n then Some [M] else split_batches n M) = Some (map (map (\<lambda>t. (t, hash t))) bs)"
  proof (cases "length M \<le> n")
    case True
    then show ?thesis by (intro that [of "[?miss]"]) (simp_all add: M_def)
  next
    case False
    with assms(4) show ?thesis
      by (intro that [of "batches (length ?miss) n ?miss"]) (simp_all add: M_def split_batches_def map_batches concat_batches)
  qed
  from store_batches_all [OF assms(2,3,1), of bs] obtain c where
    "store_batches request (meta_key p ep) now (map (map (\<lambda>t. (t, hash t))) bs) cache = (c, Some (map f ?miss))"
    "coherent f hash (meta_key p ep) now c" unfolding bs(1) by auto
  moreover have "fill (map hit texts) (map f ?miss) = map f texts" by (rule fill_hits) (rule hit)
  moreover have "?miss = [] \<Longrightarrow> fill (map hit texts) [] = map f texts" using fill_hits [of hit f texts] hit by simp
  ultimately show ?thesis
    using assms(1) assms(3) [of "[]"]
    unfolding embed_with_cache_def hits misses Let_def M_def [symmetric] bs(2)
    by (cases "texts = []"; cases "?miss = []") (auto simp: M_def)
qed

theorem embedding_cache_transparent_witness:
  "\<exists>c. embed_with_cache (\<lambda>ts. Some (map (\<lambda>t. [rat_of_nat (length t)]) ts)) (meta_key 5 \<lparr>ep_name = ''openai'', ep_model = ''m'', ep_dimensions = 1\<rparr>)
      0 1 (map (\<lambda>t. (t, t)) [''a'', ''bb'', ''a'']) [] = (c, Some [[1], [2], [1]])"
proof -
  have "coherent (\<lambda>t. [rat_of_nat (length t)]) (\<lambda>t. t) (meta_key 5 \<lparr>ep_name = ''openai'', ep_model = ''m'', ep_dimensions = 1\<rparr>) 0 []"
    by (simp add: coherent_def cache_get_def find_active_def)
  then have "\<exists>c. embed_with_cache (\<lambda>ts. Some (map (\<lambda>t. [rat_of_nat (length t)]) ts)) (meta_key 5 \<lparr>ep_name = ''openai'', ep_model = ''m'', ep_dimensions = 1\<rparr>)
      0 1 (map (\<lambda>t. (t, t)) [''a'', ''bb'', ''a'']) [] = (c, Some (map (\<lambda>t. [rat_of_nat (length t)]) [''a'', ''bb'', ''a''])) \<and>
    coherent (\<lambda>t. [rat_of_nat (length t)]) (\<lambda>t. t) (meta_key 5 \<lparr>ep_name = ''openai'', ep_model = ''m'', ep_dimensions = 1\<rparr>) 0 c"
    by (rule embedding_cache_transparent) (rule arg_cong, assumption | rule refl zero_less_one)+
  then show ?thesis by (elim exE conjE) (rule exI, simp)
qed

end
