(* ===== verification/Runtime_Service.thy ===== *)
theory Runtime_Service
  imports Invoke_Support Runtime_Security Chunking Embeddings
begin

text \<open>
  \<open>app/services/runtimes.py\<close> and \<open>app/services/model_compatibility.py\<close>: creating, updating,
  queueing, cancelling and deleting runtimes, on the rows that a build works with. The broker
  is an argument (\<open>False\<close>: it does not take the task); a queued build is an entry of the queue.
\<close>

section \<open>Rows\<close>

record integration_row =
  ig_runtime :: uuid
  ig_slug :: string
  ig_enabled :: bool
  ig_required :: bool
  ig_status :: string

record knowledge_base =
  kb_id :: uuid
  kb_project :: uuid

record document =
  dc_id :: uuid
  dc_kb :: uuid
  dc_content :: "string option"
  dc_source :: "string option"

text \<open>\<open>cr_chunk\<close> stands for the chunk's columns and metadata (text, section, heading, page, source,
  language, strategy, tokens).\<close>

record chunk_row =
  cr_id :: uuid
  cr_runtime :: uuid
  cr_document :: "uuid option"
  cr_chunk :: chunk
  cr_embedded :: bool
  cr_indexed :: bool

datatype log_status = Log_Started | Log_Completed | Log_Failed string

record build_log =
  bl_id :: uuid
  bl_runtime :: uuid
  bl_build :: uuid
  bl_stage :: string
  bl_status :: log_status

record vector_row =
  vr_id :: uuid
  vr_project :: "uuid option"
  vr_document :: "uuid option"
  vr_vector :: embedding
  vr_model :: string
  vr_hash :: string

record build_db =
  bd_tenants :: tenant_db
  bd_integrations :: "integration_row list"
  bd_connections :: "provider_connection list"
  bd_kbs :: "knowledge_base list"
  bd_documents :: "document list"
  bd_chunks :: "chunk_row list"
  bd_logs :: "build_log list"
  bd_cache :: "cache_entry list"
  bd_vectors :: "vector_row list"
  bd_queue :: "(uuid \<times> string) list"
  bd_next :: uuid

definition find_runtime :: "build_db \<Rightarrow> uuid \<Rightarrow> runtime option" where
  "find_runtime db i = runtime_by_id (bd_tenants db) i"

definition with_runtimes :: "(runtime list \<Rightarrow> runtime list) \<Rightarrow> build_db \<Rightarrow> build_db" where
  "with_runtimes f db = db\<lparr>bd_tenants := (bd_tenants db)\<lparr>runtimes := f (runtimes (bd_tenants db))\<rparr>\<rparr>"

definition save_runtime :: "runtime \<Rightarrow> build_db \<Rightarrow> build_db" where
  "save_runtime r = with_runtimes (put_row rt_id r)"

interpretation runtime_repo: repository find_runtime save_runtime rt_id
  by unfold_locales
    (auto simp: find_runtime_def runtime_by_id_def save_runtime_def with_runtimes_def row_by_put_row dest: row_by_SomeD)

definition project_documents :: "build_db \<Rightarrow> uuid \<Rightarrow> document list" where
  "project_documents db p = filter (\<lambda>d. \<exists>b \<in> set (bd_kbs db). kb_id b = dc_kb d \<and> kb_project b = p) (bd_documents db)"

section \<open>Providers and models\<close>

definition MODEL_PREFIXES :: "(string \<times> string list) list" where
  "MODEL_PREFIXES =
     [(''google'', [''gemini'', ''gemma'']), (''openai'', [''gpt-'', ''o1'', ''o3'', ''o4'', ''chatgpt'']), (''anthropic'', [''claude'']),
      (''deepseek'', [''deepseek'']), (''mistral'', [''mistral'', ''mixtral'', ''codestral'', ''pixtral'']),
      (''meta'', [''llama'', ''meta-llama'']), (''bedrock'', [''anthropic.'', ''amazon.'', ''meta.'', ''mistral.''])]"

definition AGGREGATORS :: "string list" where "AGGREGATORS = [''groq'', ''openrouter'']"

definition infer_provider_for_model :: "string option \<Rightarrow> string option" where
  "infer_provider_for_model m =
     (case m of None \<Rightarrow> None
      | Some s \<Rightarrow> if clean_name s = [] then None
          else map_option fst (find (\<lambda>(p, ps). list_ex (\<lambda>x. prefix x (clean_name s)) ps) MODEL_PREFIXES))"

definition provider_model_mismatch :: "string option \<Rightarrow> string option \<Rightarrow> string option" where
  "provider_model_mismatch p m =
     (if \<not> truthy p \<or> \<not> truthy m then None
      else if clean_name (the p) \<in> set AGGREGATORS then None
      else case infer_provider_for_model m of
        None \<Rightarrow> None
      | Some i \<Rightarrow> if i = clean_name (the p) then None
          else Some (''Model '' @ quoted (the m) @ '' belongs to provider '' @ quoted i @ '', but provider '' @
                 quoted (the p) @ '' is configured. Choose a compatible '' @ the p @ '' model or change the provider and model together.''))"

section \<open>Names\<close>

datatype runtime_error =
    Runtime_ValueError string
  | Creation_Conflict string uuid
  | Null_Column string
  | Queue_Error

text \<open>\<open>casefold\<close> on Latin-1: lower case, and the sharp s as two letters.\<close>

definition casefold :: "string \<Rightarrow> string" where
  "casefold s = concat (map (\<lambda>c. if of_char c = (223 :: nat) then ''ss'' else [lower_char c]) s)"

definition by_owner_and_name :: "build_db \<Rightarrow> uuid \<Rightarrow> string \<Rightarrow> runtime option" where
  "by_owner_and_name db u name =
     find (\<lambda>r. rt_user r = u \<and> str_lower (rt_name r) = str_lower (str_strip name)) (runtimes (bd_tenants db))"

definition project_runtime :: "build_db \<Rightarrow> uuid \<Rightarrow> runtime option" where
  "project_runtime db p = find (\<lambda>r. rt_project r = Some p) (runtimes (bd_tenants db))"

definition inspect_name :: "uuid \<Rightarrow> string \<Rightarrow> uuid option \<Rightarrow> build_db \<Rightarrow> (string \<times> uuid option) option" where
  "inspect_name who name p db =
     (let n = str_strip name in
      if n = [] then Some (''runtime_name_required'', None)
      else case by_owner_and_name db who n of
        Some r \<Rightarrow> Some (''runtime_name_already_exists'', Some (rt_id r))
      | None \<Rightarrow> (case (case p of None \<Rightarrow> None | Some i \<Rightarrow> project_runtime db i) of
          Some r \<Rightarrow> Some (''project_runtime_name_mismatch'', Some (rt_id r))
        | None \<Rightarrow> None))"

text \<open>\<open>data\<close> is the row the request asks for; \<open>RuntimeCreate\<close> requires a name of one character or more.\<close>

definition get_or_create :: "runtime \<Rightarrow> uuid option \<Rightarrow> uuid option \<Rightarrow> build_db \<Rightarrow> build_db \<times> (runtime_error + runtime)" where
  "get_or_create data user default_user db =
     (case (case user of Some u \<Rightarrow> Some u | None \<Rightarrow> default_user) of
        None \<Rightarrow> (db, Inl (Runtime_ValueError ''user_id is required to create a runtime''))
      | Some who \<Rightarrow>
         (let name = str_strip (if rt_name data = [] then ''Default Runtime'' else rt_name data) in
          if name = [] then (db, Inl (Runtime_ValueError ''Runtime name cannot be empty''))
          else case by_owner_and_name db who name of
            Some r \<Rightarrow> (db, Inl (Creation_Conflict ''runtime_name_already_exists'' (rt_id r)))
          | None \<Rightarrow>
             (case (case rt_project data of None \<Rightarrow> None | Some p \<Rightarrow> project_runtime db p) of
                Some r \<Rightarrow> if casefold (rt_name r) = casefold name then (db, Inr r)
                          else (db, Inl (Creation_Conflict ''project_runtime_name_mismatch'' (rt_id r)))
              | None \<Rightarrow>
                 (let r = data\<lparr>rt_id := bd_next db, rt_user := who, rt_name := name,
                        rt_environment := (if rt_environment data = [] then ''development'' else rt_environment data),
                        rt_status := ''preconfigured'', rt_version := ''1.0.0'', rt_documents := 0, rt_chunks := 0,
                        rt_embeddings := 0, rt_index_size := 0, rt_build_started := None, rt_build_completed := None,
                        rt_last_propagated := None, rt_health := 0, rt_error := None, rt_api_key := None, rt_metadata := []\<rparr>
                  in (with_runtimes (\<lambda>rs. rs @ [r]) (db\<lparr>bd_next := Suc (bd_next db)\<rparr>), Inr r)))))"

section \<open>Updates\<close>

text \<open>\<open>None\<close>: not in the request; \<open>Some None\<close>: null, which only two columns accept.\<close>

record runtime_update =
  up_project :: "uuid option option"
  up_name :: "string option option"
  up_environment :: "string option option"
  up_provider :: "string option option"
  up_model :: "string option option"
  up_fallback :: "string list option option"
  up_strategy :: "string option option"
  up_embedding :: "string option option"
  up_store :: "string option option"
  up_chunk_size :: "int option option"
  up_chunk_overlap :: "int option option"
  up_instructions :: "string option option"
  up_policies :: "(string \<times> json) list option option"
  up_config :: "(string \<times> json) list option option"

definition no_update :: runtime_update where
  "no_update = \<lparr>up_project = None, up_name = None, up_environment = None, up_provider = None, up_model = None, up_fallback = None,
     up_strategy = None, up_embedding = None, up_store = None, up_chunk_size = None, up_chunk_overlap = None,
     up_instructions = None, up_policies = None, up_config = None\<rparr>"

definition set_column :: "'a option option \<Rightarrow> 'a \<Rightarrow> 'a option" where
  "set_column u old = (case u of None \<Rightarrow> Some old | Some v \<Rightarrow> v)"

definition nulled :: "'a option option \<Rightarrow> bool" where
  "nulled u = (u = Some None)"

definition apply_update :: "runtime_update \<Rightarrow> runtime \<Rightarrow> runtime option" where
  "apply_update u r =
     (if nulled (up_name u) \<or> nulled (up_environment u) \<or> nulled (up_provider u) \<or> nulled (up_model u) \<or> nulled (up_fallback u) \<or>
         nulled (up_strategy u) \<or> nulled (up_embedding u) \<or> nulled (up_store u) \<or> nulled (up_chunk_size u) \<or>
         nulled (up_chunk_overlap u) \<or> nulled (up_policies u) \<or> nulled (up_config u) then None
      else Some (r\<lparr>
        rt_project := (case up_project u of None \<Rightarrow> rt_project r | Some p \<Rightarrow> p),
        rt_name := the (set_column (up_name u) (rt_name r)), rt_environment := the (set_column (up_environment u) (rt_environment r)),
        rt_provider := the (set_column (up_provider u) (rt_provider r)), rt_model := the (set_column (up_model u) (rt_model r)),
        rt_fallback_models := the (set_column (up_fallback u) (rt_fallback_models r)),
        rt_routing_strategy := the (set_column (up_strategy u) (rt_routing_strategy r)),
        rt_embedding_model := the (set_column (up_embedding u) (rt_embedding_model r)),
        rt_vector_store := the (set_column (up_store u) (rt_vector_store r)),
        rt_chunk_size := the (set_column (up_chunk_size u) (rt_chunk_size r)),
        rt_chunk_overlap := the (set_column (up_chunk_overlap u) (rt_chunk_overlap r)),
        rt_instructions := (case up_instructions u of None \<Rightarrow> rt_instructions r | Some i \<Rightarrow> i),
        rt_policies := the (set_column (up_policies u) (rt_policies r)),
        rt_config := the (set_column (up_config u) (rt_config r))\<rparr>))"

text \<open>\<open>canon\<close> is \<open>normalize_runtime_security_policy\<close> with its result written back as an object;
  \<open>None\<close> is its ValueError.\<close>

definition update_runtime ::
  "((string \<times> json) list \<Rightarrow> (string \<times> json) list option) \<Rightarrow> uuid \<Rightarrow> runtime_update \<Rightarrow> build_db \<Rightarrow> build_db \<times> (runtime_error + runtime)" where
  "update_runtime canon i u db =
     (case find_runtime db i of
        None \<Rightarrow> (db, Inl (Runtime_ValueError ''Runtime not found''))
      | Some r \<Rightarrow>
         (let u1 = (case (up_model u, up_provider u) of
                (Some m, None) \<Rightarrow>
                  (case infer_provider_for_model m of
                     None \<Rightarrow> u
                   | Some p \<Rightarrow> if p \<noteq> str_lower (rt_provider r) then u\<lparr>up_provider := Some (Some p)\<rparr> else u)
              | _ \<Rightarrow> u)
          in case (case up_policies u1 of
                 None \<Rightarrow> Some u1
               | Some ps \<Rightarrow> map_option (\<lambda>q. u1\<lparr>up_policies := Some (Some q)\<rparr>) (canon (case ps of None \<Rightarrow> [] | Some x \<Rightarrow> x))) of
               None \<Rightarrow> (db, Inl (Runtime_ValueError ''invalid IP rule''))
             | Some u2 \<Rightarrow>
                (case provider_model_mismatch (set_column (up_provider u2) (rt_provider r)) (set_column (up_model u2) (rt_model r)) of
                   Some m \<Rightarrow> (db, Inl (Runtime_ValueError m))
                 | None \<Rightarrow>
                    (case apply_update u2 r of
                       None \<Rightarrow> (db, Inl (Null_Column ''runtimes''))
                     | Some r' \<Rightarrow> (save_runtime r' db, Inr r')))))"

definition update_status :: "uuid \<Rightarrow> string \<Rightarrow> build_db \<Rightarrow> build_db \<times> (runtime_error + runtime)" where
  "update_status i s db =
     (case find_runtime db i of
        None \<Rightarrow> (db, Inl (Runtime_ValueError ''Runtime not found''))
      | Some r \<Rightarrow> (save_runtime (r\<lparr>rt_status := s\<rparr>) db, Inr (r\<lparr>rt_status := s\<rparr>)))"

definition cancel :: "uuid \<Rightarrow> build_db \<Rightarrow> build_db \<times> (runtime_error + runtime)" where
  "cancel i db = update_status i ''cancelled'' db"

text \<open>The foreign keys of integrations, chunks, logs and keys cascade.\<close>

definition delete_runtime :: "uuid \<Rightarrow> build_db \<Rightarrow> build_db \<times> (runtime_error + unit)" where
  "delete_runtime i db =
     (case find_runtime db i of
        None \<Rightarrow> (db, Inl (Runtime_ValueError ''Runtime not found''))
      | Some r \<Rightarrow>
         (let t = bd_tenants db in
          (db\<lparr>bd_tenants := t\<lparr>runtimes := filter (\<lambda>x. rt_id x \<noteq> i) (runtimes t),
                api_keys := filter (\<lambda>k. key_runtime k \<noteq> Some i) (api_keys t)\<rparr>,
              bd_integrations := filter (\<lambda>x. ig_runtime x \<noteq> i) (bd_integrations db),
              bd_chunks := filter (\<lambda>x. cr_runtime x \<noteq> i) (bd_chunks db),
              bd_logs := filter (\<lambda>x. bl_runtime x \<noteq> i) (bd_logs db)\<rparr>, Inr ())))"

definition detect_changes :: "uuid \<Rightarrow> build_db \<Rightarrow> runtime_error + nat \<times> int \<times> int" where
  "detect_changes i db =
     (case find_runtime db i of
        None \<Rightarrow> Inl (Runtime_ValueError ''Runtime not found'')
      | Some r \<Rightarrow>
         (let n = length (filter (\<lambda>c. cr_runtime c = i) (bd_chunks db))
          in Inr (n, rt_chunks r, max 0 (rt_chunks r - int n))))"

section \<open>Queueing a build\<close>

definition MODEL_PROVIDERS :: "string list" where
  "MODEL_PROVIDERS = [''openai'', ''anthropic'', ''google'', ''deepseek'', ''groq'', ''openrouter'', ''mistral'', ''meta'', ''bedrock'']"

text \<open>\<open>provider_credential_status\<close>: the reason why the provider's credentials do not do.\<close>

definition credential_problem ::
  "(string \<Rightarrow> string option) \<Rightarrow> (string \<Rightarrow> string option) \<Rightarrow> provider_connection list \<Rightarrow> string \<Rightarrow> uuid option \<Rightarrow> uuid option \<Rightarrow> string option" where
  "credential_problem open_secret settings rows p project org =
     (if clean_name p \<notin> set MODEL_PROVIDERS then Some ''unsupported_provider''
      else case fst (resolve_provider_key open_secret settings rows (clean_name p) project org) of
        None \<Rightarrow> Some ''missing_credentials''
      | Some k \<Rightarrow> if str_strip k = [] then Some ''missing_credentials'' else None)"

definition embedding_provider_name :: "runtime \<Rightarrow> string" where
  "embedding_provider_name r =
     (let m = str_strip (rt_embedding_model r)
      in if CHR ''/'' \<in> set m then str_lower (hd (split_on CHR ''/'' m)) else ''openai'')"

definition provider_requirements ::
  "(string \<Rightarrow> string option) \<Rightarrow> (string \<Rightarrow> string option) \<Rightarrow> runtime \<Rightarrow> build_db \<Rightarrow> (string \<times> string) list" where
  "provider_requirements open_secret settings r db =
     (if rt_project r = None then []
      else (let p = clean_name (rt_provider r); e = embedding_provider_name r in
        concat (map (\<lambda>n. if n = [] then []
            else case credential_problem open_secret settings (bd_connections db) n (rt_project r) (rt_organization r) of
              None \<Rightarrow> [] | Some why \<Rightarrow> [(n, why)])
          (if e = p then [p] else [p, e]))))"

definition missing_connections :: "uuid \<Rightarrow> build_db \<Rightarrow> string list" where
  "missing_connections i db =
     map ig_slug (filter (\<lambda>x. ig_runtime x = i \<and> ig_enabled x \<and> ig_required x \<and> ig_status x \<noteq> ''connected'') (bd_integrations db))"

definition object_or :: "json \<Rightarrow> (string \<times> json) list option" where
  "object_or v = (case v of JObj kvs \<Rightarrow> Some kvs | _ \<Rightarrow> None)"

definition requires_documents :: "runtime \<Rightarrow> build_db \<Rightarrow> bool" where
  "requires_documents r db =
     (let config = rt_config r;
          reqs = (case object_or (json_get ''onboarding_requirements'' config) of
             Some kvs \<Rightarrow> kvs
           | None \<Rightarrow> (case object_or (json_get ''application_requirements'' config) of Some kvs \<Rightarrow> kvs | None \<Rightarrow> []));
          plan = (case object_or (json_get ''runtime_plan'' config) of Some kvs \<Rightarrow> kvs | None \<Rightarrow> []);
          components = (case json_get ''components'' plan of JList xs \<Rightarrow> xs | _ \<Rightarrow> [])
      in json_true (json_get ''requires_documents'' config) \<or> json_true (json_get ''requires_documents'' reqs) \<or>
         list_ex (\<lambda>c. case c of JObj kvs \<Rightarrow> json_get ''key'' kvs = JStr ''document_processing'' | _ \<Rightarrow> False) components \<or>
         list_ex (\<lambda>x. ig_runtime x = rt_id r \<and> ig_enabled x \<and> ig_slug x = ''document_storage'') (bd_integrations db))"

definition await :: "runtime \<Rightarrow> string \<Rightarrow> build_db \<Rightarrow> build_db" where
  "await r s db = save_runtime (r\<lparr>rt_status := s, rt_error := None\<rparr>) db"

definition enqueue_build ::
  "(string \<Rightarrow> string option) \<Rightarrow> (string \<Rightarrow> string option) \<Rightarrow> bool \<Rightarrow> instant \<Rightarrow> string \<Rightarrow> uuid \<Rightarrow> build_db \<Rightarrow> build_db \<times> (runtime_error + string)" where
  "enqueue_build open_secret settings broker now trigger i db =
     (case find_runtime db i of
        None \<Rightarrow> (db, Inl (Runtime_ValueError ''Runtime not found''))
      | Some r \<Rightarrow>
          if rt_project r = None
          then (await r ''awaiting_project_attachment'' db, Inr ''awaiting_project_attachment'')
          else if provider_requirements open_secret settings r db \<noteq> []
          then (await r ''awaiting_provider_credentials'' db, Inr ''awaiting_provider_credentials'')
          else if missing_connections (rt_id r) db \<noteq> []
          then (await r ''awaiting_connections'' db, Inr ''awaiting_connections'')
          else if requires_documents r db \<and> project_documents db (the (rt_project r)) = []
          then (await r ''awaiting_documents'' db, Inr ''awaiting_documents'')
          else (let r1 = r\<lparr>rt_status := ''building'', rt_health := 0, rt_build_started := Some now,
                      rt_build_completed := None, rt_error := None\<rparr>;
                    db1 = save_runtime r1 db
                in if broker then (db1\<lparr>bd_queue := bd_queue db1 @ [(i, trigger)]\<rparr>, Inr ''building'')
                   else (save_runtime (r1\<lparr>rt_status := ''failed'', rt_error := Some ''Unable to queue runtime build''\<rparr>) db1,
                         Inl Queue_Error)))"

end
