(* ===== verification/Runtime_Worker.thy ===== *)
theory Runtime_Worker
  imports Runtime_Service Api_Keys
begin

text \<open>
  \<open>app/workers/runtime_worker.py\<close> and the task of \<open>app/tasks/runtimes.py\<close>: the twelve stages of a
  build. The session keeps its objects over commits (\<open>expire_on_commit=False\<close>), so the worker
  holds the runtime as it was when the build began and writes only the columns it sets;
  \<open>others n\<close> is what other sessions commit before stage \<open>n\<close> (and, for 12, before the end).
  Redis, the broker of notifications, the embedding provider, the vector database, hashes and
  random tokens are arguments.
\<close>

section \<open>The worker\<close>

record build_env =
  be_hash :: "string \<Rightarrow> string"
  be_token_hash :: "string \<Rightarrow> string"
  be_token :: string
  be_uuid :: "string \<Rightarrow> uuid option"
  be_open :: "string \<Rightarrow> string option"
  be_settings :: "string \<Rightarrow> string option"
  be_embed :: "embedding_provider \<Rightarrow> string list \<Rightarrow> embedding list option"
  be_store :: bool                        \<comment> \<open>the vector database takes the rows\<close>
  be_batch :: nat
  be_publish :: "string \<Rightarrow> bool"          \<comment> \<open>Redis takes the event of this name\<close>
  be_notify :: bool                       \<comment> \<open>the final notifications go out\<close>
  be_now :: instant
  be_stamp :: string

record worker =
  wk_db :: build_db
  wk_me :: runtime
  wk_generated :: "(uuid \<times> embedding) list"
  wk_build :: uuid

definition with_db :: "(build_db \<Rightarrow> build_db) \<Rightarrow> worker \<Rightarrow> worker" where
  "with_db f w = w\<lparr>wk_db := f (wk_db w)\<rparr>"

text \<open>A flush of the given columns: no row is a StaleDataError.\<close>

definition put :: "(runtime \<Rightarrow> runtime) \<Rightarrow> worker \<Rightarrow> string + worker" where
  "put f w =
     (case find_runtime (wk_db w) (rt_id (wk_me w)) of
        None \<Rightarrow> Inl ''StaleDataError''
      | Some row \<Rightarrow> Inr (w\<lparr>wk_me := f (wk_me w), wk_db := save_runtime (f row) (wk_db w)\<rparr>))"

definition then_do :: "string + 'a \<Rightarrow> ('a \<Rightarrow> string + 'b) \<Rightarrow> string + 'b" where
  "then_do r f = (case r of Inl e \<Rightarrow> Inl e | Inr x \<Rightarrow> f x)"

definition put_status :: "string \<Rightarrow> worker \<Rightarrow> string + worker" where
  "put_status s = put (\<lambda>r. r\<lparr>rt_status := s\<rparr>)"

definition set_key :: "(string \<times> json) list \<Rightarrow> string \<times> json \<Rightarrow> (string \<times> json) list" where
  "set_key kvs kv =
     (if map_of kvs (fst kv) = None then kvs @ [kv] else map (\<lambda>x. if fst x = fst kv then kv else x) kvs)"

definition set_keys :: "(string \<times> json) list \<Rightarrow> (string \<times> json) list \<Rightarrow> (string \<times> json) list" where
  "set_keys kvs news = foldl set_key kvs news"

definition RUNTIME_STAGES :: "string list" where
  "RUNTIME_STAGES =
     [''collect_sources'', ''validate_sources'', ''discover_resources'', ''extract_documents'', ''normalize_documents'',
      ''clean_documents'', ''chunk_documents'', ''generate_embeddings'', ''store_embeddings'', ''build_runtime'',
      ''generate_api_key'', ''activate_runtime'']"

definition update_build_progress :: "build_env \<Rightarrow> string \<Rightarrow> nat \<Rightarrow> worker \<Rightarrow> string + worker" where
  "update_build_progress env stage n w =
     (let config = set_keys (rt_config (wk_me w))
            [(''build_id'', JStr (nat_text (wk_build w))), (''build_stage'', JStr stage),
             (''build_progress'', JInt (max 0 (min 100 (int n * 100 div 12)))), (''build_updated_at'', JStr (be_stamp env))]
      in put (\<lambda>r. r\<lparr>rt_config := config\<rparr>) w)"

section \<open>Documents and chunks\<close>

definition build_documents :: "worker \<Rightarrow> document list" where
  "build_documents w = (case rt_project (wk_me w) of None \<Rightarrow> [] | Some p \<Rightarrow> project_documents (wk_db w) p)"

definition content_of :: "document \<Rightarrow> string" where
  "content_of d = (case dc_content d of Some s \<Rightarrow> s | None \<Rightarrow> [])"

definition document_rows :: "document list \<Rightarrow> document_row list" where
  "document_rows ds = map (\<lambda>d. \<lparr>dr_id = nat_text (dc_id d), dr_content = content_of d, dr_source = dc_source d,
     dr_language = None, dr_strategy = ''auto''\<rparr>) ds"

fun chunk_rows :: "(string \<Rightarrow> uuid option) \<Rightarrow> uuid \<Rightarrow> uuid \<Rightarrow> chunk list \<Rightarrow> chunk_row list option" where
  "chunk_rows parse i next [] = Some []"
| "chunk_rows parse i next (c # cs) =
     (case (case ck_document c of None \<Rightarrow> Some None | Some t \<Rightarrow> map_option Some (parse t)) of
        None \<Rightarrow> None
      | Some d \<Rightarrow> map_option ((#) \<lparr>cr_id = next, cr_runtime = i, cr_document = d, cr_chunk = c, cr_embedded = False, cr_indexed = False\<rparr>)
          (chunk_rows parse i (Suc next) cs))"

definition put_counts :: "int \<Rightarrow> int \<Rightarrow> worker \<Rightarrow> string + worker" where
  "put_counts ds cs = put (\<lambda>r. r\<lparr>rt_documents := ds, rt_chunks := cs\<rparr>)"

definition add_chunks :: "chunk_row list \<Rightarrow> build_db \<Rightarrow> build_db" where
  "add_chunks rows db = db\<lparr>bd_chunks := bd_chunks db @ rows, bd_next := bd_next db + length rows\<rparr>"

text \<open>The strategy \<open>auto\<close> never picks the sliding window, so the chunker returns.\<close>

definition stage_chunk_documents :: "build_env \<Rightarrow> worker \<Rightarrow> string + worker" where
  "stage_chunk_documents env w =
     (let ds = build_documents w; me = wk_me w in
      if ds = [] then put_counts 0 0 w
      else case chunk_documents (be_hash env) (document_rows ds) (rt_chunk_size me) (rt_chunk_overlap me) of
        None \<Rightarrow> Inl ''never''
      | Some cs \<Rightarrow>
         (case chunk_rows (be_uuid env) (rt_id me) (bd_next (wk_db w)) cs of
            None \<Rightarrow> Inl ''ValueError''
          | Some rows \<Rightarrow>
              put_counts (int (length ds)) (int (length rows)) (with_db (add_chunks rows) w)))"

section \<open>Embeddings\<close>

definition my_chunks :: "worker \<Rightarrow> chunk_row list" where
  "my_chunks w = filter (\<lambda>c. cr_runtime c = rt_id (wk_me w)) (bd_chunks (wk_db w))"

definition document_of :: "document list \<Rightarrow> chunk_row \<Rightarrow> document option" where
  "document_of ds c = (case cr_document c of None \<Rightarrow> None | Some i \<Rightarrow> find (\<lambda>d. dc_id d = i) ds)"

definition to_embed :: "worker \<Rightarrow> chunk_row list" where
  "to_embed w = filter (\<lambda>c. \<not> cr_embedded c \<and>
     (case document_of (build_documents w) c of None \<Rightarrow> False | Some d \<Rightarrow> content_of d \<noteq> [])) (my_chunks w)"

definition chunk_text :: "worker \<Rightarrow> chunk_row \<Rightarrow> string" where
  "chunk_text w c =
     (if ck_content (cr_chunk c) \<noteq> [] then ck_content (cr_chunk c)
      else case document_of (build_documents w) c of None \<Rightarrow> [] | Some d \<Rightarrow> slice (content_of d) 0 (rt_chunk_size (wk_me w)))"

definition mark_embedded :: "uuid list \<Rightarrow> chunk_row list \<Rightarrow> chunk_row list" where
  "mark_embedded ids cs = map (\<lambda>c. if cr_id c \<in> set ids then c\<lparr>cr_embedded := True\<rparr> else c) cs"

definition mark_indexed :: "uuid list \<Rightarrow> chunk_row list \<Rightarrow> chunk_row list" where
  "mark_indexed ids cs = map (\<lambda>c. if cr_id c \<in> set ids then c\<lparr>cr_indexed := True\<rparr> else c) cs"

definition embedder_name :: "runtime \<Rightarrow> string" where
  "embedder_name r = (let m = rt_embedding_model r in if CHR ''/'' \<in> set m then hd (split_on CHR ''/'' m) else ''openai'')"

definition embed_chunks :: "build_env \<Rightarrow> embedding_provider \<Rightarrow> uuid \<Rightarrow> worker \<Rightarrow> string + worker" where
  "embed_chunks env ep p w =
     (let cs = to_embed w; texts = map (\<lambda>c. (chunk_text w c, ck_hash (cr_chunk c))) cs in
      if texts = [] then Inr w
      else case embed_with_cache (be_embed env ep) (meta_key p ep) (be_now env) (be_batch env) texts (bd_cache (wk_db w)) of
        (cache, None) \<Rightarrow> Inl ''embedding failed''
      | (cache, Some vs) \<Rightarrow>
          Inr (w\<lparr>wk_generated := wk_generated w @ zip (map cr_id cs) vs,
                 wk_db := (wk_db w)\<lparr>bd_cache := cache, bd_chunks := mark_embedded (map cr_id cs) (bd_chunks (wk_db w))\<rparr>\<rparr>))"

definition stage_generate_embeddings :: "build_env \<Rightarrow> worker \<Rightarrow> string + worker" where
  "stage_generate_embeddings env w =
     (let me = wk_me w; name = embedder_name me in
      case rt_project me of
        None \<Rightarrow> Inl ''AssertionError''
      | Some p \<Rightarrow>
          if \<not> truthy (fst (resolve_provider_key (be_open env) (be_settings env) (bd_connections (wk_db w)) name (Some p) (rt_organization me)))
          then Inl (''No verified credentials are available for embedding provider '' @ quoted name)
          else (case get_embedding_provider name (rt_embedding_model me) of
              None \<Rightarrow> Inl (''Unsupported embedding provider: '' @ name)
            | Some ep \<Rightarrow>
                then_do (embed_chunks env ep p w) (\<lambda>w1.
                then_do (put_status ''indexing'' w1) (\<lambda>w2.
                put (\<lambda>r. r\<lparr>rt_embeddings := int (length (filter cr_embedded (my_chunks w2)))\<rparr>) w2))))"

text \<open>The vector of a chunk row; an empty vector is skipped.\<close>

definition vector_of :: "worker \<Rightarrow> chunk_row \<Rightarrow> vector_row option" where
  "vector_of w c =
     (if \<not> cr_embedded c \<or> cr_indexed c then None
      else case map_of (rev (wk_generated w)) (cr_id c) of
        None \<Rightarrow> None
      | Some [] \<Rightarrow> None
      | Some v \<Rightarrow> Some \<lparr>vr_id = cr_id c, vr_project = rt_project (wk_me w), vr_document = cr_document c, vr_vector = v,
          vr_model = rt_embedding_model (wk_me w), vr_hash = ck_hash (cr_chunk c)\<rparr>)"

text \<open>\<open>ON CONFLICT (id) DO UPDATE\<close> keeps project and document.\<close>

definition upsert_vector :: "vector_row list \<Rightarrow> vector_row \<Rightarrow> vector_row list" where
  "upsert_vector vs v =
     (case row_by vr_id (vr_id v) vs of
        None \<Rightarrow> vs @ [v]
      | Some old \<Rightarrow> put_row vr_id (v\<lparr>vr_project := vr_project old, vr_document := vr_document old\<rparr>) vs)"

definition store_vectors :: "string \<Rightarrow> vector_row list \<Rightarrow> build_db \<Rightarrow> build_db" where
  "store_vectors store vs db = db\<lparr>bd_chunks := mark_indexed (map vr_id vs) (bd_chunks db),
     bd_vectors := (if store = ''pgvector'' then foldl upsert_vector (bd_vectors db) vs else bd_vectors db)\<rparr>"

text \<open>The store \<open>memory\<close> is an object of the worker that is lost with it.\<close>

definition stage_store_embeddings :: "build_env \<Rightarrow> worker \<Rightarrow> string + worker" where
  "stage_store_embeddings env w =
     (let store = rt_vector_store (wk_me w); vs = List.map_filter (vector_of w) (my_chunks w) in
      if store \<notin> {''pgvector'', ''memory''} then Inl (''Unsupported vector store provider: '' @ store)
      else if vs \<noteq> [] \<and> store = ''pgvector'' \<and> \<not> be_store env then Inl ''upsert failed''
      else then_do (put (\<lambda>r. r\<lparr>rt_index_size := int (length vs)\<rparr>) (with_db (store_vectors store vs) w)) (put_status ''building''))"

section \<open>The other stages\<close>

definition capitalize :: "string \<Rightarrow> string" where
  "capitalize s = (case s of [] \<Rightarrow> [] | c # cs \<Rightarrow>
     (if of_char c \<in> set [97 ..< 123 :: nat] then char_of (of_char c - 32 :: nat) else c) # str_lower cs)"

definition runtime_key :: "build_env \<Rightarrow> runtime \<Rightarrow> api_key" where
  "runtime_key env r =
     (let raw = generate_api_key (if rt_environment r = ''production'' then ''sk_live'' else ''sk_test'') (be_token env);
          environment = (if rt_environment r = [] then ''development'' else rt_environment r)
      in \<lparr>key_id = 0, key_name = str_strip (if rt_name r = [] then ''Runtime'' else rt_name r) @ [CHR 0x20, CHR 0xB7, CHR 0x20] @ capitalize environment @ '' API Key'',
          hashed_key = be_token_hash env raw, key_prefix = take 12 raw, key_organization = rt_organization r,
          key_user = Some (rt_user r), key_project = rt_project r, key_runtime = Some (rt_id r), key_environment = environment,
          allowed_origins = [], revoked = False, key_expires = None,
          scopes = (if json_true (json_get ''write_access_enabled'' (rt_config r)) then [''read'', ''write''] else [''read'']),
          last_used_at = None, usage_count = 0, usage_stats = []\<rparr>)"

definition stage_generate_api_key :: "build_env \<Rightarrow> worker \<Rightarrow> string + worker" where
  "stage_generate_api_key env w =
     (case insert_key (runtime_key env (wk_me w)) (bd_tenants (wk_db w)) of
        None \<Rightarrow> Inl ''IntegrityError''
      | Some (t, k) \<Rightarrow> put (\<lambda>r. r\<lparr>rt_api_key := Some (key_id k)\<rparr>) (with_db (\<lambda>db. db\<lparr>bd_tenants := t\<rparr>) w))"

definition stage_validate_sources :: "worker \<Rightarrow> string + worker" where
  "stage_validate_sources w =
     (if rt_project (wk_me w) = None then Inl ''AssertionError'' else put_status ''discovering'' w)"

definition stage_activate_runtime :: "build_env \<Rightarrow> worker \<Rightarrow> string + worker" where
  "stage_activate_runtime env = put (\<lambda>r. r\<lparr>rt_build_completed := Some (be_now env)\<rparr>)"

definition stage_method :: "build_env \<Rightarrow> string \<Rightarrow> worker \<Rightarrow> string + worker" where
  "stage_method env s w =
     (if s = ''collect_sources'' then put_status ''validating'' w
      else if s = ''validate_sources'' then stage_validate_sources w
      else if s = ''discover_resources'' then put_status ''extracting'' w
      else if s = ''extract_documents'' then put_status ''cleaning'' w
      else if s = ''normalize_documents'' then put_status ''chunking'' w
      else if s = ''clean_documents'' then Inr w
      else if s = ''chunk_documents'' then stage_chunk_documents env w
      else if s = ''generate_embeddings'' then stage_generate_embeddings env w
      else if s = ''store_embeddings'' then stage_store_embeddings env w
      else if s = ''build_runtime'' then put_status ''provisioning'' w
      else if s = ''generate_api_key'' then stage_generate_api_key env w
      else if s = ''activate_runtime'' then stage_activate_runtime env w
      else Inl (''Runtime build stage is not implemented: '' @ s))"

section \<open>A build\<close>

definition log_stage :: "string \<Rightarrow> worker \<Rightarrow> worker" where
  "log_stage s w = with_db (\<lambda>db. db\<lparr>bd_logs := bd_logs db @ [\<lparr>bl_id = bd_next db, bl_runtime = rt_id (wk_me w), bl_build = wk_build w,
      bl_stage = s, bl_status = Log_Started\<rparr>], bd_next := Suc (bd_next db)\<rparr>) w"

definition set_log :: "uuid \<Rightarrow> log_status \<Rightarrow> worker \<Rightarrow> worker" where
  "set_log i st = with_db (\<lambda>db. db\<lparr>bd_logs := map (\<lambda>l. if bl_id l = i then l\<lparr>bl_status := st\<rparr> else l) (bd_logs db)\<rparr>)"

definition mark_failed :: "uuid \<Rightarrow> string \<Rightarrow> build_db \<Rightarrow> build_db" where
  "mark_failed i e db = (case find_runtime db i of
      None \<Rightarrow> db | Some r \<Rightarrow> save_runtime (r\<lparr>rt_status := ''failed'', rt_error := Some e\<rparr>) db)"

text \<open>The stage raises outside its own handler when the progress or the event cannot be written; a
  failure of the stage itself is rolled back and recorded.\<close>

definition run_stage :: "build_env \<Rightarrow> nat \<Rightarrow> string \<Rightarrow> worker \<Rightarrow> worker \<times> string option" where
  "run_stage env n s w =
     (case update_build_progress env s n w of
        Inl e \<Rightarrow> (w, Some e)
      | Inr w1 \<Rightarrow>
         (let i = bd_next (wk_db w1); w2 = log_stage s w1 in
          if \<not> be_publish env s then (w2, Some ''ConnectionError'')
          else case stage_method env s w2 of
            Inl e \<Rightarrow> (with_db (mark_failed (rt_id (wk_me w2)) e) (set_log i (Log_Failed e) w2), Some e)
          | Inr w3 \<Rightarrow> (set_log i Log_Completed w3, None)))"

fun run_stages :: "build_env \<Rightarrow> (nat \<Rightarrow> build_db \<Rightarrow> build_db) \<Rightarrow> nat \<Rightarrow> string list \<Rightarrow> worker \<Rightarrow> worker \<times> string option" where
  "run_stages env others n [] w = (with_db (others n) w, None)"
| "run_stages env others n (s # ss) w =
     (let w1 = with_db (others n) w in
      if rt_status (wk_me w1) = ''cancelled'' then (w1, None)
      else case run_stage env n s w1 of
        (w2, Some e) \<Rightarrow> (w2, Some e)
      | (w2, None) \<Rightarrow> run_stages env others (Suc n) ss w2)"

datatype build_result = Not_Found | Built | Stopped | Build_Failed string

definition active_config :: "build_env \<Rightarrow> (string \<times> json) list \<Rightarrow> (string \<times> json) list" where
  "active_config env c = set_keys c [(''build_stage'', JStr ''active''), (''build_progress'', JInt 100), (''build_updated_at'', JStr (be_stamp env))]"

definition mark_built :: "uuid option \<Rightarrow> build_db \<Rightarrow> build_db" where
  "mark_built p db = (let t = bd_tenants db in
     db\<lparr>bd_tenants := t\<lparr>projects := map (\<lambda>x. if Some (prj_id x) = p then x\<lparr>has_built_runtime := True\<rparr> else x) (projects t)\<rparr>\<rparr>)"

definition finish :: "build_env \<Rightarrow> worker \<Rightarrow> worker \<times> string option" where
  "finish env w =
     (let config = active_config env (rt_config (wk_me w)) in
      case put (\<lambda>r. r\<lparr>rt_status := ''active'', rt_health := 100, rt_config := config\<rparr>) w of
        Inl e \<Rightarrow> (w, Some e)
      | Inr w1 \<Rightarrow>
         (let w2 = with_db (mark_built (rt_project (wk_me w1))) w1 in
          if \<not> be_publish env ''RuntimeReady'' then (w2, Some ''ConnectionError'')
          else if \<not> be_notify env then (w2, Some ''notification failed'')
          else (w2, None)))"

definition drop_chunks :: "uuid \<Rightarrow> build_db \<Rightarrow> build_db" where
  "drop_chunks i db = db\<lparr>bd_chunks := filter (\<lambda>c. cr_runtime c \<noteq> i) (bd_chunks db)\<rparr>"

definition raised :: "uuid \<Rightarrow> worker \<times> string option \<Rightarrow> build_db \<times> build_result" where
  "raised i we = (case we of (w, Some e) \<Rightarrow> (mark_failed i e (wk_db w), Build_Failed e) | (w, None) \<Rightarrow> (wk_db w, Built))"

definition run_build :: "build_env \<Rightarrow> (nat \<Rightarrow> build_db \<Rightarrow> build_db) \<Rightarrow> uuid \<Rightarrow> uuid \<Rightarrow> build_db \<Rightarrow> build_db \<times> build_result" where
  "run_build env others build i db =
     (case find_runtime db i of
        None \<Rightarrow> (db, Not_Found)
      | Some r \<Rightarrow>
         (let w = \<lparr>wk_db = drop_chunks i db, wk_me = r, wk_generated = [], wk_build = build\<rparr> in
          if \<not> be_publish env ''RuntimeStarted'' then raised i (w, Some ''ConnectionError'')
          else case run_stages env others 0 RUNTIME_STAGES w of
            (w1, Some e) \<Rightarrow> raised i (w1, Some e)
          | (w1, None) \<Rightarrow>
              if rt_status (wk_me w1) \<in> {''cancelled'', ''failed''} then (wk_db w1, Stopped)
              else raised i (finish env w1)))"

text \<open>The lock of the task: \<open>SET NX EX 3600\<close>, released only by its holder. Redis may be down
  (\<open>None\<close>); \<open>during\<close> is what happens to the lock while the build runs. \<open>None\<close> as result:
  the build is already running.\<close>

type_synonym lock = "(string \<times> instant) option"

definition HOUR :: instant where "HOUR = 3600 * 1000000"

definition acquire :: "string \<Rightarrow> instant \<Rightarrow> lock \<Rightarrow> lock option" where
  "acquire token now l =
     (case l of Some (t, until) \<Rightarrow> if now < until then None else Some (Some (token, now + HOUR))
      | None \<Rightarrow> Some (Some (token, now + HOUR)))"

definition release_lock :: "string \<Rightarrow> instant \<Rightarrow> lock \<Rightarrow> lock" where
  "release_lock token now l = (case l of Some (t, until) \<Rightarrow> if now < until \<and> t = token then None else l | None \<Rightarrow> None)"

definition build_task ::
  "build_env \<Rightarrow> (nat \<Rightarrow> build_db \<Rightarrow> build_db) \<Rightarrow> (lock \<Rightarrow> lock) \<Rightarrow> string \<Rightarrow> instant \<Rightarrow> instant \<Rightarrow> uuid \<Rightarrow> uuid \<Rightarrow> lock option \<Rightarrow> build_db
   \<Rightarrow> lock option \<times> build_db \<times> build_result option" where
  "build_task env others during token now later build i redis db =
     (case redis of
        None \<Rightarrow> (case run_build env others build i db of (db1, r) \<Rightarrow> (None, db1, Some r))
      | Some l \<Rightarrow>
         (case acquire token now l of
            None \<Rightarrow> (Some l, db, None)
          | Some l1 \<Rightarrow>
             (case run_build env others build i db of
                (db1, r) \<Rightarrow> (Some (release_lock token later (during l1)), db1, Some r))))"

text \<open>The other task of the file; the messages to the user's sockets change nothing.\<close>

datatype propagation = Runtime_Not_Found | Full_Rebuild_Queued | Propagated | Propagation_Failed runtime_error

definition propagate_runtime ::
  "(string \<Rightarrow> string option) \<Rightarrow> (string \<Rightarrow> string option) \<Rightarrow> bool \<Rightarrow> instant \<Rightarrow> uuid \<Rightarrow> build_db \<Rightarrow> build_db \<times> propagation" where
  "propagate_runtime open_secret settings broker now i db =
     (case find_runtime db i of
        None \<Rightarrow> (db, Runtime_Not_Found)
      | Some r \<Rightarrow>
         (case detect_changes i db of
            Inl e \<Rightarrow> (db, Propagation_Failed e)
          | Inr (existing, expected, changed) \<Rightarrow>
              if existing = 0
              then (case enqueue_build open_secret settings broker now ''propagation'' i db of
                  (db1, Inl e) \<Rightarrow> (db1, Propagation_Failed e)
                | (db1, Inr s) \<Rightarrow> (db1, Full_Rebuild_Queued))
              else (save_runtime (r\<lparr>rt_last_propagated := Some now\<rparr>) db, Propagated)))"

end
