(* ===== verification/Runtime_Sample.thy ===== *)
theory Runtime_Sample
  imports Runtime_Worker
begin

text \<open>
  A project with one document whose runtime was built before: its old chunk and vector are still
  there. Builds of it are evaluated alone, with a cancellation between two stages, and with
  notifications that do not go out.
\<close>

definition sample_build_runtime :: runtime where
  "sample_build_runtime = \<lparr>rt_id = 9, rt_name = ''r'', rt_user = 1, rt_project = Some 5, rt_organization = Some 7,
     rt_status = ''building'', rt_version = ''1.0.0'', rt_environment = ''development'', rt_provider = ''openai'',
     rt_model = ''gpt-4o'', rt_fallback_models = [], rt_routing_strategy = ''balanced'',
     rt_embedding_model = ''text-embedding-3-small'', rt_vector_store = ''pgvector'', rt_chunk_size = 512,
     rt_chunk_overlap = 64, rt_documents = 0, rt_chunks = 0, rt_embeddings = 0, rt_index_size = 0, rt_build_started = None,
     rt_build_completed = None, rt_last_propagated = None, rt_health = 0, rt_error = None, rt_api_key = None,
     rt_instructions = None, rt_policies = [], rt_config = [], rt_metadata = []\<rparr>"

definition old_chunk :: chunk_row where
  "old_chunk = \<lparr>cr_id = 60, cr_runtime = 9, cr_document = Some 3,
     cr_chunk = \<lparr>ck_document = Some ''3'', ck_section = [], ck_heading = [], ck_page = 1, ck_source = None, ck_language = None,
       ck_hash = ''Old.'', ck_content = ''Old.'', ck_index = 0, ck_strategy = ''semantic'', ck_tokens = 1\<rparr>,
     cr_embedded = True, cr_indexed = True\<rparr>"

definition old_vector_row :: vector_row where
  "old_vector_row = \<lparr>vr_id = 60, vr_project = Some 5, vr_document = Some 3, vr_vector = [4], vr_model = ''text-embedding-3-small'', vr_hash = ''Old.''\<rparr>"

definition sample_build_db :: build_db where
  "sample_build_db = \<lparr>bd_tenants = \<lparr>users = [], organizations = [],
       projects = [\<lparr>prj_id = 5, prj_name = ''p'', prj_slug = ''p'', prj_description = None, prj_organization = 7, prj_settings = [],
         prj_status = ''ready'', has_built_runtime = False\<rparr>],
       runtimes = [sample_build_runtime], sessions = [], api_keys = [], next_key = 40, mail_queue = []\<rparr>,
     bd_integrations = [], bd_connections = [], bd_kbs = [\<lparr>kb_id = 2, kb_project = 5\<rparr>],
     bd_documents = [\<lparr>dc_id = 3, dc_kb = 2, dc_content = Some ''New.'', dc_source = None\<rparr>],
     bd_chunks = [old_chunk], bd_logs = [], bd_cache = [], bd_vectors = [old_vector_row], bd_queue = [], bd_next = 100\<rparr>"

definition sample_build_env :: build_env where
  "sample_build_env = \<lparr>be_hash = (\<lambda>s. s), be_token_hash = (\<lambda>s. CHR ''#'' # s), be_token = ''t'', be_uuid = (\<lambda>s. Some 3),
     be_open = (\<lambda>s. Some s), be_settings = (\<lambda>k. Some ''secret''), be_embed = (\<lambda>ep ts. Some (map (\<lambda>t. [rat_of_nat (length t)]) ts)),
     be_store = True, be_batch = 100, be_publish = (\<lambda>e. True), be_notify = True, be_now = 0, be_stamp = ''now''\<rparr>"

definition cancels :: "nat \<Rightarrow> build_db \<Rightarrow> build_db" where
  "cancels n db = (if n = 7 then fst (cancel 9 db) else db)"

lemma sample_build_alone: "snd (run_build sample_build_env (\<lambda>_ db. db) 50 9 sample_build_db) = Built"
  by code_simp

lemma sample_build_cancelled: "snd (run_build sample_build_env cancels 50 9 sample_build_db) = Built"
  by code_simp

lemma sample_build_unnotified:
  "snd (run_build (sample_build_env\<lparr>be_notify := False\<rparr>) (\<lambda>_ db. db) 50 9 sample_build_db) = Build_Failed ''notification failed''"
  "find_runtime (fst (run_build (sample_build_env\<lparr>be_notify := False\<rparr>) (\<lambda>_ db. db) 50 9 sample_build_db)) 9 \<noteq> None"
  by code_simp+

end
