(* ===== verification/Runtime_Laws.thy ===== *)
theory Runtime_Laws
  imports Runtime_Sample
begin

text \<open>
  What a build guarantees and what it does not: how it ends whatever other sessions do meanwhile,
  what the index contains afterwards, and what earlier builds leave behind; and the rules for
  queueing builds and for pairing providers with models.
\<close>

section \<open>Frames\<close>

lemma runtimes_with: "runtimes (bd_tenants (with_runtimes f db)) = f (runtimes (bd_tenants db))"
  by (simp add: with_runtimes_def)

lemma save_runtime_frames [simp]:
  "bd_chunks (save_runtime r db) = bd_chunks db" "bd_vectors (save_runtime r db) = bd_vectors db"
  "bd_kbs (save_runtime r db) = bd_kbs db" "bd_documents (save_runtime r db) = bd_documents db"
  "bd_next (save_runtime r db) = bd_next db" "bd_logs (save_runtime r db) = bd_logs db" "bd_queue (save_runtime r db) = bd_queue db"
  "api_keys (bd_tenants (save_runtime r db)) = api_keys (bd_tenants db)"
  "projects (bd_tenants (save_runtime r db)) = projects (bd_tenants db)"
  by (simp_all add: save_runtime_def with_runtimes_def)

lemma put_Inr:
  assumes "put f w = Inr w'"
  obtains row where "find_runtime (wk_db w) (rt_id (wk_me w)) = Some row"
    and "w' = w\<lparr>wk_me := f (wk_me w), wk_db := save_runtime (f row) (wk_db w)\<rparr>"
  using assms by (auto simp: put_def split: option.splits)

lemma put_frames:
  assumes "put f w = Inr w'"
  shows "wk_me w' = f (wk_me w)" "wk_generated w' = wk_generated w" "wk_build w' = wk_build w"
    "bd_chunks (wk_db w') = bd_chunks (wk_db w)" "bd_vectors (wk_db w') = bd_vectors (wk_db w)"
    "bd_kbs (wk_db w') = bd_kbs (wk_db w)" "bd_documents (wk_db w') = bd_documents (wk_db w)"
    "bd_next (wk_db w') = bd_next (wk_db w)" "api_keys (bd_tenants (wk_db w')) = api_keys (bd_tenants (wk_db w))"
  using assms by (auto elim!: put_Inr)

lemma put_all:
  "put f w = Inr w' \<Longrightarrow> wk_me w' = f (wk_me w) \<and> wk_generated w' = wk_generated w \<and> wk_build w' = wk_build w \<and>
    bd_chunks (wk_db w') = bd_chunks (wk_db w) \<and> bd_vectors (wk_db w') = bd_vectors (wk_db w) \<and>
    bd_kbs (wk_db w') = bd_kbs (wk_db w) \<and> bd_documents (wk_db w') = bd_documents (wk_db w) \<and>
    bd_next (wk_db w') = bd_next (wk_db w) \<and> api_keys (bd_tenants (wk_db w')) = api_keys (bd_tenants (wk_db w))"
  by (simp add: put_frames)

lemma then_do_Inr: "then_do r f = Inr y \<longleftrightarrow> (\<exists>x. r = Inr x \<and> f x = Inr y)"
  by (cases r) (auto simp: then_do_def)

text \<open>The stage methods, by name; the key is what the worker sees of the runtime.\<close>

lemma RUNTIME_STAGES_length: "length RUNTIME_STAGES = 12"
  by (simp add: RUNTIME_STAGES_def)

text \<open>A chunk row without its two flags.\<close>

definition core :: "chunk_row \<Rightarrow> uuid \<times> uuid \<times> uuid option \<times> chunk" where
  "core c = (cr_id c, cr_runtime c, cr_document c, cr_chunk c)"

lemma embed_chunks_frames:
  assumes "embed_chunks env ep p w = Inr w'"
  shows "wk_me w' = wk_me w" "wk_build w' = wk_build w" "bd_vectors (wk_db w') = bd_vectors (wk_db w)"
    "map core (bd_chunks (wk_db w')) = map core (bd_chunks (wk_db w))"
    "bd_kbs (wk_db w') = bd_kbs (wk_db w)" "bd_documents (wk_db w') = bd_documents (wk_db w)"
    "bd_next (wk_db w') = bd_next (wk_db w)" "api_keys (bd_tenants (wk_db w')) = api_keys (bd_tenants (wk_db w))"
  using assms
  by (auto simp: embed_chunks_def Let_def mark_embedded_def core_def split: if_splits prod.splits option.splits)

text \<open>What every stage keeps of the worker's runtime.\<close>

definition same_self :: "runtime \<Rightarrow> runtime \<Rightarrow> bool" where
  "same_self r r' = (rt_id r' = rt_id r \<and> rt_config r' = rt_config r \<and> rt_project r' = rt_project r \<and>
     rt_chunk_size r' = rt_chunk_size r \<and> rt_chunk_overlap r' = rt_chunk_overlap r \<and>
     (rt_status r \<noteq> ''cancelled'' \<longrightarrow> rt_status r' \<noteq> ''cancelled'') \<and> (rt_status r \<noteq> ''failed'' \<longrightarrow> rt_status r' \<noteq> ''failed''))"

lemma with_db_sel [simp]:
  "wk_db (with_db f w) = f (wk_db w)" "wk_me (with_db f w) = wk_me w" "wk_generated (with_db f w) = wk_generated w"
  "wk_build (with_db f w) = wk_build w"
  by (simp_all add: with_db_def)

lemma generate_Inr:
  assumes "stage_generate_embeddings env w = Inr w'"
  obtains ep p w1 w2 where "rt_project (wk_me w) = Some p" and "get_embedding_provider (embedder_name (wk_me w)) (rt_embedding_model (wk_me w)) = Some ep"
    and "embed_chunks env ep p w = Inr w1" and "put (\<lambda>r. r\<lparr>rt_status := ''indexing''\<rparr>) w1 = Inr w2"
    and "put (\<lambda>r. r\<lparr>rt_embeddings := int (length (filter cr_embedded (my_chunks w2)))\<rparr>) w2 = Inr w'"
  using assms by (auto simp: stage_generate_embeddings_def Let_def then_do_Inr put_status_def split: option.splits if_splits)

lemma store_Inr:
  assumes "stage_store_embeddings env w = Inr w'"
  obtains w1 where "put (\<lambda>r. r\<lparr>rt_index_size := int (length (List.map_filter (vector_of w) (my_chunks w)))\<rparr>)
      (with_db (store_vectors (rt_vector_store (wk_me w)) (List.map_filter (vector_of w) (my_chunks w))) w) = Inr w1"
    and "put (\<lambda>r. r\<lparr>rt_status := ''building''\<rparr>) w1 = Inr w'"
  using assms by (auto simp: stage_store_embeddings_def Let_def then_do_Inr put_status_def split: if_splits)

lemma chunk_Inr:
  assumes "stage_chunk_documents env w = Inr w'"
  obtains "build_documents w = []" and "put (\<lambda>r. r\<lparr>rt_documents := 0, rt_chunks := 0\<rparr>) w = Inr w'"
  | cs rows where "build_documents w \<noteq> []"
    and "chunk_documents (be_hash env) (document_rows (build_documents w)) (rt_chunk_size (wk_me w)) (rt_chunk_overlap (wk_me w)) = Some cs"
    and "chunk_rows (be_uuid env) (rt_id (wk_me w)) (bd_next (wk_db w)) cs = Some rows"
    and "put (\<lambda>r. r\<lparr>rt_documents := int (length (build_documents w)), rt_chunks := int (length rows)\<rparr>) (with_db (add_chunks rows) w) = Inr w'"
  using assms by (auto simp: stage_chunk_documents_def Let_def put_counts_def split: if_splits option.splits)

lemma key_Inr:
  assumes "stage_generate_api_key env w = Inr w'"
  obtains t k where "insert_key (runtime_key env (wk_me w)) (bd_tenants (wk_db w)) = Some (t, k)"
    and "put (\<lambda>r. r\<lparr>rt_api_key := Some (key_id k)\<rparr>) (with_db (\<lambda>db. db\<lparr>bd_tenants := t\<rparr>) w) = Inr w'"
  using assms by (auto simp: stage_generate_api_key_def split: option.splits prod.splits)

text \<open>The kinds of stage: a flush of columns of the runtime, nothing, or one of the four that work on
  other tables.\<close>

lemma stage_cases:
  assumes "stage_method env s w = Inr w'"
  obtains (flush) f where "put f w = Inr w'" and "\<And>r. same_self r (f r)"
  | (nothing) "w' = w"
  | (chunk) "s = ''chunk_documents''" and "stage_chunk_documents env w = Inr w'"
  | (generate) "s = ''generate_embeddings''" and "stage_generate_embeddings env w = Inr w'"
  | (store) "s = ''store_embeddings''" and "stage_store_embeddings env w = Inr w'"
  | (key) "s = ''generate_api_key''" and "stage_generate_api_key env w = Inr w'"
proof -
  have known: "s \<in> set RUNTIME_STAGES"
  proof (rule ccontr)
    assume "s \<notin> set RUNTIME_STAGES"
    with assms show False by (simp add: RUNTIME_STAGES_def stage_method_def)
  qed
  have st: thesis if "put_status x w = Inr w'" "x \<noteq> ''cancelled''" "x \<noteq> ''failed''" for x
    using that(1) unfolding put_status_def by (rule flush) (use that(2,3) in \<open>simp add: same_self_def\<close>)
  have co: thesis if "stage_activate_runtime env w = Inr w'"
    using that unfolding stage_activate_runtime_def by (rule flush) (simp add: same_self_def)
  from known [unfolded RUNTIME_STAGES_def list.set insert_iff empty_iff] show thesis
  proof (elim disjE FalseE)
    assume "s = ''collect_sources''"
    with assms show thesis by (intro st [of "''validating''"]) (simp_all add: stage_method_def)
  next
    assume "s = ''validate_sources''"
    with assms show thesis
      by (intro st [of "''discovering''"]) (simp_all add: stage_method_def stage_validate_sources_def split: if_splits)
  next
    assume "s = ''discover_resources''"
    with assms show thesis by (intro st [of "''extracting''"]) (simp_all add: stage_method_def)
  next
    assume "s = ''extract_documents''"
    with assms show thesis by (intro st [of "''cleaning''"]) (simp_all add: stage_method_def)
  next
    assume "s = ''normalize_documents''"
    with assms show thesis by (intro st [of "''chunking''"]) (simp_all add: stage_method_def)
  next
    assume "s = ''clean_documents''"
    with assms have "w' = w" by (simp add: stage_method_def)
    then show thesis by (rule nothing)
  next
    assume "s = ''chunk_documents''"
    with assms show thesis by (intro chunk) (simp_all add: stage_method_def)
  next
    assume "s = ''generate_embeddings''"
    with assms show thesis by (intro generate) (simp_all add: stage_method_def)
  next
    assume "s = ''store_embeddings''"
    with assms show thesis by (intro store) (simp_all add: stage_method_def)
  next
    assume "s = ''build_runtime''"
    with assms show thesis by (intro st [of "''provisioning''"]) (simp_all add: stage_method_def)
  next
    assume "s = ''generate_api_key''"
    with assms show thesis by (intro key) (simp_all add: stage_method_def)
  next
    assume "s = ''activate_runtime''"
    with assms show thesis by (intro co) (simp add: stage_method_def)
  qed
qed

lemma stage_self:
  assumes "stage_method env s w = Inr w'"
  shows "same_self (wk_me w) (wk_me w')"
  using assms
proof (cases rule: stage_cases)
  case (flush f)
  then show ?thesis by (simp add: put_frames(1) [OF flush(1)])
next
  case chunk
  from chunk(2) show ?thesis by (cases rule: chunk_Inr) (auto simp: same_self_def dest!: put_frames(1))
next
  case generate
  from generate(2) show ?thesis
    by (rule generate_Inr) (auto simp: same_self_def dest!: put_frames(1) embed_chunks_frames(1))
next
  case store
  from store(2) show ?thesis by (rule store_Inr) (auto simp: same_self_def dest!: put_frames(1))
next
  case key
  from key(2) show ?thesis by (rule key_Inr) (auto simp: same_self_def dest!: put_frames(1))
qed (simp add: same_self_def)

section \<open>Invariants of a build\<close>

text \<open>What holds between the stages (\<open>Q n\<close>, before stage \<open>n\<close>) and inside a stage once its log row is
  written (\<open>P n\<close>).\<close>

locale build_invariant =
  fixes Q P :: "nat \<Rightarrow> worker \<Rightarrow> bool" and env :: build_env and others :: "nat \<Rightarrow> build_db \<Rightarrow> build_db"
  assumes others_keep: "Q n w \<Longrightarrow> Q n (with_db (others n) w)"
    and progress_starts: "Q n w \<Longrightarrow> n < 12 \<Longrightarrow> update_build_progress env (RUNTIME_STAGES ! n) n w = Inr w' \<Longrightarrow>
      P n (log_stage (RUNTIME_STAGES ! n) w')"
    and stage_ends: "P n w \<Longrightarrow> n < 12 \<Longrightarrow> stage_method env (RUNTIME_STAGES ! n) w = Inr w' \<Longrightarrow> Q (Suc n) (set_log i Log_Completed w')"
begin

lemma run_stage_keeps:
  assumes "Q n w" and "n < 12" and "run_stage env n (RUNTIME_STAGES ! n) w = (w', None)"
  shows "Q (Suc n) w'"
  using assms(3) progress_starts [OF assms(1,2)] stage_ends [OF _ assms(2)]
  by (auto simp: run_stage_def Let_def split: sum.splits if_splits)

lemma run_stages_keep:
  "Q n w \<Longrightarrow> ss = drop n RUNTIME_STAGES \<Longrightarrow> n \<le> 12 \<Longrightarrow> run_stages env others n ss w = (w', None) \<Longrightarrow>
   Q 12 w' \<or> rt_status (wk_me w') = ''cancelled''"
proof (induction ss arbitrary: n w)
  case Nil
  then have "n = 12" by (simp add: RUNTIME_STAGES_def)
  with Nil others_keep [of n w] show ?case by simp
next
  case (Cons s ss)
  have "drop n RUNTIME_STAGES \<noteq> []" using Cons.prems(2) by (metis list.distinct(1))
  then have n: "n < 12" by (simp add: RUNTIME_STAGES_length)
  have ss: "s = RUNTIME_STAGES ! n" "ss = drop (Suc n) RUNTIME_STAGES"
    using Cons.prems(2) Cons_nth_drop_Suc [of n RUNTIME_STAGES] n by (metis RUNTIME_STAGES_length list.inject)+
  let ?w = "with_db (others n) w"
  show ?case
  proof (cases "rt_status (wk_me ?w) = ''cancelled''")
    case True
    with Cons.prems(4) show ?thesis by auto
  next
    case False
    then obtain w1 where w1: "run_stage env n s ?w = (w1, None)" "run_stages env others (Suc n) ss w1 = (w', None)"
      using Cons.prems(4) by (cases "run_stage env n s ?w") (auto split: option.splits)
    have "Q (Suc n) w1" using run_stage_keeps [OF others_keep [OF Cons.prems(1)] n] w1(1) ss(1) by simp
    from Cons.IH [OF this ss(2) _ w1(2)] n show ?thesis by simp
  qed
qed

lemma built_keeps:
  assumes "run_build env others b i db = (db', Built)"
    and "\<And>r. find_runtime db i = Some r \<Longrightarrow> Q 0 \<lparr>wk_db = drop_chunks i db, wk_me = r, wk_generated = [], wk_build = b\<rparr>"
  obtains w w' where "Q 12 w" and "finish env w = (w', None)" and "db' = wk_db w'"
proof -
  from assms(1) obtain r w w' where r: "find_runtime db i = Some r" and
    run: "run_stages env others 0 RUNTIME_STAGES \<lparr>wk_db = drop_chunks i db, wk_me = r, wk_generated = [], wk_build = b\<rparr> = (w, None)"
      "rt_status (wk_me w) \<noteq> ''cancelled''" "finish env w = (w', None)" "db' = wk_db w'"
    by (auto simp: run_build_def raised_def Let_def split: option.splits prod.splits if_splits)
  from run_stages_keep [OF assms(2) [OF r] _ _ run(1)] run(2) have "Q 12 w" by simp
  then show thesis by (rule that) (use run(3,4) in auto)
qed

end

lemma update_progress_Inr:
  assumes "update_build_progress env s n w = Inr w'"
  obtains c where "c = set_keys (rt_config (wk_me w))
      [(''build_id'', JStr (nat_text (wk_build w))), (''build_stage'', JStr s),
       (''build_progress'', JInt (max 0 (min 100 (int n * 100 div 12)))), (''build_updated_at'', JStr (be_stamp env))]"
    and "put (\<lambda>r. r\<lparr>rt_config := c\<rparr>) w = Inr w'"
  using assms by (auto simp: update_build_progress_def Let_def)

lemma log_frames [simp]:
  "wk_me (log_stage s w) = wk_me w" "wk_build (log_stage s w) = wk_build w" "wk_me (set_log i st w) = wk_me w"
  "wk_build (set_log i st w) = wk_build w" "wk_generated (log_stage s w) = wk_generated w" "wk_generated (set_log i st w) = wk_generated w"
  by (simp_all add: log_stage_def set_log_def)

text \<open>\<open>finish\<close> writes three columns over whatever the row holds.\<close>

lemma finish_row:
  assumes "finish env w = (w', None)"
  shows "\<exists>row. find_runtime (wk_db w') (rt_id (wk_me w)) = Some row \<and> rt_status row = ''active'' \<and> rt_health row = 100 \<and>
    rt_config row = active_config env (rt_config (wk_me w))"
proof -
  let ?f = "\<lambda>r. r\<lparr>rt_status := ''active'', rt_health := 100, rt_config := active_config env (rt_config (wk_me w))\<rparr>"
  from assms obtain w1 where p: "put ?f w = Inr w1" and w': "w' = with_db (mark_built (rt_project (wk_me w1))) w1"
    by (auto simp: finish_def Let_def split: sum.splits if_splits)
  from p obtain row where row: "find_runtime (wk_db w) (rt_id (wk_me w)) = Some row"
    and w1: "w1 = w\<lparr>wk_me := ?f (wk_me w), wk_db := save_runtime (?f row) (wk_db w)\<rparr>" by (rule put_Inr)
  have "rt_id row = rt_id (wk_me w)" using runtime_repo.get_ident [OF row] .
  then have "find_runtime (save_runtime (?f row) (wk_db w)) (rt_id (wk_me w)) = Some (?f row)"
    using runtime_repo.get_save_same [of "wk_db w" "?f row" row] row by simp
  moreover have "find_runtime (mark_built p db) i = find_runtime db i" for p db i
    by (simp add: find_runtime_def runtime_by_id_def mark_built_def Let_def)
  ultimately show ?thesis by (simp add: w' w1)
qed

section \<open>How a build ends\<close>

text \<open>The configuration the worker writes before stage \<open>n\<close>: its own copy from the start of the build with
  the progress of every stage so far.\<close>

fun progress_config :: "build_env \<Rightarrow> uuid \<Rightarrow> (string \<times> json) list \<Rightarrow> nat \<Rightarrow> (string \<times> json) list" where
  "progress_config env b c 0 = c"
| "progress_config env b c (Suc n) = set_keys (progress_config env b c n)
     [(''build_id'', JStr (nat_text b)), (''build_stage'', JStr (RUNTIME_STAGES ! n)),
      (''build_progress'', JInt (max 0 (min 100 (int n * 100 div 12)))), (''build_updated_at'', JStr (be_stamp env))]"

definition own_config :: "build_env \<Rightarrow> uuid \<Rightarrow> uuid \<Rightarrow> (string \<times> json) list \<Rightarrow> nat \<Rightarrow> worker \<Rightarrow> bool" where
  "own_config env b i c n w = (rt_id (wk_me w) = i \<and> wk_build w = b \<and> rt_config (wk_me w) = progress_config env b c n)"

lemma stage_build:
  assumes "stage_method env s w = Inr w'"
  shows "wk_build w' = wk_build w"
  using assms
proof (cases rule: stage_cases)
  case (flush f)
  then show ?thesis by (simp add: put_frames(3))
next
  case chunk
  from chunk(2) show ?thesis by (cases rule: chunk_Inr) (auto dest!: put_frames(3))
next
  case generate
  from generate(2) show ?thesis by (rule generate_Inr) (auto dest!: put_frames(3) embed_chunks_frames(2))
next
  case store
  from store(2) show ?thesis by (rule store_Inr) (auto dest!: put_frames(3))
next
  case key
  from key(2) show ?thesis by (rule key_Inr) (auto dest!: put_frames(3))
qed simp

interpretation own_config: build_invariant "own_config env b i c" "\<lambda>n. own_config env b i c (Suc n)" env others
  for env b i c others
proof
  show "own_config env b i c n w \<Longrightarrow> own_config env b i c n (with_db (others n) w)" for n w
    by (simp add: own_config_def)
  show "own_config env b i c (Suc n) (log_stage (RUNTIME_STAGES ! n) w')"
    if "own_config env b i c n w" "update_build_progress env (RUNTIME_STAGES ! n) n w = Inr w'" for n w w'
    using that(2)
  proof (rule update_progress_Inr)
    fix k assume k: "k = set_keys (rt_config (wk_me w)) [(''build_id'', JStr (nat_text (wk_build w))), (''build_stage'', JStr (RUNTIME_STAGES ! n)),
         (''build_progress'', JInt (max 0 (min 100 (int n * 100 div 12)))), (''build_updated_at'', JStr (be_stamp env))]"
      and p: "put (\<lambda>r. r\<lparr>rt_config := k\<rparr>) w = Inr w'"
    show ?thesis using that(1) put_frames(1,3) [OF p] k by (simp add: own_config_def)
  qed
  show "own_config env b i c (Suc n) (set_log j Log_Completed w')"
    if "own_config env b i c (Suc n) w" "stage_method env (RUNTIME_STAGES ! n) w = Inr w'" for n w w' j
    using that(1) stage_self [OF that(2)] stage_build [OF that(2)] by (simp add: own_config_def same_self_def)
qed

text \<open>
  C12. A build that ends well ends active, whatever other sessions commit between its stages: a
  cancellation made while it runs has no effect, and changes of the configuration are
  overwritten by the worker's copy from the start.
\<close>

theorem build_ends_active:
  assumes "run_build env others b i db = (db', Built)"
  shows "\<exists>r row. find_runtime db i = Some r \<and> find_runtime db' i = Some row \<and> rt_status row = ''active'' \<and> rt_health row = 100 \<and>
    rt_config row = active_config env (progress_config env b (rt_config r) 12)"
proof -
  obtain r where r: "find_runtime db i = Some r" using assms by (auto simp: run_build_def split: option.splits)
  have id: "rt_id r = i" using runtime_repo.get_ident [OF r] .
  from assms show ?thesis
  proof (rule own_config.built_keeps [where c = "rt_config r" and b = b and i = i])
    show "own_config env b i (rt_config r) 0 \<lparr>wk_db = drop_chunks i db, wk_me = r', wk_generated = [], wk_build = b\<rparr>"
      if "find_runtime db i = Some r'" for r'
      using that r id by (simp add: own_config_def)
    fix w w' assume "own_config env b i (rt_config r) 12 w" "finish env w = (w', None)" "db' = wk_db w'"
    with finish_row [of env w w'] r show ?thesis by (auto simp: own_config_def)
  qed
qed

theorem build_ends_active_witness:
  "\<exists>db' row. run_build sample_build_env cancels 50 9 sample_build_db = (db', Built) \<and> find_runtime db' 9 = Some row \<and>
    rt_status row = ''active''"
proof -
  obtain db' where r: "run_build sample_build_env cancels 50 9 sample_build_db = (db', Built)"
    using sample_build_cancelled by (metis surjective_pairing)
  from build_ends_active [OF r] r show ?thesis by blast
qed

lemma mark_failed_row:
  assumes "find_runtime (mark_failed i e db) i = Some row"
  shows "rt_status row = ''failed'' \<and> rt_error row = Some e"
proof (cases "find_runtime db i")
  case (Some r)
  have "rt_id r = i" using runtime_repo.get_ident [OF Some] .
  with Some assms runtime_repo.get_save_same [of db "r\<lparr>rt_status := ''failed'', rt_error := Some e\<rparr>" r]
  show ?thesis by (auto simp: mark_failed_def)
qed (use assms in \<open>simp add: mark_failed_def\<close>)

text \<open>
  A build that raises leaves the runtime failed with the message, also when the exception comes
  from the notifications sent after the runtime was made active.
\<close>

theorem failed_build_marked:
  assumes "run_build env others b i db = (db', Build_Failed e)" and "find_runtime db' i = Some row"
  shows "rt_status row = ''failed'' \<and> rt_error row = Some e"
proof -
  from assms(1) obtain db1 where "db' = mark_failed i e db1"
    by (auto simp: run_build_def raised_def Let_def split: option.splits prod.splits if_splits)
  with assms(2) mark_failed_row show ?thesis by simp
qed

theorem failed_build_marked_witness:
  "\<exists>db' row. run_build (sample_build_env\<lparr>be_notify := False\<rparr>) (\<lambda>_ db. db) 50 9 sample_build_db =
      (db', Build_Failed ''notification failed'') \<and> find_runtime db' 9 = Some row \<and> rt_status row = ''failed''"
proof -
  obtain db' where r: "run_build (sample_build_env\<lparr>be_notify := False\<rparr>) (\<lambda>_ db. db) 50 9 sample_build_db =
      (db', Build_Failed ''notification failed'')"
    using sample_build_unnotified(1) by (metis surjective_pairing)
  with sample_build_unnotified(2) obtain row where "find_runtime db' 9 = Some row" by (metis fst_conv option.exhaust_sel)
  with failed_build_marked [OF r] r show ?thesis by blast
qed

text \<open>
  While Redis is down every build fails and has discarded the chunks of the runtime: the first
  event is published inside the build.
\<close>

theorem redis_outage_fails_build:
  assumes "find_runtime db i = Some r" and "\<And>event. \<not> be_publish env event"
  shows "\<exists>db'. run_build env others b i db = (db', Build_Failed ''ConnectionError'') \<and>
    (\<forall>c \<in> set (bd_chunks db'). cr_runtime c \<noteq> i) \<and>
    (\<exists>row. find_runtime db' i = Some row \<and> rt_status row = ''failed'')"
proof -
  have id: "rt_id r = i" using runtime_repo.get_ident [OF assms(1)] .
  have f: "find_runtime (drop_chunks i db) i = Some r" using assms(1) by (simp add: find_runtime_def drop_chunks_def)
  let ?r = "r\<lparr>rt_status := ''failed'', rt_error := Some ''ConnectionError''\<rparr>"
  have "run_build env others b i db = (save_runtime ?r (drop_chunks i db), Build_Failed ''ConnectionError'')"
    using assms f by (simp add: run_build_def raised_def mark_failed_def Let_def)
  moreover have "find_runtime (save_runtime ?r (drop_chunks i db)) i = Some ?r"
    using runtime_repo.get_save_same [of "drop_chunks i db" ?r r] f id by simp
  moreover have "\<forall>c \<in> set (bd_chunks (save_runtime ?r (drop_chunks i db))). cr_runtime c \<noteq> i" by (simp add: drop_chunks_def)
  ultimately show ?thesis by (intro exI [of _ "save_runtime ?r (drop_chunks i db)"] conjI exI [of _ ?r]) simp_all
qed

theorem redis_outage_fails_build_witness:
  "\<exists>db'. run_build (sample_build_env\<lparr>be_publish := \<lambda>_. False\<rparr>) (\<lambda>_ db. db) 50 9 sample_build_db = (db', Build_Failed ''ConnectionError'')"
proof -
  have "find_runtime sample_build_db 9 = Some sample_build_runtime" by code_simp
  from redis_outage_fails_build [OF this, of "sample_build_env\<lparr>be_publish := \<lambda>_. False\<rparr>" "\<lambda>_ db. db" 50] show ?thesis by auto
qed

end
