(* ===== verification/Runtime_Index.thy ===== *)
theory Runtime_Index
  imports Runtime_Laws
begin

text \<open>
  What a build leaves in the tables when no other session interferes: the chunks of the runtime
  are those of the project's documents; the vectors of earlier builds stay although their chunks
  are gone; every build adds one more live API key.
\<close>

abbreviation alone :: "nat \<Rightarrow> build_db \<Rightarrow> build_db" where
  "alone \<equiv> \<lambda>_ db. db"

lemma with_alone [simp]: "with_db (\<lambda>db. db) w = w"
  by (simp add: with_db_def)

lemma log_tables [simp]:
  "bd_chunks (wk_db (log_stage s w)) = bd_chunks (wk_db w)" "bd_vectors (wk_db (log_stage s w)) = bd_vectors (wk_db w)"
  "bd_kbs (wk_db (log_stage s w)) = bd_kbs (wk_db w)" "bd_documents (wk_db (log_stage s w)) = bd_documents (wk_db w)"
  "bd_next (wk_db (log_stage s w)) = Suc (bd_next (wk_db w))" "bd_tenants (wk_db (log_stage s w)) = bd_tenants (wk_db w)"
  "bd_chunks (wk_db (set_log j st w)) = bd_chunks (wk_db w)" "bd_vectors (wk_db (set_log j st w)) = bd_vectors (wk_db w)"
  "bd_kbs (wk_db (set_log j st w)) = bd_kbs (wk_db w)" "bd_documents (wk_db (set_log j st w)) = bd_documents (wk_db w)"
  "bd_next (wk_db (set_log j st w)) = bd_next (wk_db w)" "bd_tenants (wk_db (set_log j st w)) = bd_tenants (wk_db w)"
  by (simp_all add: log_stage_def set_log_def)

lemma finish_frames:
  assumes "finish env w = (w', None)"
  shows "bd_chunks (wk_db w') = bd_chunks (wk_db w)" "bd_vectors (wk_db w') = bd_vectors (wk_db w)"
    "api_keys (bd_tenants (wk_db w')) = api_keys (bd_tenants (wk_db w))"
proof -
  from assms obtain f w1 where p: "put f w = Inr w1" and w': "w' = with_db (mark_built (rt_project (wk_me w1))) w1"
    by (auto simp: finish_def Let_def split: sum.splits if_splits)
  then show "bd_chunks (wk_db w') = bd_chunks (wk_db w)" "bd_vectors (wk_db w') = bd_vectors (wk_db w)"
    "api_keys (bd_tenants (wk_db w')) = api_keys (bd_tenants (wk_db w))"
    using put_frames(4,5,9) [OF p] by (simp_all add: mark_built_def Let_def)
qed

lemma progress_tables:
  assumes "update_build_progress env s n w = Inr w'"
  shows "same_self (wk_me w) ((wk_me w')\<lparr>rt_config := rt_config (wk_me w)\<rparr>)"
    "bd_chunks (wk_db w') = bd_chunks (wk_db w)" "bd_vectors (wk_db w') = bd_vectors (wk_db w)"
    "bd_kbs (wk_db w') = bd_kbs (wk_db w)" "bd_documents (wk_db w') = bd_documents (wk_db w)"
    "bd_next (wk_db w') = bd_next (wk_db w)" "api_keys (bd_tenants (wk_db w')) = api_keys (bd_tenants (wk_db w))"
  using assms by (auto elim!: update_progress_Inr dest!: put_all simp: same_self_def)

lemma mark_core [simp]: "map core (mark_embedded ids cs) = map core cs" "map core (mark_indexed ids cs) = map core cs"
  by (auto simp: mark_embedded_def mark_indexed_def core_def)

lemma chunk_rows_core:
  "chunk_rows parse i k cs = Some rows \<Longrightarrow> map cr_chunk rows = cs \<and> (\<forall>c \<in> set rows. cr_runtime c = i \<and> k \<le> cr_id c)"
proof (induction cs arbitrary: k rows)
  case (Cons c cs)
  then obtain rs where "chunk_rows parse i (Suc k) cs = Some rs" "map cr_chunk rows = c # map cr_chunk rs"
    "\<forall>x \<in> set rows. x \<in> set rs \<or> cr_runtime x = i \<and> cr_id x = k"
    by (auto split: option.splits)
  with Cons.IH [of "Suc k" rs] show ?case by fastforce
qed simp

text \<open>The stages on the other tables.\<close>

lemma stage_tables:
  assumes "stage_method env s w = Inr w'"
  shows "bd_kbs (wk_db w') = bd_kbs (wk_db w)" and "bd_documents (wk_db w') = bd_documents (wk_db w)"
    and "bd_next (wk_db w) \<le> bd_next (wk_db w')"
    and "s \<noteq> ''chunk_documents'' \<Longrightarrow> map core (bd_chunks (wk_db w')) = map core (bd_chunks (wk_db w))"
    and "s \<noteq> ''store_embeddings'' \<Longrightarrow> bd_vectors (wk_db w') = bd_vectors (wk_db w)"
    and "s \<noteq> ''generate_api_key'' \<Longrightarrow> api_keys (bd_tenants (wk_db w')) = api_keys (bd_tenants (wk_db w))"
proof -
  have "bd_kbs (wk_db w') = bd_kbs (wk_db w) \<and> bd_documents (wk_db w') = bd_documents (wk_db w) \<and>
    bd_next (wk_db w) \<le> bd_next (wk_db w') \<and>
    (s \<noteq> ''chunk_documents'' \<longrightarrow> map core (bd_chunks (wk_db w')) = map core (bd_chunks (wk_db w))) \<and>
    (s \<noteq> ''store_embeddings'' \<longrightarrow> bd_vectors (wk_db w') = bd_vectors (wk_db w)) \<and>
    (s \<noteq> ''generate_api_key'' \<longrightarrow> api_keys (bd_tenants (wk_db w')) = api_keys (bd_tenants (wk_db w)))"
    using assms
  proof (cases rule: stage_cases)
    case (flush f)
    then show ?thesis by (simp add: put_frames)
  next
    case chunk
    from chunk(2) show ?thesis
      by (cases rule: chunk_Inr) (auto dest!: put_all simp: chunk(1) add_chunks_def)
  next
    case generate
    from generate(2) show ?thesis
      by (rule generate_Inr) (auto dest!: put_all simp: embed_chunks_frames)
  next
    case store
    from store(2) show ?thesis
      by (rule store_Inr) (auto dest!: put_all simp: store(1) store_vectors_def)
  next
    case key
    from key(2) show ?thesis by (rule key_Inr) (auto dest!: put_all simp: key(1))
  qed simp
  then show "bd_kbs (wk_db w') = bd_kbs (wk_db w)" and "bd_documents (wk_db w') = bd_documents (wk_db w)"
    and "bd_next (wk_db w) \<le> bd_next (wk_db w')"
    and "s \<noteq> ''chunk_documents'' \<Longrightarrow> map core (bd_chunks (wk_db w')) = map core (bd_chunks (wk_db w))"
    and "s \<noteq> ''store_embeddings'' \<Longrightarrow> bd_vectors (wk_db w') = bd_vectors (wk_db w)"
    and "s \<noteq> ''generate_api_key'' \<Longrightarrow> api_keys (bd_tenants (wk_db w')) = api_keys (bd_tenants (wk_db w))" by blast+
qed

lemma stages_distinct: "distinct RUNTIME_STAGES"
  by code_simp

lemma stage_index:
  assumes "n < 12" and "k < 12" and "RUNTIME_STAGES ! k = s"
  shows "RUNTIME_STAGES ! n = s \<longleftrightarrow> n = k"
  using assms nth_eq_iff_index_eq [OF stages_distinct, of n k] by (simp add: RUNTIME_STAGES_length)

lemma stage_places:
  "RUNTIME_STAGES ! 6 = ''chunk_documents''" "RUNTIME_STAGES ! 8 = ''store_embeddings''" "RUNTIME_STAGES ! 10 = ''generate_api_key''"
  by code_simp+

section \<open>API keys\<close>

definition key_added :: "api_key list \<Rightarrow> uuid \<Rightarrow> nat \<Rightarrow> worker \<Rightarrow> bool" where
  "key_added ks i n w = (rt_id (wk_me w) = i \<and>
     (if n \<le> 10 then api_keys (bd_tenants (wk_db w)) = ks
      else \<exists>k. api_keys (bd_tenants (wk_db w)) = ks @ [k] \<and> key_runtime k = Some i \<and> \<not> revoked k \<and> key_expires k = None \<and> ''read'' \<in> set (scopes k)))"

lemma key_stage_adds:
  assumes "stage_generate_api_key env w = Inr w'"
  shows "\<exists>k. api_keys (bd_tenants (wk_db w')) = api_keys (bd_tenants (wk_db w)) @ [k] \<and> key_runtime k = Some (rt_id (wk_me w)) \<and>
    \<not> revoked k \<and> key_expires k = None \<and> ''read'' \<in> set (scopes k)"
  using assms
  by (rule key_Inr) (auto dest!: put_all simp: insert_key_def runtime_key_def Let_def split: if_splits)

interpretation key_added: build_invariant "key_added ks i" "key_added ks i" env alone for ks i env
proof
  show "key_added ks i n w \<Longrightarrow> key_added ks i n (with_db (\<lambda>db. db) w)" for n w by simp
  show "key_added ks i n (log_stage (RUNTIME_STAGES ! n) w')"
    if "key_added ks i n w" "update_build_progress env (RUNTIME_STAGES ! n) n w = Inr w'" for n w w'
    using that(1) progress_tables(1,7) [OF that(2)] by (simp add: key_added_def same_self_def)
  show "key_added ks i (Suc n) (set_log j Log_Completed w')"
    if "key_added ks i n w" "n < 12" "stage_method env (RUNTIME_STAGES ! n) w = Inr w'" for n w w' j
  proof (cases "n = 10")
    case True
    then have "stage_generate_api_key env w = Inr w'" using that(3) stage_places(3) by (simp add: stage_method_def)
    from key_stage_adds [OF this] show ?thesis
      using that(1) True stage_self [OF that(3)] by (auto simp: key_added_def same_self_def)
  next
    case False
    then have "api_keys (bd_tenants (wk_db w')) = api_keys (bd_tenants (wk_db w))"
      using stage_tables(6) [OF that(3)] stage_index [OF that(2) _ stage_places(3)] by simp
    then show ?thesis using that(1) False stage_self [OF that(3)] by (auto simp: key_added_def same_self_def)
  qed
qed

text \<open>
  Every successful build adds one live API key for the runtime, which never expires, and revokes
  none: the keys of earlier builds keep authenticating, and the new secret is shown to nobody.
\<close>

theorem rebuild_adds_key:
  assumes "run_build env alone b i db = (db', Built)"
  shows "\<exists>k. api_keys (bd_tenants db') = api_keys (bd_tenants db) @ [k] \<and> key_runtime k = Some i \<and> \<not> revoked k \<and> key_expires k = None"
  using assms
proof (rule key_added.built_keeps)
  show "key_added (api_keys (bd_tenants db)) i 0 \<lparr>wk_db = drop_chunks i db, wk_me = r, wk_generated = [], wk_build = b\<rparr>"
    if "find_runtime db i = Some r" for r
    using runtime_repo.get_ident [OF that] by (simp add: key_added_def drop_chunks_def)
  fix w w' assume "key_added (api_keys (bd_tenants db)) i 12 w" "finish env w = (w', None)" "db' = wk_db w'"
  then show ?thesis using finish_frames(3) [of env w w'] by (auto simp: key_added_def)
qed

theorem rebuild_adds_key_witness:
  "\<exists>db' k. run_build sample_build_env alone 50 9 sample_build_db = (db', Built) \<and> api_keys (bd_tenants db') = [k] \<and> \<not> revoked k"
proof -
  obtain db' where r: "run_build sample_build_env alone 50 9 sample_build_db = (db', Built)"
    using sample_build_alone by (metis surjective_pairing)
  have "api_keys (bd_tenants sample_build_db) = []" by (simp add: sample_build_db_def)
  with rebuild_adds_key [OF r] r show ?thesis by auto
qed

section \<open>Vectors\<close>

definition old_vector :: "vector_row \<Rightarrow> uuid \<Rightarrow> nat \<Rightarrow> worker \<Rightarrow> bool" where
  "old_vector v i n w = (rt_id (wk_me w) = i \<and> v \<in> set (bd_vectors (wk_db w)) \<and> vr_id v < bd_next (wk_db w) \<and>
     (\<forall>c \<in> set (map core (bd_chunks (wk_db w))). fst (snd c) = i \<longrightarrow> vr_id v < fst c))"

lemma upsert_keeps: "v \<in> set vs \<Longrightarrow> vr_id u \<noteq> vr_id v \<Longrightarrow> v \<in> set (upsert_vector vs u)"
  by (auto simp: upsert_vector_def put_row_def split: option.splits)

lemma foldl_upsert_keeps: "v \<in> set vs \<Longrightarrow> \<forall>u \<in> set us. vr_id u \<noteq> vr_id v \<Longrightarrow> v \<in> set (foldl upsert_vector vs us)"
  by (induction us arbitrary: vs) (auto intro: upsert_keeps)

lemma vectors_of_mine: "u \<in> set (List.map_filter (vector_of w) (my_chunks w)) \<Longrightarrow> \<exists>c \<in> set (bd_chunks (wk_db w)). cr_runtime c = rt_id (wk_me w) \<and> vr_id u = cr_id c"
  by (auto simp: List.map_filter_def vector_of_def my_chunks_def split: if_splits option.splits list.splits)

lemma old_vector_stage:
  assumes "old_vector v i n w" and "stage_method env s w = Inr w'"
  shows "old_vector v i (Suc n) w'"
proof -
  have me: "rt_id (wk_me w') = i" using assms(1) stage_self [OF assms(2)] by (simp add: old_vector_def same_self_def)
  have nx: "vr_id v < bd_next (wk_db w')" using assms(1) stage_tables(3) [OF assms(2)] by (simp add: old_vector_def)
  have old: "\<forall>c \<in> set (map core (bd_chunks (wk_db w))). fst (snd c) = i \<longrightarrow> vr_id v < fst c" "v \<in> set (bd_vectors (wk_db w))"
    using assms(1) by (simp_all add: old_vector_def)
  have chunks: "\<forall>c \<in> set (map core (bd_chunks (wk_db w'))). fst (snd c) = i \<longrightarrow> vr_id v < fst c"
  proof (cases "s = ''chunk_documents''")
    case True
    with assms(2) have "stage_chunk_documents env w = Inr w'" by (simp add: stage_method_def)
    then show ?thesis
    proof (cases rule: chunk_Inr)
      case 1
      then show ?thesis using old by (simp add: put_frames(4))
    next
      case (2 cs rows)
      have "bd_chunks (wk_db w') = bd_chunks (wk_db w) @ rows" using put_frames(4) [OF 2(4)] by (simp add: add_chunks_def)
      moreover have "\<forall>c \<in> set rows. vr_id v < cr_id c"
        using chunk_rows_core [OF 2(3)] assms(1) by (auto simp: old_vector_def)
      ultimately show ?thesis using old by (auto simp: core_def)
    qed
  next
    case False
    with old(1) stage_tables(4) [OF assms(2)] show ?thesis by simp
  qed
  have "v \<in> set (bd_vectors (wk_db w'))"
  proof (cases "s = ''store_embeddings''")
    case True
    with assms(2) have "stage_store_embeddings env w = Inr w'" by (simp add: stage_method_def)
    then obtain w1 where
      "put (\<lambda>r. r\<lparr>rt_index_size := int (length (List.map_filter (vector_of w) (my_chunks w)))\<rparr>)
        (with_db (store_vectors (rt_vector_store (wk_me w)) (List.map_filter (vector_of w) (my_chunks w))) w) = Inr w1"
      "put (\<lambda>r. r\<lparr>rt_status := ''building''\<rparr>) w1 = Inr w'" by (rule store_Inr)
    then have "bd_vectors (wk_db w') = (if rt_vector_store (wk_me w) = ''pgvector''
        then foldl upsert_vector (bd_vectors (wk_db w)) (List.map_filter (vector_of w) (my_chunks w)) else bd_vectors (wk_db w))"
      by (auto dest!: put_all simp: store_vectors_def)
    moreover have "\<forall>u \<in> set (List.map_filter (vector_of w) (my_chunks w)). vr_id u \<noteq> vr_id v"
      using vectors_of_mine [of _ w] assms(1) by (fastforce simp: old_vector_def core_def)
    ultimately show ?thesis using foldl_upsert_keeps [OF old(2)] old(2) by simp
  next
    case False
    with old(2) stage_tables(5) [OF assms(2)] show ?thesis by simp
  qed
  with me nx chunks show ?thesis by (simp add: old_vector_def)
qed

interpretation old_vector: build_invariant "old_vector v i" "old_vector v i" env alone for v i env
proof
  show "old_vector v i n w \<Longrightarrow> old_vector v i n (with_db (\<lambda>db. db) w)" for n w by simp
  show "old_vector v i n (log_stage (RUNTIME_STAGES ! n) w')"
    if "old_vector v i n w" "update_build_progress env (RUNTIME_STAGES ! n) n w = Inr w'" for n w w'
    using that(1) progress_tables [OF that(2)] by (simp add: old_vector_def same_self_def)
  show "old_vector v i (Suc n) (set_log j Log_Completed w')"
    if "old_vector v i n w" "stage_method env (RUNTIME_STAGES ! n) w = Inr w'" for n w w' j
    using old_vector_stage [OF that] by (simp add: old_vector_def)
qed

text \<open>
  C37. A rebuild keeps every vector of an earlier build, although the chunk it belongs to is gone:
  searches go on finding it, also when its document has changed.
\<close>

theorem rebuild_keeps_old_vectors:
  assumes "run_build env alone b i db = (db', Built)" and "v \<in> set (bd_vectors db)" and "vr_id v < bd_next db"
  shows "v \<in> set (bd_vectors db') \<and> (\<forall>c \<in> set (bd_chunks db'). cr_runtime c = i \<longrightarrow> cr_id c \<noteq> vr_id v)"
  using assms(1)
proof (rule old_vector.built_keeps)
  show "old_vector v i 0 \<lparr>wk_db = drop_chunks i db, wk_me = r, wk_generated = [], wk_build = b\<rparr>"
    if "find_runtime db i = Some r" for r
    using runtime_repo.get_ident [OF that] assms(2,3) by (auto simp: old_vector_def drop_chunks_def core_def)
  fix w w' assume "old_vector v i 12 w" "finish env w = (w', None)" "db' = wk_db w'"
  then show ?thesis using finish_frames [of env w w'] by (auto simp: old_vector_def core_def)
qed

theorem rebuild_keeps_old_vectors_witness:
  "\<exists>db'. run_build sample_build_env alone 50 9 sample_build_db = (db', Built) \<and> old_vector_row \<in> set (bd_vectors db') \<and>
    (\<forall>c \<in> set (bd_chunks db'). cr_runtime c = 9 \<longrightarrow> cr_id c \<noteq> 60)"
proof -
  obtain db' where r: "run_build sample_build_env alone 50 9 sample_build_db = (db', Built)"
    using sample_build_alone by (metis surjective_pairing)
  have "old_vector_row \<in> set (bd_vectors sample_build_db)" "vr_id old_vector_row < bd_next sample_build_db" "vr_id old_vector_row = 60"
    by (simp_all add: sample_build_db_def old_vector_row_def)
  with rebuild_keeps_old_vectors [OF r, of old_vector_row] r show ?thesis by auto
qed

section \<open>Chunks\<close>

definition indexed :: "runtime \<Rightarrow> build_db \<Rightarrow> (string \<Rightarrow> string) \<Rightarrow> nat \<Rightarrow> worker \<Rightarrow> bool" where
  "indexed r db hash n w =
     (rt_id (wk_me w) = rt_id r \<and> rt_project (wk_me w) = rt_project r \<and> rt_chunk_size (wk_me w) = rt_chunk_size r \<and>
      rt_chunk_overlap (wk_me w) = rt_chunk_overlap r \<and> bd_kbs (wk_db w) = bd_kbs db \<and> bd_documents (wk_db w) = bd_documents db \<and>
      (let mine = filter (\<lambda>c. fst (snd c) = rt_id r) (map core (bd_chunks (wk_db w))) in
       if n \<le> 6 then mine = []
       else chunk_documents hash (document_rows (build_documents w)) (rt_chunk_size r) (rt_chunk_overlap r) = Some (map (snd \<circ> snd \<circ> snd) mine)))"

lemma build_documents_cong:
  "bd_kbs (wk_db w') = bd_kbs (wk_db w) \<Longrightarrow> bd_documents (wk_db w') = bd_documents (wk_db w) \<Longrightarrow>
   rt_project (wk_me w') = rt_project (wk_me w) \<Longrightarrow> build_documents w' = build_documents w"
  by (simp add: build_documents_def project_documents_def split: option.split)

lemma build_documents_log [simp]:
  "build_documents (log_stage s w) = build_documents w" "build_documents (set_log j st w) = build_documents w"
  by (rule build_documents_cong; simp)+

lemma indexed_stage:
  assumes "indexed r db (be_hash env) n w" and "n < 12" and "stage_method env (RUNTIME_STAGES ! n) w = Inr w'"
  shows "indexed r db (be_hash env) (Suc n) w'"
proof -
  let ?mine = "\<lambda>w. filter (\<lambda>c. fst (snd c) = rt_id r) (map core (bd_chunks (wk_db w)))"
  have same: "rt_id (wk_me w') = rt_id r" "rt_project (wk_me w') = rt_project r" "rt_chunk_size (wk_me w') = rt_chunk_size r"
    "rt_chunk_overlap (wk_me w') = rt_chunk_overlap r" "bd_kbs (wk_db w') = bd_kbs db" "bd_documents (wk_db w') = bd_documents db"
    using assms(1) stage_self [OF assms(3)] stage_tables(1,2) [OF assms(3)] by (simp_all add: indexed_def same_self_def)
  have docs: "build_documents w' = build_documents w"
    using same assms(1) by (intro build_documents_cong) (simp_all add: indexed_def)
  show ?thesis
  proof (cases "n = 6")
    case False
    then have "?mine w' = ?mine w" using stage_tables(4) [OF assms(3)] stage_index [OF assms(2) _ stage_places(1)] by simp
    with assms(1) same docs False show ?thesis by (auto simp: indexed_def Let_def)
  next
    case True
    then have "stage_chunk_documents env w = Inr w'" using assms(3) stage_places(1) by (simp add: stage_method_def)
    then have "chunk_documents (be_hash env) (document_rows (build_documents w)) (rt_chunk_size r) (rt_chunk_overlap r) =
        Some (map (snd \<circ> snd \<circ> snd) (?mine w'))"
    proof (cases rule: chunk_Inr)
      case 1
      have "bd_chunks (wk_db w') = bd_chunks (wk_db w)" using put_frames(4) [OF 1(2)] .
      with assms(1) True 1(1) show ?thesis by (simp add: indexed_def document_rows_def)
    next
      case (2 cs rows)
      have b: "bd_chunks (wk_db w') = bd_chunks (wk_db w) @ rows" using put_frames(4) [OF 2(4)] by (simp add: add_chunks_def)
      have rows: "map cr_chunk rows = cs" "\<forall>c \<in> set rows. cr_runtime c = rt_id r"
        using chunk_rows_core [OF 2(3)] assms(1) by (auto simp: indexed_def)
      have "?mine w = []" using assms(1) True by (simp add: indexed_def Let_def)
      then have "?mine w' = map core rows" using rows(2) by (simp add: b filter_id_conv core_def filter_map comp_def)
      then have "map (snd \<circ> snd \<circ> snd) (?mine w') = cs" using rows(1) by (simp add: core_def comp_def)
      with 2(2) assms(1) show ?thesis by (simp add: indexed_def)
    qed
    with same docs True show ?thesis by (simp add: indexed_def Let_def)
  qed
qed

interpretation indexed: build_invariant "indexed r db (be_hash env)" "indexed r db (be_hash env)" env alone for r db env
proof
  show "indexed r db (be_hash env) n w \<Longrightarrow> indexed r db (be_hash env) n (with_db (\<lambda>db. db) w)" for n w by simp
  show "indexed r db (be_hash env) n (log_stage (RUNTIME_STAGES ! n) w')"
    if "indexed r db (be_hash env) n w" "update_build_progress env (RUNTIME_STAGES ! n) n w = Inr w'" for n w w'
    using that(1) progress_tables [OF that(2)] build_documents_cong [of w' w]
    by (simp add: indexed_def same_self_def Let_def)
  show "indexed r db (be_hash env) (Suc n) (set_log j Log_Completed w')"
    if "indexed r db (be_hash env) n w" "n < 12" "stage_method env (RUNTIME_STAGES ! n) w = Inr w'" for n w w' j
    using indexed_stage [OF that] by (simp add: indexed_def Let_def)
qed

text \<open>
  C25. After a successful build the chunks of the runtime are exactly those the chunker makes of the
  project's documents with the runtime's size and overlap, in order.
\<close>

theorem build_indexes_documents:
  assumes "run_build env alone b i db = (db', Built)" and "find_runtime db i = Some r"
  shows "chunk_documents (be_hash env) (document_rows (case rt_project r of None \<Rightarrow> [] | Some p \<Rightarrow> project_documents db p))
      (rt_chunk_size r) (rt_chunk_overlap r) = Some (map cr_chunk (filter (\<lambda>c. cr_runtime c = i) (bd_chunks db')))"
proof -
  have id: "rt_id r = i" using runtime_repo.get_ident [OF assms(2)] .
  from assms(1) show ?thesis
  proof (rule indexed.built_keeps)
    show "indexed r db (be_hash env) 0 \<lparr>wk_db = drop_chunks i db, wk_me = r', wk_generated = [], wk_build = b\<rparr>"
      if "find_runtime db i = Some r'" for r'
      using that assms(2) id by (auto simp: indexed_def drop_chunks_def core_def filter_empty_conv)
    fix w w' assume w: "indexed r db (be_hash env) 12 w" "finish env w = (w', None)" "db' = wk_db w'"
    have "map (snd \<circ> snd \<circ> snd) (filter (\<lambda>c. fst (snd c) = rt_id r) (map core (bd_chunks (wk_db w)))) =
        map cr_chunk (filter (\<lambda>c. cr_runtime c = i) (bd_chunks (wk_db w)))"
      by (simp add: filter_map comp_def core_def id)
    moreover have "build_documents w = (case rt_project r of None \<Rightarrow> [] | Some p \<Rightarrow> project_documents db p)"
      using w(1) by (simp add: indexed_def build_documents_def project_documents_def split: option.split)
    ultimately show ?thesis using w finish_frames(1) [OF w(2)] by (simp add: indexed_def Let_def)
  qed
qed

theorem build_indexes_documents_witness:
  "\<exists>db' cs. run_build sample_build_env alone 50 9 sample_build_db = (db', Built) \<and>
    map cr_chunk (filter (\<lambda>c. cr_runtime c = 9) (bd_chunks db')) = cs \<and> map ck_content cs = [''New.'']"
proof -
  obtain db' where r: "run_build sample_build_env alone 50 9 sample_build_db = (db', Built)"
    using sample_build_alone by (metis surjective_pairing)
  have f: "find_runtime sample_build_db 9 = Some sample_build_runtime" by code_simp
  have "map_option (map ck_content) (chunk_documents (be_hash sample_build_env)
      (document_rows (case rt_project sample_build_runtime of None \<Rightarrow> [] | Some p \<Rightarrow> project_documents sample_build_db p))
      (rt_chunk_size sample_build_runtime) (rt_chunk_overlap sample_build_runtime)) = Some [''New.'']" by code_simp
  with build_indexes_documents [OF r f] r show ?thesis by auto
qed

end
