(* ===== verification/Runtime_Rules.thy ===== *)
theory Runtime_Rules
  imports Runtime_Sample
begin

text \<open>
  What the runtime service promises: which runtimes a build is queued for, that an update
  leaves a provider with a model of its own, and that a project keeps its runtime.
\<close>

section \<open>The gate before a build\<close>

text \<open>A provider is ready when the service supports it and finds a key for it that is not blank.\<close>

definition provider_ready ::
  "(string \<Rightarrow> string option) \<Rightarrow> (string \<Rightarrow> string option) \<Rightarrow> runtime \<Rightarrow> build_db \<Rightarrow> string \<Rightarrow> bool" where
  "provider_ready open_secret settings r db p =
     (clean_name p \<in> set MODEL_PROVIDERS \<and>
      (\<exists>k. fst (resolve_provider_key open_secret settings (bd_connections db) (clean_name p) (rt_project r) (rt_organization r)) = Some k \<and>
        str_strip k \<noteq> []))"

definition build_ready ::
  "(string \<Rightarrow> string option) \<Rightarrow> (string \<Rightarrow> string option) \<Rightarrow> runtime \<Rightarrow> build_db \<Rightarrow> bool" where
  "build_ready open_secret settings r db =
     (\<exists>p. rt_project r = Some p \<and>
       (\<forall>n \<in> {clean_name (rt_provider r), embedding_provider_name r}. n = [] \<or> provider_ready open_secret settings r db n) \<and>
       (\<forall>g \<in> set (bd_integrations db). ig_runtime g = rt_id r \<and> ig_enabled g \<and> ig_required g \<longrightarrow> ig_status g = ''connected'') \<and>
       (requires_documents r db \<longrightarrow> project_documents db p \<noteq> []))"

lemma credential_problem_None:
  "credential_problem op st (bd_connections db) p (rt_project r) (rt_organization r) = None \<longleftrightarrow> provider_ready op st r db p"
  by (auto simp: credential_problem_def provider_ready_def split: option.splits)

lemma provider_requirements_Nil:
  assumes "rt_project r = Some p"
  shows "provider_requirements op st r db = [] \<longleftrightarrow>
    (\<forall>n \<in> {clean_name (rt_provider r), embedding_provider_name r}. n = [] \<or> provider_ready op st r db n)"
proof -
  define f where "f n = (if n = [] then [] else case credential_problem op st (bd_connections db) n (rt_project r) (rt_organization r) of
      None \<Rightarrow> [] | Some why \<Rightarrow> [(n, why)])" for n
  have f: "f n = [] \<longleftrightarrow> n = [] \<or> provider_ready op st r db n" for n
    by (simp add: f_def credential_problem_None [symmetric] split: option.split)
  show ?thesis
    using assms unfolding provider_requirements_def Let_def f_def [symmetric] by (auto simp: f)
qed

lemma missing_connections_Nil:
  "missing_connections i db = [] \<longleftrightarrow>
    (\<forall>g \<in> set (bd_integrations db). ig_runtime g = i \<and> ig_enabled g \<and> ig_required g \<longrightarrow> ig_status g = ''connected'')"
  by (auto simp: missing_connections_def filter_empty_conv)

lemma await_queue [simp]: "bd_queue (await r s db) = bd_queue db"
  by (simp add: await_def save_runtime_def with_runtimes_def)

lemma save_runtime_queue [simp]: "bd_queue (save_runtime r db) = bd_queue db"
  by (simp add: save_runtime_def with_runtimes_def)

lemma save_runtime_found [simp]: "rt_id r = i \<Longrightarrow> find_runtime db i = Some r0 \<Longrightarrow> find_runtime (save_runtime r db) i = Some r"
  using runtime_repo.get_save_same [of db r r0] by simp

lemma await_found [simp]:
  "rt_id r = i \<Longrightarrow> find_runtime db i = Some r0 \<Longrightarrow>
    find_runtime (await r s db) i = Some (r\<lparr>rt_status := s, rt_error := None\<rparr>)"
  by (simp add: await_def)

lemma queue_update_found [simp]: "find_runtime (db\<lparr>bd_queue := q\<rparr>) i = find_runtime db i"
  by (simp add: find_runtime_def)

lemma enqueue_sample: "snd (enqueue_build Some (\<lambda>_. Some ''secret'') True 0 ''manual'' 9 sample_build_db) = Inr ''building''"
  by code_simp

text \<open>
  C26. A build is queued exactly for a runtime that has a project, a key for its model provider and
  its embedding provider, its required connections and, where it needs them, documents; the
  queue then grows by that build alone, the row is marked as building, and no other runtime's
  build is ever queued. In every other case the queue is as it was and the row says why.
\<close>

theorem build_queued_exactly_when_ready:
  assumes "find_runtime db i = Some r" and "enqueue_build op st broker now t i db = (db', res)"
  shows "bd_queue db' = bd_queue db @ (if build_ready op st r db \<and> broker then [(i, t)] else []) \<and>
    (\<exists>r'. find_runtime db' i = Some r' \<and>
      rt_status r' = (case res of Inr s \<Rightarrow> s | Inl e \<Rightarrow> ''failed'') \<and>
      (res = Inr ''building'' \<longleftrightarrow> build_ready op st r db \<and> broker) \<and>
      (res = Inl Queue_Error \<longleftrightarrow> build_ready op st r db \<and> \<not> broker))"
proof -
  have id: "rt_id r = i" using assms(1) by (rule runtime_repo.get_ident)
  show ?thesis
  proof (cases "rt_project r")
    case None
    with assms id show ?thesis by (auto simp: enqueue_build_def build_ready_def)
  next
    case (Some p)
    have ready: "build_ready op st r db \<longleftrightarrow> provider_requirements op st r db = [] \<and> missing_connections (rt_id r) db = [] \<and>
        (requires_documents r db \<longrightarrow> project_documents db p \<noteq> [])"
      using Some by (simp add: build_ready_def provider_requirements_Nil missing_connections_Nil)
    from assms id Some show ?thesis
      unfolding ready enqueue_build_def by (auto simp: Let_def split: if_splits)
  qed
qed

theorem build_queued_exactly_when_ready_witness:
  "bd_queue (fst (enqueue_build Some (\<lambda>_. Some ''secret'') True 0 ''manual'' 9 sample_build_db)) = [(9, ''manual'')]"
proof -
  obtain db' where e: "enqueue_build Some (\<lambda>_. Some ''secret'') True 0 ''manual'' 9 sample_build_db = (db', Inr ''building'')"
    using enqueue_sample by (metis surjective_pairing)
  have "find_runtime sample_build_db 9 = Some sample_build_runtime" and "bd_queue sample_build_db = []"
    by (code_simp, simp add: sample_build_db_def)
  with build_queued_exactly_when_ready [OF _ e] e show ?thesis by auto
qed

section \<open>Providers and models\<close>







lemma strip_prefix:
  assumes "w \<noteq> []" and "\<not> is_space (hd w)" and "\<not> is_space (last w)"
  shows "\<exists>u. str_strip (w @ s) = w @ u"
proof -
  have w: "dropWhile is_space (w @ s) = w @ s" using assms(1,2) by (cases w) simp_all
  have r: "dropWhile is_space (rev w) = rev w" using assms(1,3) by (cases w rule: rev_cases) simp_all
  have eq: "str_strip (w @ s) = rev (dropWhile is_space (rev s @ rev w))" by (simp only: str_strip_def w rev_append)
  show ?thesis
  proof (cases "\<forall>x \<in> set s. is_space x")
    case True
    then have "str_strip (w @ s) = w @ []" unfolding eq using dropWhile_append2 [of "rev s" is_space "rev w"] r by simp
    then show ?thesis ..
  next
    case False
    then have "str_strip (w @ s) = w @ rev (dropWhile is_space (rev s))" unfolding eq by (auto simp: dropWhile_append1)
    then show ?thesis ..
  qed
qed

text \<open>
  The table lists \<open>mistral.\<close> as a prefix of Bedrock's models, but the prefixes of Mistral come
  first and one of them is shorter: a model of Bedrock's whose name begins with \<open>mistral.\<close> is
  always attributed to Mistral, so that no runtime on Bedrock can be created or updated to use it.
\<close>

theorem bedrock_mistral_rejected:
  "\<exists>w. provider_model_mismatch (Some ''bedrock'') (Some (''mistral.'' @ rest)) = Some w"
proof -
  obtain u where u: "str_strip (''mistral.'' @ rest) = ''mistral.'' @ u"
    using strip_prefix [of "''mistral.''" rest] by (auto simp: is_space_def)
  have "clean_name (''mistral.'' @ rest) = ''mistral.'' @ str_lower u"
    unfolding clean_name_def u by (simp add: str_lower_def lower_char_def)
  then have "infer_provider_for_model (Some (''mistral.'' @ rest)) = Some ''mistral''"
    by (simp add: infer_provider_for_model_def MODEL_PREFIXES_def)
  moreover have "clean_name ''bedrock'' = ''bedrock''" by code_simp
  ultimately show ?thesis by (simp add: provider_model_mismatch_def truthy_def AGGREGATORS_def)
qed

text \<open>
  The first part of an embedding model's name selects its provider. A runtime whose embedding
  model is Voyage's or Cohere's (providers that the embedding service implements) can never be
  built: no key is looked up for a provider outside the list of model providers, so that its
  build waits for credentials for ever, whatever keys are configured.
\<close>

theorem foreign_embeddings_never_build:
  assumes "find_runtime db i = Some r" and "rt_project r = Some p"
    and "embedding_provider_name r \<in> {''voyage'', ''cohere''}"
  shows "snd (enqueue_build op st broker now t i db) = Inr ''awaiting_provider_credentials''"
proof -
  have "clean_name ''voyage'' \<notin> set MODEL_PROVIDERS" and "clean_name ''cohere'' \<notin> set MODEL_PROVIDERS"
    by (code_simp, code_simp)
  with assms(3) have "\<not> provider_ready op st r db (embedding_provider_name r) \<and> embedding_provider_name r \<noteq> []"
    by (auto simp: provider_ready_def)
  then have "provider_requirements op st r db \<noteq> []" unfolding provider_requirements_Nil [OF assms(2)] by blast
  with assms(1,2) show ?thesis by (simp add: enqueue_build_def)
qed

definition voyage_db :: build_db where
  "voyage_db = save_runtime (sample_build_runtime\<lparr>rt_embedding_model := ''voyage/voyage-3''\<rparr>) sample_build_db"

theorem foreign_embeddings_never_build_witness:
  "snd (enqueue_build Some (\<lambda>_. Some ''secret'') True 0 ''manual'' 9 voyage_db) = Inr ''awaiting_provider_credentials''"
proof -
  have "find_runtime voyage_db 9 = Some (sample_build_runtime\<lparr>rt_embedding_model := ''voyage/voyage-3''\<rparr>)"
    and "rt_project (sample_build_runtime\<lparr>rt_embedding_model := ''voyage/voyage-3''\<rparr>) = Some 5"
    and "embedding_provider_name (sample_build_runtime\<lparr>rt_embedding_model := ''voyage/voyage-3''\<rparr>) \<in> {''voyage'', ''cohere''}"
    by code_simp+
  then show ?thesis by (rule foreign_embeddings_never_build)
qed

section \<open>Propagation\<close>

text \<open>
  Propagating a change of the documents does nothing while the runtime has a chunk: whatever the
  documents are, no build is queued and no chunk changes, yet the task reports success. Without
  chunks it reports a queued rebuild also when the gate kept the build out of the queue.
\<close>

theorem propagation_only_stamps:
  assumes "find_runtime db i = Some r" and "c \<in> set (bd_chunks db)" and "cr_runtime c = i"
  shows "propagate_runtime op st broker now i db = (save_runtime (r\<lparr>rt_last_propagated := Some now\<rparr>) db, Propagated) \<and>
    bd_queue (fst (propagate_runtime op st broker now i db)) = bd_queue db \<and>
    bd_chunks (fst (propagate_runtime op st broker now i db)) = bd_chunks db"
proof -
  have "filter (\<lambda>c. cr_runtime c = i) (bd_chunks db) \<noteq> []" using assms(2,3) by (auto simp: filter_empty_conv)
  then have "propagate_runtime op st broker now i db = (save_runtime (r\<lparr>rt_last_propagated := Some now\<rparr>) db, Propagated)"
    using assms(1) by (simp add: propagate_runtime_def detect_changes_def Let_def)
  then show ?thesis by (simp add: save_runtime_def with_runtimes_def)
qed

theorem rebuild_reported_unqueued:
  assumes "find_runtime db i = Some r" and "\<forall>c \<in> set (bd_chunks db). cr_runtime c \<noteq> i" and "rt_project r = None"
  shows "snd (propagate_runtime op st broker now i db) = Full_Rebuild_Queued \<and>
    bd_queue (fst (propagate_runtime op st broker now i db)) = bd_queue db"
proof -
  have "filter (\<lambda>c. cr_runtime c = i) (bd_chunks db) = []" using assms(2) by (auto simp: filter_empty_conv)
  with assms(1,3) show ?thesis by (simp add: propagate_runtime_def detect_changes_def Let_def enqueue_build_def)
qed

end
