(* ===== verification/Accounts.thy ===== *)
theory Accounts
  imports Tenancy
begin

text \<open>
  \<open>app/api/v1/auth/router.py\<close> with \<open>app/core/security.py\<close>: registration, login, sessions, refresh
  tokens, password reset and email verification. The clock, bcrypt, SHA-256, the cipher of stored
  secrets and the random tokens are arguments; a request's cookies and client address arrive as
  values. An exception that no handler catches is \<open>HTTP 500\<close>, with nothing committed.
\<close>

section \<open>Rows and environment\<close>

record refresh_row =
  rf_id :: uuid
  rf_user :: uuid
  rf_hash :: string
  rf_expires :: instant
  rf_revoked :: bool

text \<open>The rows of \<open>password_reset_tokens\<close> and of \<open>email_verification_tokens\<close>.\<close>

record code_row =
  cd_id :: uuid
  cd_user :: uuid
  cd_hash :: string
  cd_expires :: instant
  cd_used :: bool

record account_db =
  acc_tenants :: tenant_db
  acc_refresh :: "refresh_row list"
  acc_resets :: "code_row list"
  acc_verifications :: "code_row list"
  acc_attempts :: "string \<Rightarrow> instant list"    \<comment> \<open>of this process, on its monotonic clock\<close>
  acc_next :: uuid

text \<open>\<open>ae_check\<close> is \<open>bcrypt.checkpw\<close> (\<open>None\<close>: it raises), \<open>ae_password\<close> \<open>bcrypt.hashpw\<close> with its salt,
  \<open>ae_mac\<close> the HMAC-SHA1 digest of a counter under a base32 key (\<open>None\<close>: not base32).\<close>

record account_env =
  ae_hash :: "string \<Rightarrow> string"
  ae_check :: "string \<Rightarrow> string \<Rightarrow> bool option"
  ae_password :: "string \<Rightarrow> string option"
  ae_mac :: "string \<Rightarrow> int \<Rightarrow> nat list option"
  ae_open :: "string \<Rightarrow> string option"
  ae_slug :: "uuid \<Rightarrow> string"
  ae_now :: instant
  ae_monotonic :: instant

definition MINUTE :: instant where "MINUTE = 60 * 1000000"

definition PASSWORD_MIN_LENGTH :: nat where "PASSWORD_MIN_LENGTH = 8"

definition SESSION_TTL :: instant where "SESSION_TTL = 60 * MINUTE"

definition REFRESH_TTL :: instant where "REFRESH_TTL = 7 * 24 * 60 * MINUTE"

definition MAX_ATTEMPTS :: nat where "MAX_ATTEMPTS = 5"

section \<open>Passwords, codes and one-time passwords\<close>

definition is_hex :: "char \<Rightarrow> bool" where
  "is_hex c = (c \<in> set ''0123456789abcdef'')"

text \<open>Rows of an earlier release hold a plain SHA-256 digest.\<close>

definition verify_password :: "account_env \<Rightarrow> string \<Rightarrow> string option \<Rightarrow> bool" where
  "verify_password env plain hashed =
     (case hashed of
        None \<Rightarrow> False
      | Some h \<Rightarrow>
          if h = [] then False
          else case ae_check env plain h of
            Some b \<Rightarrow> b
          | None \<Rightarrow> length h = 64 \<and> list_all is_hex (str_lower h) \<and> ae_hash env plain = h)"

text \<open>\<open>upper\<close> below 256: the capitals of the micro sign and of y with diaeresis lie above and are
  left as they are; no code contains them.\<close>

definition upper_char :: "char \<Rightarrow> string" where
  "upper_char c = (let n = of_char c :: nat in
     if n = 223 then ''SS''
     else if (97 \<le> n \<and> n \<le> 122) \<or> (224 \<le> n \<and> n \<le> 254 \<and> n \<noteq> 247) then [char_of (n - 32)] else [c])"

definition str_upper :: "string \<Rightarrow> string" where
  "str_upper s = concat (map upper_char s)"

definition is_alnum :: "char \<Rightarrow> bool" where
  "is_alnum c = (let n = of_char c :: nat in
     (48 \<le> n \<and> n \<le> 57) \<or> (65 \<le> n \<and> n \<le> 90) \<or> (97 \<le> n \<and> n \<le> 122) \<or>
     n \<in> set [170, 178, 179, 181, 185, 186, 188, 189, 190] \<or> (192 \<le> n \<and> n \<noteq> 215 \<and> n \<noteq> 247))"

definition verification_token_candidates :: "string \<Rightarrow> string list" where
  "verification_token_candidates t =
     (let s = str_strip t; u = str_upper s in if u = s then [s] else [s, u])"

text \<open>\<open>generate_totp\<close> on the digest: dynamic truncation and six digits.\<close>

definition totp_of_digest :: "nat list \<Rightarrow> string" where
  "totp_of_digest h =
     (let k = last h mod 16;
          code = (h ! k mod 128) * 2 ^ 24 + (h ! (k + 1) mod 256) * 2 ^ 16 + (h ! (k + 2) mod 256) * 2 ^ 8 + h ! (k + 3) mod 256;
          s = nat_text (code mod 10 ^ 6)
      in replicate (6 - length s) (CHR ''0'') @ s)"

fun totp_any :: "(int \<Rightarrow> nat list option) \<Rightarrow> string \<Rightarrow> int list \<Rightarrow> bool option" where
  "totp_any mac code [] = Some False"
| "totp_any mac code (k # ks) =
     (case mac k of None \<Rightarrow> None | Some h \<Rightarrow> if totp_of_digest h = code then Some True else totp_any mac code ks)"

definition verify_totp :: "(string \<Rightarrow> int \<Rightarrow> nat list option) \<Rightarrow> instant \<Rightarrow> string \<Rightarrow> string \<Rightarrow> bool option" where
  "verify_totp mac now secret code =
     (let counter = now div (30 * 1000000) in totp_any (mac secret) code [counter - 1, counter, counter + 1])"

section \<open>Login attempts\<close>

definition login_key :: "string \<Rightarrow> string \<Rightarrow> string" where
  "login_key email ip = str_lower (str_strip email) @ '':'' @ (if ip = [] then ''unknown'' else ip)"

definition check_login_rate_limit :: "account_env \<Rightarrow> string \<Rightarrow> string \<Rightarrow> account_db \<Rightarrow> account_db \<times> string reply" where
  "check_login_rate_limit env email ip db =
     (let k = login_key email ip;
          recent = filter (\<lambda>t. ae_monotonic env - MINUTE < t) (acc_attempts db k)
      in if MAX_ATTEMPTS \<le> length recent then (db, Inl (HTTP 429 ''Too many login attempts''))
         else (db\<lparr>acc_attempts := (acc_attempts db)(k := recent @ [ae_monotonic env])\<rparr>, Inr k))"

definition clear_login_rate_limit :: "string \<Rightarrow> account_db \<Rightarrow> account_db" where
  "clear_login_rate_limit k db = db\<lparr>acc_attempts := (acc_attempts db)(k := [])\<rparr>"

section \<open>Users, sessions and refresh tokens\<close>

text \<open>\<open>scalar_one_or_none\<close>: more than one row raises.\<close>

definition get_user_by_email :: "string \<Rightarrow> account_db \<Rightarrow> user option reply" where
  "get_user_by_email email db =
     (case filter (\<lambda>u. str_lower (usr_email u) = str_lower (str_strip email)) (users (acc_tenants db)) of
        [] \<Rightarrow> Inr None
      | [u] \<Rightarrow> Inr (Some u)
      | _ \<Rightarrow> Inl (HTTP 500 ''MultipleResultsFound''))"

definition save_user :: "user \<Rightarrow> account_db \<Rightarrow> account_db" where
  "save_user u db = db\<lparr>acc_tenants := (acc_tenants db)\<lparr>users := put_row usr_id u (users (acc_tenants db))\<rparr>\<rparr>"

definition with_sessions :: "(session_row list \<Rightarrow> session_row list) \<Rightarrow> account_db \<Rightarrow> account_db" where
  "with_sessions f db = db\<lparr>acc_tenants := (acc_tenants db)\<lparr>sessions := f (sessions (acc_tenants db))\<rparr>\<rparr>"

text \<open>The unique index on the hash: \<open>None\<close> is the IntegrityError.\<close>

definition create_session :: "account_env \<Rightarrow> string \<Rightarrow> user \<Rightarrow> account_db \<Rightarrow> account_db option" where
  "create_session env token u db =
     (if row_by ses_hash (ae_hash env token) (sessions (acc_tenants db)) \<noteq> None then None
      else Some (with_sessions (\<lambda>ss. ss @ [\<lparr>ses_id = acc_next db, ses_user = usr_id u, ses_hash = ae_hash env token, ses_ip = None,
          ses_agent = None, ses_expires = ae_now env + SESSION_TTL, ses_revoked = False\<rparr>]) (db\<lparr>acc_next := Suc (acc_next db)\<rparr>)))"

definition create_refresh_token :: "account_env \<Rightarrow> string \<Rightarrow> user \<Rightarrow> account_db \<Rightarrow> account_db option" where
  "create_refresh_token env token u db =
     (if row_by rf_hash (ae_hash env token) (acc_refresh db) \<noteq> None then None
      else Some (db\<lparr>acc_refresh := acc_refresh db @ [\<lparr>rf_id = acc_next db, rf_user = usr_id u, rf_hash = ae_hash env token,
          rf_expires = ae_now env + REFRESH_TTL, rf_revoked = False\<rparr>], acc_next := Suc (acc_next db)\<rparr>))"

text \<open>A session and a refresh token, with the two tokens drawn for them.\<close>

definition sign_in :: "account_env \<Rightarrow> string \<times> string \<Rightarrow> user \<Rightarrow> account_db \<Rightarrow> account_db option" where
  "sign_in env tokens u db =
     (case create_session env (fst tokens) u db of None \<Rightarrow> None | Some db1 \<Rightarrow> create_refresh_token env (snd tokens) u db1)"

section \<open>Registration and login\<close>

definition new_user :: "uuid \<Rightarrow> string \<Rightarrow> string option \<Rightarrow> string \<Rightarrow> uuid \<Rightarrow> user" where
  "new_user i email name hashed org = \<lparr>usr_id = i, usr_email = email, usr_name = name, hashed_password = Some hashed,
     usr_active = True, is_superuser = False, email_verified = False, usr_organization = Some org, two_factor_enabled = False,
     two_factor_secret = None, usr_settings = None\<rparr>"

definition add_account :: "user \<Rightarrow> organization \<Rightarrow> code_row \<Rightarrow> account_db \<Rightarrow> account_db" where
  "add_account u g c db =
     (let t = acc_tenants db in
      db\<lparr>acc_tenants := t\<lparr>users := users t @ [u], organizations := organizations t @ [g]\<rparr>,
         acc_verifications := acc_verifications db @ [c], acc_next := acc_next db + 3\<rparr>)"

text \<open>The first commit makes the account; the session is a second one. \<open>code\<close> is the verification
  code, sent by email, which may fail without consequence.\<close>

definition register ::
  "account_env \<Rightarrow> string \<Rightarrow> string \<times> string \<Rightarrow> string \<Rightarrow> string \<Rightarrow> string option \<Rightarrow> account_db \<Rightarrow> account_db \<times> user reply" where
  "register env code tokens email password name db =
     (if length password < PASSWORD_MIN_LENGTH then (db, Inl (HTTP 422 ''Password must be at least 8 characters''))
      else case get_user_by_email email db of
        Inl e \<Rightarrow> (db, Inl e)
      | Inr (Some u) \<Rightarrow> (db, Inl (HTTP 409 ''Email already registered''))
      | Inr None \<Rightarrow>
         (case ae_password env password of
            None \<Rightarrow> (db, Inl (HTTP 500 ''ValueError''))
          | Some hashed \<Rightarrow>
             (let i = acc_next db; t = acc_tenants db;
                  org = \<lparr>org_id = i + 1, org_name = (case name of None \<Rightarrow> email | Some n \<Rightarrow> if n = [] then email else n) @ CHR 0x27 # ''s Organization'',
                     org_slug = ''org-'' @ ae_slug env i, external_id = None\<rparr>;
                  u = new_user i email name hashed (i + 1);
                  c = \<lparr>cd_id = i + 2, cd_user = i, cd_hash = ae_hash env code, cd_expires = ae_now env + 24 * 60 * MINUTE, cd_used = False\<rparr>
              in if email \<in> usr_email ` set (users t) \<or> org_slug org \<in> org_slug ` set (organizations t) \<or>
                    cd_hash c \<in> cd_hash ` set (acc_verifications db)
                 then (db, Inl (HTTP 500 ''IntegrityError''))
                 else (let db1 = add_account u org c db in
                   case sign_in env tokens u db1 of
                     None \<Rightarrow> (db1, Inl (HTTP 500 ''IntegrityError''))
                   | Some db2 \<Rightarrow> (db2, Inr u)))))"

text \<open>The second factor, for an account that has one.\<close>

definition second_factor :: "account_env \<Rightarrow> user \<Rightarrow> string option \<Rightarrow> http_error option" where
  "second_factor env u code =
     (if \<not> two_factor_enabled u then None
      else if code = None \<or> code = Some [] then Some (HTTP 428 ''two_factor_required'')
      else case two_factor_secret u of
        None \<Rightarrow> Some (HTTP 401 ''Invalid authentication code'')
      | Some s \<Rightarrow>
          if s = [] then Some (HTTP 401 ''Invalid authentication code'')
          else case ae_open env s of
            None \<Rightarrow> Some (HTTP 500 ''ValueError'')
          | Some secret \<Rightarrow>
             (case verify_totp (ae_mac env) (ae_now env) secret (filter (\<lambda>c. c \<noteq> CHR '' '') (str_strip (the code))) of
                None \<Rightarrow> Some (HTTP 500 ''binascii.Error'')
              | Some True \<Rightarrow> None
              | Some False \<Rightarrow> Some (HTTP 401 ''Invalid authentication code'')))"

definition login ::
  "account_env \<Rightarrow> string \<times> string \<Rightarrow> string \<Rightarrow> string \<Rightarrow> string \<Rightarrow> string option \<Rightarrow> account_db \<Rightarrow> account_db \<times> user reply" where
  "login env tokens ip email password code db0 =
     (case check_login_rate_limit env email ip db0 of
        (db, Inl e) \<Rightarrow> (db, Inl e)
      | (db, Inr k) \<Rightarrow>
         (case get_user_by_email email db of
            Inl e \<Rightarrow> (db, Inl e)
          | Inr None \<Rightarrow> (db, Inl (HTTP 401 ''Invalid credentials''))
          | Inr (Some u) \<Rightarrow>
              if \<not> verify_password env password (hashed_password u) then (db, Inl (HTTP 401 ''Invalid credentials''))
              else case second_factor env u code of
                Some e \<Rightarrow> (db, Inl e)
              | None \<Rightarrow>
                 (case sign_in env tokens u db of
                    None \<Rightarrow> (db, Inl (HTTP 500 ''IntegrityError''))
                  | Some db1 \<Rightarrow> (clear_login_rate_limit k db1, Inr u))))"

section \<open>Ending and renewing sessions\<close>

definition revoke_sessions :: "(session_row \<Rightarrow> bool) \<Rightarrow> account_db \<Rightarrow> account_db" where
  "revoke_sessions P = with_sessions (map (\<lambda>s. if P s then s\<lparr>ses_revoked := True\<rparr> else s))"

definition revoke_refresh :: "(refresh_row \<Rightarrow> bool) \<Rightarrow> account_db \<Rightarrow> account_db" where
  "revoke_refresh P db = db\<lparr>acc_refresh := map (\<lambda>r. if P r then r\<lparr>rf_revoked := True\<rparr> else r) (acc_refresh db)\<rparr>"

text \<open>\<open>redis\<close>: the server takes the deletion of the old cache entry.\<close>

definition logout :: "account_env \<Rightarrow> bool \<Rightarrow> string option \<Rightarrow> account_db \<Rightarrow> account_db \<times> unit reply" where
  "logout env redis session_token db =
     (case session_token of
        None \<Rightarrow> (db, Inr ())
      | Some t \<Rightarrow>
          if \<not> redis then (db, Inl (HTTP 500 ''ConnectionError''))
          else (revoke_sessions (\<lambda>s. ses_hash s = ae_hash env t) db, Inr ()))"

definition logout_all :: "account_env \<Rightarrow> string option \<Rightarrow> account_db \<Rightarrow> account_db" where
  "logout_all env session_token db =
     (case session_token of
        None \<Rightarrow> db
      | Some t \<Rightarrow>
         (case row_by ses_hash (ae_hash env t) (sessions (acc_tenants db)) of
            None \<Rightarrow> db
          | Some s \<Rightarrow> revoke_refresh (\<lambda>r. rf_user r = ses_user s) (revoke_sessions (\<lambda>x. ses_user x = ses_user s) db)))"

definition refresh_by_hash :: "string \<Rightarrow> account_db \<Rightarrow> refresh_row option" where
  "refresh_by_hash h db = row_by rf_hash h (acc_refresh db)"

definition refresh ::
  "account_env \<Rightarrow> string \<times> string \<Rightarrow> string option \<Rightarrow> account_db \<Rightarrow> account_db \<times> user reply" where
  "refresh env tokens refresh_token db =
     (case refresh_token of
        None \<Rightarrow> (db, Inl (HTTP 401 ''Refresh token missing''))
      | Some t \<Rightarrow>
         (case refresh_by_hash (ae_hash env t) db of
            None \<Rightarrow> (db, Inl (HTTP 401 ''Invalid refresh token''))
          | Some r \<Rightarrow>
              if rf_revoked r \<or> rf_expires r \<le> ae_now env then (db, Inl (HTTP 401 ''Invalid refresh token''))
              else case user_by_id (acc_tenants db) (rf_user r) of
                None \<Rightarrow> (db, Inl (HTTP 401 ''Invalid refresh token''))
              | Some u \<Rightarrow>
                  if \<not> usr_active u then (db, Inl (HTTP 401 ''Invalid refresh token''))
                  else (case sign_in env tokens u (revoke_refresh (\<lambda>x. rf_hash x = ae_hash env t) db) of
                      None \<Rightarrow> (db, Inl (HTTP 500 ''IntegrityError''))
                    | Some db1 \<Rightarrow> (db1, Inr u))))"

definition me :: "account_env \<Rightarrow> string option \<Rightarrow> account_db \<Rightarrow> user reply" where
  "me env session_token db =
     (case session_token of
        None \<Rightarrow> Inl (HTTP 401 ''Not authenticated'')
      | Some t \<Rightarrow>
         (case row_by ses_hash (ae_hash env t) (sessions (acc_tenants db)) of
            None \<Rightarrow> Inl (HTTP 401 ''Invalid session'')
          | Some s \<Rightarrow>
              if ses_revoked s then Inl (HTTP 401 ''Invalid session'')
              else if ses_expires s \<le> ae_now env then Inl (HTTP 401 ''Session expired'')
              else case user_by_id (acc_tenants db) (ses_user s) of
                None \<Rightarrow> Inl (HTTP 401 ''Invalid session'')
              | Some u \<Rightarrow> if usr_active u then Inr u else Inl (HTTP 401 ''Invalid session'')))"

section \<open>Password reset\<close>

text \<open>The answer never tells whether the account exists; \<open>code\<close> goes out by email.\<close>

definition forgot_password :: "account_env \<Rightarrow> string \<Rightarrow> string \<Rightarrow> account_db \<Rightarrow> account_db \<times> unit reply" where
  "forgot_password env code email db =
     (case get_user_by_email email db of
        Inl e \<Rightarrow> (db, Inl e)
      | Inr None \<Rightarrow> (db, Inr ())
      | Inr (Some u) \<Rightarrow>
          if ae_hash env code \<in> cd_hash ` set (acc_resets db) then (db, Inl (HTTP 500 ''IntegrityError''))
          else (db\<lparr>acc_resets := acc_resets db @ [\<lparr>cd_id = acc_next db, cd_user = usr_id u, cd_hash = ae_hash env code,
                  cd_expires = ae_now env + 15 * MINUTE, cd_used = False\<rparr>], acc_next := Suc (acc_next db)\<rparr>, Inr ()))"

definition use_codes :: "(code_row \<Rightarrow> bool) \<Rightarrow> code_row list \<Rightarrow> code_row list" where
  "use_codes P = map (\<lambda>c. if P c then c\<lparr>cd_used := True\<rparr> else c)"

definition valid_code :: "instant \<Rightarrow> code_row option \<Rightarrow> bool" where
  "valid_code now c = (case c of None \<Rightarrow> False | Some x \<Rightarrow> \<not> cd_used x \<and> now < cd_expires x)"

definition verify_reset_code ::
  "account_env \<Rightarrow> string \<Rightarrow> string \<Rightarrow> string \<Rightarrow> account_db \<Rightarrow> account_db \<times> string reply" where
  "verify_reset_code env token email code db =
     (let s = str_strip code; bad = (HTTP 400 ''Invalid or expired reset code'') in
      if length s \<noteq> 6 \<or> \<not> list_all is_alnum s then (db, Inl bad)
      else case get_user_by_email email db of
        Inl e \<Rightarrow> (db, Inl e)
      | Inr None \<Rightarrow> (db, Inl bad)
      | Inr (Some u) \<Rightarrow>
         (let hs = map (ae_hash env) (verification_token_candidates s);
              c = find (\<lambda>x. cd_user x = usr_id u \<and> cd_hash x \<in> set hs) (rev (acc_resets db));
              raw = ''rst_'' @ token
          in if \<not> valid_code (ae_now env) c then (db, Inl bad)
             else if ae_hash env raw \<in> cd_hash ` set (acc_resets db) then (db, Inl (HTTP 500 ''IntegrityError''))
             else (db\<lparr>acc_resets := use_codes (\<lambda>x. cd_id x = cd_id (the c)) (acc_resets db) @
                     [\<lparr>cd_id = acc_next db, cd_user = usr_id u, cd_hash = ae_hash env raw, cd_expires = ae_now env + 10 * MINUTE, cd_used = False\<rparr>],
                     acc_next := Suc (acc_next db)\<rparr>, Inr raw)))"

definition reset_password :: "account_env \<Rightarrow> string \<Rightarrow> string \<Rightarrow> account_db \<Rightarrow> account_db \<times> user reply" where
  "reset_password env reset_token password db =
     (if length password < PASSWORD_MIN_LENGTH then (db, Inl (HTTP 422 ''Password must be at least 8 characters''))
      else if \<not> prefix ''rst_'' reset_token \<or> length reset_token < 32 then (db, Inl (HTTP 400 ''Invalid or expired reset token''))
      else (let c = row_by cd_hash (ae_hash env reset_token) (acc_resets db) in
        if \<not> valid_code (ae_now env) c then (db, Inl (HTTP 400 ''Invalid or expired reset token''))
        else case user_by_id (acc_tenants db) (cd_user (the c)) of
          None \<Rightarrow> (db, Inl (HTTP 400 ''Invalid reset token''))
        | Some u \<Rightarrow>
           (case ae_password env password of
              None \<Rightarrow> (db, Inl (HTTP 500 ''ValueError''))
            | Some hashed \<Rightarrow>
                (let db1 = save_user (u\<lparr>hashed_password := Some hashed\<rparr>)
                       (db\<lparr>acc_resets := use_codes (\<lambda>x. cd_hash x = ae_hash env reset_token) (acc_resets db)\<rparr>)
                 in (revoke_refresh (\<lambda>r. rf_user r = usr_id u) (revoke_sessions (\<lambda>s. ses_user s = usr_id u) db1),
                     Inr (u\<lparr>hashed_password := Some hashed\<rparr>))))))"

section \<open>Email verification\<close>

text \<open>The query has no order; the first row in table order stands for the one it returns.\<close>

definition verify_email :: "account_env \<Rightarrow> string \<Rightarrow> account_db \<Rightarrow> account_db \<times> unit reply" where
  "verify_email env token db =
     (let hs = map (ae_hash env) (verification_token_candidates token);
          c = find (\<lambda>x. cd_hash x \<in> set hs) (acc_verifications db)
      in if \<not> valid_code (ae_now env) c then (db, Inl (HTTP 400 ''Invalid or expired verification token''))
         else case user_by_id (acc_tenants db) (cd_user (the c)) of
           None \<Rightarrow> (db, Inl (HTTP 400 ''Invalid verification token''))
         | Some u \<Rightarrow>
            (save_user (u\<lparr>email_verified := True\<rparr>)
               (db\<lparr>acc_verifications := use_codes (\<lambda>x. cd_id x = cd_id (the c)) (acc_verifications db)\<rparr>), Inr ()))"

definition resend_verification :: "account_env \<Rightarrow> string \<Rightarrow> string \<Rightarrow> account_db \<Rightarrow> account_db \<times> unit reply" where
  "resend_verification env code email db =
     (case get_user_by_email email db of
        Inl e \<Rightarrow> (db, Inl e)
      | Inr None \<Rightarrow> (db, Inr ())
      | Inr (Some u) \<Rightarrow>
          if email_verified u then (db, Inr ())
          else (let h = ae_hash env code; until = ae_now env + 24 * 60 * MINUTE;
                    mine = filter (\<lambda>x. cd_user x = usr_id u) (acc_verifications db)
            in if 1 < length mine then (db, Inl (HTTP 500 ''MultipleResultsFound''))
               else if \<exists>x \<in> set (acc_verifications db). cd_hash x = h \<and> cd_user x \<noteq> usr_id u then (db, Inl (HTTP 500 ''IntegrityError''))
               else if mine = [] then
                 (db\<lparr>acc_verifications := acc_verifications db @ [\<lparr>cd_id = acc_next db, cd_user = usr_id u, cd_hash = h,
                    cd_expires = until, cd_used = False\<rparr>], acc_next := Suc (acc_next db)\<rparr>, Inr ())
               else (db\<lparr>acc_verifications := map (\<lambda>x. if cd_user x = usr_id u
                    then x\<lparr>cd_hash := h, cd_expires := until, cd_used := False\<rparr> else x) (acc_verifications db)\<rparr>, Inr ())))"

end
