(* ===== verification/Account_Sample.thy ===== *)
theory Account_Sample
  imports Accounts
begin

text \<open>
  One account with its first session, two mailed reset codes, and a reset with the older of them.
\<close>

definition sample_auth :: account_env where
  "sample_auth = \<lparr>ae_hash = (\<lambda>s. s), ae_check = (\<lambda>p h. Some (p = h)), ae_password = Some, ae_mac = (\<lambda>_ _. None), ae_open = Some,
     ae_slug = nat_text, ae_now = 0, ae_monotonic = 0\<rparr>"

definition empty_accounts :: account_db where
  "empty_accounts = \<lparr>acc_tenants = \<lparr>users = [], organizations = [], projects = [], runtimes = [], sessions = [], api_keys = [],
       next_key = 0, mail_queue = []\<rparr>, acc_refresh = [], acc_resets = [], acc_verifications = [], acc_attempts = (\<lambda>_. []), acc_next = 0\<rparr>"

definition joined :: "account_db \<times> user reply" where
  "joined = register sample_auth ''CODE01'' (''s1'', ''r1'') ''a@b'' ''password'' None empty_accounts"

definition padded :: "account_db \<times> user reply" where
  "padded = register sample_auth ''CODE01'' (''s1'', ''r1'') ''a@b '' ''password'' None empty_accounts"

definition mailed :: account_db where
  "mailed = fst (forgot_password sample_auth ''BBBBBB'' ''a@b'' (fst (forgot_password sample_auth ''AAAAAA'' ''a@b'' (fst joined))))"

definition reset_token :: string where
  "reset_token = ''rst_'' @ replicate 30 CHR ''x''"

definition exchanged :: account_db where
  "exchanged = fst (verify_reset_code sample_auth (replicate 30 CHR ''x'') ''a@b'' ''AAAAAA'' mailed)"

definition reset_done :: "account_db \<times> user reply" where
  "reset_done = reset_password sample_auth reset_token ''newpassword'' exchanged"

lemma sample_joined:
  "(case joined of (db, r) \<Rightarrow> (map_sum id usr_id r, length (acc_attempts db ''a@b:unknown''),
      map_sum id usr_id (snd (refresh sample_auth (''s2'', ''r2'') (Some ''r1'') db)))) = (Inr 0, 0, Inr 0)"
  by code_simp

lemma sample_padded: "map_sum id usr_id (snd padded) = Inr 0"
  by code_simp

lemma sample_reset: "map_sum id hashed_password (snd reset_done) = Inr (Some ''newpassword'')"
  by code_simp

lemma sample_other_code:
  "snd (verify_reset_code sample_auth (replicate 31 CHR ''x'') ''a@b'' ''BBBBBB'' exchanged) = Inr (''rst_'' @ replicate 31 CHR ''x'')"
  by code_simp

lemma map_sum_Inr_iff: "map_sum f g x = Inr y \<longleftrightarrow> (\<exists>z. x = Inr z \<and> g z = y)"
  by (cases x) auto

end
