(* ===== verification/Account_Laws.thy ===== *)
theory Account_Laws
  imports Account_Sample
begin

text \<open>
  What the account handlers guarantee: revoked sessions, used refresh tokens and used reset
  tokens stay so for ever, a reset ends every session, addresses are unique as they are looked
  up; and where they fall short: a logout that leaves the refresh token, codes that survive a
  reset, addresses with surrounding whitespace.
\<close>

section \<open>Tables with a one-way flag\<close>

text \<open>Rows keep their key and a set flag, new rows come at the end with a new key.\<close>

definition grows :: "('r \<Rightarrow> 'k) \<Rightarrow> ('r \<Rightarrow> bool) \<Rightarrow> 'r list \<Rightarrow> 'r list \<Rightarrow> bool" where
  "grows key flag xs ys = (\<exists>g zs. ys = map g xs @ zs \<and> (\<forall>x. key (g x) = key x \<and> (flag x \<longrightarrow> flag (g x))) \<and>
     distinct (map key zs) \<and> key ` set zs \<inter> key ` set xs = {})"

lemma grows_refl [simp]: "grows key flag xs xs"
  unfolding grows_def by (intro exI [of _ id] exI [of _ "[]"]) simp

lemma grows_map: "(\<And>x. key (g x) = key x \<and> (flag x \<longrightarrow> flag (g x))) \<Longrightarrow> grows key flag xs (map g xs)"
  unfolding grows_def by (intro exI [of _ g] exI [of _ "[]"]) simp

lemma grows_add: "row_by key (key z) xs = None \<Longrightarrow> grows key flag xs (xs @ [z])"
  unfolding grows_def by (intro exI [of _ id] exI [of _ "[z]"]) (auto simp: row_by_None_iff)

lemma grows_trans:
  assumes "grows key flag xs ys" and "grows key flag ys zs"
  shows "grows key flag xs zs"
proof -
  obtain g as where g: "ys = map g xs @ as" "\<And>x. key (g x) = key x \<and> (flag x \<longrightarrow> flag (g x))"
    "distinct (map key as)" "key ` set as \<inter> key ` set xs = {}" using assms(1) unfolding grows_def by blast
  obtain h bs where h: "zs = map h ys @ bs" "\<And>x. key (h x) = key x \<and> (flag x \<longrightarrow> flag (h x))"
    "distinct (map key bs)" "key ` set bs \<inter> key ` set ys = {}" using assms(2) unfolding grows_def by blast
  have k: "key \<circ> h = key" using h(2) by auto
  have "key ` set (map g xs) = key ` set xs" using g(2) by (simp add: image_image)
  then have "key ` set ys = key ` set xs \<union> key ` set as" using g(1) by (simp add: image_Un)
  note k = k this
  have "key ` set (map h as) = key ` set as" using h(2) by (simp add: image_image)
  note k = k this
  have "distinct (map key (map h as @ bs))" using g(3) h(3,4) unfolding map_append distinct_append map_map k(1,2) set_map by blast
  moreover have "key ` set (map h as @ bs) \<inter> key ` set xs = {}" using g(4) h(4) unfolding set_append image_Un k(2,3) by blast
  moreover have "zs = map (h \<circ> g) xs @ (map h as @ bs)" using g(1) h(1) by simp
  moreover have "\<forall>x. key ((h \<circ> g) x) = key x \<and> (flag x \<longrightarrow> flag ((h \<circ> g) x))" using g(2) h(2) unfolding comp_def by metis
  ultimately show ?thesis unfolding grows_def by blast
qed

lemma row_by_map: "(\<And>x. key (g x) = key x) \<Longrightarrow> row_by key h (map g xs) = map_option g (row_by key h xs)"
  by (induction xs) auto

lemma grows_dead:
  assumes "grows key flag xs ys" and "row_by key h xs = Some r" and "flag r"
  shows "\<exists>r'. row_by key h ys = Some r' \<and> flag r'"
proof -
  obtain g zs where "ys = map g xs @ zs" and g: "\<And>x. key (g x) = key x \<and> (flag x \<longrightarrow> flag (g x))"
    using assms(1) unfolding grows_def by blast
  then have "row_by key h ys = Some (g r)" using assms(2) by (simp add: row_by_append row_by_map)
  with g assms(3) show ?thesis by blast
qed

lemma grows_distinct: "grows key flag xs ys \<Longrightarrow> distinct (map key xs) \<Longrightarrow> distinct (map key ys)"
  unfolding grows_def by (force simp: comp_def)

locale one_way =
  fixes rows :: "'db \<Rightarrow> 'r list" and key :: "'r \<Rightarrow> string" and flag :: "'r \<Rightarrow> bool" and step :: "'db \<Rightarrow> 'db \<Rightarrow> bool"
  assumes step_grows: "step db db' \<Longrightarrow> grows key flag (rows db) (rows db')"
begin

lemma steps_grow: "step\<^sup>*\<^sup>* db db' \<Longrightarrow> grows key flag (rows db) (rows db')"
  by (induction rule: rtranclp_induct) (auto intro: grows_trans step_grows)

lemma dead_for_ever:
  assumes "step\<^sup>*\<^sup>* db db'" and "row_by key h (rows db) = Some r" and "flag r"
  obtains r' where "row_by key h (rows db') = Some r'" and "flag r'"
  using grows_dead [OF steps_grow [OF assms(1)] assms(2,3)] by blast

end

section \<open>The handlers as steps\<close>

inductive account_step :: "(string \<Rightarrow> string) \<Rightarrow> account_db \<Rightarrow> account_db \<Rightarrow> bool" for hash :: "string \<Rightarrow> string" where
  register_step: "ae_hash env = hash \<Longrightarrow> account_step hash db (fst (register env code tokens email password name db))"
| login_step: "ae_hash env = hash \<Longrightarrow> account_step hash db (fst (login env tokens ip email password code2 db))"
| logout_step: "ae_hash env = hash \<Longrightarrow> account_step hash db (fst (logout env redis tok db))"
| logout_all_step: "ae_hash env = hash \<Longrightarrow> account_step hash db (logout_all env tok db)"
| refresh_step: "ae_hash env = hash \<Longrightarrow> account_step hash db (fst (refresh env tokens tok db))"
| forgot_step: "ae_hash env = hash \<Longrightarrow> account_step hash db (fst (forgot_password env code email db))"
| code_step: "ae_hash env = hash \<Longrightarrow> account_step hash db (fst (verify_reset_code env token email code db))"
| reset_step: "ae_hash env = hash \<Longrightarrow> account_step hash db (fst (reset_password env code password db))"
| verify_step: "ae_hash env = hash \<Longrightarrow> account_step hash db (fst (verify_email env code db))"
| resend_step: "ae_hash env = hash \<Longrightarrow> account_step hash db (fst (resend_verification env code email db))"

abbreviation sessions_of :: "account_db \<Rightarrow> session_row list" where
  "sessions_of db \<equiv> sessions (acc_tenants db)"

abbreviation users_of :: "account_db \<Rightarrow> user list" where
  "users_of db \<equiv> users (acc_tenants db)"

definition evolves :: "account_db \<Rightarrow> account_db \<Rightarrow> bool" where
  "evolves db db' = (grows ses_hash ses_revoked (sessions_of db) (sessions_of db') \<and>
     grows rf_hash rf_revoked (acc_refresh db) (acc_refresh db') \<and> grows cd_hash cd_used (acc_resets db) (acc_resets db'))"

lemma evolves_refl [simp]: "evolves db db"
  by (simp add: evolves_def)

lemma evolves_trans: "evolves a b \<Longrightarrow> evolves b c \<Longrightarrow> evolves a c"
  unfolding evolves_def by (auto intro: grows_trans)

lemma evolves_session: "create_session env t u db = Some db' \<Longrightarrow> evolves db db'"
  by (auto simp: create_session_def evolves_def with_sessions_def intro!: grows_add split: if_splits)

lemma evolves_refresh: "create_refresh_token env t u db = Some db' \<Longrightarrow> evolves db db'"
  by (auto simp: create_refresh_token_def evolves_def intro!: grows_add split: if_splits)

lemma evolves_sign_in: "sign_in env ts u db = Some db' \<Longrightarrow> evolves db db'"
  by (auto simp: sign_in_def split: option.splits intro: evolves_trans evolves_session evolves_refresh)

lemma evolves_revoke [simp]: "evolves db (revoke_sessions P db)" "evolves db (revoke_refresh Q db)"
  by (auto simp: evolves_def revoke_sessions_def with_sessions_def revoke_refresh_def intro!: grows_map)

lemma evolves_same: "sessions_of db' = sessions_of db \<Longrightarrow> acc_refresh db' = acc_refresh db \<Longrightarrow> acc_resets db' = acc_resets db \<Longrightarrow> evolves db db'"
  by (simp add: evolves_def)

lemma evolves_resets: "sessions_of db' = sessions_of db \<Longrightarrow> acc_refresh db' = acc_refresh db \<Longrightarrow>
    grows cd_hash cd_used (acc_resets db) (acc_resets db') \<Longrightarrow> evolves db db'"
  by (simp add: evolves_def)

lemma grows_use_codes: "grows cd_hash cd_used cs (use_codes P cs)"
  unfolding use_codes_def by (rule grows_map) simp

lemma save_user_rest [simp]:
  "sessions_of (save_user u db) = sessions_of db" "acc_refresh (save_user u db) = acc_refresh db"
  "acc_resets (save_user u db) = acc_resets db" "acc_next (save_user u db) = acc_next db"
  "acc_verifications (save_user u db) = acc_verifications db" "acc_attempts (save_user u db) = acc_attempts db"
  "users_of (save_user u db) = put_row usr_id u (users_of db)"
  by (simp_all add: save_user_def)

lemma evolves_added: "sign_in env ts u (add_account v g c db) = Some db' \<Longrightarrow> evolves db db'"
  by (rule evolves_trans [OF _ evolves_sign_in]) (auto simp: add_account_def Let_def intro: evolves_same)

lemma evolves_register: "evolves db (fst (register env code tokens email password name db))"
proof -
  have "evolves db (add_account v g c db)" for v g c by (simp add: add_account_def Let_def evolves_same)
  then show ?thesis
    unfolding register_def Let_def by (simp add: evolves_added split: sum.split option.split)
qed

lemma evolves_signed_in: "evolves db db1 \<Longrightarrow> sign_in env ts u db1 = Some db2 \<Longrightarrow> evolves db (clear_login_rate_limit k db2)"
  by (rule evolves_trans [OF evolves_trans [OF _ evolves_sign_in]]) (auto simp: clear_login_rate_limit_def intro: evolves_same)

lemma evolves_login: "evolves db (fst (login env tokens ip email password code db))"
proof -
  obtain db1 r where c: "check_login_rate_limit env email ip db = (db1, r)" by fastforce
  then have "evolves db db1" by (auto simp: check_login_rate_limit_def Let_def intro!: evolves_same split: if_splits)
  then show ?thesis unfolding login_def c
    by (simp add: evolves_signed_in split: sum.split option.split)
qed

lemma evolves_reset: "evolves db (fst (reset_password env t password db))"
proof -
  have "evolves db (save_user u (db\<lparr>acc_resets := use_codes P (acc_resets db)\<rparr>))" for u P
    by (rule evolves_resets) (simp_all add: grows_use_codes)
  then have "evolves db (revoke_refresh Q (revoke_sessions R (save_user u (db\<lparr>acc_resets := use_codes P (acc_resets db)\<rparr>))))" for Q R u P
    using evolves_trans evolves_revoke by blast
  then show ?thesis unfolding reset_password_def Let_def by (simp split: option.split)
qed

lemma use_codes_hashes: "row_by cd_hash h (use_codes P cs) = None \<longleftrightarrow> h \<notin> cd_hash ` set cs"
  by (simp add: use_codes_def row_by_map row_by_None_iff)

lemma evolves_code: "evolves db (fst (verify_reset_code env token email code db))"
proof -
  have "evolves db (db\<lparr>acc_resets := use_codes P (acc_resets db) @ [c], acc_next := n\<rparr>)"
    if "cd_hash c \<notin> cd_hash ` set (acc_resets db)" for P c n
    by (rule evolves_resets) (use that in \<open>auto intro!: grows_trans [OF grows_use_codes grows_add] simp: use_codes_hashes\<close>)
  then show ?thesis unfolding verify_reset_code_def Let_def by (simp split: sum.split option.split)
qed

lemma evolves_refreshed: "evolves db (fst (refresh env tokens tok db))"
  unfolding refresh_def by (auto split: option.split intro: evolves_trans [OF evolves_revoke(2) evolves_sign_in])

lemma evolves_forgot: "evolves db (fst (forgot_password env code email db))"
  unfolding forgot_password_def
  by (auto split: sum.split option.split intro!: evolves_resets grows_add simp: row_by_None_iff)

lemma evolves_step: "account_step hash db db' \<Longrightarrow> evolves db db'"
proof (induction rule: account_step.induct)
  case (logout_all_step env db tok)
  show ?case unfolding logout_all_def by (simp split: option.split) (blast intro: evolves_trans evolves_revoke)
next
  case (verify_step env db code)
  show ?case unfolding verify_email_def Let_def by (auto split: option.split intro: evolves_same)
next
  case (resend_step env db code email)
  show ?case unfolding resend_verification_def Let_def by (auto split: sum.split option.split intro: evolves_same)
qed (simp_all add: evolves_register evolves_login evolves_refreshed evolves_forgot evolves_code evolves_reset logout_def split: option.split)

interpretation session_table: one_way sessions_of ses_hash ses_revoked "account_step hash"
  by unfold_locales (simp add: evolves_step [unfolded evolves_def])

interpretation refresh_table: one_way acc_refresh rf_hash rf_revoked "account_step hash"
  by unfold_locales (simp add: evolves_step [unfolded evolves_def])

interpretation reset_table: one_way acc_resets cd_hash cd_used "account_step hash"
  by unfold_locales (simp add: evolves_step [unfolded evolves_def])

section \<open>What is over stays over\<close>

text \<open>
  C14. A refresh token works once: after a request with it went through, every later request with it
  is refused, whatever happens in between. (Requests one after another: the handler takes no lock
  on the row, so two that overlap are not covered.)
\<close>

theorem refresh_token_once:
  assumes "refresh env tokens (Some t) db = (db1, Inr u)" and "(account_step (ae_hash env))\<^sup>*\<^sup>* db1 db2" and "ae_hash env2 = ae_hash env"
  shows "refresh env2 tokens2 (Some t) db2 = (db2, Inl (HTTP 401 ''Invalid refresh token''))"
proof -
  let ?mark = "\<lambda>x. if rf_hash x = ae_hash env t then x\<lparr>rf_revoked := True\<rparr> else x"
  obtain r where r: "refresh_by_hash (ae_hash env t) db = Some r"
    and s: "sign_in env tokens u (revoke_refresh (\<lambda>x. rf_hash x = ae_hash env t) db) = Some db1"
    using assms(1) by (auto simp: refresh_def split: option.splits if_splits)
  have "row_by rf_hash (ae_hash env t) (acc_refresh (revoke_refresh (\<lambda>x. rf_hash x = ae_hash env t) db)) = Some (?mark r)"
    using r by (simp add: refresh_by_hash_def revoke_refresh_def row_by_map)
  moreover have "rf_revoked (?mark r)" using r by (auto simp: refresh_by_hash_def dest: row_by_SomeD)
  ultimately obtain r1 where "row_by rf_hash (ae_hash env t) (acc_refresh db1) = Some r1" "rf_revoked r1"
    using grows_dead [of rf_hash rf_revoked] evolves_sign_in [OF s, unfolded evolves_def] by metis
  then obtain r2 where "row_by rf_hash (ae_hash env t) (acc_refresh db2) = Some r2" "rf_revoked r2"
    using refresh_table.dead_for_ever [OF assms(2)] by metis
  with assms(3) show ?thesis by (simp add: refresh_def refresh_by_hash_def)
qed

theorem refresh_token_once_witness:
  "snd (refresh sample_auth (''s3'', ''r3'') (Some ''r1'') (fst (refresh sample_auth (''s2'', ''r2'') (Some ''r1'') (fst joined)))) =
     Inl (HTTP 401 ''Invalid refresh token'')"
proof -
  obtain db1 u where r: "refresh sample_auth (''s2'', ''r2'') (Some ''r1'') (fst joined) = (db1, Inr u)"
    using sample_joined unfolding case_prod_beta prod.inject map_sum_Inr_iff by (metis surjective_pairing)
  from refresh_token_once [OF r rtranclp.rtrancl_refl, of sample_auth "(''s3'', ''r3'')"] r show ?thesis by simp
qed

lemma revoked_session_refused:
  assumes "row_by ses_hash (hash t) (sessions_of db) = Some s" and "ses_revoked s" and "(account_step hash)\<^sup>*\<^sup>* db db2"
  shows "get_session_user hash (Some t) now (acc_tenants db2) = None"
proof -
  obtain s2 where "row_by ses_hash (hash t) (sessions_of db2) = Some s2" "ses_revoked s2"
    using session_table.dead_for_ever [OF assms(3,1,2)] by metis
  then show ?thesis by (simp add: get_session_user_def)
qed

lemma reset_passwordD:
  assumes "reset_password env t password db = (db1, Inr u)"
  obtains c u0 hashed where "row_by cd_hash (ae_hash env t) (acc_resets db) = Some c" and "u = u0\<lparr>hashed_password := Some hashed\<rparr>"
    and "db1 = revoke_refresh (\<lambda>r. rf_user r = usr_id u0) (revoke_sessions (\<lambda>s. ses_user s = usr_id u0)
      (save_user u (db\<lparr>acc_resets := use_codes (\<lambda>x. cd_hash x = ae_hash env t) (acc_resets db)\<rparr>)))"
    and "user_by_id (acc_tenants db) (usr_id u0) = Some u0" and "ae_password env password = Some hashed"
    and "valid_code (ae_now env) (Some c)" and "prefix ''rst_'' t" and "32 \<le> length t"
proof -
  have ok: "\<not> length password < PASSWORD_MIN_LENGTH" "prefix ''rst_'' t" "\<not> length t < 32"
    "valid_code (ae_now env) (row_by cd_hash (ae_hash env t) (acc_resets db))"
    using assms unfolding reset_password_def Let_def by (simp_all split: if_split_asm)
  obtain c where c: "row_by cd_hash (ae_hash env t) (acc_resets db) = Some c" "valid_code (ae_now env) (Some c)"
    using ok(4) by (cases "row_by cd_hash (ae_hash env t) (acc_resets db)") (simp_all add: valid_code_def)
  note run = assms [unfolded reset_password_def Let_def c(1) option.sel]
  have "user_by_id (acc_tenants db) (cd_user c) \<noteq> None" using run ok c by (cases "user_by_id (acc_tenants db) (cd_user c)") simp_all
  then obtain u0 where u0: "user_by_id (acc_tenants db) (cd_user c) = Some u0" by blast
  have "ae_password env password \<noteq> None" using run ok c u0 by (cases "ae_password env password") simp_all
  then obtain hashed where h: "ae_password env password = Some hashed" by blast
  have "usr_id u0 = cd_user c" using u0 by (auto simp: user_by_id_def dest: row_by_SomeD)
  with run ok c u0 h show ?thesis by (intro that [of c hashed u0]) auto
qed

text \<open>
  C13. A password reset ends everything that was open: no session and no refresh token the account
  had, and not the reset token itself, is accepted at any later time, whatever other handlers do in
  between, one after another.
\<close>

theorem reset_ends_everything:
  assumes "reset_password env t password db = (db1, Inr u)" and "(account_step (ae_hash env))\<^sup>*\<^sup>* db1 db2" and "ae_hash env2 = ae_hash env"
  shows "(\<forall>tok s. row_by ses_hash (ae_hash env tok) (sessions_of db) = Some s \<and> ses_user s = usr_id u \<longrightarrow>
       get_session_user (ae_hash env) (Some tok) now (acc_tenants db2) = None) \<and>
    (\<forall>tok r. refresh_by_hash (ae_hash env tok) db = Some r \<and> rf_user r = usr_id u \<longrightarrow>
       refresh env2 tokens (Some tok) db2 = (db2, Inl (HTTP 401 ''Invalid refresh token''))) \<and>
    (\<nexists>v. snd (reset_password env2 t password2 db2) = Inr v)"
proof -
  obtain c u0 hashed where c: "row_by cd_hash (ae_hash env t) (acc_resets db) = Some c"
    and u: "u = u0\<lparr>hashed_password := Some hashed\<rparr>"
    and db1: "db1 = revoke_refresh (\<lambda>r. rf_user r = usr_id u0) (revoke_sessions (\<lambda>s. ses_user s = usr_id u0)
      (save_user u (db\<lparr>acc_resets := use_codes (\<lambda>x. cd_hash x = ae_hash env t) (acc_resets db)\<rparr>)))"
    using assms(1) by (rule reset_passwordD)
  have ses: "\<exists>s1. row_by ses_hash h (sessions_of db1) = Some s1 \<and> ses_revoked s1"
    if "row_by ses_hash h (sessions_of db) = Some s" "ses_user s = usr_id u" for h s
    using that by (simp add: db1 u revoke_refresh_def revoke_sessions_def with_sessions_def row_by_map)
  have ref: "\<exists>r1. row_by rf_hash h (acc_refresh db1) = Some r1 \<and> rf_revoked r1"
    if "row_by rf_hash h (acc_refresh db) = Some r" "rf_user r = usr_id u" for h r
    using that by (simp add: db1 u revoke_refresh_def revoke_sessions_def with_sessions_def row_by_map)
  have cod: "\<exists>c1. row_by cd_hash (ae_hash env t) (acc_resets db1) = Some c1 \<and> cd_used c1"
    using c by (auto simp: db1 revoke_refresh_def revoke_sessions_def with_sessions_def use_codes_def row_by_map dest: row_by_SomeD)
  show ?thesis
  proof (intro conjI allI impI)
    fix tok s assume "row_by ses_hash (ae_hash env tok) (sessions_of db) = Some s \<and> ses_user s = usr_id u"
    then obtain s1 where "row_by ses_hash (ae_hash env tok) (sessions_of db1) = Some s1" "ses_revoked s1" using ses by blast
    then show "get_session_user (ae_hash env) (Some tok) now (acc_tenants db2) = None"
      using revoked_session_refused assms(2) by blast
  next
    fix tok r assume "refresh_by_hash (ae_hash env tok) db = Some r \<and> rf_user r = usr_id u"
    then obtain r1 where "row_by rf_hash (ae_hash env tok) (acc_refresh db1) = Some r1" "rf_revoked r1"
      using ref unfolding refresh_by_hash_def by blast
    then obtain r2 where "row_by rf_hash (ae_hash env tok) (acc_refresh db2) = Some r2" "rf_revoked r2"
      using refresh_table.dead_for_ever [OF assms(2)] by metis
    with assms(3) show "refresh env2 tokens (Some tok) db2 = (db2, Inl (HTTP 401 ''Invalid refresh token''))"
      by (simp add: refresh_def refresh_by_hash_def)
  next
    obtain c1 where "row_by cd_hash (ae_hash env t) (acc_resets db1) = Some c1" "cd_used c1" using cod by blast
    then obtain c2 where "row_by cd_hash (ae_hash env t) (acc_resets db2) = Some c2" "cd_used c2"
      using reset_table.dead_for_ever [OF assms(2)] by metis
    with assms(3) show "\<nexists>v. snd (reset_password env2 t password2 db2) = Inr v"
      by (simp add: reset_password_def valid_code_def)
  qed
qed

theorem reset_ends_everything_witness:
  "get_session_user (\<lambda>s. s) (Some ''s1'') 0 (acc_tenants (fst reset_done)) = None \<and>
   snd (refresh sample_auth (''s2'', ''r2'') (Some ''r1'') (fst reset_done)) = Inl (HTTP 401 ''Invalid refresh token'')"
proof -
  obtain db1 u where r: "reset_done = (db1, Inr u)"
    using sample_reset unfolding map_sum_Inr_iff by (metis surjective_pairing)
  have s: "map_option ses_user (row_by ses_hash ''s1'' (sessions_of exchanged)) = Some 0"
    and t: "map_option rf_user (refresh_by_hash ''r1'' exchanged) = Some 0"
    and i: "(case snd reset_done of Inr u \<Rightarrow> usr_id u | Inl _ \<Rightarrow> 1) = 0" by code_simp+
  have h: "ae_hash sample_auth = (\<lambda>s. s)" by (simp add: sample_auth_def)
  have "usr_id u = 0" using i unfolding r by simp
  with s t reset_ends_everything [OF r [unfolded reset_done_def] rtranclp.rtrancl_refl, of sample_auth 0 "(''s2'', ''r2'')" "[]"] show ?thesis
    unfolding h r fst_conv by auto
qed

section \<open>Sessions and users\<close>

text \<open>
  The two ways of reading a session agree: \<open>/auth/me\<close> answers with a user exactly when the
  dependency of every other handler lets the same cookie in, as the same user.
\<close>

theorem me_agrees:
  "me env tok db = Inr u \<longleftrightarrow> get_current_user (ae_hash env) tok (ae_now env) (acc_tenants db) = Inr u"
  by (auto simp: me_def get_current_user_def get_session_user_def split: option.split)

text \<open>Accounts as a login looks them up.\<close>

definition matching :: "string \<Rightarrow> user list \<Rightarrow> user list" where
  "matching e us = filter (\<lambda>u. str_lower (usr_email u) = str_lower (str_strip e)) us"

definition accounts_ok :: "account_db \<Rightarrow> bool" where
  "accounts_ok db = (distinct (map ses_hash (sessions_of db)) \<and> distinct (map rf_hash (acc_refresh db)) \<and>
     distinct (map cd_hash (acc_resets db)) \<and> distinct (map usr_id (users_of db)) \<and> distinct (map usr_email (users_of db)) \<and>
     (\<forall>u \<in> set (users_of db). usr_id u < acc_next db) \<and> (\<forall>e. length (matching e (users_of db)) \<le> 1))"

definition no_accounts :: "account_db \<Rightarrow> bool" where
  "no_accounts db = (users_of db = [] \<and> sessions_of db = [] \<and> acc_refresh db = [] \<and> acc_resets db = [])"

text \<open>What a step does to the users: rewrites rows under their id and address, or adds one.\<close>

definition users_evolve :: "account_db \<Rightarrow> account_db \<Rightarrow> bool" where
  "users_evolve db db' = (acc_next db \<le> acc_next db' \<and>
     (map usr_id (users_of db') = map usr_id (users_of db) \<and> map usr_email (users_of db') = map usr_email (users_of db) \<or>
      (\<exists>u. users_of db' = users_of db @ [u] \<and> usr_id u = acc_next db \<and> acc_next db < acc_next db' \<and>
         usr_email u \<notin> usr_email ` set (users_of db) \<and> matching (usr_email u) (users_of db) = [])))"

lemma matching_map: "map usr_email xs = map usr_email ys \<Longrightarrow> length (matching e xs) = length (matching e ys)"
proof (induction xs arbitrary: ys)
  case (Cons x xs)
  then show ?case by (cases ys) (auto simp: matching_def)
qed (simp add: matching_def)

lemma dropWhile_length: "length (dropWhile P xs) = length xs \<Longrightarrow> dropWhile P xs = xs"
  using length_dropWhile_le [of P "tl xs"] by (cases xs) auto

lemma padded_unmatched: "str_strip e \<noteq> e \<Longrightarrow> str_lower e \<noteq> str_lower (str_strip e')"
proof
  assume "str_strip e \<noteq> e" and "str_lower e = str_lower (str_strip e')"
  then have "length (str_lower (str_strip e)) = length (str_lower e)" by (metis strip_lower str_strip_idem)
  then have "length (str_strip e) = length e" by simp
  moreover have "length (dropWhile is_space (rev (dropWhile is_space e))) \<le> length (dropWhile is_space e)"
    "length (dropWhile is_space e) \<le> length e"
    using length_dropWhile_le [of is_space "rev (dropWhile is_space e)"] length_dropWhile_le [of is_space e] by simp_all
  ultimately have "length (dropWhile is_space e) = length e"
    "length (dropWhile is_space (rev (dropWhile is_space e))) = length (rev (dropWhile is_space e))"
    unfolding str_strip_def by simp_all
  then have "dropWhile is_space e = e" "dropWhile is_space (rev (dropWhile is_space e)) = rev (dropWhile is_space e)"
    by (simp_all only: dropWhile_length)
  with \<open>str_strip e \<noteq> e\<close> show False by (simp add: str_strip_def)
qed

lemma matching_other: "matching (usr_email u) us = [] \<Longrightarrow> u0 \<in> set us \<Longrightarrow> str_lower (usr_email u0) \<noteq> str_lower (str_strip (usr_email u))"
  by (auto simp: matching_def filter_empty_conv)

lemma users_step:
  assumes "users_evolve db db'" and "accounts_ok db"
  shows "distinct (map usr_id (users_of db')) \<and> distinct (map usr_email (users_of db')) \<and>
    (\<forall>u \<in> set (users_of db'). usr_id u < acc_next db') \<and> (\<forall>e. length (matching e (users_of db')) \<le> 1)"
proof -
  have n: "acc_next db \<le> acc_next db'" using assms(1) by (simp add: users_evolve_def)
  from assms(1) consider (rewritten) "map usr_id (users_of db') = map usr_id (users_of db)" "map usr_email (users_of db') = map usr_email (users_of db)"
    | (added) u where "users_of db' = users_of db @ [u]" "usr_id u = acc_next db" "acc_next db < acc_next db'"
        "usr_email u \<notin> usr_email ` set (users_of db)" "matching (usr_email u) (users_of db) = []"
    unfolding users_evolve_def by blast
  then show ?thesis
  proof cases
    case rewritten
    have "usr_id u < acc_next db'" if "u \<in> set (users_of db')" for u
    proof -
      have "usr_id u \<in> set (map usr_id (users_of db))" using that unfolding rewritten(1) [symmetric] by simp
      then show ?thesis using assms(2) n unfolding accounts_ok_def by fastforce
    qed
    with rewritten assms(2) show ?thesis by (simp add: accounts_ok_def matching_map [OF rewritten(2)])
  next
    case added
    have "length (matching e (users_of db @ [u])) \<le> 1" for e
    proof (cases "str_lower (usr_email u) = str_lower (str_strip e)")
      case True
      have s: "str_strip (usr_email u) = usr_email u" using True padded_unmatched by blast
      have "matching e (users_of db) = []"
        using added(5) True s by (auto simp: matching_def filter_empty_conv)
      then show ?thesis by (simp add: matching_def)
    next
      case False
      with assms(2) show ?thesis by (simp add: accounts_ok_def matching_def)
    qed
    moreover have "acc_next db \<notin> usr_id ` set (users_of db)" using assms(2) by (auto simp: accounts_ok_def)
    ultimately show ?thesis using added assms(2) n by (auto simp: accounts_ok_def)
  qed
qed

lemma users_evolve_same: "users_of db' = users_of db \<Longrightarrow> acc_next db \<le> acc_next db' \<Longrightarrow> users_evolve db db'"
  by (simp add: users_evolve_def)

lemma sign_in_users: "sign_in env ts u db = Some db' \<Longrightarrow> users_of db' = users_of db \<and> acc_next db' = acc_next db + 2"
  by (auto simp: sign_in_def create_session_def create_refresh_token_def with_sessions_def split: option.splits if_splits)

lemma save_user_evolve:
  assumes "user_by_id (acc_tenants db) i = Some u0" and "usr_id u = usr_id u0" and "usr_email u = usr_email u0" and "accounts_ok db"
    and "users_of db' = put_row usr_id u (users_of db)" and "acc_next db' = acc_next db"
  shows "users_evolve db db'"
proof -
  have u0: "u0 \<in> set (users_of db)" using assms(1) by (auto simp: user_by_id_def dest: row_by_SomeD)
  have "usr_email x = usr_email u" if "x \<in> set (users_of db)" "usr_id x = usr_id u" for x
  proof -
    have "distinct (map usr_id (users_of db))" using assms(4) by (simp add: accounts_ok_def)
    then have "x = u0" using that u0 assms(2) unfolding distinct_map by (auto dest: inj_onD)
    then show ?thesis using assms(3) by simp
  qed
  then have "map usr_email (put_row usr_id u (users_of db)) = map usr_email (users_of db)" by (rule map_other_put_row)
  then show ?thesis using assms(5,6) by (simp add: users_evolve_def)
qed

lemma revoke_users [simp]:
  "users_of (revoke_sessions P db) = users_of db" "users_of (revoke_refresh Q db) = users_of db"
  "acc_next (revoke_sessions P db) = acc_next db" "acc_next (revoke_refresh Q db) = acc_next db"
  by (simp_all add: revoke_sessions_def with_sessions_def revoke_refresh_def)

lemma no_match: "get_user_by_email e db = Inr None \<Longrightarrow> matching e (users_of db) = []"
  by (auto simp: get_user_by_email_def matching_def split: list.splits)

lemma register_users: "users_evolve db (fst (register env code tokens email password name db))"
proof (cases "length password < PASSWORD_MIN_LENGTH \<or> get_user_by_email email db \<noteq> Inr None \<or> ae_password env password = None")
  case True
  then have "fst (register env code tokens email password name db) = db"
    by (auto simp: register_def split: sum.split option.split)
  then show ?thesis by (simp add: users_evolve_same)
next
  case False
  have added: "users_evolve db db2"
    if "email \<notin> usr_email ` set (users_of db)" "users_of db2 = users_of db @ [new_user (acc_next db) email name h g]" "acc_next db < acc_next db2" for h g db2
    using that False no_match [of email db] by (simp add: users_evolve_def new_user_def)
  have "users_evolve db (add_account (new_user (acc_next db) email name h g) g' c db)"
    if "email \<notin> usr_email ` set (users_of db)" for h g g' c
    by (rule added [OF that, of _ h g]) (simp_all add: add_account_def Let_def)
  moreover have "users_evolve db db2"
    if "email \<notin> usr_email ` set (users_of db)" "sign_in env tokens v (add_account (new_user (acc_next db) email name h g) g' c db) = Some db2" for h g g' c v db2
    by (rule added [OF that(1), of _ h g]) (use sign_in_users [OF that(2)] in \<open>simp_all add: add_account_def Let_def\<close>)
  ultimately show ?thesis using False unfolding register_def Let_def
    by (auto simp: users_evolve_same split: option.split)
qed

lemma login_users: "users_evolve db (fst (login env tokens ip email password code db))"
proof -
  obtain db1 r where c: "check_login_rate_limit env email ip db = (db1, r)" by fastforce
  then have "users_of db1 = users_of db \<and> acc_next db1 = acc_next db"
    by (auto simp: check_login_rate_limit_def Let_def split: if_splits)
  then show ?thesis unfolding login_def c
    by (auto simp: clear_login_rate_limit_def split: sum.split option.split intro!: users_evolve_same dest: sign_in_users)
qed

lemma reset_users: "accounts_ok db \<Longrightarrow> users_evolve db (fst (reset_password env t password db))"
proof (cases "snd (reset_password env t password db)")
  case (Inl e)
  then have "fst (reset_password env t password db) = db"
    unfolding reset_password_def Let_def by (auto split: if_splits option.splits)
  then show ?thesis by (simp add: users_evolve_same)
next
  case (Inr u)
  assume ok: "accounts_ok db"
  have "reset_password env t password db = (fst (reset_password env t password db), Inr u)" using Inr by (metis surjective_pairing)
  then show ?thesis
  proof (rule reset_passwordD)
    fix u0 hashed c
    assume "u = u0\<lparr>hashed_password := Some hashed\<rparr>" and "user_by_id (acc_tenants db) (usr_id u0) = Some u0"
      and "fst (reset_password env t password db) = revoke_refresh (\<lambda>r. rf_user r = usr_id u0) (revoke_sessions (\<lambda>s. ses_user s = usr_id u0)
        (save_user u (db\<lparr>acc_resets := use_codes (\<lambda>x. cd_hash x = ae_hash env t) (acc_resets db)\<rparr>)))"
    then show ?thesis using ok by (intro save_user_evolve [of db "usr_id u0" u0 u]) simp_all
  qed
qed

lemma verify_users: "accounts_ok db \<Longrightarrow> users_evolve db (fst (verify_email env t db))"
proof -
  assume ok: "accounts_ok db"
  have "users_evolve db (save_user (u\<lparr>email_verified := True\<rparr>) (db\<lparr>acc_verifications := cs\<rparr>))"
    if "user_by_id (acc_tenants db) i = Some u" for u cs i
    by (rule save_user_evolve [OF that _ _ ok]) simp_all
  then show ?thesis unfolding verify_email_def Let_def by (simp add: users_evolve_same split: option.split)
qed

lemma users_evolve_step: "account_step hash db db' \<Longrightarrow> accounts_ok db \<Longrightarrow> users_evolve db db'"
proof (induction rule: account_step.induct)
  case (refresh_step env db tokens tok)
  show ?case by (auto simp: refresh_def users_evolve_same split: option.split intro!: users_evolve_same dest: sign_in_users)
qed (auto simp: register_users login_users reset_users verify_users logout_def logout_all_def forgot_password_def verify_reset_code_def
    resend_verification_def Let_def users_evolve_same split: sum.split option.split)

interpretation accounts: invariant_system "account_step hash" no_accounts accounts_ok
proof
  fix s assume "no_accounts s"
  then show "accounts_ok s" by (simp add: no_accounts_def accounts_ok_def matching_def)
next
  fix s t assume ok: "accounts_ok s" and st: "account_step hash s t"
  then show "accounts_ok t"
    using users_step [OF users_evolve_step [OF st ok] ok] evolves_step [OF st] unfolding evolves_def accounts_ok_def
    by (meson grows_distinct)
qed

text \<open>
  C15. In every state the handlers can reach, tokens and addresses are unique, and an address that is
  looked up names at most one account, whatever its case and surrounding whitespace: the look-up by
  address, which fails on two rows, never fails. (Handlers one after another: two overlapping
  registrations that differ in case pass the check of the code both.)
\<close>

theorem accounts_unique:
  assumes "reached (account_step hash) no_accounts db"
  shows "accounts_ok db \<and> (\<exists>u. get_user_by_email e db = Inr u)"
proof -
  have ok: "accounts_ok db" using assms by (rule accounts.reached_inv)
  then have "length (matching e (users_of db)) \<le> 1" by (simp add: accounts_ok_def)
  then have "\<exists>u. get_user_by_email e db = Inr u"
    by (auto simp: get_user_by_email_def matching_def split: list.split)
  with ok show ?thesis ..
qed

lemma joined_reached: "reached (account_step (ae_hash sample_auth)) no_accounts (fst joined)"
proof -
  have n: "no_accounts empty_accounts" by (simp add: no_accounts_def empty_accounts_def)
  have "reached (account_step (ae_hash sample_auth)) no_accounts empty_accounts" by (rule reached_init) (rule n)
  moreover have "account_step (ae_hash sample_auth) empty_accounts (fst joined)"
    unfolding joined_def by (rule register_step) (rule refl)
  ultimately show ?thesis by (rule reached_step)
qed

theorem accounts_unique_witness: "\<exists>u. get_user_by_email '' A@B'' (fst joined) = Inr u"
proof -
  from accounts_unique [OF joined_reached] show ?thesis by blast
qed

section \<open>Registration and login\<close>

text \<open>Tokens that were not drawn before.\<close>

definition fresh :: "account_env \<Rightarrow> string \<times> string \<Rightarrow> account_db \<Rightarrow> bool" where
  "fresh env ts db = (row_by ses_hash (ae_hash env (fst ts)) (sessions_of db) = None \<and> row_by rf_hash (ae_hash env (snd ts)) (acc_refresh db) = None)"

lemma sign_in_fresh: "fresh env ts db \<Longrightarrow> \<exists>db'. sign_in env ts u db = Some db'"
  by (simp add: fresh_def sign_in_def create_session_def create_refresh_token_def with_sessions_def)

lemma registerD:
  assumes "register env code tokens email password name db = (db', Inr u)"
  obtains h g c g' where "ae_password env password = Some h" and "u = new_user (acc_next db) email name h g"
    and "get_user_by_email email db = Inr None" and "sign_in env tokens u (add_account u g' c db) = Some db'"
  using assms unfolding register_def Let_def by (auto split: if_splits sum.splits option.splits)

text \<open>
  C38. Registration and login fit: an account registered under an address without surrounding
  whitespace is the one that a login with that address and that password signs in, if bcrypt
  accepts the password it hashed, the client has attempts left and the tokens are new.
\<close>

theorem registered_can_login:
  assumes "register env code tokens email password name db = (db1, Inr u)" and "str_strip email = email"
    and "\<And>h. ae_password env password = Some h \<Longrightarrow> h \<noteq> [] \<and> ae_check env2 password h = Some True"
    and "fresh env2 tokens2 db1" and "snd (check_login_rate_limit env2 email ip db1) = Inr k"
  shows "snd (login env2 tokens2 ip email password None db1) = Inr u"
proof -
  obtain h g c g' where r: "ae_password env password = Some h" "u = new_user (acc_next db) email name h g"
    "get_user_by_email email db = Inr None" "sign_in env tokens u (add_account u g' c db) = Some db1"
    using registerD [OF assms(1)] .
  have "users_of db1 = users_of db @ [u]" using sign_in_users [OF r(4)] by (simp add: add_account_def Let_def)
  then have m: "get_user_by_email email db1 = Inr (Some u)"
    using no_match [OF r(3)] assms(2) by (simp add: get_user_by_email_def matching_def r(2) new_user_def)
  obtain db2 where c: "check_login_rate_limit env2 email ip db1 = (db2, Inr k)" using assms(5) by (metis surjective_pairing)
  have d: "acc_tenants db2 = acc_tenants db1" "acc_refresh db2 = acc_refresh db1"
    using c by (auto simp: check_login_rate_limit_def Let_def split: if_splits)
  have m2: "get_user_by_email email db2 = Inr (Some u)" using m by (simp add: get_user_by_email_def d)
  have v: "verify_password env2 password (hashed_password u)" "second_factor env2 u None = None"
    using assms(3) [OF r(1)] by (simp_all add: r(2) new_user_def verify_password_def second_factor_def)
  have "fresh env2 tokens2 db2" using assms(4) by (simp add: fresh_def d)
  then obtain db3 where "sign_in env2 tokens2 u db2 = Some db3" using sign_in_fresh by blast
  with c m2 v show ?thesis by (simp add: login_def)
qed

theorem registered_can_login_witness:
  "\<exists>u. snd joined = Inr u \<and> snd (login sample_auth (''s2'', ''r2'') [] ''a@b'' ''password'' None (fst joined)) = Inr u"
proof -
  obtain db1 u where r: "joined = (db1, Inr u)"
    using sample_joined unfolding case_prod_beta prod.inject map_sum_Inr_iff by (metis surjective_pairing)
  have k: "snd (check_login_rate_limit sample_auth ''a@b'' [] (fst joined)) = Inr ''a@b:unknown''"
    and f: "fresh sample_auth (''s2'', ''r2'') (fst joined)" and e: "str_strip ''a@b'' = ''a@b''" by code_simp+
  from registered_can_login [OF r [unfolded joined_def] e _ f [unfolded r fst_conv] k [unfolded r fst_conv]] show ?thesis
    unfolding r by (auto simp: sample_auth_def)
qed

text \<open>
  An account registered under an address with surrounding whitespace can never be used again:
  no look-up by any address finds it, so that neither a login nor a password reset nor the
  resending of its code reaches it.
\<close>

theorem padded_address_locked_out:
  assumes "register env code tokens email password name db = (db1, Inr u)" and "str_strip email \<noteq> email"
  shows "get_user_by_email e db1 \<noteq> Inr (Some u) \<and> snd (login env2 tokens2 ip e password2 code2 db1) \<noteq> Inr u"
proof -
  obtain h g c g' where r: "u = new_user (acc_next db) email name h g" using registerD [OF assms(1)] .
  have n: "get_user_by_email e db2 \<noteq> Inr (Some u)" for db2
  proof
    assume "get_user_by_email e db2 = Inr (Some u)"
    then have "matching e (users_of db2) = [u]" by (auto simp: get_user_by_email_def matching_def split: list.splits)
    then have "u \<in> set (matching e (users_of db2))" by simp
    then have "str_lower email = str_lower (str_strip e)" by (simp add: matching_def r new_user_def)
    with padded_unmatched [OF assms(2)] show False by blast
  qed
  moreover have "snd (login env2 tokens2 ip e password2 code2 db1) \<noteq> Inr u"
    using n by (auto simp: login_def split: prod.splits sum.splits option.splits if_splits)
  ultimately show ?thesis by blast
qed

theorem padded_address_locked_out_witness:
  "\<exists>u. snd padded = Inr u \<and> get_user_by_email ''a@b'' (fst padded) \<noteq> Inr (Some u) \<and> get_user_by_email ''a@b '' (fst padded) \<noteq> Inr (Some u)"
proof -
  obtain db1 u where r: "padded = (db1, Inr u)"
    using sample_padded unfolding map_sum_Inr_iff by (metis surjective_pairing)
  have e: "str_strip ''a@b '' \<noteq> ''a@b ''" by code_simp
  note out = padded_address_locked_out [OF r [unfolded padded_def] e, THEN conjunct1]
  from out [of "''a@b''"] out [of "''a@b ''"] show ?thesis unfolding r by simp
qed

section \<open>What a logout and a reset leave\<close>

lemma logout_frame:
  assumes "logout env redis tok db = (db1, r)"
  shows "acc_refresh db1 = acc_refresh db \<and> map ses_hash (sessions_of db1) = map ses_hash (sessions_of db) \<and> users_of db1 = users_of db"
  using assms by (auto simp: logout_def revoke_sessions_def with_sessions_def split: option.splits if_splits)

text \<open>
  A logout ends only half of a sign-in: it deletes the refresh cookie in the browser, but whoever
  holds the refresh token can use it afterwards exactly as before.
\<close>

theorem logout_leaves_refresh:
  assumes "logout env redis tok db = (db1, r)" and "snd (refresh env2 tokens (Some t) db) = Inr u"
  shows "snd (refresh env2 tokens (Some t) db1) = Inr u"
proof -
  note f = logout_frame [OF assms(1)]
  have hs: "row_by ses_hash h (sessions_of db1) = None \<longleftrightarrow> row_by ses_hash h (sessions_of db) = None" for h
    using f by (metis list.set_map row_by_None_iff)
  have sign: "sign_in env2 tokens u db1' \<noteq> None"
    if "sign_in env2 tokens u db0 \<noteq> None" "acc_refresh db1' = acc_refresh db0"
      "\<And>h. row_by ses_hash h (sessions_of db1') = None \<longleftrightarrow> row_by ses_hash h (sessions_of db0) = None" for db0 db1' u
    using that by (auto simp: sign_in_def create_session_def create_refresh_token_def with_sessions_def split: if_splits)
  obtain x where x: "refresh_by_hash (ae_hash env2 t) db = Some x" "\<not> rf_revoked x" "\<not> rf_expires x \<le> ae_now env2"
    "user_by_id (acc_tenants db) (rf_user x) = Some u" "usr_active u"
    "sign_in env2 tokens u (revoke_refresh (\<lambda>y. rf_hash y = ae_hash env2 t) db) \<noteq> None"
    using assms(2) by (auto simp: refresh_def split: option.splits if_splits)
  have "sign_in env2 tokens u (revoke_refresh (\<lambda>y. rf_hash y = ae_hash env2 t) db1) \<noteq> None"
    by (rule sign [OF x(6)]) (simp_all add: revoke_refresh_def f hs)
  with x f show ?thesis by (auto simp: refresh_def refresh_by_hash_def user_by_id_def)
qed

theorem logout_leaves_refresh_witness:
  "\<exists>u. snd (refresh sample_auth (''s2'', ''r2'') (Some ''r1'') (fst (logout sample_auth True (Some ''s1'') (fst joined)))) = Inr u"
proof -
  obtain u where u: "snd (refresh sample_auth (''s2'', ''r2'') (Some ''r1'') (fst joined)) = Inr u"
    using sample_joined unfolding case_prod_beta prod.inject map_sum_Inr_iff by auto
  obtain db1 r where l: "logout sample_auth True (Some ''s1'') (fst joined) = (db1, r)" by fastforce
  from logout_leaves_refresh [OF l u] l show ?thesis by auto
qed

text \<open>
  A reset leaves the other codes: a code that was mailed before can be exchanged after the reset
  for another reset token, so whoever has an older mail can set the password again.
\<close>

theorem codes_survive_reset:
  assumes "reset_password env t password db = (db1, Inr u)" and "accounts_ok db"
    and "snd (verify_reset_code env token email code db) = Inr raw"
    and "ae_hash env t \<notin> ae_hash env ` set (verification_token_candidates (str_strip code))"
  shows "snd (verify_reset_code env token email code db1) = Inr raw"
proof -
  let ?use = "use_codes (\<lambda>x. cd_hash x = ae_hash env t)"
  obtain u0 hashed where u: "u = u0\<lparr>hashed_password := Some hashed\<rparr>" "user_by_id (acc_tenants db) (usr_id u0) = Some u0"
    and db1: "db1 = revoke_refresh (\<lambda>r. rf_user r = usr_id u0) (revoke_sessions (\<lambda>s. ses_user s = usr_id u0)
      (save_user u (db\<lparr>acc_resets := ?use (acc_resets db)\<rparr>)))"
    using reset_passwordD [OF assms(1)] by metis
  have users: "users_of db1 = put_row usr_id u (users_of db)" by (simp add: db1)
  have resets: "acc_resets db1 = ?use (acc_resets db)"
    by (simp add: db1 revoke_refresh_def revoke_sessions_def with_sessions_def)
  have ids: "distinct (map usr_id (users_of db))" using assms(2) by (simp add: accounts_ok_def)
  have u0: "u0 \<in> set (users_of db)" using u(2) by (auto simp: user_by_id_def dest: row_by_SomeD)
  have keep: "filter (\<lambda>x. str_lower (usr_email x) = e) (put_row usr_id u us) = put_row usr_id u (filter (\<lambda>x. str_lower (usr_email x) = e) us)"
    if "set us \<subseteq> set (users_of db)" for e us
    using that
  proof (induction us)
    case (Cons x us)
    have "usr_id x = usr_id u \<Longrightarrow> usr_email x = usr_email u"
      using Cons.prems ids u0 unfolding distinct_map by (auto simp: u(1) dest: inj_onD)
    with Cons show ?case by auto
  qed simp
  have same: "\<exists>v'. get_user_by_email email db1 = Inr (Some v') \<and> usr_id v' = usr_id v"
    if "get_user_by_email email db = Inr (Some v)" for v
    using that keep [of "users_of db" "str_lower (str_strip email)"]
    by (auto simp: get_user_by_email_def users split: list.splits if_splits)
  have hashes: "cd_hash ` set (?use cs) = cd_hash ` set cs" for cs
    unfolding use_codes_def by (induction cs) auto
  have found: "find (\<lambda>x. cd_user x = i \<and> cd_hash x \<in> H) (rev (?use cs)) = find (\<lambda>x. cd_user x = i \<and> cd_hash x \<in> H) (rev cs)"
    if "ae_hash env t \<notin> H" for i H cs
  proof -
    have "find (\<lambda>x. cd_user x = i \<and> cd_hash x \<in> H) (?use xs) = find (\<lambda>x. cd_user x = i \<and> cd_hash x \<in> H) xs" for xs
      unfolding use_codes_def using that by (induction xs) auto
    then show ?thesis unfolding use_codes_def by (simp add: rev_map)
  qed
  obtain v where v: "get_user_by_email email db = Inr (Some v)"
    using assms(3) by (auto simp: verify_reset_code_def Let_def split: sum.splits option.splits if_splits)
  then obtain v' where v': "get_user_by_email email db1 = Inr (Some v')" "usr_id v' = usr_id v" using same by blast
  show ?thesis
    using assms(3) found [OF assms(4)] unfolding verify_reset_code_def Let_def v v' resets hashes
    by (simp add: hashes v'(2) split: if_splits)
qed

theorem codes_survive_reset_witness:
  "snd (verify_reset_code sample_auth (replicate 31 CHR ''x'') ''a@b'' ''BBBBBB'' (fst reset_done)) = Inr (''rst_'' @ replicate 31 CHR ''x'')"
proof -
  obtain db1 u where r: "reset_done = (db1, Inr u)"
    using sample_reset unfolding map_sum_Inr_iff by (metis surjective_pairing)
  have mail: "account_step (ae_hash sample_auth) db (fst (forgot_password sample_auth c e db))" for c e db
    by (rule forgot_step) (rule refl)
  have "account_step (ae_hash sample_auth) mailed exchanged" unfolding exchanged_def by (rule code_step) (rule refl)
  with reached_step [OF reached_step [OF joined_reached mail] mail] have "reached (account_step (ae_hash sample_auth)) no_accounts exchanged"
    unfolding mailed_def by (rule reached_step)
  then have ok: "accounts_ok exchanged" by (rule accounts.reached_inv)
  have d: "ae_hash sample_auth reset_token \<notin> ae_hash sample_auth ` set (verification_token_candidates (str_strip ''BBBBBB''))" by code_simp
  from codes_survive_reset [OF r [unfolded reset_done_def] ok sample_other_code d] show ?thesis unfolding r fst_conv .
qed

end
