(* ===== verification/Admin_Auth.thy ===== *)
theory Admin_Auth
  imports Accounts
begin

text \<open>
  \<open>app/admin/auth.py\<close>, \<open>app/admin/dependencies.py\<close> and the roles of \<open>app/admin/constants.py\<close>:
  administrators' tokens, sessions and second factor, and the context that every admin handler
  asks for. PyJWT is an argument: what it signs, and what it reads from a token (with the checks
  of signature, audience, issuer and times).
\<close>

section \<open>Roles\<close>

datatype admin_role = SUPER_ADMIN | SECURITY_ANALYST | BILLING_ADMIN | RUNTIME_OPERATOR | VIEWER

definition role_of :: "string \<Rightarrow> admin_role option" where
  "role_of s = map_of [(''super_admin'', SUPER_ADMIN), (''security_analyst'', SECURITY_ANALYST), (''billing_admin'', BILLING_ADMIN),
     (''runtime_operator'', RUNTIME_OPERATOR), (''viewer'', VIEWER)] s"

datatype permission =
    PERM_SUPER_ADMIN | DASHBOARD_READ | DASHBOARD_LIVE | REQUESTS_READ | SECURITY_READ | SECURITY_ACTIONS
  | IP_INTELLIGENCE_READ | IP_INTELLIGENCE_WRITE | FINGERPRINTS_READ | RUNTIMES_READ | RUNTIMES_WRITE | MODELS_READ
  | MODELS_WRITE | BILLING_READ | BILLING_WRITE | USAGE_READ | EVENTS_READ | EVENTS_REPLAY | HEALTH_READ | AUDIT_READ
  | FEATURE_FLAGS_READ | FEATURE_FLAGS_WRITE | NOTIFICATIONS_READ | NOTIFICATIONS_WRITE | AUTH_LOGIN | AUTH_LOGOUT | AUTH_MFA

definition all_permissions :: "permission list" where
  "all_permissions = [PERM_SUPER_ADMIN, DASHBOARD_READ, DASHBOARD_LIVE, REQUESTS_READ, SECURITY_READ, SECURITY_ACTIONS,
     IP_INTELLIGENCE_READ, IP_INTELLIGENCE_WRITE, FINGERPRINTS_READ, RUNTIMES_READ, RUNTIMES_WRITE, MODELS_READ, MODELS_WRITE,
     BILLING_READ, BILLING_WRITE, USAGE_READ, EVENTS_READ, EVENTS_REPLAY, HEALTH_READ, AUDIT_READ, FEATURE_FLAGS_READ,
     FEATURE_FLAGS_WRITE, NOTIFICATIONS_READ, NOTIFICATIONS_WRITE, AUTH_LOGIN, AUTH_LOGOUT, AUTH_MFA]"

fun ROLE_PERMISSIONS :: "admin_role \<Rightarrow> permission list" where
  "ROLE_PERMISSIONS SUPER_ADMIN = all_permissions"
| "ROLE_PERMISSIONS SECURITY_ANALYST = [DASHBOARD_READ, DASHBOARD_LIVE, REQUESTS_READ, SECURITY_READ, SECURITY_ACTIONS,
     IP_INTELLIGENCE_READ, FINGERPRINTS_READ, EVENTS_READ, EVENTS_REPLAY, AUDIT_READ, NOTIFICATIONS_READ, AUTH_LOGIN, AUTH_LOGOUT, AUTH_MFA]"
| "ROLE_PERMISSIONS BILLING_ADMIN = [DASHBOARD_READ, BILLING_READ, BILLING_WRITE, USAGE_READ, NOTIFICATIONS_READ, AUDIT_READ,
     AUTH_LOGIN, AUTH_LOGOUT, AUTH_MFA]"
| "ROLE_PERMISSIONS RUNTIME_OPERATOR = [DASHBOARD_READ, DASHBOARD_LIVE, RUNTIMES_READ, RUNTIMES_WRITE, MODELS_READ, MODELS_WRITE,
     EVENTS_READ, HEALTH_READ, NOTIFICATIONS_READ, AUDIT_READ, AUTH_LOGIN, AUTH_LOGOUT, AUTH_MFA]"
| "ROLE_PERMISSIONS VIEWER = [DASHBOARD_READ, REQUESTS_READ, SECURITY_READ, IP_INTELLIGENCE_READ, FINGERPRINTS_READ, RUNTIMES_READ,
     MODELS_READ, BILLING_READ, USAGE_READ, EVENTS_READ, HEALTH_READ, AUDIT_READ, NOTIFICATIONS_READ, AUTH_LOGIN, AUTH_LOGOUT, AUTH_MFA]"

section \<open>Rows and tokens\<close>

record admin_user =
  adm_id :: uuid
  adm_user :: uuid
  adm_role :: string
  mfa_enabled :: bool
  mfa_secret :: "string option"
  mfa_verified :: bool
  adm_active :: bool

record admin_session =
  ads_user :: uuid
  ads_admin :: uuid
  ads_hash :: string
  ads_ip :: "string option"
  ads_agent :: "string option"
  ads_expires :: instant
  ads_revoked :: bool
  ads_mfa :: bool

record ip_record =
  ipr_address :: string
  ipr_banned :: bool
  ipr_type :: "string option"
  ipr_until :: "instant option"

record admin_db =
  ad_users :: "user list"
  ad_admins :: "admin_user list"
  ad_sessions :: "admin_session list"
  ad_allowed :: "(string \<times> bool) list"       \<comment> \<open>address, active\<close>
  ad_addresses :: "ip_record list"

text \<open>\<open>None\<close>: the claim is missing or is no UUID.\<close>

record claims =
  cl_admin :: "uuid option"
  cl_user :: "uuid option"
  cl_role :: string
  cl_mfa :: bool
  cl_type :: string
  cl_issued :: instant
  cl_expires :: instant
  cl_jti :: string

datatype jwt_error = Expired_Signature | Invalid_Token

record jwt =
  jwt_encode :: "claims \<Rightarrow> string"
  jwt_decode :: "string \<Rightarrow> jwt_error + claims"

record admin_settings =
  ADMIN_IP_ALLOWLIST :: bool
  ADMIN_IP_BAN_CHECK :: bool

definition ACCESS_TTL :: instant where "ACCESS_TTL = 30 * MINUTE"

definition create_access_token :: "jwt \<Rightarrow> instant \<Rightarrow> string \<Rightarrow> uuid \<Rightarrow> uuid \<Rightarrow> string \<Rightarrow> bool \<Rightarrow> string" where
  "create_access_token j now jti a u rl mfa =
     jwt_encode j \<lparr>cl_admin = Some a, cl_user = Some u, cl_role = rl, cl_mfa = mfa, cl_type = ''admin_access'',
       cl_issued = now, cl_expires = now + ACCESS_TTL, cl_jti = jti\<rparr>"

definition create_admin_refresh :: "jwt \<Rightarrow> instant \<Rightarrow> string \<Rightarrow> uuid \<Rightarrow> uuid \<Rightarrow> string" where
  "create_admin_refresh j now jti a u =
     jwt_encode j \<lparr>cl_admin = Some a, cl_user = Some u, cl_role = [], cl_mfa = False, cl_type = ''admin_refresh'',
       cl_issued = now, cl_expires = now + REFRESH_TTL, cl_jti = jti\<rparr>"

definition decode_token :: "jwt \<Rightarrow> string \<Rightarrow> claims reply" where
  "decode_token j t =
     (case jwt_decode j t of
        Inl Expired_Signature \<Rightarrow> Inl (HTTP 401 ''Token expired'')
      | Inl Invalid_Token \<Rightarrow> Inl (HTTP 401 ''Invalid token'')
      | Inr c \<Rightarrow> Inr c)"

definition admin_by_id :: "admin_db \<Rightarrow> uuid \<Rightarrow> admin_user option" where
  "admin_by_id db i = row_by adm_id i (ad_admins db)"

definition save_admin :: "admin_user \<Rightarrow> admin_db \<Rightarrow> admin_db" where
  "save_admin a db = db\<lparr>ad_admins := put_row adm_id a (ad_admins db)\<rparr>"

interpretation admin_repo: repository admin_by_id save_admin adm_id
  by unfold_locales (auto simp: admin_by_id_def save_admin_def row_by_put_row dest: row_by_SomeD)

definition session_by_hash :: "string \<Rightarrow> admin_db \<Rightarrow> admin_session option" where
  "session_by_hash h db = row_by ads_hash h (ad_sessions db)"

text \<open>The unique index on the hash: \<open>None\<close> is the IntegrityError.\<close>

definition add_session :: "admin_session \<Rightarrow> admin_db \<Rightarrow> admin_db option" where
  "add_session s db = (if session_by_hash (ads_hash s) db \<noteq> None then None else Some (db\<lparr>ad_sessions := ad_sessions db @ [s]\<rparr>))"

definition new_admin_session :: "account_env \<Rightarrow> admin_user \<Rightarrow> string \<Rightarrow> string option \<Rightarrow> string option \<Rightarrow> instant \<Rightarrow> admin_session" where
  "new_admin_session env a token ip agent ttl = \<lparr>ads_user = adm_user a, ads_admin = adm_id a, ads_hash = ae_hash env token, ads_ip = ip,
     ads_agent = agent, ads_expires = ae_now env + ttl, ads_revoked = False, ads_mfa = mfa_verified a\<rparr>"

definition add_pair :: "account_env \<Rightarrow> admin_user \<Rightarrow> string \<times> string \<Rightarrow> string option \<Rightarrow> string option \<Rightarrow> admin_db \<Rightarrow> admin_db option" where
  "add_pair env a tokens ip agent db =
     (case add_session (new_admin_session env a (fst tokens) ip agent ACCESS_TTL) db of
        None \<Rightarrow> None
      | Some db1 \<Rightarrow> add_session (new_admin_session env a (snd tokens) ip agent REFRESH_TTL) db1)"

section \<open>The service\<close>

text \<open>\<open>jtis\<close> are the identifiers drawn for the two tokens, which are the result.\<close>

definition admin_login ::
  "jwt \<Rightarrow> account_env \<Rightarrow> string \<times> string \<Rightarrow> string \<Rightarrow> string \<Rightarrow> string \<Rightarrow> string \<Rightarrow> admin_db \<Rightarrow> admin_db \<times> (string \<times> string) reply" where
  "admin_login j env jtis email password ip agent db =
     (case row_by usr_email email (ad_users db) of
        None \<Rightarrow> (db, Inl (HTTP 401 ''Invalid credentials''))
      | Some u \<Rightarrow>
          if \<not> usr_active u \<or> \<not> verify_password env password (hashed_password u) then (db, Inl (HTTP 401 ''Invalid credentials''))
          else case row_by adm_user (usr_id u) (ad_admins db) of
            None \<Rightarrow> (db, Inl (HTTP 403 ''Not an admin user''))
          | Some a \<Rightarrow>
              if \<not> adm_active a then (db, Inl (HTTP 403 ''Not an admin user''))
              else if role_of (adm_role a) = None then (db, Inl (HTTP 500 ''ValueError''))
              else (let access = create_access_token j (ae_now env) (fst jtis) (adm_id a) (usr_id u) (adm_role a) False;
                        renewal = create_admin_refresh j (ae_now env) (snd jtis) (adm_id a) (usr_id u)
                in case add_pair env a (access, renewal) (Some ip) (Some agent) db of
                     None \<Rightarrow> (db, Inl (HTTP 500 ''IntegrityError''))
                   | Some db1 \<Rightarrow> (db1, Inr (access, renewal))))"

definition revoke_hash :: "string \<Rightarrow> admin_db \<Rightarrow> admin_db" where
  "revoke_hash h db = db\<lparr>ad_sessions := map (\<lambda>s. if ads_hash s = h then s\<lparr>ads_revoked := True\<rparr> else s) (ad_sessions db)\<rparr>"

definition verify_access_token :: "jwt \<Rightarrow> account_env \<Rightarrow> string \<Rightarrow> admin_db \<Rightarrow> (uuid \<times> uuid \<times> admin_role \<times> bool) reply" where
  "verify_access_token j env t db =
     (case decode_token j t of
        Inl e \<Rightarrow> Inl e
      | Inr c \<Rightarrow>
          if cl_type c \<noteq> ''admin_access'' then Inl (HTTP 401 ''Invalid token type'')
          else (case cl_admin c of
            None \<Rightarrow> Inl (HTTP 401 ''Invalid admin token'')
          | Some i \<Rightarrow>
             (case session_by_hash (ae_hash env t) db of
                None \<Rightarrow> Inl (HTTP 401 ''Session expired or revoked'')
              | Some s \<Rightarrow>
                  if ads_revoked s \<or> ads_expires s < ae_now env then Inl (HTTP 401 ''Session expired or revoked'')
                  else (case admin_by_id db i of
                    None \<Rightarrow> Inl (HTTP 401 ''Admin user inactive'')
                  | Some a \<Rightarrow>
                      if \<not> adm_active a then Inl (HTTP 401 ''Admin user inactive'')
                      else (case cl_user c of
                        None \<Rightarrow> Inl (HTTP 401 ''Invalid admin token'')
                      | Some u \<Rightarrow>
                          if adm_user a \<noteq> u \<or> ads_admin s \<noteq> i \<or> ads_user s \<noteq> u then Inl (HTTP 401 ''Invalid admin token subject'')
                          else (case role_of (adm_role a) of
                            None \<Rightarrow> Inl (HTTP 500 ''ValueError'')
                          | Some r \<Rightarrow> Inr (i, u, r, cl_mfa c)))))))"

definition refresh_access ::
  "jwt \<Rightarrow> account_env \<Rightarrow> string \<times> string \<Rightarrow> string \<Rightarrow> admin_db \<Rightarrow> admin_db \<times> (string \<times> string) reply" where
  "refresh_access j env jtis t db =
     (case decode_token j t of
        Inl e \<Rightarrow> (db, Inl e)
      | Inr c \<Rightarrow>
          if cl_type c \<noteq> ''admin_refresh'' then (db, Inl (HTTP 401 ''Invalid token type''))
          else (case cl_admin c of
            None \<Rightarrow> (db, Inl (HTTP 401 ''Invalid refresh token''))
          | Some i \<Rightarrow>
             (case session_by_hash (ae_hash env t) db of
                None \<Rightarrow> (db, Inl (HTTP 401 ''Refresh session expired or revoked''))
              | Some s \<Rightarrow>
                  if ads_revoked s \<or> ads_expires s \<le> ae_now env \<or> ads_admin s \<noteq> i
                  then (db, Inl (HTTP 401 ''Refresh session expired or revoked''))
                  else (case admin_by_id db i of
                    None \<Rightarrow> (db, Inl (HTTP 401 ''Admin user not found''))
                  | Some a \<Rightarrow>
                      if \<not> adm_active a then (db, Inl (HTTP 401 ''Admin user not found''))
                      else (case cl_user c of
                        None \<Rightarrow> (db, Inl (HTTP 401 ''Invalid refresh token''))
                      | Some u \<Rightarrow>
                          if adm_user a \<noteq> u then (db, Inl (HTTP 401 ''Invalid refresh token subject''))
                          else if role_of (adm_role a) = None then (db, Inl (HTTP 500 ''ValueError''))
                          else (let access = create_access_token j (ae_now env) (fst jtis) (adm_id a) u (adm_role a) (mfa_verified a);
                                    renewal = create_admin_refresh j (ae_now env) (snd jtis) (adm_id a) u
                            in case add_pair env a (access, renewal) None None (revoke_hash (ae_hash env t) db) of
                                 None \<Rightarrow> (db, Inl (HTTP 500 ''IntegrityError''))
                               | Some db1 \<Rightarrow> (db1, Inr (access, renewal))))))))"

definition admin_logout :: "account_env \<Rightarrow> string \<Rightarrow> admin_db \<Rightarrow> admin_db" where
  "admin_logout env t db = revoke_hash (ae_hash env t) db"

definition admin_logout_all :: "uuid \<Rightarrow> admin_db \<Rightarrow> admin_db" where
  "admin_logout_all i db = db\<lparr>ad_sessions := map (\<lambda>s. if ads_admin s = i then s\<lparr>ads_revoked := True\<rparr> else s) (ad_sessions db)\<rparr>"

definition setup_mfa :: "string \<Rightarrow> uuid \<Rightarrow> admin_db \<Rightarrow> admin_db \<times> string reply" where
  "setup_mfa secret i db =
     (case admin_by_id db i of
        None \<Rightarrow> (db, Inl (HTTP 404 ''Admin user not found''))
      | Some a \<Rightarrow> (save_admin (a\<lparr>mfa_secret := Some secret, mfa_enabled := True\<rparr>) db, Inr secret))"

definition verify_mfa :: "account_env \<Rightarrow> uuid \<Rightarrow> string \<Rightarrow> admin_db \<Rightarrow> admin_db \<times> unit reply" where
  "verify_mfa env i code db =
     (case admin_by_id db i of
        None \<Rightarrow> (db, Inl (HTTP 404 ''Admin user not found''))
      | Some a \<Rightarrow>
         (case mfa_secret a of
            None \<Rightarrow> (db, Inl (HTTP 400 ''MFA not set up''))
          | Some secret \<Rightarrow>
              if secret = [] then (db, Inl (HTTP 400 ''MFA not set up''))
              else (case verify_totp (ae_mac env) (ae_now env) secret code of
                None \<Rightarrow> (db, Inl (HTTP 500 ''binascii.Error''))
              | Some False \<Rightarrow> (db, Inl (HTTP 401 ''Invalid MFA code''))
              | Some True \<Rightarrow>
                  ((save_admin (a\<lparr>mfa_verified := True\<rparr>) db)\<lparr>ad_sessions :=
                      map (\<lambda>s. if ads_admin s = i \<and> \<not> ads_revoked s then s\<lparr>ads_mfa := True\<rparr> else s) (ad_sessions db)\<rparr>, Inr ()))))"

definition disable_mfa :: "uuid \<Rightarrow> admin_db \<Rightarrow> admin_db \<times> unit reply" where
  "disable_mfa i db =
     (case admin_by_id db i of
        None \<Rightarrow> (db, Inl (HTTP 404 ''Admin user not found''))
      | Some a \<Rightarrow> (save_admin (a\<lparr>mfa_secret := None, mfa_enabled := False, mfa_verified := False\<rparr>) db, Inr ()))"

section \<open>The context of a request\<close>

definition require_admin_session :: "account_env \<Rightarrow> string \<Rightarrow> claims \<Rightarrow> admin_db \<Rightarrow> (uuid \<times> uuid \<times> admin_session) reply" where
  "require_admin_session env t c db =
     (if cl_type c \<noteq> ''admin_access'' then Inl (HTTP 401 ''Invalid token type'')
      else case (cl_admin c, cl_user c) of
        (Some i, Some u) \<Rightarrow>
         (case session_by_hash (ae_hash env t) db of
            None \<Rightarrow> Inl (HTTP 401 ''Session expired or revoked'')
          | Some s \<Rightarrow>
              if ads_revoked s \<or> ads_expires s \<le> ae_now env \<or> ads_admin s \<noteq> i \<or> ads_user s \<noteq> u
              then Inl (HTTP 401 ''Session expired or revoked'') else Inr (i, u, s))
      | _ \<Rightarrow> Inl (HTTP 401 ''Invalid admin token''))"

definition client_ip :: "string option \<Rightarrow> string option \<Rightarrow> string" where
  "client_ip forwarded host =
     (case forwarded of
        Some f \<Rightarrow> if f \<noteq> [] then str_strip (hd (split_on CHR '','' f)) else (case host of Some h \<Rightarrow> h | None \<Rightarrow> ''unknown'')
      | None \<Rightarrow> (case host of Some h \<Rightarrow> h | None \<Rightarrow> ''unknown''))"

definition check_ip_not_banned :: "instant \<Rightarrow> ip_record option \<Rightarrow> bool" where
  "check_ip_not_banned now r =
     (case r of None \<Rightarrow> True
      | Some x \<Rightarrow> \<not> (ipr_banned x \<and> (ipr_type x = Some ''permanent'' \<or> (case ipr_until x of None \<Rightarrow> False | Some t \<Rightarrow> now < t))))"

definition address_refusal :: "admin_settings \<Rightarrow> account_env \<Rightarrow> string \<Rightarrow> admin_db \<Rightarrow> http_error option" where
  "address_refusal cfg env ip db =
     (if ADMIN_IP_ALLOWLIST cfg \<and> (ip, True) \<notin> set (ad_allowed db) then Some (HTTP 403 ''IP not allowed'')
      else if ADMIN_IP_BAN_CHECK cfg \<and> \<not> check_ip_not_banned (ae_now env) (row_by ipr_address ip (ad_addresses db))
      then Some (HTTP 403 ''IP is banned'')
      else None)"

record admin_context =
  ctx_admin :: uuid
  ctx_user :: uuid
  ctx_role :: admin_role
  ctx_email :: string
  ctx_permissions :: "permission list"
  ctx_mfa :: bool

definition get_admin_context ::
  "jwt \<Rightarrow> admin_settings \<Rightarrow> account_env \<Rightarrow> string option \<Rightarrow> string \<Rightarrow> admin_db \<Rightarrow> admin_context reply" where
  "get_admin_context j cfg env header ip db =
     (case bearer_token header of
        None \<Rightarrow> Inl (HTTP 401 ''Not authenticated'')
      | Some t \<Rightarrow>
          if t = [] then Inl (HTTP 401 ''Not authenticated'')
          else case decode_token j t of
            Inl e \<Rightarrow> Inl e
          | Inr c \<Rightarrow>
             (case require_admin_session env t c db of
                Inl e \<Rightarrow> Inl e
              | Inr (i, u, s) \<Rightarrow>
                 (case admin_by_id db i of
                    None \<Rightarrow> Inl (HTTP 401 ''Admin user not found'')
                  | Some a \<Rightarrow>
                      if \<not> adm_active a then Inl (HTTP 401 ''Admin user not found'')
                      else (case row_by usr_id u (ad_users db) of
                        None \<Rightarrow> Inl (HTTP 401 ''Admin user inactive'')
                      | Some usr \<Rightarrow>
                          if \<not> usr_active usr then Inl (HTTP 401 ''Admin user inactive'')
                          else (case role_of (adm_role a) of
                            None \<Rightarrow> Inl (HTTP 401 ''Invalid admin role'')
                          | Some r \<Rightarrow>
                              if adm_user a \<noteq> u then Inl (HTTP 401 ''Invalid admin token subject'')
                              else (case address_refusal cfg env ip db of
                                Some e \<Rightarrow> Inl e
                              | None \<Rightarrow> Inr \<lparr>ctx_admin = i, ctx_user = u, ctx_role = r, ctx_email = usr_email usr,
                                  ctx_permissions = ROLE_PERMISSIONS r, ctx_mfa = (cl_mfa c \<and> mfa_verified a \<and> ads_mfa s)\<rparr>))))))"

definition require_permission :: "permission \<Rightarrow> admin_context reply \<Rightarrow> admin_context reply" where
  "require_permission p r =
     (case r of Inl e \<Rightarrow> Inl e
      | Inr ctx \<Rightarrow> if p \<in> set (ctx_permissions ctx) then Inr ctx else Inl (HTTP 403 ''Insufficient permissions''))"

definition get_current_super_admin :: "jwt \<Rightarrow> account_env \<Rightarrow> string option \<Rightarrow> admin_db \<Rightarrow> admin_user reply" where
  "get_current_super_admin j env header db =
     (case bearer_token header of
        None \<Rightarrow> Inl (HTTP 401 ''Not authenticated'')
      | Some t \<Rightarrow>
          if t = [] then Inl (HTTP 401 ''Not authenticated'')
          else case decode_token j t of
            Inl e \<Rightarrow> Inl e
          | Inr c \<Rightarrow>
             (case require_admin_session env t c db of
                Inl e \<Rightarrow> Inl e
              | Inr (i, u, s) \<Rightarrow>
                 (case admin_by_id db i of
                    None \<Rightarrow> Inl (HTTP 401 ''Admin user not found'')
                  | Some a \<Rightarrow>
                      if \<not> adm_active a then Inl (HTTP 401 ''Admin user not found'')
                      else if adm_user a \<noteq> u then Inl (HTTP 401 ''Invalid admin token subject'')
                      else (case role_of (adm_role a) of
                        None \<Rightarrow> Inl (HTTP 401 ''Invalid admin role'')
                      | Some r \<Rightarrow> if r = SUPER_ADMIN then Inr a else Inl (HTTP 403 ''Super admin access required'')))))"

definition get_current_mfa_verified :: "jwt \<Rightarrow> account_env \<Rightarrow> string option \<Rightarrow> admin_db \<Rightarrow> admin_user reply" where
  "get_current_mfa_verified j env header db =
     (case bearer_token header of
        None \<Rightarrow> Inl (HTTP 401 ''Not authenticated'')
      | Some t \<Rightarrow>
          if t = [] then Inl (HTTP 401 ''Not authenticated'')
          else case decode_token j t of
            Inl e \<Rightarrow> Inl e
          | Inr c \<Rightarrow>
              if \<not> cl_mfa c then Inl (HTTP 401 ''MFA verification required'')
              else (case require_admin_session env t c db of
                Inl e \<Rightarrow> Inl e
              | Inr (i, u, s) \<Rightarrow>
                 (case admin_by_id db i of
                    None \<Rightarrow> Inl (HTTP 401 ''Admin user not found'')
                  | Some a \<Rightarrow>
                      if \<not> adm_active a then Inl (HTTP 401 ''Admin user not found'')
                      else if adm_user a \<noteq> u \<or> \<not> mfa_verified a \<or> \<not> ads_mfa s
                      then Inl (HTTP 401 ''MFA verification required'')
                      else Inr a)))"

end
