(* ===== verification/Admin_Laws.thy ===== *)
theory Admin_Laws
  imports "HOL-Library.Countable" Admin_Auth Account_Laws
begin

text \<open>
  What stands between a request and the administration: the context is given exactly to live
  sessions of active administrators, with the rights of the role in the database; revoked and
  used tokens stay dead; and what does not stand there: the second factor, which is asked for
  once and never again.
\<close>

section \<open>Sessions\<close>

inductive admin_step :: "jwt \<Rightarrow> (string \<Rightarrow> string) \<Rightarrow> admin_db \<Rightarrow> admin_db \<Rightarrow> bool" for j :: jwt and hash :: "string \<Rightarrow> string" where
  admin_login_step: "ae_hash env = hash \<Longrightarrow> admin_step j hash db (fst (admin_login j env jtis email password ip agent db))"
| admin_refresh_step: "ae_hash env = hash \<Longrightarrow> admin_step j hash db (fst (refresh_access j env jtis t db))"
| admin_logout_step: "ae_hash env = hash \<Longrightarrow> admin_step j hash db (admin_logout env t db)"
| admin_logout_all_step: "admin_step j hash db (admin_logout_all i db)"
| setup_mfa_step: "admin_step j hash db (fst (setup_mfa secret i db))"
| verify_mfa_step: "admin_step j hash db (fst (verify_mfa env i totp db))"
| disable_mfa_step: "admin_step j hash db (fst (disable_mfa i db))"
| administration_step: "ad_sessions db' = ad_sessions db \<Longrightarrow> admin_step j hash db db'"

lemma add_pair_grows: "add_pair env a ts ip agent db = Some db' \<Longrightarrow> grows ads_hash ads_revoked (ad_sessions db) (ad_sessions db')"
  by (auto simp: add_pair_def add_session_def session_by_hash_def split: option.splits if_splits
      intro!: grows_trans [OF grows_add grows_add, simplified])

lemma revoke_grows: "grows ads_hash ads_revoked (ad_sessions db) (ad_sessions (revoke_hash h db))"
  unfolding revoke_hash_def by (auto intro: grows_map)

lemma refresh_grows: "grows ads_hash ads_revoked (ad_sessions db) (ad_sessions (fst (refresh_access j env jtis t db)))"
proof -
  have "grows ads_hash ads_revoked (ad_sessions db) (ad_sessions db')"
    if "add_pair env a ts ip agent (revoke_hash h db) = Some db'" for a ts ip agent h db'
    using grows_trans [OF revoke_grows add_pair_grows [OF that]] .
  then show ?thesis unfolding refresh_access_def Let_def by (simp split: sum.split option.split)
qed

lemma admin_step_grows: "admin_step j hash db db' \<Longrightarrow> grows ads_hash ads_revoked (ad_sessions db) (ad_sessions db')"
proof (induction rule: admin_step.induct)
  case (admin_login_step env db jtis email password ip agent)
  show ?case unfolding admin_login_def Let_def by (simp add: add_pair_grows split: option.split)
next
  case (verify_mfa_step db env i totp)
  show ?case unfolding verify_mfa_def by (auto simp: save_admin_def split: option.split bool.split intro!: grows_map)
qed (auto simp: refresh_grows admin_logout_def revoke_grows admin_logout_all_def setup_mfa_def disable_mfa_def save_admin_def
      split: option.split intro!: grows_map)

interpretation admin_table: one_way ad_sessions ads_hash ads_revoked "admin_step j hash"
  by unfold_locales (rule admin_step_grows)

text \<open>A dead token gives no context, whatever its claims.\<close>

lemma dead_token_refused:
  assumes "session_by_hash (ae_hash env t) db = Some s" and "ads_revoked s"
  shows "\<nexists>x. require_admin_session env t c db = Inr x"
  using assms by (auto simp: require_admin_session_def split: option.splits if_splits)

lemma contextD:
  assumes "get_admin_context j cfg env header ip db = Inr ctx" and "bearer_token header = Some t"
  shows "\<exists>c s a. decode_token j t = Inr c \<and> require_admin_session env t c db = Inr (ctx_admin ctx, ctx_user ctx, s) \<and>
    session_by_hash (ae_hash env t) db = Some s \<and> \<not> ads_revoked s \<and> ae_now env < ads_expires s \<and> ads_admin s = ctx_admin ctx \<and>
    ads_user s = ctx_user ctx \<and> admin_by_id db (ctx_admin ctx) = Some a \<and> adm_active a \<and> adm_user a = ctx_user ctx \<and>
    role_of (adm_role a) = Some (ctx_role ctx) \<and> ctx_permissions ctx = ROLE_PERMISSIONS (ctx_role ctx) \<and>
    (\<exists>v. row_by usr_id (ctx_user ctx) (ad_users db) = Some v \<and> usr_active v) \<and> ctx_mfa ctx = (cl_mfa c \<and> mfa_verified a \<and> ads_mfa s)"
proof -
  have "t \<noteq> []" using assms by (auto simp: get_admin_context_def)
  obtain c where c: "decode_token j t = Inr c"
    using assms by (cases "decode_token j t") (auto simp: get_admin_context_def split: if_splits)
  obtain i u s where r: "require_admin_session env t c db = Inr (i, u, s)"
    using assms c by (cases "require_admin_session env t c db") (auto simp: get_admin_context_def split: if_splits)
  have l: "session_by_hash (ae_hash env t) db = Some s" "\<not> ads_revoked s" "ae_now env < ads_expires s" "ads_admin s = i" "ads_user s = u"
    using r by (auto simp: require_admin_session_def split: option.splits if_splits)
  have g: "get_admin_context j cfg env header ip db =
      (case admin_by_id db i of
         None \<Rightarrow> Inl (HTTP 401 ''Admin user not found'')
       | Some a \<Rightarrow>
           if \<not> adm_active a then Inl (HTTP 401 ''Admin user not found'')
           else (case row_by usr_id u (ad_users db) of
             None \<Rightarrow> Inl (HTTP 401 ''Admin user inactive'')
           | Some usr \<Rightarrow>
               if \<not> usr_active usr then Inl (HTTP 401 ''Admin user inactive'')
               else (case role_of (adm_role a) of
                 None \<Rightarrow> Inl (HTTP 401 ''Invalid admin role'')
               | Some r \<Rightarrow>
                   if adm_user a \<noteq> u then Inl (HTTP 401 ''Invalid admin token subject'')
                   else (case address_refusal cfg env ip db of
                     Some e \<Rightarrow> Inl e
                   | None \<Rightarrow> Inr \<lparr>ctx_admin = i, ctx_user = u, ctx_role = r, ctx_email = usr_email usr,
                       ctx_permissions = ROLE_PERMISSIONS r, ctx_mfa = (cl_mfa c \<and> mfa_verified a \<and> ads_mfa s)\<rparr>))))"
    unfolding get_admin_context_def assms(2) option.case c r sum.case prod.case using \<open>t \<noteq> []\<close> by simp
  show ?thesis using assms(1) c r l unfolding g by (auto split: option.splits if_splits)
qed

text \<open>
  The context of an admin handler is given only for a live session: the token's session exists, is
  neither revoked nor expired and belongs to the administrator and the user of the context, who are
  active; the rights are those of the role that the database holds now, whatever the token says.
\<close>

theorem admin_context_sound:
  assumes "get_admin_context j cfg env header ip db = Inr ctx"
  shows "\<exists>t s a v. bearer_token header = Some t \<and> session_by_hash (ae_hash env t) db = Some s \<and> \<not> ads_revoked s \<and>
    ae_now env < ads_expires s \<and> ads_admin s = ctx_admin ctx \<and> ads_user s = ctx_user ctx \<and>
    admin_by_id db (ctx_admin ctx) = Some a \<and> adm_active a \<and> adm_user a = ctx_user ctx \<and>
    row_by usr_id (ctx_user ctx) (ad_users db) = Some v \<and> usr_active v \<and>
    role_of (adm_role a) = Some (ctx_role ctx) \<and> ctx_permissions ctx = ROLE_PERMISSIONS (ctx_role ctx)"
proof -
  obtain t where t: "bearer_token header = Some t"
    using assms by (cases "bearer_token header") (simp_all add: get_admin_context_def)
  with contextD [OF assms t] show ?thesis by blast
qed

text \<open>
  C16. Revocation is final: once the token is logged out, or all sessions of its administrator are, no
  request with it gets a context again, whatever the handlers do afterwards.
\<close>

theorem admin_revocation_final:
  assumes "get_admin_context j cfg env header ip db = Inr ctx" and "bearer_token header = Some t"
    and "db1 = admin_logout env t db \<or> db1 = admin_logout_all (ctx_admin ctx) db"
    and "(admin_step j (ae_hash env))\<^sup>*\<^sup>* db1 db2" and "ae_hash env2 = ae_hash env"
  shows "\<nexists>x. get_admin_context j cfg2 env2 header ip2 db2 = Inr x"
proof -
  obtain s where s: "session_by_hash (ae_hash env t) db = Some s" "ads_admin s = ctx_admin ctx"
    using contextD [OF assms(1,2)] by blast
  have "\<exists>s1. row_by ads_hash (ae_hash env t) (ad_sessions db1) = Some s1 \<and> ads_revoked s1"
    using assms(3) s
    by (auto simp: admin_logout_def revoke_hash_def admin_logout_all_def session_by_hash_def row_by_map dest: row_by_SomeD)
  then obtain s2 where "session_by_hash (ae_hash env t) db2 = Some s2" "ads_revoked s2"
    using admin_table.dead_for_ever [OF assms(4)] unfolding session_by_hash_def by metis
  then have "\<nexists>y. require_admin_session env2 t c db2 = Inr y" for c
    using dead_token_refused [of env2 t db2 s2] assms(5) by simp
  then show ?thesis using contextD [OF _ assms(2)] by metis
qed

section \<open>The second factor\<close>

text \<open>The token pair of a refresh, and what it needs.\<close>

lemma refresh_accessD:
  assumes "refresh_access j env jtis t db = (db1, Inr (access, renewal))"
  shows "\<exists>c i s a u. decode_token j t = Inr c \<and> cl_admin c = Some i \<and> session_by_hash (ae_hash env t) db = Some s \<and>
    \<not> ads_revoked s \<and> ads_admin s = i \<and> admin_by_id db i = Some a \<and> adm_active a \<and> cl_user c = Some u \<and> adm_user a = u \<and>
    access = create_access_token j (ae_now env) (fst jtis) i u (adm_role a) (mfa_verified a) \<and>
    add_pair env a (access, renewal) None None (revoke_hash (ae_hash env t) db) = Some db1"
proof -
  obtain c where c: "decode_token j t = Inr c" "cl_type c = ''admin_refresh''"
    using assms by (cases "decode_token j t") (simp_all add: refresh_access_def split: if_splits)
  obtain i where i: "cl_admin c = Some i" using assms c by (cases "cl_admin c") (simp_all add: refresh_access_def)
  obtain s where s: "session_by_hash (ae_hash env t) db = Some s" "\<not> ads_revoked s" "ads_admin s = i"
    using assms c i by (cases "session_by_hash (ae_hash env t) db") (simp_all add: refresh_access_def split: if_splits)
  obtain a where a: "admin_by_id db i = Some a" "adm_active a"
    using assms c i s by (cases "admin_by_id db i") (simp_all add: refresh_access_def split: if_splits)
  obtain u where u: "cl_user c = Some u" "adm_user a = u"
    using assms c i s a by (cases "cl_user c") (simp_all add: refresh_access_def split: if_splits)
  have "adm_id a = i" using a(1) by (rule admin_repo.get_ident)
  with assms c i s a u show ?thesis
    unfolding refresh_access_def Let_def by (auto split: if_splits option.splits)
qed

lemma add_pair_found:
  assumes "add_pair env a ts ip agent db = Some db1"
  shows "session_by_hash (ae_hash env (fst ts)) db1 = Some (new_admin_session env a (fst ts) ip agent ACCESS_TTL) \<and>
    ad_admins db1 = ad_admins db \<and> ad_users db1 = ad_users db"
  using assms by (auto simp: add_pair_def add_session_def session_by_hash_def row_by_append new_admin_session_def split: option.splits if_splits)

text \<open>
  The second factor is passed without a code: once an administrator has ever verified one, a login
  with the password followed by one refresh gives an access token that the check for a verified
  second factor accepts.
\<close>

theorem mfa_without_code:
  assumes "admin_login j env jtis email password ip agent db = (db1, Inr (access, renewal))"
    and "refresh_access j env2 jtis2 renewal db1 = (db2, Inr (access2, renewal2))"
    and "\<And>a. a \<in> set (ad_admins db) \<Longrightarrow> mfa_verified a" and "\<And>c. jwt_decode j (jwt_encode j c) = Inr c"
    and "access2 \<noteq> []" and "ae_hash env3 = ae_hash env2" and "ae_now env3 < ae_now env2 + ACCESS_TTL"
  shows "\<exists>a. get_current_mfa_verified j env3 (Some (''Bearer '' @ access2)) db2 = Inr a"
proof -
  obtain a0 where l: "add_pair env a0 (access, renewal) (Some ip) (Some agent) db = Some db1"
    using assms(1) unfolding admin_login_def Let_def by (auto split: option.splits if_splits)
  obtain i a u where a: "admin_by_id db1 i = Some a" "adm_active a" "adm_user a = u"
    and t: "access2 = create_access_token j (ae_now env2) (fst jtis2) i u (adm_role a) (mfa_verified a)"
    and p: "add_pair env2 a (access2, renewal2) None None (revoke_hash (ae_hash env2 renewal) db1) = Some db2"
    using refresh_accessD [OF assms(2)] by blast
  have "a \<in> set (ad_admins db)"
    using a(1) add_pair_found [OF l] by (auto simp: admin_by_id_def dest: row_by_SomeD)
  then have m: "mfa_verified a" by (rule assms(3))
  have id: "adm_id a = i" using a(1) by (rule admin_repo.get_ident)
  have s: "session_by_hash (ae_hash env2 access2) db2 = Some (new_admin_session env2 a access2 None None ACCESS_TTL)"
    and adm: "admin_by_id db2 i = Some a"
    using add_pair_found [OF p] a(1) by (simp_all add: admin_by_id_def revoke_hash_def)
  define c where "c = \<lparr>cl_admin = Some i, cl_user = Some u, cl_role = adm_role a, cl_mfa = mfa_verified a, cl_type = ''admin_access'',
       cl_issued = ae_now env2, cl_expires = ae_now env2 + ACCESS_TTL, cl_jti = fst jtis2\<rparr>"
  have d: "decode_token j access2 = Inr c"
    using assms(4) by (simp add: t create_access_token_def decode_token_def c_def)
  have r: "require_admin_session env3 access2 c db2 = Inr (i, u, new_admin_session env2 a access2 None None ACCESS_TTL)"
    using s assms(6,7) a(3) id by (simp add: require_admin_session_def c_def new_admin_session_def)
  have b: "bearer_token (Some (''Bearer '' @ access2)) = Some access2" by (simp add: bearer_token_def)
  show ?thesis unfolding get_current_mfa_verified_def b
    using assms(5) d r adm a(2,3) m by (simp add: c_def new_admin_session_def)
qed

text \<open>
  And the token of a login is never accepted there: not even after its administrator has entered a
  correct code, since the claim in the token stays false.
\<close>

theorem login_never_mfa:
  assumes "admin_login j env jtis email password ip agent db = (db1, Inr (access, renewal))"
    and "\<And>c. jwt_decode j (jwt_encode j c) = Inr c"
  shows "\<nexists>a. get_current_mfa_verified j env2 (Some (''Bearer '' @ access)) db2 = Inr a"
proof -
  obtain i u rl where t: "access = create_access_token j (ae_now env) (fst jtis) i u rl False"
    using assms(1) unfolding admin_login_def Let_def by (auto split: option.splits if_splits)
  obtain c where "decode_token j access = Inr c" "\<not> cl_mfa c"
    using assms(2) by (simp add: t create_access_token_def decode_token_def)
  moreover have "bearer_token (Some (''Bearer '' @ access)) = Some access" by (simp add: bearer_token_def)
  ultimately show ?thesis unfolding get_current_mfa_verified_def by simp
qed

section \<open>A sample administration\<close>

text \<open>Tokens that can be read back: as long as the number of the claims.\<close>

definition sealed :: "claims \<Rightarrow> string" where
  "sealed c = replicate (Suc (to_nat (cl_admin c, cl_user c, cl_role c, cl_mfa c, cl_type c, cl_issued c, cl_expires c, cl_jti c))) (CHR ''t'')"

lemma sealed_eq [simp]: "sealed c = sealed c' \<longleftrightarrow> c = c'"
proof
  assume "sealed c = sealed c'"
  then have "length (sealed c) = length (sealed c')" by simp
  then show "c = c'" by (simp add: sealed_def)
qed simp

lemma sealed_nonempty [simp]: "sealed c \<noteq> []"
  by (simp add: sealed_def)

definition sample_jwt :: jwt where
  "sample_jwt = \<lparr>jwt_encode = sealed, jwt_decode = (\<lambda>t. if t \<in> range sealed then Inr (inv sealed t) else Inl Invalid_Token)\<rparr>"

lemma sample_jwt [simp]: "jwt_decode sample_jwt (sealed c) = Inr c" "jwt_encode sample_jwt = sealed"
proof -
  have "inj sealed" by (rule injI) simp
  then show "jwt_decode sample_jwt (sealed c) = Inr c" by (simp add: sample_jwt_def inv_f_f)
qed (simp add: sample_jwt_def)

definition sample_admin :: admin_user where
  "sample_admin = \<lparr>adm_id = 1, adm_user = 2, adm_role = ''super_admin'', mfa_enabled = True, mfa_secret = Some ''S'', mfa_verified = True, adm_active = True\<rparr>"

definition admin_start :: admin_db where
  "admin_start = \<lparr>ad_users = [(new_user 2 ''a'' None ''pw'' 3)], ad_admins = [sample_admin], ad_sessions = [], ad_allowed = [], ad_addresses = []\<rparr>"

definition signed_in :: "admin_db \<times> (string \<times> string) reply" where
  "signed_in = admin_login sample_jwt sample_auth (''1'', ''2'') ''a'' ''pw'' ''ip'' ''agent'' admin_start"

definition first_access :: string where
  "first_access = create_access_token sample_jwt 0 ''1'' 1 2 ''super_admin'' False"

definition first_renewal :: string where
  "first_renewal = create_admin_refresh sample_jwt 0 ''2'' 1 2"

lemma signed_in_result:
  "signed_in = (admin_start\<lparr>ad_sessions := [new_admin_session sample_auth sample_admin first_access (Some ''ip'') (Some ''agent'') ACCESS_TTL,
      new_admin_session sample_auth sample_admin first_renewal (Some ''ip'') (Some ''agent'') REFRESH_TTL]\<rparr>, Inr (first_access, first_renewal))"
  by (simp add: signed_in_def admin_login_def admin_start_def new_user_def verify_password_def sample_auth_def sample_admin_def role_of_def
      first_access_def first_renewal_def create_access_token_def create_admin_refresh_def add_pair_def add_session_def session_by_hash_def
      new_admin_session_def Let_def)

definition renewed :: "admin_db \<times> (string \<times> string) reply" where
  "renewed = refresh_access sample_jwt sample_auth (''3'', ''4'') first_renewal (fst signed_in)"

lemma renewed_result: "\<exists>db2. renewed = (db2, Inr (create_access_token sample_jwt 0 ''3'' 1 2 ''super_admin'' True, create_admin_refresh sample_jwt 0 ''4'' 1 2))"
  by (simp add: renewed_def signed_in_result refresh_access_def decode_token_def admin_start_def sample_auth_def sample_admin_def role_of_def
      first_access_def first_renewal_def create_access_token_def create_admin_refresh_def add_pair_def add_session_def session_by_hash_def
      new_admin_session_def admin_by_id_def revoke_hash_def REFRESH_TTL_def MINUTE_def Let_def)

theorem mfa_without_code_witness:
  "\<exists>a. get_current_mfa_verified sample_jwt sample_auth (Some (''Bearer '' @ create_access_token sample_jwt 0 ''3'' 1 2 ''super_admin'' True)) (fst renewed) = Inr a"
proof -
  obtain db2 where r: "renewed = (db2, Inr (create_access_token sample_jwt 0 ''3'' 1 2 ''super_admin'' True, create_admin_refresh sample_jwt 0 ''4'' 1 2))"
    using renewed_result by blast
  have l: "admin_login sample_jwt sample_auth (''1'', ''2'') ''a'' ''pw'' ''ip'' ''agent'' admin_start = (fst signed_in, Inr (first_access, first_renewal))"
    unfolding signed_in_def [symmetric] by (simp add: signed_in_result)
  have t: "create_access_token sample_jwt 0 ''3'' 1 2 ''super_admin'' True \<noteq> []" by (simp add: create_access_token_def)
  have n: "ae_now sample_auth < ae_now sample_auth + ACCESS_TTL" by (simp add: ACCESS_TTL_def MINUTE_def)
  show ?thesis unfolding r fst_conv
    by (rule mfa_without_code [OF l r [unfolded renewed_def] _ _ t refl n]) (simp_all add: admin_start_def sample_admin_def)
qed

theorem login_never_mfa_witness: "\<nexists>a. get_current_mfa_verified sample_jwt sample_auth (Some (''Bearer '' @ first_access)) (fst signed_in) = Inr a"
proof -
  have "admin_login sample_jwt sample_auth (''1'', ''2'') ''a'' ''pw'' ''ip'' ''agent'' admin_start = (fst signed_in, Inr (first_access, first_renewal))"
    unfolding signed_in_def [symmetric] by (simp add: signed_in_result)
  then show ?thesis by (rule login_never_mfa) simp
qed

definition lax :: admin_settings where
  "lax = \<lparr>ADMIN_IP_ALLOWLIST = False, ADMIN_IP_BAN_CHECK = True\<rparr>"

lemma sample_context:
  "\<exists>ctx. get_admin_context sample_jwt lax sample_auth (Some (''Bearer '' @ first_access)) ''ip'' (fst signed_in) = Inr ctx \<and> ctx_admin ctx = 1"
  by (simp add: get_admin_context_def bearer_token_def signed_in_result require_admin_session_def decode_token_def admin_start_def
      sample_auth_def sample_admin_def role_of_def first_access_def create_access_token_def session_by_hash_def new_admin_session_def
      admin_by_id_def new_user_def address_refusal_def lax_def check_ip_not_banned_def ACCESS_TTL_def MINUTE_def)

theorem admin_context_sound_witness: "\<exists>s. session_by_hash first_access (fst signed_in) = Some s \<and> \<not> ads_revoked s"
proof -
  obtain ctx where c: "get_admin_context sample_jwt lax sample_auth (Some (''Bearer '' @ first_access)) ''ip'' (fst signed_in) = Inr ctx"
    using sample_context by blast
  have "bearer_token (Some (''Bearer '' @ first_access)) = Some first_access" and "ae_hash sample_auth first_access = first_access"
    by (simp_all add: bearer_token_def sample_auth_def)
  with admin_context_sound [OF c] show ?thesis by auto
qed

theorem admin_revocation_final_witness:
  "\<nexists>x. get_admin_context sample_jwt lax sample_auth (Some (''Bearer '' @ first_access)) ''ip'' (admin_logout_all 1 (fst signed_in)) = Inr x"
proof -
  obtain ctx where c: "get_admin_context sample_jwt lax sample_auth (Some (''Bearer '' @ first_access)) ''ip'' (fst signed_in) = Inr ctx" "ctx_admin ctx = 1"
    using sample_context by blast
  have b: "bearer_token (Some (''Bearer '' @ first_access)) = Some first_access" by (simp add: bearer_token_def)
  have o: "admin_logout_all 1 (fst signed_in) = admin_logout sample_auth first_access (fst signed_in) \<or>
      admin_logout_all 1 (fst signed_in) = admin_logout_all (ctx_admin ctx) (fst signed_in)" using c(2) by simp
  show ?thesis by (rule admin_revocation_final [OF c(1) b o rtranclp.rtrancl_refl refl])
qed

end
