(* ===== verification/Spec2Isabelle.thy ===== *)
theory Spec2Isabelle
  imports Pricing Billing_Contracts Limit_Contracts Billing_Audit Billing_History
    Provider_Funding Context_Manager Model_Router Rate_Limit
    Key_Contracts Secrets Action_Laws Purse Invoke_Billing Invoke_Access Chunk_Laws
    Runtime_Index Runtime_Rules Output_Guardrails Account_Laws Admin_Laws
begin

text \<open>
  Verification of the Zyntry backend (a FastAPI service in Python that runs AI requests of
  tenants on third-party models, meters them and charges prepaid wallets, and acts for the
  tenants on connected systems).

  How the parts interact. A request arrives through the rate limiter (\<open>app/middleware\<close>), is
  authenticated by a session or an API key (\<open>app/api/v1/dependencies*.py\<close>) and checked against
  the tenant's rows. An invocation estimates its tokens (\<open>token_engine\<close>), reserves the estimated
  cost in the wallet under the spending limits (\<open>metered_billing\<close>), fits the messages into the
  model's window (\<open>context_manager\<close>), tries candidate models in order (\<open>model_router\<close>,
  \<open>provider_health\<close>), and settles or releases the reservation. Actions go through the argument
  filter, the confirmation rule and the registry, with OAuth tokens of the project. The handler
  of an invocation (\<open>app/api/v1/invoke/router.py\<close>) calls all of these in turn. A runtime is
  created and changed by its service (\<open>services/runtimes.py\<close>) and built by a Celery task
  (\<open>workers/runtime_worker.py\<close>) that chunks the project's documents, embeds the chunks through a
  cache and stores the vectors.

  Theories, in the order the code has its layers:

  \<^item> \<open>Prelude\<close>: names of the basic types, Python's string operations, tables of rows, sums, and
    the two general interfaces \<open>repository\<close> (look-up after save) and \<open>invariant_system\<close> (a
    step relation with an inductive invariant). Every table with a save operation and every
    transition system below is an interpretation of one of them.
  \<^item> \<open>Decimal_Money\<close>: the two functions called \<open>money\<close>, as interpretations of a quantizer.
  \<^item> \<open>Billing_Data\<close>, \<open>Pricing\<close>, \<open>Spending_Limits\<close>, \<open>Metered_Billing\<close>, \<open>Wallet_Service\<close>: the
    tables of \<open>app/models/billing.py\<close> as records in one database record, and the services of
    \<open>metered_billing.py\<close> and \<open>billing.py\<close>, one definition per method, the early returns and
    exceptions as branches of \<open>error + value\<close>.
  \<^item> \<open>Metered_Laws\<close>, \<open>Wallet_Laws\<close>: what each call changes, branch by branch.
  \<^item> \<open>Billing_Books\<close>, \<open>Billing_Machine\<close>, \<open>Billing_Contracts\<close>, \<open>Billing_Audit\<close>,
    \<open>Billing_History\<close>, \<open>Limit_Contracts\<close>: the accounting invariant of all reachable databases,
    idempotency, conservation of money, limits, reconciliation and expiry.
  \<^item> \<open>Purse\<close>: the abstract specification of the billing services (available, held and spent money
    per user, six operations with their guards) and the proof that every call refines it.
  \<^item> \<open>Provider_Funding\<close>: the platform's own accounts with providers.
  \<^item> \<open>Token_Engine\<close>, \<open>Model_Registry\<close>, \<open>Context_Manager\<close>, \<open>Provider_Health\<close>, \<open>Model_Router\<close>,
    \<open>Rate_Limit\<close>: the path of a request to a model.
  \<^item> \<open>Tenancy\<close>, \<open>Api_Keys\<close>, \<open>Key_Laws\<close>, \<open>Key_Contracts\<close>: users, organizations, projects,
    runtimes, sessions and keys; who is let in, and what revocation and rotation guarantee.
  \<^item> \<open>Accounts\<close>, \<open>Account_Laws\<close>: the handlers of \<open>app/api/v1/auth/router.py\<close>, and their laws over
    every later run: rows of sessions, refresh tokens and codes are never revived (the locale
    \<open>one_way\<close>, interpreted on each table), addresses are unique, registration and login fit.
    \<open>Admin_Auth\<close>, \<open>Admin_Laws\<close>: the sign-in of administrators (\<open>app/admin/auth.py\<close>,
    \<open>dependencies.py\<close>), what the context of an admin request guarantees, and where the second
    factor is passed without a code. \<open>Account_Sample\<close> holds the concrete accounts of their witnesses.
  \<^item> \<open>Secrets\<close>: the encryption envelope and redaction. \<open>Regex\<close>: the part of Python's \<open>re\<close> the
    filters use, with a matcher proved against the language of the expression.
  \<^item> \<open>Action_Guardrails\<close>, \<open>OAuth\<close>, \<open>OAuth_Laws\<close>, \<open>Actions\<close>, \<open>Action_Laws\<close>: the argument and
    prompt filters, OAuth connections with their caches, confirmations, single actions and
    workflows.
  \<^item> \<open>Runtime_Access\<close>, \<open>Ip_Rules\<close>, \<open>Runtime_Security\<close>, \<open>Live_Redaction\<close>, \<open>Output_Guardrails\<close>: what
    a runtime adds to an invocation: access policy, budget and joins
    (\<open>runtime_capabilities.py\<close>), the gate before and the redaction after it
    (\<open>runtime_security.py\<close>) and the checks of an answer (\<open>guardrails.py\<close>).
  \<^item> \<open>Invoke_Support\<close>, \<open>Invoke_Data\<close>, \<open>Invoke_Admission\<close>, \<open>Invoke\<close>: the handler of an invocation as
    a sequence of stages over one state, each with its refusals, its server errors and the
    possibility that it never returns. \<open>Invoke_Laws\<close> (what each stage may change),
    \<open>Invoke_Billing\<close> (what a request costs, and refinement of \<open>Purse\<close> by whole invocations),
    \<open>Invoke_Access\<close> (who is served and which tools are reached); \<open>Invoke_Sample\<close> holds the
    concrete platform of their witnesses.
  \<^item> \<open>Chunking\<close>, \<open>Chunk_Laws\<close>: all strategies of \<open>chunking.py\<close> and what they keep of a document.
  \<^item> \<open>Embeddings\<close>: the vector cache and its transparency.
  \<^item> \<open>Runtime_Service\<close>, \<open>Runtime_Rules\<close>: creation, update and queueing of runtimes; which builds
    are queued and which pairs of provider and model are stored. \<open>Runtime_Worker\<close>: the twelve
    stages of a build, with the commits of other sessions between them, and the task around it.
    \<open>Runtime_Laws\<close> (an invariant of all stages, the locale \<open>build_invariant\<close>, and how builds
    end), \<open>Runtime_Index\<close> (the keys, chunks and vectors a build leaves); \<open>Runtime_Sample\<close> holds
    the concrete project of their witnesses.

  Correspondence. Tables are lists of records in insertion order; UUIDs are natural numbers
  drawn fresh; instants are integers (microseconds); decimals are exact rationals, rounded where
  the code quantises; JSON values are the datatype \<open>json\<close>; strings are lists of code points
  below 256. A method that changes rows takes the database and returns the changed one with
  its result. One call is one step, and the step relations order the steps arbitrarily. For the
  billing services the code justifies this with a row lock (\<open>FOR UPDATE\<close>) from the first read to
  the commit. The handlers of accounts and keys take no lock: their theorems are about requests
  one after another.

  Parameters. Code that is not part of the repository is an argument: the hash and token
  generators, AES-GCM, the Redis server, HTTP responses of OAuth providers, provider adapters
  and action providers, the clock. What is assumed of them is written as a hypothesis.

  Termination and bounds. All definitions are total except two loops of the code that may run
  for ever, the final trimming of the context assembly and the sliding window of the chunker.
  They are a \<open>partial_function\<close> each, whose \<open>None\<close> is the loop that never ends; both have a
  theorem with conditions for returning and one for not returning. Durations and limits are those of the code. One
  definition has fuel, the cutting of a list into batches, which gets the length of the list
  (\<open>concat_batches\<close> proves that this is enough).

  Not modelled: onboarding and the runtime assistant (plans written by a model), retrieval
  (floating-point similarity and SQL of pgvector), text extraction, connectors and the adapters
  of providers (HTTP requests to third parties), e-mails, webhooks and notifications beyond the
  events that are queued, the dashboard's stored workflows and schedules, the
  administration beyond its sign-in and the funding of providers, telemetry and streaming of an invocation, reporting queries, rendering of responses and
  logging. The manifest lists these components with their reasons.
\<close>

end
